(* ===== verification/Prelude.thy ===== *)
theory Prelude
  imports Complex_Main "HOL-Library.Multiset"
begin

text \<open>
  Shared vocabulary of the ARPES band-analysis model.  Python exceptions are the
  constructors of \<open>py_error\<close> and a statement that may raise returns
  \<open>py_error + 'a\<close> (\<open>Inl\<close> the exception).  Python dictionaries, whose
  iteration order is their insertion order and whose update of an existing key keeps
  the key's position, are association lists maintained by \<open>dict_set\<close>.  The
  search loops of \<^verbatim>\<open>band_analysis.py\<close> that keep the first strictly smaller
  candidate (\<^verbatim>\<open>if current < best: best = current\<close>, starting from
  \<^verbatim>\<open>float("inf")\<close>) are \<open>argmin_strict\<close>.  Python floats are \<open>real\<close>.
\<close>

named_theorems py_simps "evaluation equations of the Python helper functions"

section \<open>Exceptions and results\<close>

datatype py_error =
    ValueError | KeyError | IndexError | StopIteration | AssertionError
  | ZeroDivisionError | TypeError | AttributeError | NameError

type_synonym 'a py_result = "py_error + 'a"

definition sbind :: "'a py_result \<Rightarrow> ('a \<Rightarrow> 'b py_result) \<Rightarrow> 'b py_result" where
  "sbind m f = (case m of Inl e \<Rightarrow> Inl e | Inr a \<Rightarrow> f a)"

lemma sbind_Inl [simp, py_simps]: "sbind (Inl e) f = Inl e"
  by (simp add: sbind_def)

lemma sbind_Inr [simp, py_simps]: "sbind (Inr a) f = f a"
  by (simp add: sbind_def)

lemma sbind_eq_Inr:
  "sbind m f = Inr b \<longleftrightarrow> (\<exists>a. m = Inr a \<and> f a = Inr b)"
  by (cases m) auto

text \<open>A list comprehension whose element expression may raise: the first exception
  aborts the whole comprehension.\<close>

fun py_map :: "('a \<Rightarrow> 'b py_result) \<Rightarrow> 'a list \<Rightarrow> 'b list py_result" where
  "py_map f [] = Inr []"
| "py_map f (x # xs) = sbind (f x) (\<lambda>y. sbind (py_map f xs) (\<lambda>ys. Inr (y # ys)))"

lemma py_map_length:
  "py_map f xs = Inr ys \<Longrightarrow> length ys = length xs"
  by (induction xs arbitrary: ys) (auto simp: sbind_eq_Inr)

lemma py_map_nth:
  "py_map f xs = Inr ys \<Longrightarrow> i < length xs \<Longrightarrow> f (xs ! i) = Inr (ys ! i)"
proof (induction xs arbitrary: ys i)
  case Nil
  then show ?case by simp
next
  case (Cons x xs)
  then obtain y ys' where "f x = Inr y" "py_map f xs = Inr ys'" "ys = y # ys'"
    by (auto simp: sbind_eq_Inr)
  with Cons show ?case by (cases i) auto
qed

lemma py_map_Inr:
  "(\<forall>x\<in>set xs. f x = Inr (g x)) \<Longrightarrow> py_map f xs = Inr (map g xs)"
  by (induction xs) auto

lemma py_map_ok:
  "\<forall>x\<in>set xs. \<exists>y. f x = Inr y \<Longrightarrow> \<exists>ys. py_map f xs = Inr ys \<and> length ys = length xs"
  by (induction xs) auto

lemma py_map_Inr_member:
  "py_map f xs = Inr ys \<Longrightarrow> x \<in> set xs \<Longrightarrow> \<exists>y. f x = Inr y"
  by (induction xs arbitrary: ys) (auto simp: sbind_eq_Inr)

section \<open>Python built-ins on lists\<close>

text \<open>\<^verbatim>\<open>xs.remove(x)\<close>: removes the first occurrence, raises ValueError when absent.\<close>

fun py_remove :: "'a \<Rightarrow> 'a list \<Rightarrow> 'a list py_result" where
  "py_remove x [] = Inl ValueError"
| "py_remove x (y # ys) = (if y = x then Inr ys else sbind (py_remove x ys) (\<lambda>zs. Inr (y # zs)))"

lemma py_remove_present [simp, py_simps]:
  "x \<in> set xs \<Longrightarrow> py_remove x xs = Inr (remove1 x xs)"
  by (induction xs) auto

lemma py_remove_absent [simp, py_simps]:
  "x \<notin> set xs \<Longrightarrow> py_remove x xs = Inl ValueError"
  by (induction xs) auto

lemma py_remove_Inr: "py_remove x xs = Inr ys \<longleftrightarrow> x \<in> set xs \<and> ys = remove1 x xs"
  by (cases "x \<in> set xs") auto

lemma filter_neq_removeAll: "filter (\<lambda>d. d \<noteq> x) xs = removeAll x xs"
  by (induction xs) auto

text \<open>A loop whose body may raise.\<close>

fun py_foldl :: "('s \<Rightarrow> 'a \<Rightarrow> 's py_result) \<Rightarrow> 's \<Rightarrow> 'a list \<Rightarrow> 's py_result" where
  "py_foldl f s [] = Inr s"
| "py_foldl f s (x # xs) = sbind (f s x) (\<lambda>s'. py_foldl f s' xs)"

text \<open>\<^verbatim>\<open>next(d for d in xs if P(d))\<close>: the first element satisfying \<open>P\<close>, or
  StopIteration.\<close>

definition py_next :: "('a \<Rightarrow> bool) \<Rightarrow> 'a list \<Rightarrow> 'a py_result" where
  "py_next P xs = (case filter P xs of [] \<Rightarrow> Inl StopIteration | d # _ \<Rightarrow> Inr d)"

lemma py_next_Inr:
  "py_next P xs = Inr d \<Longrightarrow> d \<in> set xs \<and> P d"
proof -
  assume "py_next P xs = Inr d"
  then obtain r where "filter P xs = d # r" by (auto simp: py_next_def split: list.splits)
  then have "d \<in> set (filter P xs)" by simp
  then show ?thesis by simp
qed

lemma py_next_StopIteration [simp]:
  "\<not> (\<exists>d\<in>set xs. P d) \<Longrightarrow> py_next P xs = Inl StopIteration"
  by (simp add: py_next_def filter_empty_conv)

text \<open>Elementwise \<^verbatim>\<open>a - b\<close> of two arrays: shapes that differ do not
  broadcast (ValueError).\<close>

definition py_sub :: "real list \<Rightarrow> real list \<Rightarrow> real list py_result" where
  "py_sub xs ys = (if length xs = length ys then Inr (map2 (-) xs ys) else Inl ValueError)"

text \<open>\<^verbatim>\<open>np.min\<close>: ValueError on an empty array.\<close>

definition py_min :: "real list \<Rightarrow> real py_result" where
  "py_min xs = (if xs = [] then Inl ValueError else Inr (Min (set xs)))"

text \<open>Python subscription \<^verbatim>\<open>xs[i]\<close>, negative indices counting from the end.\<close>

definition py_index :: "'a list \<Rightarrow> int \<Rightarrow> 'a py_result" where
  "py_index xs i =
     (if 0 \<le> i then (if nat i < length xs then Inr (xs ! nat i) else Inl IndexError)
      else if nat (- i) \<le> length xs then Inr (xs ! (length xs - nat (- i))) else Inl IndexError)"

lemma py_index_nat [simp, py_simps]:
  "n < length xs \<Longrightarrow> py_index xs (int n) = Inr (xs ! n)"
  by (simp add: py_index_def)

text \<open>\<^verbatim>\<open>xs.index(x)\<close> for an element that is present.\<close>

fun list_index :: "'a list \<Rightarrow> 'a \<Rightarrow> nat" where
  "list_index [] x = 0"
| "list_index (y # ys) x = (if y = x then 0 else Suc (list_index ys x))"

lemma list_index_nth [simp]: "x \<in> set xs \<Longrightarrow> xs ! list_index xs x = x"
  by (induction xs) auto

lemma list_index_less [simp]: "x \<in> set xs \<Longrightarrow> list_index xs x < length xs"
  by (induction xs) auto

lemma list_index_of_nth [simp]: "distinct xs \<Longrightarrow> i < length xs \<Longrightarrow> list_index xs (xs ! i) = i"
  by (induction xs arbitrary: i) (auto simp: less_Suc_eq_0_disj)

text \<open>A frozen coordinate: the tuple of a grid point's coordinates, one per dimension.
  \<^verbatim>\<open>np.dot\<close> of two such tuples of the same length.\<close>

type_synonym coord = "real list"

definition dot :: "real list \<Rightarrow> real list \<Rightarrow> real" where
  "dot u v = sum_list (map (\<lambda>(a, b). a * b) (zip u v))"

section \<open>Dictionaries\<close>

type_synonym ('k, 'v) dict = "('k \<times> 'v) list"

text \<open>\<^verbatim>\<open>d[k] = v\<close>: an existing key keeps its position, a new key goes last.\<close>

fun dict_set :: "('k, 'v) dict \<Rightarrow> 'k \<Rightarrow> 'v \<Rightarrow> ('k, 'v) dict" where
  "dict_set [] k v = [(k, v)]"
| "dict_set ((k', v') # d) k v = (if k' = k then (k, v) # d else (k', v') # dict_set d k v)"

text \<open>\<^verbatim>\<open>d.update(e)\<close>: the entries of \<open>e\<close> set one after the other.\<close>

definition dict_update :: "('k, 'v) dict \<Rightarrow> ('k, 'v) dict \<Rightarrow> ('k, 'v) dict" where
  "dict_update d e = foldl (\<lambda>acc (k, v). dict_set acc k v) d e"

text \<open>\<^verbatim>\<open>d[k]\<close>: KeyError when the key is absent.\<close>

definition dict_get :: "('k, 'v) dict \<Rightarrow> 'k \<Rightarrow> 'v py_result" where
  "dict_get d k = (case map_of d k of None \<Rightarrow> Inl KeyError | Some v \<Rightarrow> Inr v)"

lemma map_of_dict_set [simp]: "map_of (dict_set d k v) = (map_of d)(k \<mapsto> v)"
  by (induction d) (auto simp: fun_eq_iff)

lemma keys_dict_set:
  "map fst (dict_set d k v) = (if k \<in> set (map fst d) then map fst d else map fst d @ [k])"
  by (induction d) force+

lemma set_keys_dict_set [simp]: "fst ` set (dict_set d k v) = insert k (fst ` set d)"
  using arg_cong [OF keys_dict_set [of d k v], of set] by (auto split: if_splits)

lemma distinct_keys_dict_set [intro]:
  "distinct (map fst d) \<Longrightarrow> distinct (map fst (dict_set d k v))"
  by (simp add: keys_dict_set)

lemma set_dict_set_subset: "set (dict_set d k v) \<subseteq> insert (k, v) (set d)"
  by (induction d) (auto split: if_splits)

lemma dict_set_nonempty [simp]: "dict_set d k v \<noteq> []"
  by (cases d) (auto split: if_splits)

lemma map_of_dict_update:
  "map_of (dict_update d e) = map_of d ++ map_of (dict_update [] e)"
proof (induction e arbitrary: d)
  case Nil
  then show ?case by (simp add: dict_update_def)
next
  case (Cons kv e)
  obtain k v where kv: "kv = (k, v)" by fastforce
  have "map_of (dict_update d (kv # e)) = map_of (dict_update (dict_set d k v) e)"
    by (simp add: dict_update_def kv)
  also have "\<dots> = (map_of d)(k \<mapsto> v) ++ map_of (dict_update [] e)" by (simp add: Cons.IH [of "dict_set d k v"] fun_upd_def)
  also have "\<dots> = map_of d ++ map_of (dict_update [] (kv # e))"
    using Cons.IH [of "[(k, v)]"] by (simp add: dict_update_def kv map_add_upd_left fun_eq_iff map_add_def
        split: option.splits)
  finally show ?case .
qed

lemma map_of_dict_update_gen:
  "distinct (map fst e) \<Longrightarrow> map_of (dict_update d e) = map_of d ++ map_of e"
proof (induction e arbitrary: d rule: rev_induct)
  case Nil
  then show ?case by (simp add: dict_update_def)
next
  case (snoc kv e)
  obtain k v where kv: "kv = (k, v)" by (cases kv)
  from snoc.prems kv have "k \<notin> set (map fst e)" "distinct (map fst e)" by auto
  then have "map_of e k = None" by (simp add: map_of_eq_None_iff)
  with snoc.IH \<open>distinct (map fst e)\<close> kv show ?case
    by (auto simp: dict_update_def fun_eq_iff map_add_def split: option.splits)
qed

lemma keys_dict_update [simp]:
  "fst ` set (dict_update d e) = fst ` set d \<union> fst ` set e"
proof (induction e arbitrary: d)
  case Nil
  then show ?case by (simp add: dict_update_def)
next
  case (Cons kv e)
  obtain k v where kv: "kv = (k, v)" by fastforce
  then have "dict_update d (kv # e) = dict_update (dict_set d k v) e"
    by (simp add: dict_update_def)
  with Cons.IH [of "dict_set d k v"] kv show ?case by simp
qed

lemma distinct_keys_dict_update [intro]:
  "distinct (map fst d) \<Longrightarrow> distinct (map fst (dict_update d e))"
  by (induction e arbitrary: d) (auto simp: dict_update_def)

section \<open>The strict first-minimum search loop\<close>

text \<open>
  \<^verbatim>\<open>best, dist = None, float("inf")\<close> followed by
  \<^verbatim>\<open>for x in xs: if f(x) < dist: best, dist = x, f(x)\<close>.  The running distance
  \<open>None\<close> is \<^verbatim>\<open>float("inf")\<close>, which every finite float is below.
\<close>

fun argmin_from :: "('a \<Rightarrow> real) \<Rightarrow> ('a \<times> real) option \<Rightarrow> 'a list \<Rightarrow> ('a \<times> real) option" where
  "argmin_from f best [] = best"
| "argmin_from f best (x # xs) =
     argmin_from f
       (case best of None \<Rightarrow> Some (x, f x)
        | Some (b, d) \<Rightarrow> if f x < d then Some (x, f x) else Some (b, d)) xs"

definition argmin_strict :: "('a \<Rightarrow> real) \<Rightarrow> 'a list \<Rightarrow> 'a option" where
  "argmin_strict f xs = map_option fst (argmin_from f None xs)"

lemma argmin_from_Some_inv:
  "best = Some (b, d) \<Longrightarrow> d = f b \<Longrightarrow> \<exists>b'. argmin_from f best xs = Some (b', f b')
     \<and> (b' = b \<or> b' \<in> set xs) \<and> f b' \<le> f b \<and> (\<forall>y\<in>set xs. f b' \<le> f y)"
proof (induction xs arbitrary: best b d)
  case Nil
  then show ?case by simp
next
  case (Cons x xs)
  show ?case
  proof (cases "f x < d")
    case True
    from Cons.IH [of "Some (x, f x)" x "f x"] True Cons.prems show ?thesis by force
  next
    case False
    from Cons.IH [of "Some (b, d)" b d] False Cons.prems show ?thesis by force
  qed
qed

lemma argmin_strict_Nil [simp]: "argmin_strict f [] = None"
  by (simp add: argmin_strict_def)

lemma argmin_strict_None [simp]: "argmin_strict f xs = None \<longleftrightarrow> xs = []"
proof (cases xs)
  case Nil
  then show ?thesis by (simp add: argmin_strict_def)
next
  case (Cons x xs')
  from argmin_from_Some_inv [of "Some (x, f x)" x "f x" f xs'] Cons show ?thesis
    by (auto simp: argmin_strict_def)
qed

lemma argmin_strict_Some:
  assumes "argmin_strict f xs = Some b"
  shows "b \<in> set xs" and "\<forall>y\<in>set xs. f b \<le> f y"
proof -
  from assms obtain x xs' where xs: "xs = x # xs'" by (cases xs) (auto simp: argmin_strict_def)
  from argmin_from_Some_inv [of "Some (x, f x)" x "f x" f xs'] assms xs
  show "b \<in> set xs" and "\<forall>y\<in>set xs. f b \<le> f y"
    by (auto simp: argmin_strict_def)
qed

text \<open>Ties: the loop keeps the first minimum, since only a strictly smaller value
  replaces it.\<close>

lemma argmin_from_first:
  "argmin_from f best xs = Some (b, d) \<Longrightarrow> best = None \<or> (\<exists>b0. best = Some (b0, f b0)) \<Longrightarrow>
   (best = Some (b, d)) \<or> (\<exists>i<length xs. xs ! i = b \<and> (\<forall>j<i. f b < f (xs ! j)) \<and>
      (\<forall>b0 d0. best = Some (b0, d0) \<longrightarrow> f b < d0))"
proof (induction xs arbitrary: best)
  case Nil
  then show ?case by simp
next
  case (Cons x xs)
  define best' where "best' = (case best of None \<Rightarrow> Some (x, f x)
        | Some (b, d) \<Rightarrow> if f x < d then Some (x, f x) else Some (b, d))"
  have best'_form: "\<exists>b0. best' = Some (b0, f b0)"
    using Cons.prems(2) by (auto simp: best'_def)
  from Cons.prems(1) have "argmin_from f best' xs = Some (b, d)" by (simp add: best'_def)
  from Cons.IH [OF this] best'_form
  consider (keep) "best' = Some (b, d)"
    | (later) i where "i < length xs" "xs ! i = b" "\<forall>j<i. f b < f (xs ! j)"
        "\<forall>b0 d0. best' = Some (b0, d0) \<longrightarrow> f b < d0"
    by blast
  then show ?case
  proof cases
    case keep
    then show ?thesis
    proof (cases best)
      case None
      with keep show ?thesis by (force simp: best'_def)
    next
      case (Some bd)
      with keep Cons.prems(2) show ?thesis
        by (auto simp: best'_def split: if_splits intro: exI [of _ 0])
    qed
  next
    case later
    show ?thesis
    proof (rule disjI2, rule exI [of _ "Suc i"], intro conjI allI impI)
      show "Suc i < length (x # xs)" "(x # xs) ! Suc i = b" using later by auto
    next
      fix j assume "j < Suc i"
      show "f b < f ((x # xs) ! j)"
      proof (cases j)
        case 0
        with later(4) Cons.prems(2) show ?thesis
          by (cases best) (auto simp: best'_def split: if_splits)
      next
        case (Suc j')
        with later(3) \<open>j < Suc i\<close> show ?thesis by simp
      qed
    next
      fix b0 d0 assume "best = Some (b0, d0)"
      with later(4) Cons.prems(2) show "f b < d0"
        by (auto simp: best'_def split: if_splits)
    qed
  qed
qed

lemma argmin_strict_first:
  assumes "argmin_strict f xs = Some b"
  shows "\<exists>i<length xs. xs ! i = b \<and> (\<forall>j<i. f b < f (xs ! j))"
proof -
  from assms obtain d where "argmin_from f None xs = Some (b, d)"
    by (auto simp: argmin_strict_def)
  from argmin_from_first [OF this] show ?thesis by simp
qed

lemmas argmin_strict_props = argmin_strict_Some argmin_strict_first

section \<open>Real arithmetic\<close>

text \<open>A point of a segment lies between its ends: the step shared by linear
  interpolation and numpy's percentile.\<close>

lemma convex_between:
  fixes a b t :: real
  assumes "0 \<le> t" "t \<le> 1"
  shows "min a b \<le> a + t * (b - a) \<and> a + t * (b - a) \<le> max a b"
proof (cases "a \<le> b")
  case True
  have "0 \<le> t * (b - a)" using assms True by simp
  moreover have "t * (b - a) \<le> 1 * (b - a)" using assms True by (intro mult_right_mono) auto
  ultimately show ?thesis using True by simp
next
  case False
  have "t * (b - a) \<le> 0" using assms False by (simp add: mult_nonneg_nonpos)
  moreover have "0 \<le> (1 - t) * (a - b)" using assms False by simp
  moreover have "a + t * (b - a) - b = (1 - t) * (a - b)" by (simp add: algebra_simps)
  ultimately show ?thesis using False by simp
qed

end
