(* ===== verification/FitModel.thy ===== *)
theory FitModel
  imports Prelude
begin

text \<open>
  The fit results the band analysis consumes, and the accessors of
  \<^verbatim>\<open>analysis/band_analysis_utils.py\<close>.  An \<^verbatim>\<open>lmfit.Parameter\<close> is a record
  (its \<^verbatim>\<open>stderr\<close> is \<^verbatim>\<open>None\<close> until a covariance estimate exists, its
  bounds \<^verbatim>\<open>None\<close> for \<^verbatim>\<open>-inf\<close>/\<^verbatim>\<open>inf\<close>); an \<^verbatim>\<open>lmfit.Parameters\<close> object
  is an ordered dictionary from prefixed names to parameters; a
  \<^verbatim>\<open>ModelResult\<close> is a record of the prefixes of its model's components,
  its parameters, its best fit and its residual.  A NaN read by the "safe" getters is
  \<open>None\<close>.
\<close>

record parameter =
  par_value :: real
  par_stderr :: "real option"
  par_min :: "real option"
  par_max :: "real option"
  par_vary :: bool

type_synonym parameters = "(string, parameter) dict"

record model_result =
  mr_prefixes :: "string list"
  mr_params :: parameters
  mr_best_fit :: "real list"
  mr_residual :: "real list"

text \<open>\<^verbatim>\<open>model_fit.params[name]\<close>: KeyError when the name is absent.\<close>

definition get_param :: "model_result \<Rightarrow> string \<Rightarrow> parameter py_result" where
  "get_param r name = (case map_of (mr_params r) name of None \<Rightarrow> Inl KeyError | Some p \<Rightarrow> Inr p)"

lemma get_param_Inr [simp, py_simps]:
  "map_of (mr_params r) name = Some p \<Longrightarrow> get_param r name = Inr p"
  by (simp add: get_param_def)

lemma get_param_KeyError [simp, py_simps]:
  "map_of (mr_params r) name = None \<Longrightarrow> get_param r name = Inl KeyError"
  by (simp add: get_param_def)

section \<open>Parameter getters (band\_analysis\_utils.py)\<close>

text \<open>
  \<^verbatim>\<open>param_getter(name, safe)\<close> returns a function of a model result.  The safe
  getter reads \<^verbatim>\<open>x.params.get(name, ParamType(nan, nan)).value\<close>; its
  \<^verbatim>\<open>except IndexError\<close> never fires, since \<^verbatim>\<open>get\<close> with a default does not
  raise.  The unsafe getter subscripts and raises KeyError.
\<close>

definition param_getter :: "string \<Rightarrow> bool \<Rightarrow> model_result \<Rightarrow> real option py_result" where
  "param_getter name safe r =
     (if safe then Inr (map_option par_value (map_of (mr_params r) name))
      else sbind (get_param r name) (\<lambda>p. Inr (Some (par_value p))))"

definition param_stderr_getter :: "string \<Rightarrow> bool \<Rightarrow> model_result \<Rightarrow> real option py_result" where
  "param_stderr_getter name safe r =
     (if safe then Inr (Option.bind (map_of (mr_params r) name) par_stderr)
      else sbind (get_param r name) (\<lambda>p. Inr (par_stderr p)))"

section \<open>Concrete inputs\<close>

text \<open>
  Small fit results for the worked examples and witnesses: one component per entry
  \<open>(prefix, sigma, amplitude, center)\<close>, each parameter with standard error 0.
\<close>

definition mk_param :: "real \<Rightarrow> parameter" where
  "mk_param v = \<lparr>par_value = v, par_stderr = Some 0, par_min = None, par_max = None, par_vary = True\<rparr>"

definition peak_fit :: "(string \<times> real \<times> real \<times> real) list \<Rightarrow> model_result" where
  "peak_fit comps =
     \<lparr>mr_prefixes = map fst comps,
      mr_params = concat (map (\<lambda>(q, s, a, c).
        [(q @ ''sigma'', mk_param s), (q @ ''amplitude'', mk_param a), (q @ ''center'', mk_param c)]) comps),
      mr_best_fit = [], mr_residual = []\<rparr>"

lemmas fixture_defs = mk_param_def peak_fit_def

end
