(* ===== verification/Identity.thy ===== *)
theory Identity
  imports FitModel
begin

text \<open>
  The band-identity resolution of \<^verbatim>\<open>unpack_bands_from_fit\<close>
  (\<^verbatim>\<open>analysis/band_analysis.py\<close>, lines 92--199).  Each cell of the result grid
  holds one composite fit; its components (one per prefix) are compared, as weighted
  vectors \<open>(sigma, amplitude, center) * weights / (1 + stderr)\<close>, with those of an
  already identified reference cell, and the assignment of prefixes to band labels is
  the permutation of least total Euclidean distance.  The cells are visited in the
  order of \<^verbatim>\<open>enumerate_dataarray\<close> (row-major), the identified cells form a
  dictionary keyed by the frozen coordinate tuple, and the reference of a cell is the
  identified cell of least dot product with it.
\<close>

section \<open>Vectors and distances\<close>

type_synonym weights = "real \<times> real \<times> real"

text \<open>\<^verbatim>\<open>scipy.spatial.distance.euclidean\<close>.\<close>

definition euclidean :: "real list \<Rightarrow> real list \<Rightarrow> real" where
  "euclidean u v = sqrt (sum_list (map (\<lambda>(a, b). (a - b)\<^sup>2) (zip u v)))"

text \<open>
  \<^verbatim>\<open>as_vector(model_fit, prefix)\<close>: the three parameters are looked up (KeyError
  when absent), their standard errors first; a standard error that is \<^verbatim>\<open>None\<close>
  makes \<^verbatim>\<open>1 + stderr\<close> raise TypeError.
\<close>

definition stderr_of :: "parameter \<Rightarrow> real py_result" where
  "stderr_of p = (case par_stderr p of None \<Rightarrow> Inl TypeError | Some e \<Rightarrow> Inr e)"

definition as_vector :: "weights \<Rightarrow> model_result \<Rightarrow> string \<Rightarrow> real list py_result" where
  "as_vector w r prefix =
     sbind (get_param r (prefix @ ''sigma'')) (\<lambda>ps.
     sbind (get_param r (prefix @ ''amplitude'')) (\<lambda>pa.
     sbind (get_param r (prefix @ ''center'')) (\<lambda>pc.
     sbind (stderr_of ps) (\<lambda>es. sbind (stderr_of pa) (\<lambda>ea. sbind (stderr_of pc) (\<lambda>ec.
       (case w of (ws, wa, wc) \<Rightarrow>
          Inr [par_value ps * ws / (1 + es), par_value pa * wa / (1 + ea),
               par_value pc * wc / (1 + ec)])))))))"

text \<open>
  The distance matrix: row \<open>i\<close> is the cell's component \<^verbatim>\<open>prefixes[i]\<close>, column
  \<open>j\<close> the reference's component labelled \<open>j\<close>, \<^verbatim>\<open>closest_prefixes[j]\<close>.
\<close>

definition dist_matrix ::
  "weights \<Rightarrow> string list \<Rightarrow> model_result \<Rightarrow> string list \<Rightarrow> model_result \<Rightarrow> real list list py_result" where
  "dist_matrix w prefixes r cps cr =
     py_map (\<lambda>i. py_map (\<lambda>j.
        sbind (as_vector w r (prefixes ! i)) (\<lambda>u.
        sbind (py_index cps (int j)) (\<lambda>q.
        sbind (as_vector w cr q) (\<lambda>v. Inr (euclidean u v)))))
       [0..<length prefixes]) [0..<length prefixes]"

section \<open>The permutation search\<close>

text \<open>
  \<^verbatim>\<open>itertools.permutations(range(k))\<close>: for a sorted pool of distinct indices the
  permutations come in lexicographic order, each first element followed by the
  permutations of the rest.
\<close>

fun perm_enum :: "nat \<Rightarrow> 'a list \<Rightarrow> 'a list list" where
  "perm_enum 0 xs = [[]]"
| "perm_enum (Suc n) xs = concat (map (\<lambda>x. map (Cons x) (perm_enum n (remove1 x xs))) xs)"

definition py_permutations :: "'a list \<Rightarrow> 'a list list" where
  "py_permutations xs = perm_enum (length xs) xs"

text \<open>\<^verbatim>\<open>sum(dist_mat[i, p_i] for i, p_i in enumerate(p))\<close>.\<close>

definition trace_of :: "real list list \<Rightarrow> nat list \<Rightarrow> real" where
  "trace_of dm p = sum_list (map (\<lambda>(i, pi). dm ! i ! pi) (enumerate 0 p))"

text \<open>
  \<^verbatim>\<open>best_arrangement\<close> starts as \<^verbatim>\<open>tuple(range(k))\<close> with trace
  \<^verbatim>\<open>inf\<close> and is replaced by each permutation of strictly smaller trace.
\<close>

definition best_arrangement :: "real list list \<Rightarrow> nat \<Rightarrow> nat list" where
  "best_arrangement dm k =
     (case argmin_strict (trace_of dm) (py_permutations [0..<k]) of
        None \<Rightarrow> [0..<k] | Some p \<Rightarrow> p)"

text \<open>\<^verbatim>\<open>ordered_prefixes = [closest_prefixes[p_i] for p_i in best_arrangement]\<close>.\<close>

definition order_prefixes :: "string list \<Rightarrow> nat list \<Rightarrow> string list py_result" where
  "order_prefixes cps best = py_map (\<lambda>pi. py_index cps (int pi)) best"

text \<open>
  What the matching means: row \<open>i\<close> (the cell's component \<open>cur ! i\<close>) is matched
  with the reference's label \<open>p ! i\<close>, so label \<open>j\<close> should name the component
  matched with it, \<open>cur ! list_index p j\<close>.  This is the specification the recorded
  ordering is compared with; it is not code.
\<close>

definition matched_labels :: "'a list \<Rightarrow> nat list \<Rightarrow> 'a list" where
  "matched_labels cur p = map (\<lambda>j. cur ! list_index p j) [0..<length p]"

section \<open>Identification sweep\<close>

text \<open>
  The state of the loop (lines 159--199): the dictionary
  \<^verbatim>\<open>identified_by_coordinate\<close> from frozen coordinates to the pair (ordered
  prefixes, fit), the cells of \<^verbatim>\<open>identified_band_results\<close> written so far, and
  \<^verbatim>\<open>first_coordinate\<close>.
\<close>

record ident_state =
  identified :: "(coord, string list \<times> model_result) dict"
  assigned :: "(coord, string list) dict"
  first_coord :: "coord option"

definition ident_init :: ident_state where
  "ident_init = \<lparr>identified = [], assigned = [], first_coord = None\<rparr>"

text \<open>The reference of a cell: the identified cell of least \<^verbatim>\<open>np.dot(coord, frozen_coord)\<close>,
  the first one on ties.\<close>

definition closest_identified ::
  "(coord, string list \<times> model_result) dict \<Rightarrow> coord \<Rightarrow> (string list \<times> model_result) option" where
  "closest_identified idd c = map_option snd (argmin_strict (\<lambda>(c', _). dot c' c) idd)"

text \<open>\<^verbatim>\<open>arr.loc[coordinate] = value\<close> on an object array: xarray's
  \<^verbatim>\<open>Variable.__setitem__\<close> turns the value into an array
  (\<^verbatim>\<open>as_compatible_data\<close>) and raises \<^verbatim>\<open>ValueError\<close> when it has more dimensions
  than the indexed region.  A full coordinate selects a region of no dimension; a Python
  list of prefixes becomes a one-dimensional array.\<close>

definition loc_setitem :: "nat \<Rightarrow> nat \<Rightarrow> ('k, 'v) dict \<Rightarrow> 'k \<Rightarrow> 'v \<Rightarrow> ('k, 'v) dict py_result" where
  "loc_setitem region_dims value_dims d k v =
     (if region_dims < value_dims then Inl ValueError else Inr (dict_set d k v))"

definition identify_step ::
  "weights \<Rightarrow> string list \<Rightarrow> ident_state \<Rightarrow> coord \<times> model_result \<Rightarrow> ident_state py_result" where
  "identify_step w prefixes st cf =
     (case cf of (c, r) \<Rightarrow>
       let (ref, st1) =
         (case closest_identified (identified st) c of
            None \<Rightarrow> ((mr_prefixes r, r),
                     st\<lparr>first_coord := Some c,
                        identified := dict_set (identified st) c (mr_prefixes r, r)\<rparr>)
          | Some ref \<Rightarrow> (ref, st))
       in case ref of (cps, cr) \<Rightarrow>
         sbind (dist_matrix w prefixes r cps cr) (\<lambda>dm.
         sbind (order_prefixes cps (best_arrangement dm (length prefixes)))
           (\<lambda>ordered.
             let st2 = st1\<lparr>identified := dict_set (identified st1) c (ordered, r)\<rparr>
             in sbind (loc_setitem 0 1 (assigned st2) c ordered)
                  (\<lambda>a. Inr (st2\<lparr>assigned := a\<rparr>)))))"

fun identify_cells ::
  "weights \<Rightarrow> string list \<Rightarrow> ident_state \<Rightarrow> (coord \<times> model_result) list \<Rightarrow> ident_state py_result" where
  "identify_cells w prefixes st [] = Inr st"
| "identify_cells w prefixes st (cf # cfs) =
     sbind (identify_step w prefixes st cf) (\<lambda>st'. identify_cells w prefixes st' cfs)"

text \<open>
  \<^verbatim>\<open>template_components = band_results.values[0].model.components\<close>: for a
  one-dimensional grid \<^verbatim>\<open>values[0]\<close> is the first cell; for a grid of two or more
  dimensions it is a row of the object array, which has no \<^verbatim>\<open>model\<close>
  (AttributeError); a zero-dimensional or empty grid has no index 0 (IndexError).
\<close>

definition template_prefixes :: "nat \<Rightarrow> (coord \<times> model_result) list \<Rightarrow> string list py_result" where
  "template_prefixes ndim cells =
     (if ndim = 0 then Inl IndexError
      else if 1 < ndim then (if cells = [] then Inl IndexError else Inl AttributeError)
      else case cells of [] \<Rightarrow> Inl IndexError | (_, r) # _ \<Rightarrow> Inr (mr_prefixes r))"

definition identify_bands ::
  "weights \<Rightarrow> nat \<Rightarrow> (coord \<times> model_result) list \<Rightarrow> (string list \<times> ident_state) py_result" where
  "identify_bands w ndim cells =
     sbind (template_prefixes ndim cells) (\<lambda>prefixes.
     sbind (identify_cells w prefixes ident_init cells) (\<lambda>st. Inr (prefixes, st)))"

text \<open>The sweep invariant: every ordering recorded, in the reference dictionary and in
  the result grid, is a permutation of the template prefixes.\<close>

definition ident_inv :: "string list \<Rightarrow> ident_state \<Rightarrow> bool" where
  "ident_inv P st \<longleftrightarrow>
     list_all (\<lambda>(c, ps, r). mset ps = mset P) (identified st)
     \<and> list_all (\<lambda>(c, ps). mset ps = mset P) (assigned st)"

text \<open>A fit carries the three peak parameters of every template prefix, each with a
  standard error.\<close>

definition peak_params_ok :: "string list \<Rightarrow> model_result \<Rightarrow> bool" where
  "peak_params_ok P r \<longleftrightarrow>
     list_all (\<lambda>q. list_all (\<lambda>nm. case map_of (mr_params r) (q @ nm) of None \<Rightarrow> False
                                | Some p \<Rightarrow> par_stderr p \<noteq> None) [''sigma'', ''amplitude'', ''center'']) P"

text \<open>Two one-dimensional grids of two cells: in \<open>swap_cells\<close> the two peaks
  exchange prefixes between the cells, in \<open>cycle_cells\<close> three peaks rotate.\<close>

definition swap_cells :: "(coord \<times> model_result) list" where
  "swap_cells = [([0], peak_fit [(''a_'', 1, 1, 0), (''b_'', 1, 1, 1)]),
                 ([1], peak_fit [(''a_'', 1, 1, 1), (''b_'', 1, 1, 0)])]"

definition cycle_cells :: "(coord \<times> model_result) list" where
  "cycle_cells = [([0], peak_fit [(''a_'', 1, 1, 0), (''b_'', 1, 1, 1), (''c_'', 1, 1, 2)]),
                  ([1], peak_fit [(''a_'', 1, 1, 1), (''b_'', 1, 1, 2), (''c_'', 1, 1, 0)])]"

section \<open>The permutation enumeration\<close>


lemma perm_enum_sub:
  "ys \<in> set (perm_enum n xs) \<Longrightarrow> mset ys \<subseteq># mset xs \<and> length ys = n"
proof (induction n arbitrary: xs ys)
  case 0
  then show ?case by simp
next
  case (Suc n)
  then obtain x zs where x: "x \<in> set xs" "ys = x # zs" "zs \<in> set (perm_enum n (remove1 x xs))"
    by auto
  from Suc.IH [OF x(3)] have "mset zs \<subseteq># mset (remove1 x xs)" "length zs = n" by auto
  with x show ?case by (auto simp: insert_subset_eq_iff)
qed

lemma perm_enum_complete:
  "mset ys \<subseteq># mset xs \<Longrightarrow> ys \<in> set (perm_enum (length ys) xs)"
proof (induction ys arbitrary: xs)
  case Nil
  then show ?case by simp
next
  case (Cons y ys)
  then have "y \<in> set xs" by (simp add: insert_subset_eq_iff)
  moreover from Cons have "ys \<in> set (perm_enum (length ys) (remove1 y xs))"
    by (simp add: insert_subset_eq_iff)
  ultimately show ?case by auto
qed

lemma set_py_permutations:
  "set (py_permutations xs) = {ys. mset ys = mset xs}"
proof (intro set_eqI iffI)
  fix ys assume "ys \<in> set (py_permutations xs)"
  then have "mset ys \<subseteq># mset xs" "length ys = length xs"
    using perm_enum_sub by (auto simp: py_permutations_def)
  moreover have "\<not> mset ys \<subset># mset xs"
    using mset_subset_size \<open>length ys = length xs\<close> by fastforce
  ultimately show "ys \<in> {ys. mset ys = mset xs}"
    by (simp add: subset_mset.le_less)
next
  fix ys assume "ys \<in> {ys. mset ys = mset xs}"
  then have "mset ys = mset xs" by simp
  then have "length ys = length xs" by (metis size_mset)
  with \<open>mset ys = mset xs\<close> show "ys \<in> set (py_permutations xs)"
    using perm_enum_complete [of ys xs] by (simp add: py_permutations_def)
qed

lemma length_perm_enum:
  "distinct xs \<Longrightarrow> length xs = n \<Longrightarrow> length (perm_enum n xs) = fact n"
proof (induction n arbitrary: xs)
  case 0
  then show ?case by simp
next
  case (Suc n)
  have "\<forall>x\<in>set xs. length (perm_enum n (remove1 x xs)) = fact n"
    using Suc by (simp add: length_remove1)
  then have "length (perm_enum (Suc n) xs) = sum_list (map (\<lambda>x. fact n) xs)"
    by (simp add: length_concat comp_def cong: map_cong)
  also have "\<dots> = Suc n * fact n" using Suc.prems by (simp add: sum_list_triv)
  finally show ?case by simp
qed

lemma perm_enum_nonempty:
  "n \<le> length xs \<Longrightarrow> perm_enum n xs \<noteq> []"
proof -
  assume "n \<le> length xs"
  then have "take n xs \<in> set (perm_enum (length (take n xs)) xs)"
    by (intro perm_enum_complete) (metis append_take_drop_id mset_append mset_subset_eq_add_left)
  with \<open>n \<le> length xs\<close> show ?thesis by auto
qed

lemma distinct_perm_enum:
  "distinct xs \<Longrightarrow> n \<le> length xs \<Longrightarrow> distinct (perm_enum n xs)"
proof (induction n arbitrary: xs)
  case 0
  then show ?case by simp
next
  case (Suc n)
  show ?case
    unfolding perm_enum.simps
  proof (rule distinct_concat)
    have "perm_enum n (remove1 x xs) \<noteq> []" if "x \<in> set xs" for x
      using Suc.prems that by (intro perm_enum_nonempty) (simp add: length_remove1)
    then have "inj_on (\<lambda>x. map (Cons x) (perm_enum n (remove1 x xs))) (set xs)"
    proof (intro inj_onI)
      fix x y assume ne: "\<And>x. x \<in> set xs \<Longrightarrow> perm_enum n (remove1 x xs) \<noteq> []"
        and xy: "x \<in> set xs" "y \<in> set xs"
        and eq: "map (Cons x) (perm_enum n (remove1 x xs)) = map (Cons y) (perm_enum n (remove1 y xs))"
      from ne [OF xy(1)] obtain a as where "perm_enum n (remove1 x xs) = a # as"
        by (auto simp: neq_Nil_conv)
      with eq have "map (Cons y) (perm_enum n (remove1 y xs)) = (x # a) # map (Cons x) as"
        by simp
      then show "x = y" by (cases "perm_enum n (remove1 y xs)") auto
    qed
    then show "distinct (map (\<lambda>x. map (Cons x) (perm_enum n (remove1 x xs))) xs)"
      using Suc.prems(1) by (simp add: distinct_map)
  next
    fix ys assume "ys \<in> set (map (\<lambda>x. map (Cons x) (perm_enum n (remove1 x xs))) xs)"
    then show "distinct ys" using Suc by (auto simp: distinct_map length_remove1)
  next
    fix ys zs
    assume "ys \<in> set (map (\<lambda>x. map (Cons x) (perm_enum n (remove1 x xs))) xs)"
      "zs \<in> set (map (\<lambda>x. map (Cons x) (perm_enum n (remove1 x xs))) xs)" "ys \<noteq> zs"
    then show "set ys \<inter> set zs = {}" by auto
  qed
qed

lemma perm_enum_first: "perm_enum (length xs) xs \<noteq> [] \<and> hd (perm_enum (length xs) xs) = xs"
proof (induction xs)
  case Nil
  then show ?case by simp
next
  case (Cons x xs)
  then show ?case by (auto simp: neq_Nil_conv)
qed

lemma py_permutations_hd: "py_permutations xs ! 0 = xs" and py_permutations_ne: "py_permutations xs \<noteq> []"
  using perm_enum_first [of xs] by (auto simp: py_permutations_def hd_conv_nth)

lemma best_arrangement_found:
  "argmin_strict (trace_of dm) (py_permutations [0..<k]) = Some (best_arrangement dm k)"
  using py_permutations_ne [of "[0..<k]"]
  by (cases "argmin_strict (trace_of dm) (py_permutations [0..<k])") (auto simp: best_arrangement_def)

lemma best_arrangement_perm: "mset (best_arrangement dm k) = mset [0..<k]"
  using argmin_strict_Some(1) [OF best_arrangement_found] by (simp add: set_py_permutations)

lemma best_arrangement_min:
  "mset p = mset [0..<k] \<Longrightarrow> trace_of dm (best_arrangement dm k) \<le> trace_of dm p"
  using argmin_strict_Some(2) [OF best_arrangement_found] by (simp add: set_py_permutations)

lemma best_arrangement_first:
  "\<exists>i<length (py_permutations [0..<k]). py_permutations [0..<k] ! i = best_arrangement dm k
     \<and> (\<forall>j<i. trace_of dm (best_arrangement dm k) < trace_of dm (py_permutations [0..<k] ! j))"
  using argmin_strict_first [OF best_arrangement_found] .

text \<open>A permutation of the indices picks every element once.\<close>

lemma mset_map_nth_perm:
  "mset p = mset [0..<length xs] \<Longrightarrow> mset (map (nth xs) p) = mset xs"
proof -
  assume "mset p = mset [0..<length xs]"
  then have "mset (map (nth xs) p) = mset (map (nth xs) [0..<length xs])"
    by (metis mset_map)
  also have "map (nth xs) [0..<length xs] = xs" by (rule map_nth)
  finally show ?thesis .
qed

lemma py_map_index_perm:
  "mset p = mset [0..<length xs] \<Longrightarrow> order_prefixes xs p = Inr (map (nth xs) p)"
  unfolding order_prefixes_def
proof (rule py_map_Inr, rule ballI)
  fix pi assume "mset p = mset [0..<length xs]" "pi \<in> set p"
  then have "pi < length xs" by (metis atLeastLessThan_iff set_mset_mset set_upt)
  then show "py_index xs (int pi) = Inr (xs ! pi)" by simp
qed

section \<open>The identification sweep\<close>

lemma closest_identified_in:
  "closest_identified idd c = Some ref \<Longrightarrow> ref \<in> snd ` set idd"
  using argmin_strict_Some(1) [of "\<lambda>(c', _). dot c' c" idd]
  by (force simp: closest_identified_def)

lemma list_all_dict_set:
  "list_all P d \<Longrightarrow> P (k, v) \<Longrightarrow> list_all P (dict_set d k v)"
  using set_dict_set_subset [of d k v] by (auto simp: list_all_iff)

lemma template_prefixes_Inr:
  "template_prefixes ndim cells = Inr P \<Longrightarrow> ndim = 1 \<and> cells \<noteq> [] \<and> P = mr_prefixes (snd (hd cells))"
  by (auto simp: template_prefixes_def split: if_splits list.splits)

lemma identify_bands_Inr:
  assumes "identify_bands w ndim cells = Inr (P, st)"
  shows "ndim = 1 \<and> cells \<noteq> [] \<and> P = mr_prefixes (snd (hd cells)) \<and> identify_cells w P ident_init cells = Inr st"
  using assms template_prefixes_Inr by (auto simp: identify_bands_def sbind_eq_Inr)

lemma as_vector_ok:
  "peak_params_ok P r \<Longrightarrow> q \<in> set P \<Longrightarrow> \<exists>v. as_vector w r q = Inr v"
  by (auto simp: peak_params_ok_def as_vector_def list_all_iff stderr_of_def get_param_def
      split: option.splits prod.splits)

lemma dist_matrix_ok:
  assumes "peak_params_ok P r" "peak_params_ok P cr" "mset cps = mset P"
  shows "\<exists>dm. dist_matrix w P r cps cr = Inr dm \<and> length dm = length P"
proof -
  have len: "length cps = length P" using assms(3) by (metis size_mset)
  have entry: "\<exists>d. sbind (as_vector w r (P ! i)) (\<lambda>u. sbind (py_index cps (int j)) (\<lambda>q.
        sbind (as_vector w cr q) (\<lambda>v. Inr (euclidean u v)))) = Inr d"
    if "i < length P" "j < length P" for i j
  proof -
    from that len have q1: "py_index cps (int j) = Inr (cps ! j)" by simp
    from that len have "cps ! j \<in> set cps" by simp
    then have q2: "cps ! j \<in> set P" using assms(3) by (metis set_mset_mset)
    note q = q1 q2
    from that(1) have "P ! i \<in> set P" by simp
    then obtain u where u: "as_vector w r (P ! i) = Inr u" using as_vector_ok [OF assms(1)] by blast
    obtain v where v: "as_vector w cr (cps ! j) = Inr v" using as_vector_ok [OF assms(2) q(2)] by blast
    show ?thesis using u v q by simp
  qed
  define row where "row i = map (\<lambda>j. SOME d. sbind (as_vector w r (P ! i)) (\<lambda>u. sbind (py_index cps (int j)) (\<lambda>q.
        sbind (as_vector w cr q) (\<lambda>v. Inr (euclidean u v)))) = Inr d) [0..<length P]" for i
  have "py_map (\<lambda>j. sbind (as_vector w r (P ! i)) (\<lambda>u. sbind (py_index cps (int j)) (\<lambda>q.
        sbind (as_vector w cr q) (\<lambda>v. Inr (euclidean u v))))) [0..<length P] = Inr (row i)"
    if "i < length P" for i
    unfolding row_def by (rule py_map_Inr) (use entry that in \<open>auto intro: someI_ex\<close>)
  then have "dist_matrix w P r cps cr = Inr (map row [0..<length P])"
    unfolding dist_matrix_def by (intro py_map_Inr) auto
  then show ?thesis by auto
qed

lemma euclidean_self [simp]: "euclidean u u = 0"
  by (simp add: euclidean_def zip_same_conv_map comp_def)

lemma euclidean_nonneg: "0 \<le> euclidean u v"
  by (auto simp: euclidean_def intro!: sum_list_nonneg)

lemma dist_matrix_entry:
  assumes "dist_matrix w P r cps cr = Inr dm" "i < length P" "j < length P"
  shows "length dm = length P \<and> length (dm ! i) = length P \<and>
    (\<exists>u q v. as_vector w r (P ! i) = Inr u \<and> py_index cps (int j) = Inr q \<and>
       as_vector w cr q = Inr v \<and> dm ! i ! j = euclidean u v)"
proof -
  let ?row = "\<lambda>i. py_map (\<lambda>j. sbind (as_vector w r (P ! i)) (\<lambda>u. sbind (py_index cps (int j)) (\<lambda>q.
        sbind (as_vector w cr q) (\<lambda>v. Inr (euclidean u v))))) [0..<length P]"
  from assms(1) have all: "py_map ?row [0..<length P] = Inr dm" by (simp add: dist_matrix_def)
  from py_map_nth [OF all] assms(2) have row: "?row i = Inr (dm ! i)" by simp
  from py_map_nth [OF row] assms(3) have "sbind (as_vector w r (P ! i)) (\<lambda>u. sbind (py_index cps (int j)) (\<lambda>q.
        sbind (as_vector w cr q) (\<lambda>v. Inr (euclidean u v)))) = Inr (dm ! i ! j)" by simp
  then have "\<exists>u q v. as_vector w r (P ! i) = Inr u \<and> py_index cps (int j) = Inr q \<and>
       as_vector w cr q = Inr v \<and> dm ! i ! j = euclidean u v"
    by (auto simp: sbind_eq_Inr)
  with py_map_length [OF all] py_map_length [OF row] show ?thesis by simp
qed

lemma trace_of_nonneg:
  "(\<forall>i<length p. 0 \<le> dm ! i ! (p ! i)) \<Longrightarrow> 0 \<le> trace_of dm p"
  unfolding trace_of_def by (rule sum_list_nonneg) (auto simp: in_set_enumerate_eq)

lemma trace_of_upt: "trace_of dm [0..<k] = sum_list (map (\<lambda>i. dm ! i ! i) [0..<k])"
  by (simp add: trace_of_def enumerate_eq_zip zip_same_conv_map comp_def)

lemma index_perm_facts:
  assumes "mset p = mset [0..<k]"
  shows "distinct p" "set p = {0..<k}" "length p = k"
proof -
  show "distinct p" using assms by (metis distinct_upt mset_eq_imp_distinct_iff)
  show "set p = {0..<k}" using assms by (metis set_mset_mset set_upt)
  show "length p = k" using assms by (metis length_upt minus_nat.diff_0 size_mset)
qed

text \<open>The write of line 199 raises, so no step of the sweep returns.\<close>

lemma identify_step_not_Inr: "identify_step w P st cf \<noteq> Inr st'"
  by (auto simp: identify_step_def loc_setitem_def sbind_def Let_def
      split: prod.splits option.splits sum.splits)

lemma identify_cells_not_Inr: "cells \<noteq> [] \<Longrightarrow> identify_cells w P st cells \<noteq> Inr st'"
  by (auto simp: neq_Nil_conv sbind_def identify_step_not_Inr split: sum.splits)

lemma identify_bands_not_Inr: "identify_bands w ndim cells \<noteq> Inr x"
  by (auto simp: identify_bands_def sbind_def identify_cells_not_Inr dest: template_prefixes_Inr
      split: sum.splits)

text \<open>On the first cell the reference is the cell itself and every lookup succeeds for a
  well-formed fit, so the sweep gets to line 199.\<close>

lemma identify_first_step_error:
  assumes ok: "peak_params_ok (mr_prefixes r) r"
  shows "identify_step w (mr_prefixes r) ident_init (c, r) = Inl ValueError"
proof -
  let ?P = "mr_prefixes r"
  obtain dm where dm: "dist_matrix w ?P r ?P r = Inr dm"
    using dist_matrix_ok [OF ok ok] by blast
  have "order_prefixes ?P (best_arrangement dm (length ?P))
        = Inr (map (nth ?P) (best_arrangement dm (length ?P)))"
    by (simp add: py_map_index_perm best_arrangement_perm)
  with dm show ?thesis
    by (simp add: identify_step_def ident_init_def closest_identified_def loc_setitem_def Let_def)
qed

section \<open>Worked examples\<close>

lemmas identify_eval_defs = identify_bands_def template_prefixes_def ident_init_def identify_step_def
  closest_identified_def argmin_strict_def dist_matrix_def as_vector_def stderr_of_def euclidean_def
  best_arrangement_def py_permutations_def trace_of_def dot_def order_prefixes_def py_index_def
  get_param_def fixture_defs numeral_eq_Suc

text \<open>On \<open>cycle_cells\<close> the reference cell has the centres 0, 1, 2 under
  \<^verbatim>\<open>a_\<close>, \<^verbatim>\<open>b_\<close>, \<^verbatim>\<open>c_\<close> and the second cell 1, 2, 0: the optimal matching
  is the rotation \<open>[1, 2, 0]\<close>, and the ordering line 197 computes for the second cell is
  \<open>[b_, c_, a_]\<close>, whereas the matching names the components \<open>[c_, a_, b_]\<close>.\<close>

lemma cycle_cells_ordering:
  "\<exists>dm. dist_matrix (2, 0, 10) [''a_'', ''b_'', ''c_''] (snd (cycle_cells ! 1)) [''a_'', ''b_'', ''c_''] (snd (cycle_cells ! 0)) = Inr dm
     \<and> best_arrangement dm 3 = [1, 2, 0]
     \<and> order_prefixes [''a_'', ''b_'', ''c_''] [1, 2, 0] = Inr [''b_'', ''c_'', ''a_'']
     \<and> matched_labels [''a_'', ''b_'', ''c_''] [1, 2, 0] = [''c_'', ''a_'', ''b_'']"
  by (simp add: cycle_cells_def identify_eval_defs matched_labels_def)

section \<open>Properties of the resolver\<close>

text \<open>
  C1. The permutation search of \<^verbatim>\<open>unpack_bands_from_fit\<close> returns a permutation
  of the band indices whose trace (the total distance of the matched components) is
  least among all permutations, and of the permutations of least trace it returns the
  first one that \<^verbatim>\<open>itertools.permutations\<close> yields.
\<close>

theorem best_arrangement_optimal:
  "mset (best_arrangement dm k) = mset [0..<k]
   \<and> (\<forall>p. mset p = mset [0..<k] \<longrightarrow> trace_of dm (best_arrangement dm k) \<le> trace_of dm p)
   \<and> (\<exists>i<length (py_permutations [0..<k]). py_permutations [0..<k] ! i = best_arrangement dm k
        \<and> (\<forall>j<i. trace_of dm (best_arrangement dm k) < trace_of dm (py_permutations [0..<k] ! j)))"
  using best_arrangement_perm best_arrangement_min best_arrangement_first by blast

theorem best_arrangement_optimal_witness:
  "best_arrangement [[1, 0, 1], [1, 1, 0], [0, 1, 1]] 3 = [1, 2, 0]
   \<and> trace_of [[1, 0, 1], [1, 1, 0], [0, 1, 1]] [1, 2, 0] \<le> trace_of [[1, 0, 1], [1, 1, 0], [0, 1, 1]] [0, 2, 1]"
proof -
  have b: "best_arrangement [[1, 0, 1], [1, 1, 0], [0, 1, 1]] 3 = [1, 2, 0]"
    by (simp add: best_arrangement_def argmin_strict_def py_permutations_def trace_of_def numeral_eq_Suc)
  have "mset [0, 2, 1] = mset [0..<3::nat]" by (simp add: numeral_eq_Suc)
  with best_arrangement_optimal [of "[[1, 0, 1], [1, 1, 0], [0, 1, 1]]" 3] b show ?thesis by simp
qed

text \<open>
  C3. For a reference whose labels are the template prefixes in order (as on the first
  cell, whose own prefixes become the reference), the ordering
  \<^verbatim>\<open>[closest_prefixes[p_i] for p_i in best_arrangement]\<close> of line 197 agrees with the
  labelling the matching defines (label \<open>j\<close> names the component matched with the
  reference's label \<open>j\<close>) exactly when the optimal permutation is an involution: always
  for two bands, but not for a rotation of three.
\<close>

theorem order_prefixes_matched_iff:
  assumes dP: "distinct P" and p: "mset p = mset [0..<length P]"
  shows "order_prefixes P p = Inr (matched_labels P p) \<longleftrightarrow> (\<forall>i<length p. p ! (p ! i) = i)"
proof -
  let ?k = "length P"
  note pf = index_perm_facts [OF p]
  have inr: "order_prefixes P p = Inr (map (nth P) p)" using p by (rule py_map_index_perm)
  have mem: "j < ?k \<Longrightarrow> j \<in> set p" for j using pf(2) by simp
  have pj: "j < ?k \<Longrightarrow> p ! j < ?k" for j using pf(2,3) by (metis atLeastLessThan_iff nth_mem)
  have "order_prefixes P p = Inr (matched_labels P p) \<longleftrightarrow> map (nth P) p = matched_labels P p"
    using inr by simp
  also have "\<dots> \<longleftrightarrow> (\<forall>j<?k. P ! (p ! j) = P ! (list_index p j))"
    unfolding matched_labels_def by (subst list_eq_iff_nth_eq) (simp add: pf(3))
  also have "\<dots> \<longleftrightarrow> (\<forall>j<?k. p ! j = list_index p j)"
  proof -
    have "P ! (p ! j) = P ! (list_index p j) \<longleftrightarrow> p ! j = list_index p j" if "j < ?k" for j
    proof -
      have "list_index p j < ?k" using list_index_less [OF mem [OF that]] pf(3) by simp
      from nth_eq_iff_index_eq [OF dP pj [OF that] this] show ?thesis .
    qed
    then show ?thesis by auto
  qed
  also have "\<dots> \<longleftrightarrow> (\<forall>j<?k. p ! (p ! j) = j)"
  proof (intro iffI allI impI)
    fix j assume "\<forall>j<?k. p ! j = list_index p j" "j < ?k"
    then show "p ! (p ! j) = j" using mem by simp
  next
    fix j assume inv: "\<forall>j<?k. p ! (p ! j) = j" and "j < ?k"
    then have "list_index p j = list_index p (p ! (p ! j))" by simp
    also have "\<dots> = p ! j" using pf(1,3) pj \<open>j < ?k\<close> by simp
    finally show "p ! j = list_index p j" by simp
  qed
  finally show ?thesis using pf(3) by simp
qed

theorem order_prefixes_matched_iff_witness:
  "distinct [''a_'', ''b_'', ''c_''] \<and> mset [1, 2, 0] = mset [0..<length [''a_'', ''b_'', ''c_'']]
   \<and> order_prefixes [''a_'', ''b_'', ''c_''] [1, 2, 0] \<noteq> Inr (matched_labels [''a_'', ''b_'', ''c_''] [1, 2, 0])"
proof -
  have h: "distinct [''a_'', ''b_'', ''c_'']" "mset [1, 2, 0] = mset [0..<length [''a_'', ''b_'', ''c_'']]"
    by (simp_all add: numeral_eq_Suc)
  have "\<not> (\<forall>i<length [1, 2, 0::nat]. [1, 2, 0::nat] ! ([1, 2, 0] ! i) = i)"
    by (auto simp: less_Suc_eq)
  with order_prefixes_matched_iff [OF h] h show ?thesis by blast
qed


text \<open>
  The enumeration is \<^verbatim>\<open>itertools.permutations(range(k))\<close>: it yields every
  permutation of \<open>0..k-1\<close> exactly once, \<open>k!\<close> of them, the identity first.
\<close>

theorem py_permutations_spec:
  "set (py_permutations [0..<k]) = {p. mset p = mset [0..<k]}
   \<and> length (py_permutations [0..<k]) = fact k
   \<and> distinct (py_permutations [0..<k])
   \<and> py_permutations [0..<k] ! 0 = [0..<k]"
  using set_py_permutations [of "[0..<k]"] length_perm_enum [of "[0..<k]" k]
    distinct_perm_enum [of "[0..<k]" k] py_permutations_hd [of "[0..<k]"]
  by (simp add: py_permutations_def)

text \<open>
  On a result grid of two or more dimensions the resolver fails at once:
  \<^verbatim>\<open>band_results.values[0]\<close> is a row of the grid, not a fit, and has no
  \<^verbatim>\<open>model\<close> (AttributeError).
\<close>

theorem identify_bands_multidim_error:
  "1 < ndim \<Longrightarrow> cells \<noteq> [] \<Longrightarrow> identify_bands w ndim cells = Inl AttributeError"
  by (simp add: identify_bands_def template_prefixes_def)

text \<open>
  C6. The write \<^verbatim>\<open>identified_band_results.loc[coordinate] = ordered_prefixes\<close>
  (line 199) puts a list in a single cell, which xarray refuses: on a one-dimensional grid
  whose first fit carries the three peak parameters of its prefixes with standard errors,
  the resolver raises \<^verbatim>\<open>ValueError\<close> at its first cell.
\<close>

theorem identify_bands_loc_error:
  assumes "peak_params_ok (mr_prefixes r) r"
  shows "identify_bands w 1 ((c, r) # cells) = Inl ValueError"
  using identify_first_step_error [OF assms]
  by (simp add: identify_bands_def template_prefixes_def)

theorem identify_bands_loc_error_witness:
  "identify_bands (2, 0, 10) 1 swap_cells = Inl ValueError"
proof -
  have "peak_params_ok (mr_prefixes (snd (swap_cells ! 0))) (snd (swap_cells ! 0))"
    by (simp add: swap_cells_def peak_params_ok_def fixture_defs)
  from identify_bands_loc_error [OF this, of "(2, 0, 10)" "fst (swap_cells ! 0)" "tl swap_cells"]
  show ?thesis by (simp add: swap_cells_def)
qed

end
