(* ===== verification/Extract.thy ===== *)
theory Extract
  imports Identity
begin

text \<open>
  The extraction half of \<^verbatim>\<open>unpack_bands_from_fit\<close> (\<^verbatim>\<open>analysis/band_analysis.py\<close>,
  lines 201--247) and the whole function.  Once every cell of the grid has its ordered
  prefixes, band \<open>i\<close> is labelled by the \<open>i\<close>-th prefix of the first cell, and its
  data are six arrays over the grid (centre, amplitude and sigma, value and standard
  error), read at every cell from the fit's parameter named by that cell's \<open>i\<close>-th
  prefix.  \<^verbatim>\<open>np.nditer\<close> visits the cells in C order, the order of
  \<^verbatim>\<open>enumerate_dataarray\<close>, so an array is a list over the cells.  Since the
  identification raises at line 199 (theory \<open>Identity\<close>), the whole function never
  returns (C24); the extraction is modelled as written and its lemmas describe it on a
  given identification state.
\<close>

record band_data =
  bd_center :: "real list"
  bd_center_stderr :: "real list"
  bd_amplitude :: "real list"
  bd_amplitude_stderr :: "real list"
  bd_sigma :: "real list"
  bd_sigma_stderr :: "real list"


text \<open>
  \<^verbatim>\<open>dataarray_for_value(param_name, i, is_value)\<close> (lines 207--232): the cell's
  ordered prefixes (an unwritten cell of the object array holds \<^verbatim>\<open>None\<close>, which
  cannot be subscripted: TypeError), its \<open>i\<close>-th prefix, the parameter
  (KeyError), and its value or standard error; a missing standard error is
  \<^verbatim>\<open>None\<close>, which a float array refuses (TypeError).
\<close>

definition cell_prefixes :: "ident_state \<Rightarrow> coord \<Rightarrow> string list py_result" where
  "cell_prefixes st c = (case map_of (assigned st) c of None \<Rightarrow> Inl TypeError | Some ps \<Rightarrow> Inr ps)"

definition param_array ::
  "ident_state \<Rightarrow> (coord \<times> model_result) list \<Rightarrow> nat \<Rightarrow> string \<Rightarrow> bool \<Rightarrow> real list py_result" where
  "param_array st cells i name is_value =
     py_map (\<lambda>(c, r).
       sbind (cell_prefixes st c) (\<lambda>ordered.
       sbind (py_index ordered (int i)) (\<lambda>prefix.
       sbind (get_param r (prefix @ name)) (\<lambda>p.
         if is_value then Inr (par_value p)
         else case par_stderr p of None \<Rightarrow> Inl TypeError | Some e \<Rightarrow> Inr e)))) cells"

text \<open>The dataset of lines 234--243, its entries evaluated in order.\<close>

definition band_data_for ::
  "ident_state \<Rightarrow> (coord \<times> model_result) list \<Rightarrow> nat \<Rightarrow> band_data py_result" where
  "band_data_for st cells i =
     sbind (param_array st cells i ''center'' True) (\<lambda>c.
     sbind (param_array st cells i ''center'' False) (\<lambda>ce.
     sbind (param_array st cells i ''amplitude'' True) (\<lambda>a.
     sbind (param_array st cells i ''amplitude'' False) (\<lambda>ae.
     sbind (param_array st cells i ''sigma'' True) (\<lambda>s.
     sbind (param_array st cells i ''sigma'' False) (\<lambda>se.
       Inr \<lparr>bd_center = c, bd_center_stderr = ce, bd_amplitude = a, bd_amplitude_stderr = ae,
            bd_sigma = s, bd_sigma_stderr = se\<rparr>))))))"




text \<open>The six arrays of a band, for statements about all of them.\<close>

definition band_arrays :: "band_data \<Rightarrow> real list list" where
  "band_arrays bd = [bd_center bd, bd_center_stderr bd, bd_amplitude bd, bd_amplitude_stderr bd,
                     bd_sigma bd, bd_sigma_stderr bd]"

section \<open>Lemmas of the extraction\<close>

lemma peak_params_ok_get:
  assumes "peak_params_ok P r" "q \<in> set P" "nm \<in> {''sigma'', ''amplitude'', ''center''}"
  shows "\<exists>p. map_of (mr_params r) (q @ nm) = Some p \<and> par_stderr p \<noteq> None"
proof -
  have "\<forall>nm\<in>set [''sigma'', ''amplitude'', ''center'']. case map_of (mr_params r) (q @ nm) of None \<Rightarrow> False
          | Some p \<Rightarrow> par_stderr p \<noteq> None"
    using assms(1,2) unfolding peak_params_ok_def list_all_iff by blast
  moreover have "nm \<in> set [''sigma'', ''amplitude'', ''center'']" using assms(3) by simp
  ultimately have "case map_of (mr_params r) (q @ nm) of None \<Rightarrow> False | Some p \<Rightarrow> par_stderr p \<noteq> None"
    by (rule bspec)
  then show ?thesis by (cases "map_of (mr_params r) (q @ nm)") auto
qed

lemma param_array_ok:
  assumes cells: "\<forall>(c, r)\<in>set cells. \<exists>ps. map_of (assigned st) c = Some ps \<and> mset ps = mset P"
    and fits: "list_all (\<lambda>(c, r). peak_params_ok P r) cells"
    and i: "i < length P" and nm: "name \<in> {''sigma'', ''amplitude'', ''center''}"
  shows "\<exists>vs. param_array st cells i name b = Inr vs \<and> length vs = length cells"
  unfolding param_array_def
proof (rule py_map_ok, rule ballI)
  fix x assume x: "x \<in> set cells"
  obtain c r where xcr: "x = (c, r)" by fastforce
  from cells x xcr obtain ps where ps: "map_of (assigned st) c = Some ps" "mset ps = mset P" by blast
  from ps(2) have len: "length ps = length P" by (metis size_mset)
  then have q: "ps ! i \<in> set P" using i by (metis nth_mem ps(2) set_mset_mset)
  from fits x xcr have "peak_params_ok P r" by (auto simp: list_all_iff)
  with q nm obtain p where p: "map_of (mr_params r) (ps ! i @ name) = Some p" "par_stderr p \<noteq> None"
    using peak_params_ok_get by blast
  show "\<exists>y. (\<lambda>(c, r). sbind (cell_prefixes st c) (\<lambda>ordered. sbind (py_index ordered (int i)) (\<lambda>prefix.
       sbind (get_param r (prefix @ name)) (\<lambda>p. if b then Inr (par_value p)
         else case par_stderr p of None \<Rightarrow> Inl TypeError | Some e \<Rightarrow> Inr e)))) x = Inr y"
    using ps(1) len i p xcr by (auto simp: cell_prefixes_def)
qed

lemma band_data_for_ok:
  assumes cells: "\<forall>(c, r)\<in>set cells. \<exists>ps. map_of (assigned st) c = Some ps \<and> mset ps = mset P"
    and fits: "list_all (\<lambda>(c, r). peak_params_ok P r) cells" and i: "i < length P"
  shows "\<exists>bd. band_data_for st cells i = Inr bd \<and> (\<forall>a\<in>set (band_arrays bd). length a = length cells)"
proof -
  note ok = param_array_ok [OF cells fits i]
  obtain c ce a ae sg se where
    "param_array st cells i ''center'' True = Inr c" "length c = length cells"
    "param_array st cells i ''center'' False = Inr ce" "length ce = length cells"
    "param_array st cells i ''amplitude'' True = Inr a" "length a = length cells"
    "param_array st cells i ''amplitude'' False = Inr ae" "length ae = length cells"
    "param_array st cells i ''sigma'' True = Inr sg" "length sg = length cells"
    "param_array st cells i ''sigma'' False = Inr se" "length se = length cells"
    using ok [of "''center''" True] ok [of "''center''" False] ok [of "''amplitude''" True]
      ok [of "''amplitude''" False] ok [of "''sigma''" True] ok [of "''sigma''" False] by auto
  then show ?thesis by (simp add: band_data_for_def band_arrays_def)
qed

lemma py_index_int_Inr:
  "py_index xs (int i) = Inr y \<Longrightarrow> i < length xs \<and> y = xs ! i"
  by (auto simp: py_index_def split: if_splits)

lemma param_array_nth:
  assumes "param_array st cells i name True = Inr vs" "k < length cells"
  shows "\<exists>ps p. map_of (assigned st) (fst (cells ! k)) = Some ps \<and> i < length ps
     \<and> map_of (mr_params (snd (cells ! k))) (ps ! i @ name) = Some p \<and> vs ! k = par_value p"
proof -
  obtain c r where ck: "cells ! k = (c, r)" by fastforce
  from py_map_nth [OF assms(1) [unfolded param_array_def] assms(2)] ck
  have "sbind (cell_prefixes st c) (\<lambda>ordered. sbind (py_index ordered (int i)) (\<lambda>prefix.
          sbind (get_param r (prefix @ name)) (\<lambda>p. Inr (par_value p)))) = Inr (vs ! k)" by simp
  then obtain ps prefix p where "map_of (assigned st) c = Some ps" "py_index ps (int i) = Inr prefix"
    "map_of (mr_params r) (prefix @ name) = Some p" "vs ! k = par_value p"
    by (auto simp: sbind_eq_Inr cell_prefixes_def get_param_def split: option.splits)
  with py_index_int_Inr ck show ?thesis by fastforce
qed

section \<open>The whole function\<close>


end
