(* ===== verification/Marginals.thy ===== *)
theory Marginals
  imports Prelude
begin

text \<open>
  Spectra and their one-dimensional slices: \<^verbatim>\<open>_iterate_marginals\<close> of
  \<^verbatim>\<open>analysis/band_analysis.py\<close> (lines 582--593).  A spectrum is a labelled array:
  its dimension names in order, a coordinate vector per dimension, and its intensity as
  a function of a full coordinate assignment.  \<^verbatim>\<open>arr.sel(coords)\<close> with scalar
  coordinates fixes those dimensions and drops them.
\<close>

record spectrum =
  sp_dims :: "string list"
  sp_coords :: "string \<Rightarrow> real list"
  sp_values :: "(string \<Rightarrow> real) \<Rightarrow> real"

type_synonym selector = "(string, real) dict"

definition sel :: "spectrum \<Rightarrow> selector \<Rightarrow> spectrum" where
  "sel arr cs =
     \<lparr>sp_dims = filter (\<lambda>d. d \<notin> set (map fst cs)) (sp_dims arr),
      sp_coords = sp_coords arr,
      sp_values = (\<lambda>a. sp_values arr (\<lambda>d. case map_of cs d of Some v \<Rightarrow> v | None \<Rightarrow> a d))\<rparr>"

text \<open>
  \<^verbatim>\<open>_iterate_marginals(arr, iterate_directions)\<close>: without directions, every
  dimension but \<^verbatim>\<open>"eV"\<close> (\<^verbatim>\<open>list.remove\<close> raises ValueError when there is
  none); then one selection per element of
  \<^verbatim>\<open>itertools.product(*[arr.coords[d] for d in iterate_directions])\<close>, which is
  \<open>product_lists\<close> (first direction slowest), the selector being
  \<^verbatim>\<open>dict(zip(iterate_directions, ss))\<close>.  A direction that is no dimension of the
  array raises KeyError at \<^verbatim>\<open>arr.coords[d]\<close>.  The generator is modelled by the
  list of what it yields.
\<close>

definition iteration_directions :: "spectrum \<Rightarrow> string list option \<Rightarrow> string list py_result" where
  "iteration_directions arr dirs =
     (case dirs of None \<Rightarrow> py_remove ''eV'' (sp_dims arr) | Some ds \<Rightarrow> Inr ds)"

definition iterate_marginals ::
  "spectrum \<Rightarrow> string list option \<Rightarrow> (spectrum \<times> selector) list py_result" where
  "iterate_marginals arr dirs =
     sbind (iteration_directions arr dirs) (\<lambda>ds.
       if \<exists>d\<in>set ds. d \<notin> set (sp_dims arr) then Inl KeyError
       else Inr (map (\<lambda>ss. (sel arr (zip ds ss), zip ds ss))
                     (product_lists (map (sp_coords arr) ds))))"

text \<open>
  A one-dimensional marginal as the curve lmfit receives: the coordinate of its first
  index (\<^verbatim>\<open>marginal.coords[next(iter(marginal.indexes))].values\<close>, StopIteration
  for a zero-dimensional one) and \<^verbatim>\<open>marginal.values\<close> along it.  A marginal of more
  dimensions never reaches a fit in the sweeps modelled here; it is refused with
  ValueError.
\<close>

definition curve_of :: "spectrum \<Rightarrow> (real list \<times> real list) py_result" where
  "curve_of m =
     (case sp_dims m of
        [] \<Rightarrow> Inl StopIteration
      | [d] \<Rightarrow> Inr (sp_coords m d, map (\<lambda>x. sp_values m (\<lambda>_. x)) (sp_coords m d))
      | _ \<Rightarrow> Inl ValueError)"

text \<open>A two-dimensional cut: three angles by two energies, intensity \<open>phi + 10 eV\<close>.\<close>

definition demo_cut :: spectrum where
  "demo_cut = \<lparr>sp_dims = [''phi'', ''eV''],
     sp_coords = (\<lambda>d. if d = ''phi'' then [1, 2, 3] else if d = ''eV'' then [0, 1] else []),
     sp_values = (\<lambda>a. a ''phi'' + 10 * a ''eV'')\<rparr>"

lemma length_product_lists: "length (product_lists xss) = prod_list (map length xss)"
  by (induction xss) (simp_all add: length_concat comp_def sum_list_triv)

lemma sel_empty [simp]: "sel arr [] = arr"
  by (simp add: sel_def)

lemma iterate_marginals_Some:
  "set ds \<subseteq> set (sp_dims arr) \<Longrightarrow>
   iterate_marginals arr (Some ds) =
     Inr (map (\<lambda>ss. (sel arr (zip ds ss), zip ds ss)) (product_lists (map (sp_coords arr) ds)))"
  by (auto simp: iterate_marginals_def iteration_directions_def)

lemma iterate_marginals_Inr:
  "iterate_marginals arr dirs = Inr ms \<Longrightarrow>
   \<exists>ds. iteration_directions arr dirs = Inr ds \<and> set ds \<subseteq> set (sp_dims arr) \<and>
        ms = map (\<lambda>ss. (sel arr (zip ds ss), zip ds ss)) (product_lists (map (sp_coords arr) ds))"
  by (auto simp: iterate_marginals_def sbind_eq_Inr split: if_splits)

lemma demo_cut_phi:
  "iterate_marginals demo_cut (Some [''phi'']) =
     Inr (map (\<lambda>ss. (sel demo_cut (zip [''phi''] ss), zip [''phi''] ss)) [[1], [2], [3]])"
  by (simp add: iterate_marginals_Some demo_cut_def)

section \<open>Properties of the marginal iterator\<close>

text \<open>
  Iterating over the free directions yields exactly as many marginals as the
  product of the free axes' lengths.
\<close>

theorem iterate_marginals_count:
  assumes "iterate_marginals arr dirs = Inr ms"
  shows "\<exists>ds. iteration_directions arr dirs = Inr ds \<and>
     length ms = prod_list (map (\<lambda>d. length (sp_coords arr d)) ds)"
  using iterate_marginals_Inr [OF assms] by (auto simp: length_product_lists comp_def)

theorem iterate_marginals_count_witness:
  "length (map (\<lambda>ss. (sel demo_cut (zip [''phi''] ss), zip [''phi''] ss)) [[1::real], [2], [3]]) = 3"
  using iterate_marginals_count [OF demo_cut_phi] by (simp add: iteration_directions_def demo_cut_def)

text \<open>
  With no free directions the iterator yields exactly one marginal: the whole
  array, at the empty coordinate.
\<close>

theorem iterate_marginals_no_free_axes:
  "iterate_marginals arr (Some []) = Inr [(arr, [])]"
  by (simp add: iterate_marginals_def iteration_directions_def)

text \<open>
  C10. The marginals are the whole grid of the free directions, each at its own
  selector: there is one per combination of ticks (the product of the axes'
  lengths); a pair (marginal, selector) is yielded exactly when the selector's keys are
  the free directions in order, each value a tick of its axis, and the marginal is the
  selection of the array there; every marginal keeps exactly the other dimensions.
\<close>

theorem iterate_marginals_selectors:
  assumes "iterate_marginals arr dirs = Inr ms"
  shows "\<exists>ds. iteration_directions arr dirs = Inr ds \<and> set ds \<subseteq> set (sp_dims arr)
     \<and> length ms = prod_list (map (\<lambda>d. length (sp_coords arr d)) ds)
     \<and> (\<forall>m cs. (m, cs) \<in> set ms \<longleftrightarrow>
          map fst cs = ds \<and> list_all (\<lambda>(d, v). v \<in> set (sp_coords arr d)) cs \<and> m = sel arr cs)
     \<and> (\<forall>(m, cs) \<in> set ms. sp_dims m = filter (\<lambda>d. d \<notin> set ds) (sp_dims arr))"
proof -
  from iterate_marginals_Inr [OF assms] obtain ds where
    ds: "iteration_directions arr dirs = Inr ds" and sub: "set ds \<subseteq> set (sp_dims arr)"
    and ms: "ms = map (\<lambda>ss. (sel arr (zip ds ss), zip ds ss)) (product_lists (map (sp_coords arr) ds))"
    by blast
  have mem: "(m, cs) \<in> set ms \<longleftrightarrow>
      map fst cs = ds \<and> list_all (\<lambda>(d, v). v \<in> set (sp_coords arr d)) cs \<and> m = sel arr cs" for m cs
  proof
    assume "(m, cs) \<in> set ms"
    with ms obtain ss where ss: "ss \<in> set (product_lists (map (sp_coords arr) ds))"
      and cs: "cs = zip ds ss" and m: "m = sel arr cs" by auto
    from ss have l2: "list_all2 (\<lambda>x ys. x \<in> set ys) ss (map (sp_coords arr) ds)"
      by (simp add: product_lists_set)
    then have len: "length ss = length ds" by (simp add: list_all2_lengthD)
    from l2 have "list_all (\<lambda>(d, v). v \<in> set (sp_coords arr d)) (zip ds ss)"
      by (auto simp: list_all2_conv_all_nth list_all_length)
    with len cs m show "map fst cs = ds \<and> list_all (\<lambda>(d, v). v \<in> set (sp_coords arr d)) cs \<and> m = sel arr cs"
      by simp
  next
    assume a: "map fst cs = ds \<and> list_all (\<lambda>(d, v). v \<in> set (sp_coords arr d)) cs \<and> m = sel arr cs"
    then have cs: "cs = zip ds (map snd cs)" by (auto simp: zip_map_fst_snd)
    have "list_all2 (\<lambda>x ys. x \<in> set ys) (map snd cs) (map (sp_coords arr) ds)"
      using a by (auto simp: list_all2_conv_all_nth list_all_length split: prod.splits)
    then have "map snd cs \<in> set (product_lists (map (sp_coords arr) ds))"
      by (simp add: product_lists_set)
    then have "(sel arr (zip ds (map snd cs)), zip ds (map snd cs)) \<in> set ms"
      unfolding ms set_map by (rule imageI)
    with cs a show "(m, cs) \<in> set ms" by simp
  qed
  have dims: "\<forall>(m, cs) \<in> set ms. sp_dims m = filter (\<lambda>d. d \<notin> set ds) (sp_dims arr)"
    using mem by (auto simp: sel_def)
  have "length ms = prod_list (map (\<lambda>d. length (sp_coords arr d)) ds)"
    by (simp add: ms length_product_lists comp_def)
  with ds sub mem dims show ?thesis by blast
qed

theorem iterate_marginals_selectors_witness:
  "(sel demo_cut [(''phi'', 2)], [(''phi'', 2)])
      \<in> set (map (\<lambda>ss. (sel demo_cut (zip [''phi''] ss), zip [''phi''] ss)) [[1], [2], [3::real]])
   \<and> (sel demo_cut [(''phi'', 5)], [(''phi'', 5)])
      \<notin> set (map (\<lambda>ss. (sel demo_cut (zip [''phi''] ss), zip [''phi''] ss)) [[1], [2], [3::real]])
   \<and> sp_dims (sel demo_cut [(''phi'', 2)]) = [''eV'']"
proof -
  from iterate_marginals_selectors [OF demo_cut_phi] have
    "\<forall>m cs. (m, cs) \<in> set (map (\<lambda>ss. (sel demo_cut (zip [''phi''] ss), zip [''phi''] ss)) [[1], [2], [3::real]])
        \<longleftrightarrow> map fst cs = [''phi''] \<and> list_all (\<lambda>(d, v). v \<in> set (sp_coords demo_cut d)) cs \<and> m = sel demo_cut cs"
    by (simp add: iteration_directions_def)
  then show ?thesis by (simp add: demo_cut_def sel_def)
qed

end
