(* ===== verification/BandFit.thy ===== *)
theory BandFit
  imports Marginals FitModel
begin

text \<open>
  The sequential band fit \<^verbatim>\<open>fit_bands\<close> of \<^verbatim>\<open>analysis/band_analysis.py\<close>
  (lines 426--543).  It chooses the broadcast direction (the axis peaks are fitted
  along), peels the requested bands one by one off the first marginal to get initial
  parameters, then fits the composite model of all bands at every marginal, seeding each
  fit with the parameters of an earlier fit taken from a cache.  lmfit's fitting is the
  record \<open>fitter\<close> of functions the model is parametrised by: \<open>guess_fit_fn\<close> is
  \<^verbatim>\<open>band.fit_cls(prefix=band.label).guess_fit(residual, params=...)\<close> and
  \<open>fit_fn\<close> is \<^verbatim>\<open>composite_model.fit(values, make_params(**initial), x=...)\<close>.
\<close>

section \<open>Bands and band descriptions\<close>

text \<open>A band object (\<^verbatim>\<open>arpes.models.band.Band\<close>): its label, used as prefix, and
  the name of its lmfit model class.  A parameter hint dictionary maps a parameter name
  to its keyword arguments (\<^verbatim>\<open>value\<close>, \<^verbatim>\<open>min\<close>, \<^verbatim>\<open>max\<close>, ...).\<close>

datatype band = Band (band_label: string) (band_fit_cls: string)

type_synonym hints = "(string, (string, real) dict) dict"

text \<open>An entry of \<^verbatim>\<open>band_description\<close>: a band object, or a dictionary with
  optional keys \<^verbatim>\<open>"band"\<close> and \<^verbatim>\<open>"params"\<close>.\<close>

datatype band_entry = BandObj band | BandDict "band option" "hints option"

definition entry_raw_band :: "band_entry \<Rightarrow> band option" where
  "entry_raw_band e = (case e of BandObj b \<Rightarrow> Some b | BandDict b _ \<Rightarrow> b)"

text \<open>\<^verbatim>\<open>params = band.get("params", {})\<close> for a dictionary, \<^verbatim>\<open>None\<close> for a
  band object.\<close>

definition entry_params :: "band_entry \<Rightarrow> hints option" where
  "entry_params e = (case e of BandObj _ \<Rightarrow> None | BandDict _ h \<Rightarrow> Some (case h of None \<Rightarrow> [] | Some h' \<Rightarrow> h'))"

text \<open>\<^verbatim>\<open>band_inst.fit_cls\<close>: AttributeError when the dictionary had no band.\<close>

definition band_of :: "band option \<Rightarrow> band py_result" where
  "band_of b = (case b of None \<Rightarrow> Inl AttributeError | Some b' \<Rightarrow> Inr b')"

record fitter =
  guess_fit_fn :: "band \<Rightarrow> hints option \<Rightarrow> real list \<Rightarrow> real list \<Rightarrow> model_result"
  fit_fn :: "band list \<Rightarrow> (string, real) dict \<Rightarrow> real list \<Rightarrow> real list \<Rightarrow> model_result"

section \<open>The broadcast direction\<close>

text \<open>
  \<^verbatim>\<open>broadcast_direction = "eV"\<close>, except for \<^verbatim>\<open>direction == "mdc"\<close> without a
  preferred direction, where it is \<^verbatim>\<open>next(iter(possible_directions))\<close> for the set
  of momentum-like dimensions present (StopIteration when there is none).  Which element
  a Python set yields first depends on string hashing, which is randomised per
  interpreter run; the model takes that choice as the function \<open>pick\<close>, applied to
  the candidates in dimension order.
\<close>

definition k_directions :: "string list" where
  "k_directions = [''kp'', ''kx'', ''ky'', ''phi'']"

definition choose_broadcast ::
  "(string list \<Rightarrow> string) \<Rightarrow> string \<Rightarrow> string \<Rightarrow> string list \<Rightarrow> string py_result" where
  "choose_broadcast pick direction pref dims =
     (if direction = ''mdc'' \<and> pref = [] then
        (let poss = filter (\<lambda>d. d \<in> set k_directions) (remdups dims)
         in if poss = [] then Inl StopIteration else Inr (pick poss))
      else Inr ''eV'')"

section \<open>Peeling the initial bands off the first marginal\<close>

text \<open>
  Lines 470--494: each band is fitted to the running residual, its parameters are
  merged into \<^verbatim>\<open>initial_fits\<close> (\<^verbatim>\<open>None\<close> before the first band, then
  \<^verbatim>\<open>dict.update\<close>), and its best fit is subtracted from the residual.
\<close>

fun peel_bands ::
  "fitter \<Rightarrow> real list \<Rightarrow> real list \<Rightarrow> parameters option \<Rightarrow> band_entry list
   \<Rightarrow> (real list \<times> parameters option) py_result" where
  "peel_bands f x res init [] = Inr (res, init)"
| "peel_bands f x res init (e # es) =
     sbind (band_of (entry_raw_band e)) (\<lambda>b.
       let r = guess_fit_fn f b (entry_params e) x res;
           init' = (case init of None \<Rightarrow> Some (mr_params r) | Some i \<Rightarrow> Some (dict_update i (mr_params r)))
       in sbind (py_sub res (mr_best_fit r)) (\<lambda>res'. peel_bands f x res' init' es))"

section \<open>The prior of each fit\<close>

text \<open>
  Lines 511--518, literally: \<^verbatim>\<open>closest_model_params\<close> starts as
  \<^verbatim>\<open>initial_fits\<close> and \<^verbatim>\<open>dist\<close> as \<^verbatim>\<open>float("inf")\<close> (\<open>None\<close>); every
  cached entry whose squared distance is below \<^verbatim>\<open>dist\<close> replaces the prior when the
  direction is \<^verbatim>\<open>"mdc"\<close>.  The loop never assigns \<^verbatim>\<open>dist\<close>.
\<close>

definition below :: "real \<Rightarrow> real option \<Rightarrow> bool" where
  "below x d = (case d of None \<Rightarrow> True | Some d' \<Rightarrow> x < d')"

fun prior_loop ::
  "string \<Rightarrow> coord \<Rightarrow> parameters option \<Rightarrow> real option \<Rightarrow> (coord, parameters) dict \<Rightarrow> parameters option" where
  "prior_loop direction fc closest dmax [] = closest"
| "prior_loop direction fc closest dmax ((c, v) # rest) =
     (let delta = map2 (-) c fc; current = dot delta delta
      in if below current dmax \<and> direction = ''mdc''
         then prior_loop direction fc (Some v) dmax rest
         else prior_loop direction fc closest dmax rest)"

text \<open>What the comment above the loop and the spec intend: the cached entry of least
  squared distance, the first on ties (a specification, not code).\<close>

definition nearest_prior :: "coord \<Rightarrow> (coord, parameters) dict \<Rightarrow> parameters option" where
  "nearest_prior fc cache =
     map_option snd (argmin_strict (\<lambda>(c, _). dot (map2 (-) c fc) (map2 (-) c fc)) cache)"

section \<open>The sweep over the marginals\<close>

text \<open>
  The loop of lines 507--537: the cache \<^verbatim>\<open>all_fit_parameters\<close> and the written
  cells of \<^verbatim>\<open>band_results\<close>, both keyed by the frozen coordinate
  \<^verbatim>\<open>tuple(coordinate[k] for k in template.dims)\<close>.
\<close>

record sweep_state =
  fit_cache :: "(coord, parameters) dict"
  fit_results :: "(coord, model_result) dict"

definition sweep_init :: sweep_state where
  "sweep_init = \<lparr>fit_cache = [], fit_results = []\<rparr>"

definition initial_values :: "parameters option \<Rightarrow> (string, real) dict py_result" where
  "initial_values p = (case p of None \<Rightarrow> Inl AttributeError | Some ps \<Rightarrow> Inr (map (\<lambda>(k, q). (k, par_value q)) ps))"

definition sweep_step ::
  "fitter \<Rightarrow> string \<Rightarrow> band option list \<Rightarrow> parameters option \<Rightarrow> string list
   \<Rightarrow> sweep_state \<Rightarrow> spectrum \<times> selector \<Rightarrow> sweep_state py_result" where
  "sweep_step f direction raw init tdims st mc =
     (case mc of (m, coordinate) \<Rightarrow>
       sbind (py_map (dict_get coordinate) tdims) (\<lambda>fc.
       let closest = prior_loop direction fc init None (fit_cache st) in
       sbind (py_map band_of raw) (\<lambda>bands.
       if bands = [] then Inl TypeError else
       sbind (initial_values closest) (\<lambda>iv.
       sbind (curve_of m) (\<lambda>(x, y).
       let r = fit_fn f bands iv x y in
       Inr (st\<lparr>fit_cache := dict_set (fit_cache st) fc (mr_params r),
               fit_results := dict_set (fit_results st) fc r\<rparr>))))))"

fun sweep ::
  "fitter \<Rightarrow> string \<Rightarrow> band option list \<Rightarrow> parameters option \<Rightarrow> string list
   \<Rightarrow> sweep_state \<Rightarrow> (spectrum \<times> selector) list \<Rightarrow> sweep_state py_result" where
  "sweep f direction raw init tdims st [] = Inr st"
| "sweep f direction raw init tdims st (mc # mcs) =
     sbind (sweep_step f direction raw init tdims st mc) (\<lambda>st'. sweep f direction raw init tdims st' mcs)"

section \<open>fit\_bands\<close>

datatype fit_bands_out = StepInitial "real list" | SweepResults "(coord, model_result) dict"

text \<open>
  Lines 458--494: the first marginal (\<^verbatim>\<open>next(_iterate_marginals(...))\<close>,
  StopIteration when there is none) shifted by its minimum, peeled band by band.
\<close>

definition initial_fit ::
  "fitter \<Rightarrow> band_entry list \<Rightarrow> (spectrum \<times> selector) list \<Rightarrow> (real list \<times> parameters option) py_result" where
  "initial_fit f descr ms =
     (case ms of [] \<Rightarrow> Inl StopIteration | (m0, _) # _ \<Rightarrow>
       sbind (curve_of m0) (\<lambda>(x, y0).
       sbind (py_min y0) (\<lambda>mn.
       peel_bands f x (map (\<lambda>v. v - mn) y0) None descr)))"

definition fit_bands ::
  "fitter \<Rightarrow> (string list \<Rightarrow> string) \<Rightarrow> spectrum \<Rightarrow> band_entry list \<Rightarrow> string \<Rightarrow> string \<Rightarrow> bool
   \<Rightarrow> fit_bands_out py_result" where
  "fit_bands f pick arr descr direction pref initial_step =
     (if direction \<notin> {''edc'', ''mdc'', ''EDC'', ''MDC''} then Inl AssertionError else
      sbind (choose_broadcast pick direction pref (sp_dims arr)) (\<lambda>bd.
      sbind (py_remove bd (sp_dims arr)) (\<lambda>dirs.
      sbind (iterate_marginals arr (Some dirs)) (\<lambda>ms.
      sbind (initial_fit f descr ms) (\<lambda>(res, init).
      if initial_step then Inr (StepInitial res) else
      sbind (sweep f direction (map entry_raw_band descr) init (filter (\<lambda>d. d \<noteq> bd) (sp_dims arr))
               sweep_init ms)
        (\<lambda>st. Inr (SweepResults (fit_results st))))))))"

section \<open>Auxiliary notions and concrete inputs\<close>

text \<open>The cache and the result grid of the sweep have the same keys in the same
  order, since every step writes both under the same frozen coordinate.\<close>

definition cache_agrees :: "sweep_state \<Rightarrow> bool" where
  "cache_agrees st \<longleftrightarrow> map fst (fit_cache st) = map fst (fit_results st)"

text \<open>The parameter names of \<^verbatim>\<open>initial_fits\<close> (none while it is \<^verbatim>\<open>None\<close>).\<close>

definition param_keys :: "parameters option \<Rightarrow> string set" where
  "param_keys p = (case p of None \<Rightarrow> {} | Some ps \<Rightarrow> fst ` set ps)"

text \<open>A fitter for the worked examples: the initial guess of a band is a constant 1
  with its centre at 2; the composite fit reproduces the data exactly, its parameters
  being the initial values it was given.  Two bands, one given as a band object and one
  as a dictionary.\<close>

definition demo_fitter :: fitter where
  "demo_fitter =
     \<lparr>guess_fit_fn = (\<lambda>b h x res.
        \<lparr>mr_prefixes = [band_label b], mr_params = [(band_label b @ ''center'', mk_param 2)],
         mr_best_fit = map (\<lambda>_. 1) res, mr_residual = map (\<lambda>v. v - 1) res\<rparr>),
      fit_fn = (\<lambda>bands iv x y.
        \<lparr>mr_prefixes = map band_label bands, mr_params = map (\<lambda>(k, v). (k, mk_param v)) iv,
         mr_best_fit = y, mr_residual = map (\<lambda>_. 0) y\<rparr>)\<rparr>"

definition demo_bands :: "band_entry list" where
  "demo_bands = [BandObj (Band ''a_'' ''LorentzianModel''), BandDict (Some (Band ''b_'' ''LorentzianModel'')) None]"


section \<open>Lemmas of the sweep\<close>

lemmas demo_run_defs = fit_bands_def choose_broadcast_def k_directions_def demo_cut_def
  iterate_marginals_def iteration_directions_def sel_def initial_fit_def curve_of_def py_min_def
  band_of_def entry_raw_band_def entry_params_def py_sub_def demo_fitter_def demo_bands_def
  sweep_step_def sweep_init_def below_def dot_def dict_get_def initial_values_def mk_param_def dict_update_def

lemma keys_dict_set_same:
  "map fst d = map fst e \<Longrightarrow> map fst (dict_set d k v) = map fst (dict_set e k w)"
  by (simp add: keys_dict_set)

lemma sweep_step_Inr:
  "sweep_step f direction raw init tdims st (m, cs) = Inr st' \<Longrightarrow>
   \<exists>fc r. py_map (dict_get cs) tdims = Inr fc \<and>
     st' = st\<lparr>fit_cache := dict_set (fit_cache st) fc (mr_params r),
              fit_results := dict_set (fit_results st) fc r\<rparr>"
  by (auto simp: sweep_step_def sbind_eq_Inr Let_def split: if_splits prod.splits)

lemma sweep_keys:
  "sweep f direction raw init tdims st ms = Inr st' \<Longrightarrow> cache_agrees st \<Longrightarrow>
   cache_agrees st' \<and>
   fst ` set (fit_results st') = fst ` set (fit_results st) \<union>
     {fc. \<exists>(m, cs)\<in>set ms. py_map (dict_get cs) tdims = Inr fc}"
proof (induction ms arbitrary: st)
  case Nil
  then show ?case by simp
next
  case (Cons mc ms)
  obtain m cs where mc: "mc = (m, cs)" by fastforce
  with Cons.prems(1) obtain st1 where s1: "sweep_step f direction raw init tdims st (m, cs) = Inr st1"
    and rest: "sweep f direction raw init tdims st1 ms = Inr st'"
    by (auto simp: sbind_eq_Inr)
  from sweep_step_Inr [OF s1] obtain fc r where fc: "py_map (dict_get cs) tdims = Inr fc"
    and st1: "st1 = st\<lparr>fit_cache := dict_set (fit_cache st) fc (mr_params r),
              fit_results := dict_set (fit_results st) fc r\<rparr>" by blast
  from Cons.prems(2) st1 have "cache_agrees st1"
    by (simp add: cache_agrees_def keys_dict_set_same)
  from Cons.IH [OF rest this] st1 fc mc show ?case by auto
qed

lemma py_map_dict_get_zip:
  "distinct ks \<Longrightarrow> length vs = length ks \<Longrightarrow> py_map (dict_get (zip ks vs)) ks = Inr vs"
proof -
  assume d: "distinct ks" and l: "length vs = length ks"
  have "py_map (dict_get (zip ks vs)) ks = Inr (map (\<lambda>k. the (map_of (zip ks vs) k)) ks)"
  proof (rule py_map_Inr, rule ballI)
    fix k assume "k \<in> set ks"
    then have "map_of (zip ks vs) k \<noteq> None" using l by (simp add: map_of_zip_is_None)
    then show "dict_get (zip ks vs) k = Inr (the (map_of (zip ks vs) k))"
      by (auto simp: dict_get_def)
  qed
  moreover have "map (\<lambda>k. the (map_of (zip ks vs) k)) ks = vs"
  proof (rule nth_equalityI)
    show "length (map (\<lambda>k. the (map_of (zip ks vs) k)) ks) = length vs" using l by simp
  next
    fix i assume "i < length (map (\<lambda>k. the (map_of (zip ks vs) k)) ks)"
    then show "map (\<lambda>k. the (map_of (zip ks vs) k)) ks ! i = vs ! i"
      using map_of_zip_nth [of ks vs i] d l by simp
  qed
  ultimately show ?thesis by simp
qed

lemma fit_bands_sweep:
  assumes "fit_bands f pick arr descr direction pref False = Inr (SweepResults res)"
  shows "\<exists>bd ms init st. choose_broadcast pick direction pref (sp_dims arr) = Inr bd
     \<and> bd \<in> set (sp_dims arr)
     \<and> iterate_marginals arr (Some (remove1 bd (sp_dims arr))) = Inr ms
     \<and> sweep f direction (map entry_raw_band descr) init (filter (\<lambda>d. d \<noteq> bd) (sp_dims arr)) sweep_init ms = Inr st
     \<and> res = fit_results st"
  using assms by (auto simp: fit_bands_def sbind_eq_Inr py_remove_Inr split: if_splits prod.splits)

lemma cb_eV: "direction \<noteq> ''mdc'' \<or> pref \<noteq> [] \<Longrightarrow> choose_broadcast pick direction pref dims = Inr ''eV''"
  by (auto simp: choose_broadcast_def)

lemma py_sub_Inr:
  "py_sub xs ys = Inr zs \<Longrightarrow> length zs = length xs \<and> (\<forall>i<length xs. zs ! i = xs ! i - ys ! i)"
  by (auto simp: py_sub_def split: if_splits)

lemma peel_bands_Cons_Inr:
  assumes "peel_bands f x res init (e # es) = Inr out"
  obtains b res1 where "band_of (entry_raw_band e) = Inr b"
    and "py_sub res (mr_best_fit (guess_fit_fn f b (entry_params e) x res)) = Inr res1"
    and "peel_bands f x res1 (case init of None \<Rightarrow> Some (mr_params (guess_fit_fn f b (entry_params e) x res))
         | Some i \<Rightarrow> Some (dict_update i (mr_params (guess_fit_fn f b (entry_params e) x res)))) es = Inr out"
  using assms by (auto simp: sbind_eq_Inr Let_def)

lemma demo_peel:
  "peel_bands demo_fitter [1, 2, 3] [0, 1, 2] None demo_bands =
     Inr ([-2, -1, 0], Some [(''a_center'', mk_param 2), (''b_center'', mk_param 2)])"
  by (simp add: demo_run_defs)

lemma demo_initial:
  "fit_bands demo_fitter hd demo_cut demo_bands ''mdc'' [] True = Inr (StepInitial [-2, -1, 0])"
  by (simp add: demo_run_defs)

lemma demo_sweep:
  "fit_bands demo_fitter hd demo_cut demo_bands ''mdc'' [] False = Inr (SweepResults
     [([0], \<lparr>mr_prefixes = [''a_'', ''b_''], mr_params = [(''a_center'', mk_param 2), (''b_center'', mk_param 2)],
             mr_best_fit = [1, 2, 3], mr_residual = [0, 0, 0]\<rparr>),
      ([1], \<lparr>mr_prefixes = [''a_'', ''b_''], mr_params = [(''a_center'', mk_param 2), (''b_center'', mk_param 2)],
             mr_best_fit = [11, 12, 13], mr_residual = [0, 0, 0]\<rparr>)])"
  by (simp add: demo_run_defs)

section \<open>Properties of fit\_bands\<close>

text \<open>
  C11. The prior of each fit in the sweep is, in \<^verbatim>\<open>"mdc"\<close> mode, the parameters of
  the most recently cached fit, and otherwise \<^verbatim>\<open>initial_fits\<close>: since \<^verbatim>\<open>dist\<close>
  stays infinite every cached entry passes the test \<^verbatim>\<open>current_distance < dist\<close>, and
  the last one wins.  The nearest cached fit the comment intends is a different one in
  general (\<open>prior_loop_not_nearest\<close>).
\<close>

lemma prior_loop_last:
  "prior_loop direction fc closest None cache =
     (if direction = ''mdc'' \<and> cache \<noteq> [] then Some (snd (last cache)) else closest)"
  by (induction cache arbitrary: closest) (auto simp: below_def Let_def)

lemma prior_loop_not_nearest:
  "prior_loop ''mdc'' [1] (Some []) None [([0], [(''a_center'', mk_param 0)]), ([5], [(''a_center'', mk_param 5)])]
     = Some [(''a_center'', mk_param 5)]
   \<and> nearest_prior [1] [([0], [(''a_center'', mk_param 0)]), ([5], [(''a_center'', mk_param 5)])]
     = Some [(''a_center'', mk_param 0)]"
  by (simp add: nearest_prior_def argmin_strict_def dot_def below_def)

text \<open>
  C12. A sweep that completes writes exactly one result per point of the grid of the
  non-broadcast axes: the keys of the result grid are the elements of the product of
  those axes' coordinates.
\<close>

theorem fit_bands_covers_grid:
  assumes dims: "distinct (sp_dims arr)"
    and run: "fit_bands f pick arr descr direction pref False = Inr (SweepResults res)"
  shows "\<exists>bd. bd \<in> set (sp_dims arr) \<and>
     fst ` set res = set (product_lists (map (sp_coords arr) (remove1 bd (sp_dims arr))))"
proof -
  from fit_bands_sweep [OF run] obtain bd ms init st where
    bd: "bd \<in> set (sp_dims arr)"
    and ms: "iterate_marginals arr (Some (remove1 bd (sp_dims arr))) = Inr ms"
    and sw: "sweep f direction (map entry_raw_band descr) init (filter (\<lambda>d. d \<noteq> bd) (sp_dims arr)) sweep_init ms = Inr st"
    and res: "res = fit_results st" by blast
  let ?ds = "remove1 bd (sp_dims arr)"
  have tdims: "filter (\<lambda>d. d \<noteq> bd) (sp_dims arr) = ?ds"
    using dims by (simp add: distinct_remove1_removeAll filter_neq_removeAll)
  have dds: "distinct ?ds" using dims by simp
  have "set ?ds \<subseteq> set (sp_dims arr)" by (rule set_remove1_subset)
  from iterate_marginals_Some [OF this] ms
  have msd: "ms = map (\<lambda>ss. (sel arr (zip ?ds ss), zip ?ds ss)) (product_lists (map (sp_coords arr) ?ds))"
    by simp
  have "cache_agrees sweep_init" by (simp add: cache_agrees_def sweep_init_def)
  from sweep_keys [OF sw this] tdims
  have keys: "fst ` set res = {fc. \<exists>(m, cs)\<in>set ms. py_map (dict_get cs) ?ds = Inr fc}"
    by (simp add: res sweep_init_def)
  have "{fc. \<exists>(m, cs)\<in>set ms. py_map (dict_get cs) ?ds = Inr fc}
        = set (product_lists (map (sp_coords arr) ?ds))" (is "?L = ?R")
  proof
    show "?L \<subseteq> ?R"
    proof
      fix fc assume "fc \<in> ?L"
      then obtain m cs where mcs: "(m, cs) \<in> set ms" and g: "py_map (dict_get cs) ?ds = Inr fc"
        by blast
      from mcs msd obtain ss where ss: "ss \<in> ?R" and cs: "cs = zip ?ds ss"
        by (auto simp only: set_map image_iff)
      from ss have "length ss = length ?ds" by (rule in_set_product_lists_length [THEN trans]) simp
      then have "py_map (dict_get (zip ?ds ss)) ?ds = Inr ss" by (rule py_map_dict_get_zip [OF dds])
      with g cs have "fc = ss" by simp
      with ss show "fc \<in> ?R" by simp
    qed
  next
    show "?R \<subseteq> ?L"
    proof
      fix fc assume fc: "fc \<in> ?R"
      then have "length fc = length ?ds" by (rule in_set_product_lists_length [THEN trans]) simp
      then have g: "py_map (dict_get (zip ?ds fc)) ?ds = Inr fc" by (rule py_map_dict_get_zip [OF dds])
      from fc msd have "(sel arr (zip ?ds fc), zip ?ds fc) \<in> set ms" by simp
      with g show "fc \<in> ?L" by blast
    qed
  qed
  with keys have "fst ` set res = set (product_lists (map (sp_coords arr) ?ds))" by simp
  with bd show ?thesis by (intro exI [of _ bd] conjI)
qed

theorem fit_bands_covers_grid_witness:
  "\<exists>bd. bd \<in> set (sp_dims demo_cut) \<and> set [[0::real], [1]] = set (product_lists (map (sp_coords demo_cut) (remove1 bd (sp_dims demo_cut))))"
proof -
  have "distinct (sp_dims demo_cut)" by (simp add: demo_cut_def)
  from fit_bands_covers_grid [OF this demo_sweep] show ?thesis by simp
qed

text \<open>
  A direction other than the four accepted spellings fails the assertion of
  line 444 before anything else happens.
\<close>

theorem fit_bands_assertion:
  "direction \<notin> {''edc'', ''mdc'', ''EDC'', ''MDC''} \<Longrightarrow>
      fit_bands f pick arr descr direction pref st = Inl AssertionError"
  by (simp add: fit_bands_def)

theorem fit_bands_assertion_witness:
  "fit_bands demo_fitter hd demo_cut demo_bands ''kdc'' [] False = Inl AssertionError"
  by (rule fit_bands_assertion) simp

text \<open>
  In every direction but lower-case \<^verbatim>\<open>"mdc"\<close> without a preferred
  direction, the broadcast axis is \<^verbatim>\<open>"eV"\<close>, and an array without an energy axis
  raises ValueError at \<^verbatim>\<open>directions.remove(broadcast_direction)\<close>.
\<close>

theorem fit_bands_no_energy_axis:
  assumes "direction \<in> {''edc'', ''EDC'', ''MDC''}" "''eV'' \<notin> set (sp_dims arr)"
  shows "fit_bands f pick arr descr direction pref st = Inl ValueError"
proof -
  have "choose_broadcast pick direction pref (sp_dims arr) = Inr ''eV''"
    using assms(1) by (intro cb_eV) auto
  moreover have "direction \<in> {''edc'', ''mdc'', ''EDC'', ''MDC''}" using assms(1) by auto
  ultimately show ?thesis using assms(2) unfolding fit_bands_def by simp
qed

theorem fit_bands_no_energy_axis_witness:
  "fit_bands demo_fitter hd (sel demo_cut [(''eV'', 0)]) demo_bands ''MDC'' [] False = Inl ValueError"
  by (rule fit_bands_no_energy_axis) (simp_all add: sel_def demo_cut_def)

text \<open>
  In \<^verbatim>\<open>"mdc"\<close> mode without a preferred direction, an array with no
  momentum-like axis (\<^verbatim>\<open>kp\<close>, \<^verbatim>\<open>kx\<close>, \<^verbatim>\<open>ky\<close>, \<^verbatim>\<open>phi\<close>) raises
  StopIteration from \<^verbatim>\<open>next(iter(possible_directions))\<close>.
\<close>

theorem fit_bands_no_momentum_axis:
  assumes "pref = []" "\<forall>d\<in>set (sp_dims arr). d \<notin> set k_directions"
  shows "fit_bands f pick arr descr ''mdc'' pref st = Inl StopIteration"
proof -
  have "filter (\<lambda>d. d \<in> set k_directions) (remdups (sp_dims arr)) = []"
    using assms(2) by (simp add: filter_empty_conv)
  then have "choose_broadcast pick ''mdc'' pref (sp_dims arr) = Inl StopIteration"
    using assms(1) by (simp add: choose_broadcast_def)
  then show ?thesis unfolding fit_bands_def by simp
qed

theorem fit_bands_no_momentum_axis_witness:
  "fit_bands demo_fitter hd (sel demo_cut [(''phi'', 1)]) demo_bands ''mdc'' [] False = Inl StopIteration"
  by (rule fit_bands_no_momentum_axis) (simp_all add: sel_def demo_cut_def k_directions_def)

text \<open>
  C13. Peeling the bands one by one off the first marginal: band \<open>k\<close>'s initial fit is
  the fitter's \<^verbatim>\<open>guess_fit\<close> of that band on the data less the best fits of the bands
  before it; the final residual is the data less all of them, pointwise; and
  \<^verbatim>\<open>initial_fits\<close> is the first fit's parameters updated in turn by the others'.
\<close>

theorem peel_bands_residual:
  "peel_bands f x res init es = Inr (res', init') \<Longrightarrow>
   \<exists>rs :: model_result list. length rs = length es \<and> length res' = length res
     \<and> (\<forall>k<length es. \<exists>b. band_of (entry_raw_band (es ! k)) = Inr b
           \<and> rs ! k = guess_fit_fn f b (entry_params (es ! k)) x
                 (map (\<lambda>i. res ! i - sum_list (map (\<lambda>r. mr_best_fit r ! i) (take k rs))) [0..<length res]))
     \<and> (\<forall>i<length res. res ! i = res' ! i + sum_list (map (\<lambda>r. mr_best_fit r ! i) rs))
     \<and> init' = foldl (\<lambda>acc p. Some (case acc of None \<Rightarrow> p | Some q \<Rightarrow> dict_update q p)) init (map mr_params rs)"
proof (induction es arbitrary: res init)
  case Nil
  then show ?case by simp
next
  case (Cons e es)
  from Cons.prems obtain b res1 where b: "band_of (entry_raw_band e) = Inr b"
    and sub: "py_sub res (mr_best_fit (guess_fit_fn f b (entry_params e) x res)) = Inr res1"
    and rest: "peel_bands f x res1 (case init of None \<Rightarrow> Some (mr_params (guess_fit_fn f b (entry_params e) x res))
         | Some i \<Rightarrow> Some (dict_update i (mr_params (guess_fit_fn f b (entry_params e) x res)))) es = Inr (res', init')"
    by (rule peel_bands_Cons_Inr)
  let ?r = "guess_fit_fn f b (entry_params e) x res"
  let ?init1 = "case init of None \<Rightarrow> Some (mr_params ?r) | Some i \<Rightarrow> Some (dict_update i (mr_params ?r))"
  from Cons.IH [OF rest] obtain rs :: "model_result list" where rs1: "length rs = length es"
    and rs2: "length res' = length res1"
    and rs3: "\<forall>k<length es. \<exists>b. band_of (entry_raw_band (es ! k)) = Inr b
           \<and> rs ! k = guess_fit_fn f b (entry_params (es ! k)) x
                 (map (\<lambda>i. res1 ! i - sum_list (map (\<lambda>r. mr_best_fit r ! i) (take k rs))) [0..<length res1])"
    and rs4: "\<forall>i<length res1. res1 ! i = res' ! i + sum_list (map (\<lambda>r. mr_best_fit r ! i) rs)"
    and rs5: "init' = foldl (\<lambda>acc p. Some (case acc of None \<Rightarrow> p | Some q \<Rightarrow> dict_update q p)) ?init1 (map mr_params rs)"
    by blast
  from py_sub_Inr [OF sub] have s1: "length res1 = length res"
    and s2: "\<forall>i<length res. res1 ! i = res ! i - mr_best_fit ?r ! i"
    by auto
  have res0: "map (\<lambda>i. res ! i - sum_list (map (\<lambda>r. mr_best_fit r ! i) (take 0 (?r # rs)))) [0..<length res] = res"
    by (simp add: map_nth)
  have shift: "map (\<lambda>i. res1 ! i - sum_list (map (\<lambda>r. mr_best_fit r ! i) (take k rs))) [0..<length res1]
      = map (\<lambda>i. res ! i - sum_list (map (\<lambda>r. mr_best_fit r ! i) (take (Suc k) (?r # rs)))) [0..<length res]" for k
    using s1 s2 by (intro map_cong) (simp_all add: algebra_simps)
  show ?case
  proof (intro exI [of _ "?r # rs"] conjI allI impI)
    show "length (?r # rs) = length (e # es)" using rs1 by simp
    show "length res' = length res" using rs2 s1 by simp
  next
    fix k assume k: "k < length (e # es)"
    show "\<exists>b. band_of (entry_raw_band ((e # es) ! k)) = Inr b
           \<and> (?r # rs) ! k = guess_fit_fn f b (entry_params ((e # es) ! k)) x
                 (map (\<lambda>i. res ! i - sum_list (map (\<lambda>r. mr_best_fit r ! i) (take k (?r # rs)))) [0..<length res])"
    proof (cases k)
      case 0
      then show ?thesis using b res0 by simp
    next
      case (Suc k')
      with k have "k' < length es" by simp
      with rs3 obtain b' where "band_of (entry_raw_band (es ! k')) = Inr b'"
        and "rs ! k' = guess_fit_fn f b' (entry_params (es ! k')) x
                 (map (\<lambda>i. res1 ! i - sum_list (map (\<lambda>r. mr_best_fit r ! i) (take k' rs))) [0..<length res1])"
        by blast
      with Suc shift [of k'] show ?thesis by (simp only: nth_Cons_Suc) blast
    qed
  next
    fix i assume "i < length res"
    then show "res ! i = res' ! i + sum_list (map (\<lambda>r. mr_best_fit r ! i) (?r # rs))"
      using rs4 s1 s2 by (simp add: algebra_simps)
  next
    show "init' = foldl (\<lambda>acc p. Some (case acc of None \<Rightarrow> p | Some q \<Rightarrow> dict_update q p)) init (map mr_params (?r # rs))"
      using rs5 by (cases init) simp_all
  qed
qed

theorem peel_bands_residual_witness:
  "\<exists>rs :: model_result list. length rs = length demo_bands \<and>
     (\<forall>i<length [0, 1, 2::real]. [0, 1, 2::real] ! i = [-2, -1, 0] ! i + sum_list (map (\<lambda>r. mr_best_fit r ! i) rs)) \<and>
     Some [(''a_center'', mk_param 2), (''b_center'', mk_param 2)] =
       foldl (\<lambda>acc p. Some (case acc of None \<Rightarrow> p | Some q \<Rightarrow> dict_update q p)) None (map mr_params rs)"
  using peel_bands_residual [OF demo_peel] by blast

end
