(* ===== verification/Patterned.thy ===== *)
theory Patterned
  imports Marginals FitModel
begin

text \<open>
  The patterned fit \<^verbatim>\<open>fit_patterned_bands\<close> of \<^verbatim>\<open>analysis/band_analysis.py\<close>
  (lines 251--423 and 546--629) and its helpers \<^verbatim>\<open>_interpolate_intersecting_fragments\<close>,
  \<^verbatim>\<open>_is_between\<close>, \<^verbatim>\<open>_instantiate_band\<close> and \<^verbatim>\<open>_build_params\<close>.
  Each requested band gives control points; at every marginal the expected peak centre
  is interpolated on the segments of consecutive control points that bracket the
  marginal's patterning coordinate, and a parameter-hint dictionary is built around it.

  Two features of Python are explicit here.  A float that may be NaN is a
  \<open>pyfloat\<close>: a degenerate segment (both points at the same coordinate) divides
  \<open>0.0 / 0.0\<close> in numpy and yields NaN.  And \<^verbatim>\<open>_build_params\<close> mutates the
  dictionary it is given and returns it, so the hint dictionaries are objects in a
  store (\<open>heap\<close>, a list indexed by address) and a partial band holds the address of
  its dictionary, not a copy.
\<close>

section \<open>Floats that may be NaN\<close>

datatype pyfloat = Fl real | NaN

fun fl_sub :: "pyfloat \<Rightarrow> real \<Rightarrow> pyfloat" where
  "fl_sub (Fl x) y = Fl (x - y)"
| "fl_sub NaN y = NaN"

fun fl_add :: "pyfloat \<Rightarrow> real \<Rightarrow> pyfloat" where
  "fl_add (Fl x) y = Fl (x + y)"
| "fl_add NaN y = NaN"

text \<open>A comparison with NaN is false.\<close>

fun fl_le :: "pyfloat \<Rightarrow> real \<Rightarrow> bool" where
  "fl_le (Fl x) y = (x \<le> y)"
| "fl_le NaN y = False"

fun fl_ge :: "pyfloat \<Rightarrow> real \<Rightarrow> bool" where
  "fl_ge (Fl x) y = (y \<le> x)"
| "fl_ge NaN y = False"

section \<open>Interpolating the control points\<close>

text \<open>\<^verbatim>\<open>_is_between(x, y0, y1)\<close>: \<open>x\<close> lies in the closed interval spanned by
  \<open>y0\<close> and \<open>y1\<close>, in either order.\<close>

definition is_between :: "real \<Rightarrow> real \<Rightarrow> real \<Rightarrow> bool" where
  "is_between x y0 y1 = (min y0 y1 \<le> x \<and> x \<le> max y0 y1)"

text \<open>
  One segment of \<^verbatim>\<open>pairwise(points)\<close> (lines 558--579): the coordinate of the
  patterning axis is at index \<^verbatim>\<open>coord_index\<close> of each point, the interpolated one
  at \<^verbatim>\<open>1 - coord_index\<close> (a negative index counts from the end, as in Python).
  The branch on the orientation of the segment is kept as written; for a degenerate
  segment the second branch divides zero by zero.
\<close>

definition interp_value :: "real \<Rightarrow> real \<Rightarrow> real \<Rightarrow> real \<Rightarrow> real \<Rightarrow> pyfloat" where
  "interp_value coord lo hi olo ohi =
     (if lo < hi then Fl ((coord - lo) / (hi - lo) * (ohi - olo) + olo)
      else if lo = hi then NaN
      else Fl ((coord - hi) / (lo - hi) * (olo - ohi) + ohi))"

definition fragment ::
  "real \<Rightarrow> nat \<Rightarrow> real list \<Rightarrow> real list \<Rightarrow> (real \<times> pyfloat) list py_result" where
  "fragment coord ci pl ph =
     sbind (py_index pl (int ci)) (\<lambda>lo.
     sbind (py_index ph (int ci)) (\<lambda>hi.
       if is_between coord lo hi then
         sbind (py_index ph (1 - int ci)) (\<lambda>ohi.
         sbind (py_index pl (1 - int ci)) (\<lambda>olo.
           Inr [(coord, interp_value coord lo hi olo ohi)]))
       else Inr []))"

text \<open>The generator, run to the end by \<^verbatim>\<open>list(...)\<close>: the assertion on the first
  point (IndexError when there is none), then the fragments of every segment.\<close>

definition interpolate_fragments ::
  "real \<Rightarrow> nat \<Rightarrow> real list list \<Rightarrow> (real \<times> pyfloat) list py_result" where
  "interpolate_fragments coord ci points =
     (case points of
        [] \<Rightarrow> Inl IndexError
      | p0 # _ \<Rightarrow>
          if length p0 \<noteq> 2 then Inl AssertionError
          else sbind (py_map (\<lambda>(pl, ph). fragment coord ci pl ph) (zip points (tl points)))
                 (\<lambda>fs. Inr (concat fs)))"

section \<open>Parameter hints and the store of hint dictionaries\<close>

text \<open>
  A parameter-hint dictionary maps a parameter name to the keyword arguments of
  \<^verbatim>\<open>set_param_hint\<close> (\<open>PDict\<close>), except the entry \<^verbatim>\<open>"stray"\<close>, a number
  (\<open>PNum\<close>).  The dictionaries live in the store; an address is an index.
\<close>

type_synonym hint = "(string, pyfloat) dict"

datatype pval = PDict hint | PNum real

type_synonym pparams = "(string, pval) dict"

type_synonym heap = "pparams list"

text \<open>\<^verbatim>\<open>params[k][f] = v\<close>: KeyError when \<open>k\<close> is absent, TypeError when its
  value is a number.\<close>

definition set_sub :: "pparams \<Rightarrow> string \<Rightarrow> string \<Rightarrow> pyfloat \<Rightarrow> pparams py_result" where
  "set_sub p k f v =
     (case map_of p k of
        None \<Rightarrow> Inl KeyError
      | Some (PNum _) \<Rightarrow> Inl TypeError
      | Some (PDict d) \<Rightarrow> Inr (dict_set p k (PDict (dict_set d f v))))"

text \<open>\<^verbatim>\<open>params[k] = params.get(k, {})\<close>.\<close>

definition ensure_sub :: "pparams \<Rightarrow> string \<Rightarrow> pparams" where
  "ensure_sub p k = dict_set p k (case map_of p k of None \<Rightarrow> PDict [] | Some v \<Rightarrow> v)"

text \<open>
  \<^verbatim>\<open>np.percentile(values, q)\<close> with numpy's default linear method: the sorted
  values are interpolated at position \<open>(n - 1) q / 100\<close>.  An empty array raises
  IndexError (numpy reads its last element).
\<close>

definition percentile :: "real list \<Rightarrow> real \<Rightarrow> real py_result" where
  "percentile vs q =
     (if vs = [] then Inl IndexError else
      let s = sort vs; h = real (length s - 1) * q / 100; i = nat \<lfloor>h\<rfloor>;
          j = min (i + 1) (length s - 1)
      in Inr (s ! i + (h - real i) * (s ! j - s ! i)))"

text \<open>
  \<^verbatim>\<open>marginal.sel({dim: slice(lo, hi)}).values\<close> with
  \<open>lo = center - 1.2 stray\<close> and \<open>hi = center + 1.2 stray\<close>: on an ascending
  coordinate the values whose coordinate lies in \<open>[lo, hi]\<close>; on a descending one
  pandas selects from label \<open>lo\<close> down to label \<open>hi\<close>, the coordinates in
  \<open>[hi, lo]\<close>; a coordinate that is neither raises KeyError.  A NaN bound selects
  nothing.
\<close>

definition near_center :: "spectrum \<Rightarrow> pyfloat \<Rightarrow> real \<Rightarrow> real list py_result" where
  "near_center m center s =
     sbind (curve_of m) (\<lambda>(xs, ys).
       let lo = fl_sub center (6 / 5 * s); hi = fl_add center (6 / 5 * s) in
       if sorted xs then Inr (map snd (filter (\<lambda>(x, y). fl_le lo x \<and> fl_ge hi x) (zip xs ys)))
       else if sorted (rev xs) then Inr (map snd (filter (\<lambda>(x, y). fl_le hi x \<and> fl_ge lo x) (zip xs ys)))
       else Inl KeyError)"

text \<open>
  \<^verbatim>\<open>_build_params(params, center, center_stray, marginal)\<close> (lines 596--629) on the
  dictionary at address \<open>a\<close>: the centre hint is replaced by a fresh
  \<^verbatim>\<open>{"value": center}\<close>; with a stray it gets the bounds
  \<open>center \<plusminus> stray\<close>, the sigma hint is created if absent and its value set to the
  stray, and with a marginal the amplitude value is the spread between the 20th and
  80th percentiles near the centre.  The dictionary is updated in place.
\<close>

definition build_params ::
  "heap \<Rightarrow> nat \<Rightarrow> pyfloat \<Rightarrow> real option \<Rightarrow> spectrum option \<Rightarrow> heap py_result" where
  "build_params h a center stray marginal =
     (let p1 = dict_set (h ! a) ''center'' (PDict [(''value'', center)]) in
      case stray of
        None \<Rightarrow> Inr (h[a := p1])
      | Some s \<Rightarrow>
          sbind (set_sub p1 ''center'' ''min'' (fl_sub center s)) (\<lambda>p2.
          sbind (set_sub p2 ''center'' ''max'' (fl_add center s)) (\<lambda>p3.
          sbind (set_sub (ensure_sub p3 ''sigma'') ''sigma'' ''value'' (Fl s)) (\<lambda>p4.
          case marginal of
            None \<Rightarrow> Inr (h[a := p4])
          | Some m \<Rightarrow>
              sbind (near_center m center s) (\<lambda>vs.
              sbind (percentile vs 20) (\<lambda>low.
              sbind (percentile vs 80) (\<lambda>high.
              sbind (set_sub (ensure_sub p4 ''amplitude'') ''amplitude'' ''value'' (Fl (high - low)))
                (\<lambda>p5. Inr (h[a := p5])))))))))"

section \<open>Partial bands\<close>

text \<open>
  The band of a description is a class called with the partial band's name
  (\<open>BandClass\<close>, with the name of its lmfit model), or a value that is not callable
  (\<^verbatim>\<open>None\<close> when the description has no \<^verbatim>\<open>"band"\<close>, \<^verbatim>\<open>False\<close> for a disabled
  background).
\<close>

datatype band_ctor = BandClass string | NotCallable

text \<open>An entry of \<^verbatim>\<open>band_set\<close>: the keyword arguments of
  \<^verbatim>\<open>resolve_partial_bands_from_description\<close>.  The hint dictionary is an address in
  the store, \<open>None\<close> when omitted; omitted points are the empty list
  (\<^verbatim>\<open>points or []\<close>).\<close>

record band_spec =
  bs_name :: string
  bs_band :: band_ctor
  bs_dims :: "string list"
  bs_params :: "nat option"
  bs_points :: "real list list"

record partial_band =
  pb_band :: band_ctor
  pb_name :: string
  pb_params :: nat

text \<open>\<^verbatim>\<open>f"{name}_{i}"\<close>: the decimal digits of a natural number.\<close>

fun nat_str :: "nat \<Rightarrow> string" where
  "nat_str n = (if n < 10 then [''0123456789'' ! n] else nat_str (n div 10) @ [''0123456789'' ! (n mod 10)])"

text \<open>\<^verbatim>\<open>params.get("stray", stray)\<close>; a dictionary there fails at
  \<^verbatim>\<open>center - center_stray\<close>.\<close>

definition stray_of :: "pparams \<Rightarrow> real option \<Rightarrow> real option py_result" where
  "stray_of p stray =
     (case map_of p ''stray'' of
        None \<Rightarrow> Inr stray
      | Some (PNum s) \<Rightarrow> Inr (Some s)
      | Some (PDict _) \<Rightarrow> Inl TypeError)"

text \<open>The list comprehension of lines 325--337: one partial band per located
  fragment, every one holding the same dictionary \<open>a\<close>, rebuilt for each.\<close>

fun build_entries ::
  "heap \<Rightarrow> nat \<Rightarrow> band_spec \<Rightarrow> real option \<Rightarrow> spectrum \<Rightarrow> nat \<Rightarrow> (real \<times> pyfloat) list
   \<Rightarrow> (partial_band list \<times> heap) py_result" where
  "build_entries h a spec stray m i [] = Inr ([], h)"
| "build_entries h a spec stray m i ((_, center) # locs) =
     sbind (stray_of (h ! a) stray) (\<lambda>cs.
     sbind (build_params h a center cs (Some m)) (\<lambda>h1.
     sbind (build_entries h1 a spec stray m (Suc i) locs) (\<lambda>(es, h2).
       Inr (\<lparr>pb_band = bs_band spec, pb_name = bs_name spec @ ''_'' @ nat_str i, pb_params = a\<rparr> # es, h2))))"

text \<open>\<^verbatim>\<open>arr.dims.index(coord_name)\<close>: ValueError when absent.\<close>

definition py_list_index :: "'a list \<Rightarrow> 'a \<Rightarrow> nat py_result" where
  "py_list_index xs x = (if x \<in> set xs then Inr (list_index xs x) else Inl ValueError)"

text \<open>
  \<^verbatim>\<open>resolve_partial_bands_from_description\<close> (lines 299--337): a fresh empty
  dictionary when no hints were given, the first of the band's dimensions that is a free
  coordinate (StopIteration when none is), the fragments located along it, and the
  partial bands.
\<close>

definition resolve_partial ::
  "heap \<Rightarrow> string list \<Rightarrow> real option \<Rightarrow> selector \<Rightarrow> spectrum \<Rightarrow> band_spec
   \<Rightarrow> (partial_band list \<times> heap) py_result" where
  "resolve_partial h dims stray cd m spec =
     (let (h0, a) = (case bs_params spec of None \<Rightarrow> (h @ [[]], length h) | Some a \<Rightarrow> (h, a)) in
      sbind (py_next (\<lambda>d. d \<in> fst ` set cd) (bs_dims spec)) (\<lambda>cn.
      sbind (dict_get cd cn) (\<lambda>coord.
      sbind (py_list_index dims cn) (\<lambda>ci.
      sbind (interpolate_fragments coord ci (bs_points spec)) (\<lambda>locs.
        build_entries h0 a spec stray m 0 locs)))))"

section \<open>Instantiating a partial band\<close>

text \<open>
  An lmfit model as far as the patterned fit shapes it: its prefix, its class and its
  parameter hints.  \<^verbatim>\<open>set_param_hint(name, **kw)\<close> merges the keyword values
  into the hint of that name.
\<close>

record lmodel =
  lm_prefix :: string
  lm_cls :: string
  lm_hints :: "(string, hint) dict"

definition set_param_hint :: "lmodel \<Rightarrow> string \<Rightarrow> hint \<Rightarrow> lmodel" where
  "set_param_hint m name kw =
     m\<lparr>lm_hints := dict_set (lm_hints m) name
        (dict_update (case map_of (lm_hints m) name of None \<Rightarrow> [] | Some d \<Rightarrow> d) kw)\<rparr>"

text \<open>The loop of lines 419--422: the \<^verbatim>\<open>"stray"\<close> entry is skipped; a number
  anywhere else cannot be unpacked with \<^verbatim>\<open>**\<close> (TypeError).\<close>

fun apply_hints :: "lmodel \<Rightarrow> pparams \<Rightarrow> lmodel py_result" where
  "apply_hints m [] = Inr m"
| "apply_hints m ((k, v) # ps) =
     (if k = ''stray'' then apply_hints m ps
      else case v of PNum _ \<Rightarrow> Inl TypeError | PDict kw \<Rightarrow> apply_hints (set_param_hint m k kw) ps)"

text \<open>\<^verbatim>\<open>_instantiate_band\<close> (lines 416--423): the band class called with the name
  (TypeError when it is not callable), its model with the name as prefix, and the hints
  read from the store when the band is instantiated.\<close>

definition instantiate_band :: "heap \<Rightarrow> partial_band \<Rightarrow> lmodel py_result" where
  "instantiate_band h pb =
     (case pb_band pb of
        NotCallable \<Rightarrow> Inl TypeError
      | BandClass cls \<Rightarrow> apply_hints \<lparr>lm_prefix = pb_name pb, lm_cls = cls, lm_hints = []\<rparr> (h ! pb_params pb))"

section \<open>The patterned sweep\<close>

text \<open>The fit of a composite model to a marginal (\<^verbatim>\<open>composite_model.fit\<close>),
  lmfit's: the models, the values, the coordinate.\<close>

type_synonym pfitter = "lmodel list \<Rightarrow> real list \<Rightarrow> real list \<Rightarrow> model_result"

text \<open>\<^verbatim>\<open>background\<close> after lines 291--294: the affine background band when true,
  and \<^verbatim>\<open>False\<close> itself otherwise, which is not \<^verbatim>\<open>None\<close>.\<close>

definition bg_ctor :: "bool \<Rightarrow> band_ctor" where
  "bg_ctor background = (if background then BandClass ''AffineBackgroundModel'' else NotCallable)"

record pat_state =
  pheap :: heap
  presults :: "(selector, model_result option) dict"

fun resolve_all ::
  "heap \<Rightarrow> string list \<Rightarrow> real option \<Rightarrow> selector \<Rightarrow> spectrum \<Rightarrow> band_spec list
   \<Rightarrow> (partial_band list list \<times> heap) py_result" where
  "resolve_all h dims stray cd m [] = Inr ([], h)"
| "resolve_all h dims stray cd m (spec # specs) =
     sbind (resolve_partial h dims stray cd m spec) (\<lambda>(pbs, h1).
     sbind (resolve_all h1 dims stray cd m specs) (\<lambda>(rest, h2). Inr (pbs # rest, h2)))"

text \<open>
  One iteration of the loop of lines 348--383: the partial bands of every description,
  the empty ones dropped, the background appended (with a fresh empty dictionary) when
  any remain; no model writes \<^verbatim>\<open>None\<close> into the cell, otherwise the composite fit.
\<close>

definition pat_step ::
  "pfitter \<Rightarrow> bool \<Rightarrow> string list \<Rightarrow> real option \<Rightarrow> band_spec list \<Rightarrow> pat_state
   \<Rightarrow> spectrum \<times> selector \<Rightarrow> pat_state py_result" where
  "pat_step fit background dims stray specs st mc =
     (case mc of (m, cd) \<Rightarrow>
       sbind (resolve_all (pheap st) dims stray cd m specs) (\<lambda>(pbss, h1).
       let nonempty = filter (\<lambda>p. p \<noteq> []) pbss;
           (pbss2, h2) = (if nonempty \<noteq> []
                          then (nonempty @ [[\<lparr>pb_band = bg_ctor background, pb_name = [], pb_params = length h1\<rparr>]],
                                h1 @ [[]])
                          else (nonempty, h1))
       in sbind (py_map (instantiate_band h2) (concat pbss2)) (\<lambda>ms.
          if ms = [] then Inr (st\<lparr>pheap := h2, presults := dict_set (presults st) cd None\<rparr>)
          else sbind (curve_of m) (\<lambda>(x, y).
            Inr (st\<lparr>pheap := h2, presults := dict_set (presults st) cd (Some (fit ms y x))\<rparr>)))))"

fun pat_sweep ::
  "pfitter \<Rightarrow> bool \<Rightarrow> string list \<Rightarrow> real option \<Rightarrow> band_spec list \<Rightarrow> pat_state
   \<Rightarrow> (spectrum \<times> selector) list \<Rightarrow> pat_state py_result" where
  "pat_sweep fit background dims stray specs st [] = Inr st"
| "pat_sweep fit background dims stray specs st (mc # mcs) =
     sbind (pat_step fit background dims stray specs st mc) (\<lambda>st'. pat_sweep fit background dims stray specs st' mcs)"

text \<open>
  The residual of one cell (lines 389--398): zeros where there is no fit; the fit's
  residual assigned along the fit axis, numpy broadcasting a single value, and any
  other length failing inside \<^verbatim>\<open>contextlib.suppress(Exception)\<close>, which leaves
  the zeros.
\<close>

definition cell_residual :: "nat \<Rightarrow> model_result option \<Rightarrow> real list" where
  "cell_residual n r =
     (case r of
        None \<Rightarrow> replicate n 0
      | Some fr \<Rightarrow>
          if length (mr_residual fr) = n then mr_residual fr
          else if length (mr_residual fr) = 1 then replicate n (hd (mr_residual fr))
          else replicate n 0)"

datatype pat_out =
    PatArray "(selector, model_result option) dict" heap
  | PatDataset "(selector, model_result option) dict" "(selector, real list) dict" heap

text \<open>
  \<^verbatim>\<open>fit_patterned_bands\<close>: the free directions are all but the fit direction
  (\<^verbatim>\<open>list.remove\<close>, ValueError); \<^verbatim>\<open>arr.G.iterate_axis(free_directions)\<close>
  yields the same coordinate dictionaries and marginals as \<^verbatim>\<open>_iterate_marginals\<close>.
  The result carries the store, since the hint dictionaries of \<^verbatim>\<open>band_set\<close> are the
  caller's and are left modified.  The \<^verbatim>\<open>norm_residual\<close> array (the residual
  divided by the data) is not modelled.
\<close>

definition fit_patterned_bands ::
  "pfitter \<Rightarrow> spectrum \<Rightarrow> band_spec list \<Rightarrow> heap \<Rightarrow> string \<Rightarrow> real option \<Rightarrow> bool \<Rightarrow> bool
   \<Rightarrow> pat_out py_result" where
  "fit_patterned_bands fit arr specs h fit_direction stray background dataset =
     sbind (py_remove fit_direction (sp_dims arr)) (\<lambda>free.
     sbind (iterate_marginals arr (Some free)) (\<lambda>ms.
     sbind (pat_sweep fit background (sp_dims arr) stray specs \<lparr>pheap = h, presults = []\<rparr> ms) (\<lambda>st.
       if \<not> dataset then Inr (PatArray (presults st) (pheap st))
       else Inr (PatDataset (presults st)
                  (map (\<lambda>(m, cd). (cd, cell_residual (length (sp_coords arr fit_direction))
                                          (case map_of (presults st) cd of None \<Rightarrow> None | Some r \<Rightarrow> r))) ms)
                  (pheap st)))))"

section \<open>Reading the results\<close>

text \<open>The centre value a hint dictionary holds, and the result grid of either
  output.\<close>

definition center_value :: "pparams \<Rightarrow> pyfloat option" where
  "center_value p = (case map_of p ''center'' of Some (PDict d) \<Rightarrow> map_of d ''value'' | _ \<Rightarrow> None)"

fun pat_results :: "pat_out \<Rightarrow> (selector, model_result option) dict" where
  "pat_results (PatArray r h) = r"
| "pat_results (PatDataset r rs h) = r"

section \<open>Concrete inputs\<close>

text \<open>A fitter that reproduces the data, and a band described by its control points
  (patterning coordinate \<^verbatim>\<open>eV\<close>).\<close>

definition demo_pfitter :: pfitter where
  "demo_pfitter ms y x = \<lparr>mr_prefixes = map lm_prefix ms, mr_params = [], mr_best_fit = y, mr_residual = map (\<lambda>_. 0) y\<rparr>"

definition demo_spec :: "real list list \<Rightarrow> band_spec" where
  "demo_spec pts = \<lparr>bs_name = ''vb'', bs_band = BandClass ''LorentzianModel'', bs_dims = [''eV''], bs_params = None,
     bs_points = pts\<rparr>"

section \<open>Lemmas of the patterned fit\<close>

lemmas pat_run_defs = fit_patterned_bands_def demo_cut_def iterate_marginals_def iteration_directions_def sel_def
  pat_step_def resolve_partial_def py_next_def dict_get_def py_list_index_def interpolate_fragments_def
  fragment_def py_index_def is_between_def interp_value_def build_params_def stray_of_def curve_of_def
  instantiate_band_def bg_ctor_def set_param_hint_def dict_update_def demo_pfitter_def demo_spec_def

lemma set_sub_Inr:
  "set_sub p k f v = Inr p' \<Longrightarrow> \<exists>d. map_of p k = Some (PDict d) \<and> p' = dict_set p k (PDict (dict_set d f v))"
  by (auto simp: set_sub_def split: option.splits pval.splits)

lemma center_value_set_sub_other:
  "set_sub p k f v = Inr p' \<Longrightarrow> k \<noteq> ''center'' \<Longrightarrow> center_value p' = center_value p"
  by (auto simp: center_value_def dest!: set_sub_Inr)

lemma center_value_set_sub_center:
  "set_sub p ''center'' f v = Inr p' \<Longrightarrow> f \<noteq> ''value'' \<Longrightarrow> center_value p' = center_value p"
  by (auto simp: center_value_def dest!: set_sub_Inr)

lemma center_value_ensure_sub:
  "k \<noteq> ''center'' \<Longrightarrow> center_value (ensure_sub p k) = center_value p"
  by (simp add: center_value_def ensure_sub_def)

lemma build_params_Inr:
  assumes "build_params h a c cs mo = Inr h'" "a < length h"
  shows "length h' = length h \<and> center_value (h' ! a) = Some c \<and> (\<forall>b. b \<noteq> a \<longrightarrow> h' ! b = h ! b)"
proof -
  let ?p1 = "dict_set (h ! a) ''center'' (PDict [(''value'', c)])"
  have c1: "center_value ?p1 = Some c" by (simp add: center_value_def)
  have "\<exists>p. h' = h[a := p] \<and> center_value p = Some c"
  proof (cases cs)
    case None
    with assms(1) c1 show ?thesis by (auto simp: build_params_def)
  next
    case (Some s)
    with assms(1) obtain p2 p3 p4 where
      p2: "set_sub ?p1 ''center'' ''min'' (fl_sub c s) = Inr p2"
      and p3: "set_sub p2 ''center'' ''max'' (fl_add c s) = Inr p3"
      and p4: "set_sub (ensure_sub p3 ''sigma'') ''sigma'' ''value'' (Fl s) = Inr p4"
      and rest: "(case mo of None \<Rightarrow> Inr (h[a := p4]) | Some m \<Rightarrow>
              sbind (near_center m c s) (\<lambda>vs. sbind (percentile vs 20) (\<lambda>low. sbind (percentile vs 80) (\<lambda>high.
              sbind (set_sub (ensure_sub p4 ''amplitude'') ''amplitude'' ''value'' (Fl (high - low)))
                (\<lambda>p5. Inr (h[a := p5])))))) = Inr h'"
      by (auto simp: build_params_def Let_def sbind_eq_Inr)
    have "center_value p4 = Some c"
      using center_value_set_sub_center [OF p2] center_value_set_sub_center [OF p3]
        center_value_set_sub_other [OF p4] center_value_ensure_sub [of "''sigma''" p3] c1 by simp
    moreover have "center_value p5 = center_value p4"
      if "set_sub (ensure_sub p4 ''amplitude'') ''amplitude'' ''value'' v = Inr p5" for v p5
      using center_value_set_sub_other [OF that] center_value_ensure_sub [of "''amplitude''" p4] by simp
    ultimately show ?thesis using rest by (auto simp: sbind_eq_Inr split: option.splits)
  qed
  then show ?thesis using assms(2) by auto
qed

lemma build_entries_Inr:
  "build_entries h a spec stray m i locs = Inr (es, h') \<Longrightarrow> a < length h \<Longrightarrow>
   length es = length locs \<and> (\<forall>e\<in>set es. pb_params e = a \<and> pb_band e = bs_band spec)
   \<and> length h' = length h \<and> (\<forall>b. b \<noteq> a \<longrightarrow> h' ! b = h ! b)
   \<and> (locs \<noteq> [] \<longrightarrow> center_value (h' ! a) = Some (snd (last locs))) \<and> (locs = [] \<longrightarrow> h' = h)"
proof (induction locs arbitrary: h i es h')
  case Nil
  then show ?case by simp
next
  case (Cons l locs)
  obtain x c where l: "l = (x, c)" by fastforce
  from Cons.prems(1) l obtain cs h1 es' where
    b: "build_params h a c cs (Some m) = Inr h1"
    and r: "build_entries h1 a spec stray m (Suc i) locs = Inr (es', h')"
    and es: "es = \<lparr>pb_band = bs_band spec, pb_name = bs_name spec @ ''_'' @ nat_str i, pb_params = a\<rparr> # es'"
    by (auto simp: sbind_eq_Inr split: prod.splits)
  from build_params_Inr [OF b Cons.prems(2)]
  have h1: "length h1 = length h" "center_value (h1 ! a) = Some c" "\<forall>b. b \<noteq> a \<longrightarrow> h1 ! b = h ! b"
    by auto
  from Cons.IH [OF r] h1(1) Cons.prems(2) have ih:
    "length es' = length locs \<and> (\<forall>e\<in>set es'. pb_params e = a \<and> pb_band e = bs_band spec)
     \<and> length h' = length h1 \<and> (\<forall>b. b \<noteq> a \<longrightarrow> h' ! b = h1 ! b)
     \<and> (locs \<noteq> [] \<longrightarrow> center_value (h' ! a) = Some (snd (last locs))) \<and> (locs = [] \<longrightarrow> h' = h1)" by simp
  then show ?case using h1 es l by (cases "locs = []") auto
qed

lemma interp_value_line:
  "lo \<noteq> hi \<Longrightarrow> interp_value coord lo hi olo ohi = Fl (olo + (coord - lo) * (ohi - olo) / (hi - lo))"
  by (auto simp: interp_value_def field_simps)

lemma pat_step_no_background:
  assumes "pat_step fit False dims stray specs st (m, cd) = Inr st'"
  shows "\<exists>h. st' = st\<lparr>pheap := h, presults := dict_set (presults st) cd None\<rparr>"
proof -
  from assms obtain pbss h1 where r: "resolve_all (pheap st) dims stray cd m specs = Inr (pbss, h1)"
    and rest: "(let nonempty = filter (\<lambda>p. p \<noteq> []) pbss;
           (pbss2, h2) = (if nonempty \<noteq> []
                          then (nonempty @ [[\<lparr>pb_band = bg_ctor False, pb_name = [], pb_params = length h1\<rparr>]],
                                h1 @ [[]])
                          else (nonempty, h1))
       in sbind (py_map (instantiate_band h2) (concat pbss2)) (\<lambda>ms.
          if ms = [] then Inr (st\<lparr>pheap := h2, presults := dict_set (presults st) cd None\<rparr>)
          else sbind (curve_of m) (\<lambda>(x, y).
            Inr (st\<lparr>pheap := h2, presults := dict_set (presults st) cd (Some (fit ms y x))\<rparr>)))) = Inr st'"
    by (auto simp: pat_step_def sbind_eq_Inr)
  show ?thesis
  proof (cases "filter (\<lambda>p. p \<noteq> []) pbss = []")
    case True
    with rest show ?thesis by (auto simp: Let_def)
  next
    case False
    let ?bg = "\<lparr>pb_band = bg_ctor False, pb_name = [], pb_params = length h1\<rparr>"
    let ?h2 = "h1 @ [[]]"
    from rest False obtain ms where
      ms: "py_map (instantiate_band ?h2) (concat (filter (\<lambda>p. p \<noteq> []) pbss @ [[?bg]])) = Inr ms"
      by (auto simp: Let_def sbind_eq_Inr)
    have "?bg \<in> set (concat (filter (\<lambda>p. p \<noteq> []) pbss @ [[?bg]]))" by simp
    from py_map_Inr_member [OF ms this] have "\<exists>y. instantiate_band ?h2 ?bg = Inr y" .
    then show ?thesis by (simp add: instantiate_band_def bg_ctor_def)
  qed
qed

lemma pat_sweep_no_background:
  "pat_sweep fit False dims stray specs st ms = Inr st' \<Longrightarrow> (\<forall>(k, v)\<in>set (presults st). v = None) \<Longrightarrow>
   \<forall>(k, v)\<in>set (presults st'). v = None"
proof (induction ms arbitrary: st)
  case Nil
  then show ?case by simp
next
  case (Cons mc ms)
  obtain m cd where mc: "mc = (m, cd)" by fastforce
  with Cons.prems(1) obtain st1 where s1: "pat_step fit False dims stray specs st (m, cd) = Inr st1"
    and rest: "pat_sweep fit False dims stray specs st1 ms = Inr st'"
    by (auto simp: sbind_eq_Inr)
  from pat_step_no_background [OF s1] obtain h where st1: "st1 = st\<lparr>pheap := h, presults := dict_set (presults st) cd None\<rparr>" ..
  have "\<forall>(k, v)\<in>set (presults st1). v = None"
    using Cons.prems(2) set_dict_set_subset [of "presults st" cd None] st1 by auto
  from Cons.IH [OF rest this] show ?case .
qed

lemma demo_resolve:
  "resolve_partial [] [''eV'', ''kp''] None [(''eV'', 1)] m
     \<lparr>bs_name = ''vb'', bs_band = BandClass ''LorentzianModel'', bs_dims = [''eV''], bs_params = None,
      bs_points = [[0, 1], [2, 3], [0, 5]]\<rparr>
   = Inr ([\<lparr>pb_band = BandClass ''LorentzianModel'', pb_name = ''vb_0'', pb_params = 0\<rparr>,
           \<lparr>pb_band = BandClass ''LorentzianModel'', pb_name = ''vb_1'', pb_params = 0\<rparr>],
          [[(''center'', PDict [(''value'', Fl 4)])]])"
  by (simp add: resolve_partial_def py_next_def dict_get_def py_list_index_def interpolate_fragments_def
      fragment_def py_index_def is_between_def interp_value_def build_params_def stray_of_def)

lemma demo_percentile: "percentile [3, 1, 2] 20 = Inr (7 / 5)"
  by (simp add: percentile_def)

lemma demo_pattern_far:
  "fit_patterned_bands demo_pfitter demo_cut [demo_spec [[1, 5], [2, 6]]] [] ''phi'' None False False
   = Inr (PatArray [([(''eV'', 0)], None), ([(''eV'', 1)], None)] [[], []])"
  by (simp add: pat_run_defs)

lemma demo_pattern_no_background:
  "fit_patterned_bands demo_pfitter demo_cut [demo_spec [[1, 0], [3, 2]]] [] ''phi'' None False False = Inl TypeError"
  by (simp add: pat_run_defs)

lemma demo_pattern_background:
  "fit_patterned_bands demo_pfitter demo_cut [demo_spec [[1, 0], [3, 2]]] [] ''phi'' None True False
   = Inr (PatArray
       [([(''eV'', 0)], Some \<lparr>mr_prefixes = [''vb_0'', []], mr_params = [], mr_best_fit = [1, 2, 3], mr_residual = [0, 0, 0]\<rparr>),
        ([(''eV'', 1)], Some \<lparr>mr_prefixes = [''vb_0'', []], mr_params = [], mr_best_fit = [11, 12, 13], mr_residual = [0, 0, 0]\<rparr>)]
       [[(''center'', PDict [(''value'', Fl 1)])], [], [(''center'', PDict [(''value'', Fl 2)])], []])"
  by (simp add: pat_run_defs)

section \<open>Properties of the patterned fit\<close>

text \<open>
  C17. The two branches of \<^verbatim>\<open>_interpolate_intersecting_fragments\<close> ("this is
  unnecessarily complicated") compute the same function: reading a segment from either
  end gives the same interpolated value, NaN included.
\<close>

theorem interp_value_orientation:
  "interp_value coord lo hi olo ohi = interp_value coord hi lo ohi olo"
proof (cases "lo = hi")
  case True
  then show ?thesis by (simp add: interp_value_def)
next
  case False
  then have "hi \<noteq> lo" by simp
  have "olo + (coord - lo) * (ohi - olo) / (hi - lo) = ohi + (coord - hi) * (olo - ohi) / (lo - hi)"
    using False by (simp add: field_simps)
  then show ?thesis using interp_value_line [OF False] interp_value_line [OF \<open>hi \<noteq> lo\<close>] by simp
qed

text \<open>
  C18. On a segment that brackets the coordinate and is not degenerate, the
  interpolated centre lies between the centres of the segment's two control points.
\<close>

theorem interp_value_between:
  assumes "is_between coord lo hi" "lo \<noteq> hi" "interp_value coord lo hi olo ohi = Fl v"
  shows "min olo ohi \<le> v \<and> v \<le> max olo ohi"
proof -
  define t where "t = (coord - lo) / (hi - lo)"
  have t: "0 \<le> t" "t \<le> 1"
    using assms(1,2) by (cases "lo < hi"; auto simp: is_between_def t_def divide_simps)+
  have v: "v = olo + t * (ohi - olo)"
    using assms(3) interp_value_line [OF assms(2)] by (simp add: t_def)
  show ?thesis using convex_between [OF t] v by simp
qed

theorem interp_value_between_witness:
  "min 3 5 \<le> (4::real) \<and> (4::real) \<le> max 3 5"
proof -
  have "is_between 1 2 0" "(2::real) \<noteq> 0" "interp_value 1 2 0 3 5 = Fl 4"
    by (simp_all add: is_between_def interp_value_def)
  from interp_value_between [OF this] show ?thesis .
qed

text \<open>
  C19. For control points that are pairs and a patterning coordinate at index 0 or 1,
  the generator yields one located centre per segment of consecutive points that
  brackets the coordinate, in order, the centre being the interpolation on that segment.
\<close>

lemma interpolate_fragments_ok:
  assumes "points \<noteq> []" "\<forall>p\<in>set points. length p = 2" "ci < 2"
  shows "interpolate_fragments coord ci points =
     Inr (concat (map (\<lambda>(pl, ph). if is_between coord (pl ! ci) (ph ! ci)
          then [(coord, interp_value coord (pl ! ci) (ph ! ci) (pl ! (1 - ci)) (ph ! (1 - ci)))] else [])
        (zip points (tl points))))"
proof -
  have all: "\<forall>x\<in>set (zip points (tl points)). (\<lambda>(pl, ph). fragment coord ci pl ph) x =
     Inr ((\<lambda>(pl, ph). if is_between coord (pl ! ci) (ph ! ci)
          then [(coord, interp_value coord (pl ! ci) (ph ! ci) (pl ! (1 - ci)) (ph ! (1 - ci)))] else []) x)"
  proof
    fix x assume x: "x \<in> set (zip points (tl points))"
    obtain pl ph where xp: "x = (pl, ph)" by fastforce
    have tl: "set (tl points) \<subseteq> set points" by (cases points) auto
    from x xp tl have "pl \<in> set points" "ph \<in> set points"
      by (auto dest: set_zip_leftD set_zip_rightD)
    then have "length pl = 2" "length ph = 2" using assms(2) by auto
    then show "(\<lambda>(pl, ph). fragment coord ci pl ph) x = Inr ((\<lambda>(pl, ph). if is_between coord (pl ! ci) (ph ! ci)
          then [(coord, interp_value coord (pl ! ci) (ph ! ci) (pl ! (1 - ci)) (ph ! (1 - ci)))] else []) x)"
      using xp assms(3) by (auto simp: fragment_def py_index_def less_2_cases_iff)
  qed
  obtain p0 ps where "points = p0 # ps" using assms(1) by (cases points) auto
  moreover have "length p0 = 2" using assms(2) calculation by simp
  ultimately show ?thesis using py_map_Inr [OF all] by (simp add: interpolate_fragments_def)
qed

theorem interpolate_fragments_ok_witness:
  "interpolate_fragments 1 0 [[0, 1], [2, 3], [0, 5]] = Inr [(1, Fl 2), (1, Fl 4)]"
proof -
  have "[[0, 1], [2, 3], [0, 5::real]] \<noteq> []" "\<forall>p\<in>set [[0, 1], [2, 3], [0, 5::real]]. length p = 2" "(0::nat) < 2"
    by simp_all
  from interpolate_fragments_ok [OF this, of 1] show ?thesis
    by (simp add: is_between_def interp_value_def)
qed

text \<open>
  C20. Every partial band a description yields at a marginal holds the same hint
  dictionary, which \<^verbatim>\<open>_build_params\<close> rebuilt for each fragment in turn: the
  centre hint every one of them is instantiated with is the centre of the last
  fragment.  A band whose pattern crosses the patterning coordinate twice is fitted with
  both peaks seeded at the second crossing (\<open>demo_resolve\<close>: centres 2 and 4, both
  hints 4).
\<close>

theorem resolve_partial_shared_hints:
  assumes "resolve_partial h dims stray cd m spec = Inr (pbs, h')"
    and "\<forall>a. bs_params spec = Some a \<longrightarrow> a < length h"
  shows "\<exists>a cn coord ci locs. py_next (\<lambda>d. d \<in> fst ` set cd) (bs_dims spec) = Inr cn
     \<and> dict_get cd cn = Inr coord \<and> py_list_index dims cn = Inr ci
     \<and> interpolate_fragments coord ci (bs_points spec) = Inr locs
     \<and> length pbs = length locs \<and> (\<forall>pb\<in>set pbs. pb_params pb = a \<and> pb_band pb = bs_band spec)
     \<and> (locs \<noteq> [] \<longrightarrow> center_value (h' ! a) = Some (snd (last locs)))"
proof -
  obtain h0 a where ha: "(case bs_params spec of None \<Rightarrow> (h @ [[]], length h) | Some a \<Rightarrow> (h, a)) = (h0, a)"
    by fastforce
  have alen: "a < length h0" using ha assms(2) by (cases "bs_params spec") auto
  from assms(1) ha obtain cn coord ci locs where
    "py_next (\<lambda>d. d \<in> fst ` set cd) (bs_dims spec) = Inr cn" "dict_get cd cn = Inr coord"
    "py_list_index dims cn = Inr ci" "interpolate_fragments coord ci (bs_points spec) = Inr locs"
    and b: "build_entries h0 a spec stray m 0 locs = Inr (pbs, h')"
    by (auto simp: resolve_partial_def sbind_eq_Inr)
  moreover note build_entries_Inr [OF b alen]
  ultimately show ?thesis by blast
qed

theorem resolve_partial_shared_hints_witness:
  "\<exists>a. \<forall>pb\<in>set [\<lparr>pb_band = BandClass ''LorentzianModel'', pb_name = ''vb_0'', pb_params = 0\<rparr>,
                 \<lparr>pb_band = BandClass ''LorentzianModel'', pb_name = ''vb_1'', pb_params = 0\<rparr>]. pb_params pb = a"
  using resolve_partial_shared_hints [OF demo_resolve] by auto

text \<open>
  C21. With \<^verbatim>\<open>background=False\<close> the patterned fit never fits anything: the flag is
  replaced by nothing, \<^verbatim>\<open>False is not None\<close> holds, and the "background band"
  \<^verbatim>\<open>False\<close> is called at the first marginal with a partial band (TypeError).  So a
  run that completes has only empty cells.
\<close>

theorem fit_patterned_bands_no_background:
  assumes "fit_patterned_bands fit arr specs h fd stray False dataset = Inr out"
  shows "\<forall>(cd, r)\<in>set (pat_results out). r = None"
proof -
  from assms obtain free ms st where
    sw: "pat_sweep fit False (sp_dims arr) stray specs \<lparr>pheap = h, presults = []\<rparr> ms = Inr st"
    and out: "out = (if \<not> dataset then PatArray (presults st) (pheap st) else
              PatDataset (presults st)
                  (map (\<lambda>(m, cd). (cd, cell_residual (length (sp_coords arr fd))
                                          (case map_of (presults st) cd of None \<Rightarrow> None | Some r \<Rightarrow> r))) ms)
                  (pheap st))"
    by (auto simp: fit_patterned_bands_def sbind_eq_Inr split: if_splits)
  from pat_sweep_no_background [OF sw] have "\<forall>(k, v)\<in>set (presults st). v = None" by simp
  with out show ?thesis by (cases dataset) auto
qed

theorem fit_patterned_bands_no_background_witness:
  "list_all (\<lambda>(cd, r). r = None) (pat_results (PatArray [([(''eV'', 0)], None), ([(''eV'', 1)], None)] [[], []]))"
proof -
  have "\<forall>(cd, r)\<in>set (pat_results (PatArray [([(''eV'', 0)], None), ([(''eV'', 1)], None)] [[], []])). r = None"
    by (rule fit_patterned_bands_no_background [OF demo_pattern_far])
  then show ?thesis by (simp only: list_all_iff)
qed

text \<open>
  C22. A description without control points cannot be resolved: \<^verbatim>\<open>points or []\<close>
  passes an empty list, and the generator's assertion reads \<^verbatim>\<open>points[0]\<close>
  (IndexError) as soon as the band's patterning coordinate is found.
\<close>

theorem resolve_partial_no_points:
  assumes "bs_points spec = []" "d \<in> set (bs_dims spec)" "d \<in> fst ` set cd" "set (bs_dims spec) \<subseteq> set dims"
  shows "resolve_partial h dims stray cd m spec = Inl IndexError"
proof -
  have "\<exists>x\<in>set (bs_dims spec). x \<in> fst ` set cd" using assms(2,3) by blast
  then obtain cn r where f: "filter (\<lambda>d. d \<in> fst ` set cd) (bs_dims spec) = cn # r"
    by (cases "filter (\<lambda>d. d \<in> fst ` set cd) (bs_dims spec)") (auto simp: filter_empty_conv)
  then have cn: "cn \<in> set (bs_dims spec)" "cn \<in> fst ` set cd"
    using filter_eq_ConsD [OF f] by auto
  then obtain v where "map_of cd cn = Some v" by (metis map_of_eq_None_iff not_Some_eq)
  with cn f assms(1,4) show ?thesis
    by (auto simp: resolve_partial_def py_next_def dict_get_def py_list_index_def interpolate_fragments_def
        split: prod.splits option.splits)
qed

theorem resolve_partial_no_points_witness:
  "resolve_partial [] [''eV'', ''kp''] None [(''eV'', 1)] demo_cut (demo_spec []) = Inl IndexError"
  by (rule resolve_partial_no_points [of _ "''eV''"]) (simp_all add: demo_spec_def)

text \<open>
  numpy's linear percentile, for a percentage in \<open>[0, 100]\<close>, lies between the
  least and the greatest value; so the amplitude estimate of \<^verbatim>\<open>_build_params\<close> is
  a difference of two values within the range of the data near the centre.
\<close>

theorem percentile_bounds:
  assumes "percentile vs q = Inr v" "0 \<le> q" "q \<le> 100"
  shows "Min (set vs) \<le> v \<and> v \<le> Max (set vs)"
proof -
  have ne: "vs \<noteq> []" using assms(1) by (auto simp: percentile_def)
  define s where "s = sort vs"
  define n where "n = length s"
  define h where "h = real (n - 1) * q / 100"
  define i where "i = nat \<lfloor>h\<rfloor>"
  define j where "j = min (i + 1) (n - 1)"
  have n: "0 < n" using ne by (simp add: n_def s_def)
  have h0: "0 \<le> h" using assms(2) by (simp add: h_def)
  have h1: "h \<le> real (n - 1)"
  proof -
    have "real (n - 1) * q \<le> real (n - 1) * 100" using assms(3) by (intro mult_left_mono) auto
    then show ?thesis by (simp add: h_def)
  qed
  have i1: "real i \<le> h" "h < real i + 1" using h0 by (simp_all add: i_def)
  have iln: "i < n"
  proof -
    have "real i \<le> real (n - 1)" using i1(1) h1 by linarith
    then show ?thesis using n by simp
  qed
  have jln: "j < n" "i \<le> j" using iln n by (auto simp: j_def)
  have v: "v = s ! i + (h - real i) * (s ! j - s ! i)"
    using assms(1) ne by (simp add: percentile_def Let_def s_def n_def h_def i_def j_def)
  have t: "0 \<le> h - real i" "h - real i \<le> 1" using i1 by auto
  have mem: "s ! i \<in> set vs" "s ! j \<in> set vs"
  proof -
    have "s ! i \<in> set s" "s ! j \<in> set s" using iln jln(1) by (simp_all add: n_def)
    then show "s ! i \<in> set vs" "s ! j \<in> set vs" by (simp_all add: s_def)
  qed
  have "min (s ! i) (s ! j) \<le> v \<and> v \<le> max (s ! i) (s ! j)"
    using convex_between [OF t] v by simp
  moreover have "Min (set vs) \<le> s ! i" "Min (set vs) \<le> s ! j" "s ! i \<le> Max (set vs)" "s ! j \<le> Max (set vs)"
    using mem by simp_all
  ultimately show ?thesis by linarith
qed

theorem percentile_bounds_witness:
  "Min (set [3, 1, 2]) \<le> (7 / 5 :: real) \<and> (7 / 5 :: real) \<le> Max (set [3, 1, 2])"
  using percentile_bounds [OF demo_percentile] by simp

end
