(* ===== verification/Mixin.thy ===== *)
theory Mixin
  imports Marginals FitModel
begin

text \<open>
  The adapter between lmfit and xarray, \<^verbatim>\<open>fits/fit_models/x_model_mixin.py\<close>:
  \<^verbatim>\<open>_prep_parameters\<close>, the composite-model algebra (\<^verbatim>\<open>__add__\<close>,
  \<^verbatim>\<open>__mul__\<close>, the composite \<^verbatim>\<open>guess\<close> methods, \<^verbatim>\<open>gaussian_convolve\<close>),
  the translation of an xarray into the arrays lmfit fits
  (\<^verbatim>\<open>_real_data_etc_from_xarray\<close>, \<^verbatim>\<open>_real_weights_from_xarray\<close>) and
  \<^verbatim>\<open>guess_fit\<close>.  lmfit itself is not part of the repository: a leaf model's own
  \<^verbatim>\<open>guess\<close>, \<^verbatim>\<open>make_params\<close>, the \<^verbatim>\<open>Parameter\<close> constructor and
  \<^verbatim>\<open>Model.fit\<close> are the fields of the record \<open>lmfit_ops\<close>, so the theorems hold
  for whatever they compute.  An array is the flat list of its values in C order;
  \<open>ravel a order\<close> reads a spectrum with its axes in the given order.
\<close>

section \<open>Parameters\<close>

text \<open>A keyword argument of \<^verbatim>\<open>lf.Parameter(name, **param)\<close>.\<close>

datatype pyval = PyFloat real | PyBool bool | PyStr string | PyNone

type_synonym kwargs = "(string, pyval) dict"

text \<open>What \<^verbatim>\<open>params\<close> may be: \<^verbatim>\<open>None\<close>, an \<^verbatim>\<open>lf.Parameters\<close> object, or a
  dictionary from parameter names to keyword arguments.\<close>

datatype param_in = ParamsNone | ParamsObj parameters | ParamsDict "(string, kwargs) dict"

datatype dim_opt = DimStr string | DimList "string list" | DimNone

text \<open>A model: a leaf lmfit model (its prefix, the root names of its parameters,
  \<^verbatim>\<open>n_dims\<close> and \<^verbatim>\<open>dimension_order\<close>), or a composite made by \<^verbatim>\<open>+\<close>, \<^verbatim>\<open>*\<close> (with the
  \<^verbatim>\<open>n_dims\<close> set on it) or \<^verbatim>\<open>gaussian_convolve\<close>.\<close>

datatype xmodel =
    XLeaf string "string list" nat "dim_opt list option"
  | XAdd xmodel xmodel nat
  | XMul xmodel xmodel nat
  | XConv xmodel xmodel

text \<open>A leaf of the three peak parameters (\<^verbatim>\<open>amplitude\<close>, \<^verbatim>\<open>center\<close>,
  \<^verbatim>\<open>sigma\<close>), as lmfit's Lorentzian and Gaussian models have.\<close>

abbreviation peak_leaf :: "string \<Rightarrow> nat \<Rightarrow> xmodel" where
  "peak_leaf p n \<equiv> XLeaf p [''amplitude'', ''center'', ''sigma''] n None"

record lmfit_ops =
  lf_guess :: "string \<Rightarrow> real list \<Rightarrow> (string, real list) dict \<Rightarrow> parameters"
  lf_make_params :: "string list \<Rightarrow> parameters"
  lf_parameter :: "string \<Rightarrow> kwargs \<Rightarrow> parameter py_result"
  lf_fit :: "xmodel \<Rightarrow> real list \<Rightarrow> parameters \<Rightarrow> (string, real list) dict \<Rightarrow> real list option \<Rightarrow> model_result"

text \<open>
  \<^verbatim>\<open>_prep_parameters\<close> (lines 57--89): \<^verbatim>\<open>None\<close> is the empty dictionary, a
  \<^verbatim>\<open>Parameters\<close> object is returned as is; for a dictionary every entry is first
  checked not to hold the key \<^verbatim>\<open>"name"\<close> (AssertionError), then each becomes an
  \<^verbatim>\<open>lf.Parameter\<close> stored under its name.
\<close>

definition prep_dict :: "lmfit_ops \<Rightarrow> (string, kwargs) dict \<Rightarrow> parameters py_result" where
  "prep_dict ops d =
     (if \<exists>(k, v)\<in>set d. ''name'' \<in> fst ` set v then Inl AssertionError
      else sbind (py_map (\<lambda>(k, v). sbind (lf_parameter ops k v) (\<lambda>p. Inr (k, p))) d)
             (\<lambda>ps. Inr (dict_update [] ps)))"

definition prep_parameters :: "lmfit_ops \<Rightarrow> param_in \<Rightarrow> parameters py_result" where
  "prep_parameters ops pin =
     (case pin of ParamsNone \<Rightarrow> prep_dict ops [] | ParamsObj ps \<Rightarrow> Inr ps | ParamsDict d \<Rightarrow> prep_dict ops d)"

section \<open>The composite-model algebra\<close>

text \<open>\<^verbatim>\<open>n_dims\<close>: the leaf's class attribute, the value set by \<^verbatim>\<open>+\<close> or
  \<^verbatim>\<open>*\<close>, and the mixin's default 1 for a convolution.\<close>

fun xn_dims :: "xmodel \<Rightarrow> nat" where
  "xn_dims (XLeaf p rs n d) = n"
| "xn_dims (XAdd a b n) = n"
| "xn_dims (XMul a b n) = n"
| "xn_dims (XConv a b) = 1"

fun xdim_order :: "xmodel \<Rightarrow> dim_opt list option" where
  "xdim_order (XLeaf p rs n d) = d"
| "xdim_order _ = None"

text \<open>\<^verbatim>\<open>CompositeModel.components\<close>: the leaves, left before right.\<close>

fun components :: "xmodel \<Rightarrow> string list" where
  "components (XLeaf p rs n d) = [p]"
| "components (XAdd a b n) = components a @ components b"
| "components (XMul a b n) = components a @ components b"
| "components (XConv a b) = components a @ components b"

text \<open>\<^verbatim>\<open>Model.param_names\<close>: a leaf's root names behind its prefix, a
  composite's left before right.\<close>

fun param_names :: "xmodel \<Rightarrow> string list" where
  "param_names (XLeaf p rs n d) = map (\<lambda>r. p @ r) rs"
| "param_names (XAdd a b n) = param_names a @ param_names b"
| "param_names (XMul a b n) = param_names a @ param_names b"
| "param_names (XConv a b) = param_names a @ param_names b"

text \<open>The constructor of lmfit's \<^verbatim>\<open>CompositeModel\<close>: \<^verbatim>\<open>NameError\<close> when the
  operands share a parameter name.\<close>

definition composite_ok :: "xmodel \<Rightarrow> xmodel \<Rightarrow> py_error option" where
  "composite_ok a b = (if set (param_names a) \<inter> set (param_names b) = {} then None else Some NameError)"

text \<open>\<^verbatim>\<open>__add__\<close> and \<^verbatim>\<open>__mul__\<close> (lines 227--242): the composite is built
  (line 229 or 237, where lmfit may raise), then the operands' \<^verbatim>\<open>n_dims\<close> are asserted
  equal and the right operand's copied.\<close>

definition xadd :: "xmodel \<Rightarrow> xmodel \<Rightarrow> xmodel py_result" where
  "xadd a b =
     (case composite_ok a b of
        Some e \<Rightarrow> Inl e
      | None \<Rightarrow> if xn_dims a = xn_dims b then Inr (XAdd a b (xn_dims b)) else Inl AssertionError)"

definition xmul :: "xmodel \<Rightarrow> xmodel \<Rightarrow> xmodel py_result" where
  "xmul a b =
     (case composite_ok a b of
        Some e \<Rightarrow> Inl e
      | None \<Rightarrow> if xn_dims a = xn_dims b then Inr (XMul a b (xn_dims b)) else Inl AssertionError)"

text \<open>\<^verbatim>\<open>gaussian_convolve\<close> (lines 386--388), with lmfit's \<^verbatim>\<open>GaussianModel\<close>
  of prefix \<^verbatim>\<open>conv_\<close>.\<close>

definition gaussian_convolve :: "xmodel \<Rightarrow> xmodel py_result" where
  "gaussian_convolve m =
     (let g = peak_leaf ''conv_'' 1
      in case composite_ok m g of Some e \<Rightarrow> Inl e | None \<Rightarrow> Inr (XConv m g))"

text \<open>\<^verbatim>\<open>functools.reduce(lambda x, y: x + y, models)\<close> as the band fits build their
  composite model (an empty list raises TypeError).\<close>

fun reduce_add :: "xmodel list \<Rightarrow> xmodel py_result" where
  "reduce_add [] = Inl TypeError"
| "reduce_add [m] = Inr m"
| "reduce_add (m # n # ms) = sbind (xadd m n) (\<lambda>c. reduce_add (c # ms))"

text \<open>
  The \<^verbatim>\<open>guess\<close> of the three composite classes (lines 319--384):
  \<^verbatim>\<open>make_params()\<close>, overwritten by the union of the components' guesses, a later
  component winning; the convolution skips the component \<^verbatim>\<open>conv_\<close>.  A leaf
  guesses with lmfit's own method.
\<close>

definition composite_guess ::
  "lmfit_ops \<Rightarrow> (string \<Rightarrow> bool) \<Rightarrow> string list \<Rightarrow> real list \<Rightarrow> (string, real list) dict \<Rightarrow> parameters" where
  "composite_guess ops skip comps data coords =
     dict_update (lf_make_params ops comps)
       (foldl dict_update [] (map (\<lambda>c. lf_guess ops c data coords) (filter (\<lambda>c. \<not> skip c) comps)))"

fun model_guess :: "lmfit_ops \<Rightarrow> xmodel \<Rightarrow> real list \<Rightarrow> (string, real list) dict \<Rightarrow> parameters" where
  "model_guess ops (XLeaf p rs n d) data coords = lf_guess ops p data coords"
| "model_guess ops (XAdd a b n) data coords = composite_guess ops (\<lambda>c. False) (components (XAdd a b n)) data coords"
| "model_guess ops (XMul a b n) data coords = composite_guess ops (\<lambda>c. False) (components (XMul a b n)) data coords"
| "model_guess ops (XConv a b) data coords = composite_guess ops (\<lambda>c. c = ''conv_'') (components (XConv a b)) data coords"

section \<open>From xarray to arrays\<close>

text \<open>The values of a spectrum in C order with its axes taken in \<open>order\<close>, as
  \<^verbatim>\<open>data.transpose(*order).values.ravel()\<close> gives them.\<close>

definition ravel :: "spectrum \<Rightarrow> string list \<Rightarrow> real list" where
  "ravel a order =
     map (\<lambda>ss. sp_values a (\<lambda>d. case map_of (zip order ss) d of Some v \<Rightarrow> v | None \<Rightarrow> 0))
       (product_lists (map (sp_coords a) order))"

text \<open>\<^verbatim>\<open>find_appropriate_dimension\<close> (lines 290--297): a name must be a dimension;
  a list must meet the dimensions in exactly one name; \<^verbatim>\<open>None\<close> cannot be made a set
  (TypeError).\<close>

definition find_dim :: "string list \<Rightarrow> dim_opt \<Rightarrow> string py_result" where
  "find_dim dims od =
     (case od of
        DimStr s \<Rightarrow> if s \<in> set dims then Inr s else Inl AssertionError
      | DimList l \<Rightarrow> (case filter (\<lambda>d. d \<in> set l) (remdups dims) of [d] \<Rightarrow> Inr d | _ \<Rightarrow> Inl AssertionError)
      | DimNone \<Rightarrow> Inl TypeError)"

text \<open>Lines 300--305: the data's own order unless some dimension is prescribed.\<close>

definition resolve_order :: "dim_opt list option \<Rightarrow> string list \<Rightarrow> string list py_result" where
  "resolve_order opt dims =
     (case opt of
        None \<Rightarrow> Inr dims
      | Some os \<Rightarrow> if list_all (\<lambda>od. od = DimNone) os then Inr dims else py_map (find_dim dims) os)"

text \<open>\<^verbatim>\<open>data.transpose(*order)\<close>: ValueError unless the order is a permutation of the
  dimensions.\<close>

definition transposable :: "string list \<Rightarrow> string list \<Rightarrow> bool" where
  "transposable order dims \<longleftrightarrow> distinct order \<and> set order = set dims \<and> length order = length dims"

text \<open>
  \<^verbatim>\<open>_real_data_etc_from_xarray\<close> (lines 265--316): the data's dimension count must
  be the model's \<^verbatim>\<open>n_dims\<close>.  One dimension: the values and the coordinate of the
  first index as \<^verbatim>\<open>x\<close>.  More: the resolved order, the data transposed to it when
  it differs, the coordinates of the ordered dimensions, the flattened values.
  The unflattened N-dimensional array lmfit also receives is represented by the
  flattened one.
\<close>

definition real_data_etc ::
  "xmodel \<Rightarrow> spectrum \<Rightarrow> (real list \<times> real list \<times> (string, real list) dict \<times> string list option) py_result" where
  "real_data_etc m a =
     (if length (sp_dims a) \<noteq> xn_dims m then Inl AssertionError
      else if xn_dims m = 1 then
        (let d = hd (sp_dims a); v = ravel a [d] in Inr (v, v, [(''x'', sp_coords a d)], None))
      else sbind (resolve_order (xdim_order m) (sp_dims a)) (\<lambda>order.
        if order \<noteq> sp_dims a \<and> \<not> transposable order (sp_dims a) then Inl ValueError
        else let v = ravel a order
             in Inr (v, v, map (\<lambda>d. (d, sp_coords a d)) (filter (\<lambda>d. d \<in> set order) (sp_dims a)), Some order)))"

text \<open>\<^verbatim>\<open>_real_weights_from_xarray\<close> (lines 244--263).\<close>

definition real_weights ::
  "xmodel \<Rightarrow> spectrum \<Rightarrow> string list option \<Rightarrow> real list py_result" where
  "real_weights m w order =
     (if xn_dims m = 1 then Inr (ravel w (sp_dims w))
      else case order of
        None \<Rightarrow> Inr (ravel w (sp_dims w))
      | Some od \<Rightarrow> if od \<noteq> sp_dims w \<and> \<not> transposable od (sp_dims w) then Inl ValueError else Inr (ravel w od))"

section \<open>guess\_fit\<close>

datatype xdata = XArray spectrum | NdArray "real list"

datatype weights_in = NoWeights | ArrWeights "real list" | XWeights spectrum

text \<open>
  \<^verbatim>\<open>guess_fit\<close> (lines 114--196).  The data: an xarray is translated; a plain
  array is its own data, with the keyword \<^verbatim>\<open>x\<close> as coordinate.  The transpose
  option asserts that the data is \<^bold>\<open>not\<close> one-dimensional, then swaps the data
  with the first coordinate.  The loop of lines 178--183 tests
  \<^verbatim>\<open>isinstance(v, dict)\<close> on the values of an \<^verbatim>\<open>lf.Parameters\<close>, which are
  \<^verbatim>\<open>lf.Parameter\<close> objects: it never does anything, and \<^verbatim>\<open>prefix_params\<close>
  has no effect.  The user's parameters then replace the guessed ones by name
  (\<^verbatim>\<open>guessed_params.update(params)\<close>) and the model is fitted.
\<close>

definition data_ndim :: "xdata \<Rightarrow> nat" where
  "data_ndim d = (case d of XArray a \<Rightarrow> length (sp_dims a) | NdArray v \<Rightarrow> 1)"

text \<open>Lines 140--149: the arrays to fit and the coordinates.\<close>

definition fit_inputs ::
  "xmodel \<Rightarrow> xdata \<Rightarrow> real list option
   \<Rightarrow> (real list \<times> real list \<times> (string, real list) dict \<times> string list option) py_result" where
  "fit_inputs m data xkw =
     (case data of
        XArray a \<Rightarrow> real_data_etc m a
      | NdArray v \<Rightarrow> Inr (v, v, (case xkw of None \<Rightarrow> [] | Some x \<Rightarrow> [(''x'', x)]), None))"

text \<open>Lines 151--157.\<close>

definition fit_weights :: "xmodel \<Rightarrow> weights_in \<Rightarrow> string list option \<Rightarrow> real list option py_result" where
  "fit_weights m weights order =
     (case weights of
        XWeights w \<Rightarrow> sbind (real_weights m w order) (\<lambda>rw. Inr (Some rw))
      | ArrWeights rw \<Rightarrow> Inr (Some rw)
      | NoWeights \<Rightarrow> Inr None)"

text \<open>Lines 159--168: the assertion is that the data is not one-dimensional,
  although its message says that a multidimensional array cannot be transposed.\<close>

definition transpose_inputs ::
  "xdata \<Rightarrow> bool \<Rightarrow> real list \<Rightarrow> real list \<Rightarrow> (string, real list) dict
   \<Rightarrow> (real list \<times> real list \<times> (string, real list) dict) py_result" where
  "transpose_inputs data do_transpose rd flat coords =
     (if \<not> do_transpose then Inr (rd, flat, coords)
      else if data_ndim data = 1 then Inl AssertionError
      else case coords of
             [] \<Rightarrow> Inl StopIteration
           | (k, c) # _ \<Rightarrow> Inr (c, c, dict_set coords k rd))"

text \<open>Lines 170--196.  The loop of lines 178--183 tests \<^verbatim>\<open>isinstance(v, dict)\<close> on
  the values of an \<^verbatim>\<open>lf.Parameters\<close>, which are \<^verbatim>\<open>lf.Parameter\<close> objects, so it
  never acts; the user's parameters then replace the guessed ones by name
  (\<^verbatim>\<open>guessed_params.update(params)\<close>) and the model is fitted.\<close>

definition merge_and_fit ::
  "lmfit_ops \<Rightarrow> xmodel \<Rightarrow> param_in \<Rightarrow> bool \<Rightarrow> real list \<Rightarrow> real list \<Rightarrow> (string, real list) dict
   \<Rightarrow> real list option \<Rightarrow> model_result py_result" where
  "merge_and_fit ops m params guess rd flat coords rw =
     sbind (prep_parameters ops params) (\<lambda>ps.
       let guessed = (if guess then model_guess ops m rd coords else lf_make_params ops (components m))
       in Inr (lf_fit ops m flat (dict_update guessed ps) coords rw))"

text \<open>\<^verbatim>\<open>guess_fit\<close> (lines 114--196); \<^verbatim>\<open>prefix_params\<close> is read only by the
  loop that never acts.\<close>

definition guess_fit ::
  "lmfit_ops \<Rightarrow> xmodel \<Rightarrow> xdata \<Rightarrow> param_in \<Rightarrow> weights_in \<Rightarrow> bool \<Rightarrow> bool \<Rightarrow> bool \<Rightarrow> real list option
   \<Rightarrow> model_result py_result" where
  "guess_fit ops m data params weights guess prefix_params do_transpose xkw =
     sbind (fit_inputs m data xkw) (\<lambda>(rd, flat, coords, order).
     sbind (fit_weights m weights order) (\<lambda>rw.
     sbind (transpose_inputs data do_transpose rd flat coords) (\<lambda>(rd', flat', coords').
       merge_and_fit ops m params guess rd' flat' coords' rw)))"

text \<open>\<^verbatim>\<open>xguess\<close> (lines 198--225): \<^verbatim>\<open>Model.guess\<close> on the values, with the
  coordinate of an xarray's first index as \<^verbatim>\<open>x\<close> (the array must be
  one-dimensional), or with the keyword \<^verbatim>\<open>x\<close> for a plain array (\<^verbatim>\<open>x=None\<close>
  is lmfit's default, the same as no coordinate).\<close>

definition xguess :: "lmfit_ops \<Rightarrow> xmodel \<Rightarrow> xdata \<Rightarrow> real list option \<Rightarrow> parameters py_result" where
  "xguess ops m data xkw =
     (case data of
        XArray a \<Rightarrow>
          if length (sp_dims a) \<noteq> 1 then Inl AssertionError
          else let d = hd (sp_dims a) in Inr (model_guess ops m (ravel a [d]) [(''x'', sp_coords a d)])
      | NdArray v \<Rightarrow> Inr (model_guess ops m v (case xkw of None \<Rightarrow> [] | Some x \<Rightarrow> [(''x'', x)])))"

section \<open>Concrete inputs\<close>

text \<open>lmfit stand-ins for the worked examples: a leaf guesses its centre at 1, a
  parameter takes its \<^verbatim>\<open>value\<close>, and the fit reports the parameters it was given.\<close>

definition demo_ops :: lmfit_ops where
  "demo_ops =
     \<lparr>lf_guess = (\<lambda>p data coords. [(p @ ''center'', mk_param 1)]),
      lf_make_params = (\<lambda>cs. []),
      lf_parameter = (\<lambda>k args. case map_of args ''value'' of Some (PyFloat v) \<Rightarrow> Inr (mk_param v) | _ \<Rightarrow> Inl TypeError),
      lf_fit = (\<lambda>m flat ps coords rw. \<lparr>mr_prefixes = components m, mr_params = ps, mr_best_fit = flat, mr_residual = []\<rparr>)\<rparr>"

definition demo_weights :: spectrum where
  "demo_weights = demo_cut\<lparr>sp_values := (\<lambda>a. 1)\<rparr>"

section \<open>Lemmas of the adapter\<close>

lemma fit_inputs_1d:
  "data_ndim data = 1 \<Longrightarrow> fit_inputs m data xkw = Inl AssertionError \<or> (\<exists>rd flat coords. fit_inputs m data xkw = Inr (rd, flat, coords, None))"
  by (auto simp: fit_inputs_def real_data_etc_def data_ndim_def Let_def split: xdata.splits)

lemma fit_weights_ok:
  "order = None \<Longrightarrow> \<exists>rw. fit_weights m weights order = Inr rw"
  by (auto simp: fit_weights_def real_weights_def split: weights_in.splits)

lemma guess_fit_Inr:
  "guess_fit ops m data params w g pp tr x = Inr r \<Longrightarrow>
   \<exists>rd flat coords rw. merge_and_fit ops m params g rd flat coords rw = Inr r"
  by (auto simp: guess_fit_def sbind_eq_Inr split: prod.splits)

lemma ravel_same_grid:
  assumes "sp_coords w = sp_coords a"
  shows "length (ravel w od) = length (ravel a od)
     \<and> (\<forall>i<length (ravel a od). \<exists>pt. ravel a od ! i = sp_values a pt \<and> ravel w od ! i = sp_values w pt)"
  using assms by (auto simp: ravel_def)

lemma demo_guess_fit:
  "guess_fit demo_ops (peak_leaf ''a_'' 1) (NdArray [1, 2]) (ParamsDict [(''center'', [(''value'', PyFloat 5)])])
     NoWeights True True False (Some [0, 1])
   = Inr \<lparr>mr_prefixes = [''a_''], mr_params = [(''a_center'', mk_param 1), (''center'', mk_param 5)],
          mr_best_fit = [1, 2], mr_residual = []\<rparr>"
  by (simp add: guess_fit_def fit_inputs_def fit_weights_def transpose_inputs_def merge_and_fit_def
      prep_parameters_def prep_dict_def demo_ops_def dict_update_def)

lemma demo_real_data:
  "real_data_etc (peak_leaf ''a_'' 2) demo_cut =
     Inr ([1, 11, 2, 12, 3, 13], [1, 11, 2, 12, 3, 13], [(''phi'', [1, 2, 3]), (''eV'', [0, 1])], Some [''phi'', ''eV''])"
  by (simp add: real_data_etc_def resolve_order_def ravel_def demo_cut_def Let_def)

lemma demo_real_weights:
  "real_weights (peak_leaf ''a_'' 2) demo_weights (Some [''phi'', ''eV'']) = Inr [1, 1, 1, 1, 1, 1]"
  by (simp add: real_weights_def ravel_def demo_weights_def demo_cut_def)

section \<open>Properties of the adapter\<close>

text \<open>
  C26. Folding \<^verbatim>\<open>+\<close> over models of equal \<^verbatim>\<open>n_dims\<close>, each with distinct
  parameter names, succeeds exactly when no parameter name occurs in two of them: then
  the composite's components and parameter names are the models' in order and its
  \<^verbatim>\<open>n_dims\<close> is theirs; otherwise lmfit's composite constructor raises
  \<^verbatim>\<open>NameError\<close> (two bands of one prefix, say).
\<close>

theorem reduce_add_spec:
  assumes "ms \<noteq> []" "list_all (\<lambda>m. xn_dims m = xn_dims (hd ms)) ms"
    and "list_all (\<lambda>m. distinct (param_names m)) ms"
  shows "(distinct (concat (map param_names ms)) \<longrightarrow>
           (\<exists>c. reduce_add ms = Inr c \<and> components c = concat (map components ms)
                \<and> param_names c = concat (map param_names ms) \<and> xn_dims c = xn_dims (hd ms)))
         \<and> (\<not> distinct (concat (map param_names ms)) \<longrightarrow> reduce_add ms = Inl NameError)"
  using assms
proof (induction ms rule: reduce_add.induct)
  case 1
  then show ?case by simp
next
  case (2 m)
  then show ?case by simp
next
  case (3 m n ms)
  then have eq: "xn_dims m = xn_dims n" by simp
  let ?c = "XAdd m n (xn_dims n)"
  show ?case
  proof (cases "set (param_names m) \<inter> set (param_names n) = {}")
    case True
    then have add: "xadd m n = Inr ?c" by (simp add: xadd_def composite_ok_def eq)
    have "list_all (\<lambda>x. xn_dims x = xn_dims (hd (?c # ms))) (?c # ms)"
      "list_all (\<lambda>x. distinct (param_names x)) (?c # ms)"
      using "3.prems" eq True by auto
    with "3.IH" [of ?c] add eq show ?thesis by auto
  next
    case False
    then have "xadd m n = Inl NameError" by (simp add: xadd_def composite_ok_def)
    moreover have "\<not> distinct (concat (map param_names (m # n # ms)))"
      using False by auto
    ultimately show ?thesis by simp
  qed
qed

theorem reduce_add_spec_witness:
  "(\<exists>c. reduce_add [peak_leaf ''a_'' 1, peak_leaf ''b_'' 1] = Inr c \<and> components c = [''a_'', ''b_''] \<and> xn_dims c = 1)
   \<and> reduce_add [peak_leaf ''a_'' 1, peak_leaf ''a_'' 1] = Inl NameError"
  using reduce_add_spec [of "[peak_leaf ''a_'' 1, peak_leaf ''b_'' 1]"]
    reduce_add_spec [of "[peak_leaf ''a_'' 1, peak_leaf ''a_'' 1]"]
  by (simp add: xadd_def composite_ok_def)

text \<open>
  With no parameter name shared, a model of another \<^verbatim>\<open>n_dims\<close> than the first makes
  the fold fail the assertion of \<^verbatim>\<open>__add__\<close>.
\<close>

lemma reduce_add_mismatch:
  "ms \<noteq> [] \<Longrightarrow> distinct (concat (map param_names ms)) \<Longrightarrow>
   \<not> list_all (\<lambda>m. xn_dims m = xn_dims (hd ms)) ms \<Longrightarrow> reduce_add ms = Inl AssertionError"
proof (induction ms rule: reduce_add.induct)
  case 1
  then show ?case by simp
next
  case (2 m)
  then show ?case by simp
next
  case (3 m n ms)
  have ok: "composite_ok m n = None"
    using "3.prems"(2) by (auto simp: composite_ok_def)
  show ?case
  proof (cases "xn_dims m = xn_dims n")
    case True
    with "3.prems"(3) have "\<not> list_all (\<lambda>x. xn_dims x = xn_dims (hd (XAdd m n (xn_dims n) # ms))) (XAdd m n (xn_dims n) # ms)"
      by simp
    with "3.IH" [of "XAdd m n (xn_dims n)"] "3.prems"(2) True ok show ?thesis by (simp add: xadd_def)
  next
    case False
    then show ?thesis using ok by (simp add: xadd_def)
  qed
qed

text \<open>
  The guess of a sum does not depend on how it was bracketed: the composite
  \<^verbatim>\<open>guess\<close> reads only the flattened components.
\<close>

theorem model_guess_bracketing:
  "model_guess ops (XAdd (XAdd a b n1) c n2) data coords = model_guess ops (XAdd a (XAdd b c n3) n4) data coords"
  by simp

text \<open>
  \<^verbatim>\<open>prefix_params\<close> has no effect on \<^verbatim>\<open>guess_fit\<close>: the only code reading it
  is under \<^verbatim>\<open>isinstance(v, dict)\<close>, which no value of an \<^verbatim>\<open>lf.Parameters\<close>
  satisfies.
\<close>

theorem guess_fit_prefix_params_ignored:
  "guess_fit ops m data params w g True tr x = guess_fit ops m data params w g False tr x"
  by (simp add: guess_fit_def)

text \<open>
  C30. \<^verbatim>\<open>guess_fit(..., transpose=True)\<close> on one-dimensional data always raises
  AssertionError: the assertion is inverted with respect to its message, so only
  multidimensional data can be transposed.
\<close>

theorem guess_fit_transpose_1d:
  assumes "data_ndim data = 1"
  shows "guess_fit ops m data params w g pp True x = Inl AssertionError"
proof -
  from fit_inputs_1d [OF assms, of m x] show ?thesis
  proof
    assume "fit_inputs m data x = Inl AssertionError"
    then show ?thesis by (simp add: guess_fit_def)
  next
    assume "\<exists>rd flat coords. fit_inputs m data x = Inr (rd, flat, coords, None)"
    then obtain rd flat coords where fi: "fit_inputs m data x = Inr (rd, flat, coords, None)" by blast
    obtain rw where "fit_weights m w None = Inr rw" using fit_weights_ok by blast
    with fi assms show ?thesis by (simp add: guess_fit_def transpose_inputs_def)
  qed
qed

theorem guess_fit_transpose_1d_witness:
  "guess_fit demo_ops (peak_leaf ''a_'' 1) (NdArray [1, 2]) ParamsNone NoWeights True True True (Some [0, 1])
   = Inl AssertionError"
  by (rule guess_fit_transpose_1d) (simp add: data_ndim_def)

text \<open>
  C31. The parameters \<^verbatim>\<open>guess_fit\<close> fits with are the guessed ones overridden,
  name by name, by the user's: a hint given under the unprefixed name
  (\<^verbatim>\<open>"center"\<close>) adds a parameter of that name and leaves the model's
  \<^verbatim>\<open>a_center\<close> at its guess (\<open>demo_guess_fit\<close>).
\<close>

theorem guess_fit_user_wins:
  assumes "guess_fit ops m data params w g pp tr x = Inr r"
  shows "\<exists>ps rd flat coords rw. prep_parameters ops params = Inr ps
     \<and> r = lf_fit ops m flat
             (dict_update (if g then model_guess ops m rd coords else lf_make_params ops (components m)) ps) coords rw
     \<and> map_of (dict_update (if g then model_guess ops m rd coords else lf_make_params ops (components m)) ps)
       = map_of (if g then model_guess ops m rd coords else lf_make_params ops (components m))
         ++ map_of (dict_update [] ps)"
proof -
  from guess_fit_Inr [OF assms] obtain rd flat coords rw ps where
    "prep_parameters ops params = Inr ps"
    "r = lf_fit ops m flat (dict_update (if g then model_guess ops m rd coords else lf_make_params ops (components m)) ps) coords rw"
    by (auto simp: merge_and_fit_def sbind_eq_Inr Let_def)
  then show ?thesis using map_of_dict_update by blast
qed

theorem guess_fit_user_wins_witness:
  "\<exists>ps rd flat coords rw. prep_parameters demo_ops (ParamsDict [(''center'', [(''value'', PyFloat 5)])]) = Inr ps
     \<and> \<lparr>mr_prefixes = [''a_''], mr_params = [(''a_center'', mk_param 1), (''center'', mk_param 5)],
          mr_best_fit = [1, 2], mr_residual = []\<rparr> = lf_fit demo_ops (peak_leaf ''a_'' 1) flat
             (dict_update (if True then model_guess demo_ops (peak_leaf ''a_'' 1) rd coords
                           else lf_make_params demo_ops (components (peak_leaf ''a_'' 1))) ps) coords rw
     \<and> map_of (dict_update (if True then model_guess demo_ops (peak_leaf ''a_'' 1) rd coords
                           else lf_make_params demo_ops (components (peak_leaf ''a_'' 1))) ps)
       = map_of (if True then model_guess demo_ops (peak_leaf ''a_'' 1) rd coords
                 else lf_make_params demo_ops (components (peak_leaf ''a_'' 1)))
         ++ map_of (dict_update [] ps)"
  by (rule guess_fit_user_wins [OF demo_guess_fit])

text \<open>
  C32. Data and weights stay aligned: for weights on the data's grid, the flattened
  weights have the data's length and each weight sits at the same coordinates as the
  value it weighs, whatever dimension order the model prescribes.
\<close>

theorem real_data_weights_aligned:
  assumes d: "real_data_etc m a = Inr (rd, flat, coords, order)" and rw: "real_weights m w order = Inr ws"
    and dims: "sp_dims w = sp_dims a" and cs: "sp_coords w = sp_coords a"
  shows "length ws = length flat \<and> (\<forall>i<length flat. \<exists>pt. flat ! i = sp_values a pt \<and> ws ! i = sp_values w pt)"
proof (cases "xn_dims m = 1")
  case True
  with d obtain dd where dd: "sp_dims a = [dd]" "flat = ravel a [dd]" "order = None"
    by (auto simp: real_data_etc_def Let_def length_Suc_conv split: if_splits)
  with True rw dims have "ws = ravel w [dd]" by (simp add: real_weights_def)
  with dd ravel_same_grid [OF cs, of "[dd]"] show ?thesis by simp
next
  case False
  with d obtain od where od: "flat = ravel a od" "order = Some od"
    by (auto simp: real_data_etc_def sbind_eq_Inr Let_def split: if_splits)
  with False rw have "ws = ravel w od" by (auto simp: real_weights_def split: if_splits)
  with od ravel_same_grid [OF cs, of od] show ?thesis by simp
qed

theorem real_data_weights_aligned_witness:
  "length [1, 1, 1, 1, 1, 1 :: real] = length [1, 11, 2, 12, 3, 13 :: real]"
proof -
  have "sp_dims demo_weights = sp_dims demo_cut" "sp_coords demo_weights = sp_coords demo_cut"
    by (simp_all add: demo_weights_def)
  from real_data_weights_aligned [OF demo_real_data demo_real_weights this] show ?thesis by (rule conjunct1)
qed

end
