(* ===== verification/HotPool.thy ===== *)
theory HotPool
  imports Prelude
begin

text \<open>
  The lazy keep-alive process pool of \<^verbatim>\<open>fits/hot_pool.py\<close>.  The object holds at
  most one \<^verbatim>\<open>multiprocessing.Pool\<close>; the property \<^verbatim>\<open>pool\<close> creates one on first
  use and returns the held one afterwards; \<^verbatim>\<open>__del__\<close> closes and forgets it.  Pools
  are numbered by creation; the state records the held pool, the number of pools
  created so far and the pools closed, most recent first.  The life of the object is
  the step relation \<open>hp_step\<close> over its two operations.
\<close>

record hp_state =
  hp_pool :: "nat option"
  hp_created :: nat
  hp_closed :: "nat list"

definition hp_init :: hp_state where
  "hp_init = \<lparr>hp_pool = None, hp_created = 0, hp_closed = []\<rparr>"

text \<open>The property \<^verbatim>\<open>pool\<close> (lines 17--31): the pool it returns and the new state.\<close>

definition hp_get :: "hp_state \<Rightarrow> nat \<times> hp_state" where
  "hp_get st =
     (case hp_pool st of
        Some p \<Rightarrow> (p, st)
      | None \<Rightarrow> (hp_created st, st\<lparr>hp_pool := Some (hp_created st), hp_created := Suc (hp_created st)\<rparr>))"

text \<open>\<^verbatim>\<open>__del__\<close> (lines 33--41).\<close>

definition hp_del :: "hp_state \<Rightarrow> hp_state" where
  "hp_del st =
     (case hp_pool st of
        Some p \<Rightarrow> st\<lparr>hp_pool := None, hp_closed := p # hp_closed st\<rparr>
      | None \<Rightarrow> st)"

datatype hp_op = GetPool | DelPool

inductive hp_step :: "hp_state \<Rightarrow> hp_op \<Rightarrow> hp_state \<Rightarrow> bool" where
  get: "hp_step st GetPool (snd (hp_get st))"
| del: "hp_step st DelPool (hp_del st)"

inductive hp_reach :: "hp_state \<Rightarrow> bool" where
  init: "hp_reach hp_init"
| step: "hp_reach st \<Longrightarrow> hp_step st op st' \<Longrightarrow> hp_reach st'"

text \<open>A run of the object: its operations in order, each applied to the state the
  previous one left.\<close>

fun hp_apply :: "hp_state \<Rightarrow> hp_op \<Rightarrow> hp_state" where
  "hp_apply st GetPool = snd (hp_get st)"
| "hp_apply st DelPool = hp_del st"

definition hp_run :: "hp_state \<Rightarrow> hp_op list \<Rightarrow> hp_state" where
  "hp_run st ops = fold (\<lambda>op s. hp_apply s op) ops st"

inductive_cases hp_stepE [elim!]: "hp_step st op st'"

text \<open>The invariant: every pool created is either the held one or closed, exactly once,
  and the held one is the most recent.\<close>

definition hp_inv :: "hp_state \<Rightarrow> bool" where
  "hp_inv st \<longleftrightarrow>
     distinct (hp_closed st)
     \<and> set (hp_closed st) \<union> set_option (hp_pool st) = {..<hp_created st}
     \<and> (\<forall>p. hp_pool st = Some p \<longrightarrow> p \<notin> set (hp_closed st) \<and> Suc p = hp_created st)"

lemma hp_inv_init: "hp_inv hp_init"
  by (simp add: hp_inv_def hp_init_def)

lemma hp_inv_get: "hp_inv st \<Longrightarrow> hp_inv (snd (hp_get st))"
  by (auto simp: hp_inv_def hp_get_def lessThan_Suc split: option.splits)

lemma hp_inv_del: "hp_inv st \<Longrightarrow> hp_inv (hp_del st)"
  by (auto simp: hp_inv_def hp_del_def split: option.splits)

lemma hp_reach_inv: "hp_reach st \<Longrightarrow> hp_inv st"
  by (induction rule: hp_reach.induct) (auto simp: hp_inv_init hp_inv_get hp_inv_del)

section \<open>Properties of the pool\<close>

text \<open>
  C33. In every reachable state the pool \<^verbatim>\<open>hot_pool.pool\<close> hands out is open (never
  one that \<^verbatim>\<open>__del__\<close> closed), and asking again returns the same pool without creating
  another.
\<close>

theorem hp_get_open_and_stable:
  assumes "hp_reach st"
  shows "fst (hp_get st) \<notin> set (hp_closed (snd (hp_get st)))
     \<and> hp_get (snd (hp_get st)) = (fst (hp_get st), snd (hp_get st))"
proof -
  have inv: "hp_inv st" by (rule hp_reach_inv [OF assms])
  show ?thesis
  proof (cases "hp_pool st")
    case None
    with inv have "hp_created st \<notin> set (hp_closed st)"
      by (auto simp: hp_inv_def)
    with None show ?thesis by (simp add: hp_get_def)
  next
    case (Some p)
    with inv show ?thesis by (simp add: hp_get_def hp_inv_def)
  qed
qed

theorem hp_get_open_and_stable_witness:
  "fst (hp_get (hp_del (snd (hp_get hp_init)))) \<notin> set (hp_closed (snd (hp_get (hp_del (snd (hp_get hp_init))))))
   \<and> hp_get (snd (hp_get (hp_del (snd (hp_get hp_init)))))
     = (fst (hp_get (hp_del (snd (hp_get hp_init)))), snd (hp_get (hp_del (snd (hp_get hp_init)))))"
proof -
  have "hp_reach (hp_del (snd (hp_get hp_init)))"
    by (meson hp_reach.init hp_reach.step hp_step.get hp_step.del)
  then show ?thesis by (rule hp_get_open_and_stable)
qed

lemma hp_step_apply: "hp_step st op (hp_apply st op)"
  by (cases op) (auto intro: hp_step.intros)

lemma hp_reach_run: "hp_reach st \<Longrightarrow> hp_reach (hp_run st ops)"
  by (induction ops arbitrary: st) (auto simp: hp_run_def intro: hp_reach.step hp_step_apply)

lemma hp_run_snoc: "hp_run st (ops @ [op]) = hp_apply (hp_run st ops) op"
  by (simp add: hp_run_def)

text \<open>
  C29. No pool leaks: whatever the object did before, once \<^verbatim>\<open>__del__\<close> has run last,
  every pool the property ever created has been closed, each exactly once, and none is
  held.
\<close>

theorem hp_del_closes_all:
  assumes "hp_reach st" "ops \<noteq> []" "last ops = DelPool"
  shows "hp_pool (hp_run st ops) = None \<and> distinct (hp_closed (hp_run st ops))
     \<and> set (hp_closed (hp_run st ops)) = {..<hp_created (hp_run st ops)}"
proof -
  obtain pre where ops: "ops = pre @ [DelPool]"
    using assms(2,3) by (metis append_butlast_last_id)
  have inv: "hp_inv (hp_run st pre)"
    using hp_reach_inv hp_reach_run assms(1) by blast
  then have "hp_inv (hp_del (hp_run st pre))"
    by (rule hp_inv_del)
  moreover have "hp_pool (hp_del (hp_run st pre)) = None"
    by (simp add: hp_del_def split: option.split)
  ultimately show ?thesis
    by (simp add: ops hp_run_snoc hp_inv_def)
qed

theorem hp_del_closes_all_witness:
  "hp_pool (hp_run hp_init [GetPool, DelPool, GetPool, GetPool, DelPool]) = None
   \<and> distinct (hp_closed (hp_run hp_init [GetPool, DelPool, GetPool, GetPool, DelPool]))
   \<and> set (hp_closed (hp_run hp_init [GetPool, DelPool, GetPool, GetPool, DelPool]))
       = {..<hp_created (hp_run hp_init [GetPool, DelPool, GetPool, GetPool, DelPool])}"
  by (rule hp_del_closes_all) (simp_all add: hp_reach.init)

end
