(* ===== verification/Maestro.thy ===== *)
theory Maestro
  imports Prelude
begin

text \<open>
  The serpentine unwinding of the MAESTRO nano-ARPES loader,
  \<^verbatim>\<open>MAESTRONanoARPESEndstation.unwind_serptentine\<close> in
  \<^verbatim>\<open>endstations/plugin/MAESTRO.py\<close> (lines 337--360).  A spectrum's values are the
  list of its rows along the first (serpentine) axis; a row is the list of its
  entries along the second axis, each entry being whatever the further axes hold.
  Every odd row is reversed along the second axis and rolled by two places
  (\<^verbatim>\<open>np.roll(old_values[mask, ::-1], 2, axis=1)\<close>).
\<close>

text \<open>\<^verbatim>\<open>np.roll(x, k)\<close> for \<open>k \<ge> 0\<close>: entry \<open>j\<close> of the result is entry
  \<open>(j - k) mod n\<close> of \<open>x\<close>, a rotation to the right.\<close>

definition np_roll :: "nat \<Rightarrow> 'a list \<Rightarrow> 'a list" where
  "np_roll k xs = rotate (length xs - k mod length xs) xs"

definition unwind_row :: "'a list \<Rightarrow> 'a list" where
  "unwind_row row = np_roll 2 (rev row)"

text \<open>The mask \<^verbatim>\<open>np.mod(range(n), 2) == 1\<close> selects the odd rows.\<close>

definition unwind_rows :: "'a list list \<Rightarrow> 'a list list" where
  "unwind_rows v = map (\<lambda>(i, row). if i mod 2 = 1 then unwind_row row else row) (enumerate 0 v)"

text \<open>The loop over \<^verbatim>\<open>data.S.spectra\<close>.\<close>

definition unwind_serpentine :: "'a list list list \<Rightarrow> 'a list list list" where
  "unwind_serpentine spectra = map unwind_rows spectra"

lemma np_roll_nth:
  "j < length xs \<Longrightarrow> np_roll k xs ! j = xs ! ((j + (length xs - k mod length xs)) mod length xs)"
  by (simp add: np_roll_def nth_rotate add.commute)

lemma unwind_row_involution: "unwind_row (unwind_row row) = row"
proof (cases "row = []")
  case True
  then show ?thesis by (simp add: unwind_row_def np_roll_def)
next
  case False
  define n where "n = length row"
  define m where "m = n - 2 mod n"
  have n: "0 < n" using False by (simp add: n_def)
  have "unwind_row (unwind_row row) = rotate m (rotate (n - m mod n) row)"
    by (simp add: unwind_row_def np_roll_def rotate_rev m_def n_def)
  also have "\<dots> = rotate (m + (n - m mod n)) row" by (simp add: rotate_rotate)
  also have "(m + (n - m mod n)) mod n = 0"
  proof (cases "2 mod n = 0")
    case True
    then show ?thesis by (simp add: m_def)
  next
    case False
    then have "m < n" using n by (simp add: m_def)
    then show ?thesis using n by simp
  qed
  then have "rotate (m + (n - m mod n)) row = row" by (simp add: n_def)
  finally show ?thesis .
qed

lemma roll_rev_index: "j < n \<Longrightarrow> n - Suc ((j + (n - 2 mod n)) mod n) = (n + 1 - j) mod n"
proof -
  assume j: "j < n"
  consider "n = 1" | "n = 2" | "3 \<le> n \<and> j < 2" | "3 \<le> n \<and> 2 \<le> j" using j by linarith
  then show ?thesis
  proof cases
    case 1 then show ?thesis using j by simp
  next
    case 2 then show ?thesis using j by (cases j) auto
  next
    case 3
    then have "2 mod n = 2" by simp
    moreover have "j + (n - 2) < n" using 3 by linarith
    ultimately have "(j + (n - 2 mod n)) mod n = j + n - 2" by simp
    moreover have "(n + 1 - j) mod n = 1 - j"
      using 3 mod_if [of "n + 1 - j" n] by auto
    ultimately show ?thesis using 3 by simp
  next
    case 4
    then have "2 mod n = 2" by simp
    moreover have "j + (n - 2) = (j - 2) + n" using 4 by linarith
    moreover have "j - 2 < n" using j by linarith
    ultimately have "(j + (n - 2 mod n)) mod n = j - 2" by simp
    moreover have "(n + 1 - j) mod n = n + 1 - j" using 4 by (intro mod_less) linarith
    ultimately show ?thesis using 4 by simp
  qed
qed
lemma unwind_row_nth:
  "j < length row \<Longrightarrow> unwind_row row ! j = row ! ((length row + 1 - j) mod length row)"
proof -
  assume j: "j < length row"
  have "(j + (length row - 2 mod length row)) mod length row < length row" using j by (intro mod_less_divisor) linarith
  then show ?thesis
    using j roll_rev_index [of j "length row"] by (simp add: unwind_row_def np_roll_nth rev_nth)
qed

lemma enumerate_map_fst:
  "map fst (enumerate k xs) = [k..<k + length xs]"
  by (induction xs arbitrary: k) (simp_all add: upt_rec)

section \<open>Properties of the unwinding\<close>

text \<open>Applied twice the unwinding restores the data.\<close>

lemma unwind_serpentine_roundtrip:
  "unwind_serpentine (unwind_serpentine spectra) = spectra"
proof -
  have "unwind_rows (unwind_rows v) = v" for v :: "'a list list"
  proof (rule nth_equalityI)
    show "length (unwind_rows (unwind_rows v)) = length v" by (simp add: unwind_rows_def)
  next
    fix i assume "i < length (unwind_rows (unwind_rows v))"
    then have i: "i < length v" by (simp add: unwind_rows_def)
    then show "unwind_rows (unwind_rows v) ! i = v ! i"
      by (simp add: unwind_rows_def nth_enumerate_eq unwind_row_involution)
  qed
  then show ?thesis by (simp add: unwind_serpentine_def comp_def)
qed

text \<open>
  C34. The unwinding keeps the shape of every spectrum, leaves the even rows as
  they are, and moves entry \<open>(n + 1 - j) mod n\<close> of an odd row of length \<open>n\<close> to
  place \<open>j\<close>: the row reversed, then rolled two places to the right.
\<close>

theorem unwind_serpentine_nth:
  assumes "s < length spectra" and "i < length (spectra ! s)" and "j < length (spectra ! s ! i)"
  shows "length (unwind_serpentine spectra) = length spectra
    \<and> length (unwind_serpentine spectra ! s) = length (spectra ! s)
    \<and> length (unwind_serpentine spectra ! s ! i) = length (spectra ! s ! i)
    \<and> unwind_serpentine spectra ! s ! i ! j =
        (if odd i then spectra ! s ! i ! ((length (spectra ! s ! i) + 1 - j) mod length (spectra ! s ! i))
         else spectra ! s ! i ! j)"
proof -
  have row: "unwind_serpentine spectra ! s ! i =
      (if i mod 2 = 1 then unwind_row (spectra ! s ! i) else spectra ! s ! i)"
    using assms by (simp add: unwind_serpentine_def unwind_rows_def nth_enumerate_eq)
  have l1: "length (unwind_serpentine spectra) = length spectra"
    by (simp add: unwind_serpentine_def)
  have l2: "length (unwind_serpentine spectra ! s) = length (spectra ! s)"
    using assms by (simp add: unwind_serpentine_def unwind_rows_def)
  have l3: "length (unwind_row r) = length r" for r :: "'a list"
    by (simp add: unwind_row_def np_roll_def)
  show ?thesis
    using assms by (simp add: row l1 l2 l3 unwind_row_nth odd_iff_mod_2_eq_one)
qed

theorem unwind_serpentine_nth_witness:
  "0 < length [[[1, 2, 3, 4], [5, 6, 7, 8 :: nat]]] \<and> 1 < length ([[[1, 2, 3, 4], [5, 6, 7, 8 :: nat]]] ! 0)
   \<and> 0 < length ([[[1, 2, 3, 4], [5, 6, 7, 8 :: nat]]] ! 0 ! 1)
   \<and> unwind_serpentine [[[1, 2, 3, 4], [5, 6, 7, 8 :: nat]]] ! 0 ! 1 ! 0 = 6"
  using unwind_serpentine_nth [of 0 "[[[1, 2, 3, 4], [5, 6, 7, 8 :: nat]]]" 1 0] by simp

end
