(* ===== verification/MaestroLoad.thy ===== *)
theory MaestroLoad
  imports Maestro "HOL-Library.Sublist"
begin

text \<open>
  Loading at the MAESTRO endstations, \<^verbatim>\<open>endstations/plugin/MAESTRO.py\<close>: the key
  renaming and \<^verbatim>\<open>scan_x\<close> flip of \<^verbatim>\<open>load\<close>, the attribute updates of
  \<^verbatim>\<open>postprocess_final\<close> and the unit conversions of the nano-ARPES
  \<^verbatim>\<open>postprocess_final\<close>.  A dataset is the record \<open>xdataset\<close>: its variables in
  order, each a coordinate or a data variable with dimensions, attributes and values,
  and its own attributes.  An array value is \<open>xval\<close>, a scalar or the list of its
  sub-arrays along the first axis.  Attribute values are \<open>attrval\<close>.  What the base
  classes (\<^verbatim>\<open>FITSEndstation.load\<close>, \<^verbatim>\<open>SynchrotronEndstation.postprocess_final\<close>)
  and the accessor \<^verbatim>\<open>S.spectra\<close> do lies outside the sources and is an argument.
\<close>

datatype xval = XScalar real | XArr "xval list"

datatype attrval = AStr string | AReal real | AInt int | ABool bool | ANaN | ANone

datatype vkind = Coord | DataVar

record xvar =
  xv_kind :: vkind
  xv_dims :: "string list"
  xv_attrs :: "(string, attrval) dict"
  xv_vals :: xval

record xdataset =
  ds_vars :: "(string, xvar) dict"
  ds_attrs :: "(string, attrval) dict"

section \<open>The endstation tables\<close>

definition micro_rename_keys :: "(string, string) dict" where
  "micro_rename_keys =
     [(''LMOTOR0'', ''x''), (''LMOTOR1'', ''y''), (''LMOTOR2'', ''z''), (''Scan X'', ''scan_x''),
      (''Scan Y'', ''scan_y''), (''Scan Z'', ''scan_z''), (''LMOTOR3'', ''theta''), (''LMOTOR4'', ''beta''),
      (''LMOTOR5'', ''chi''), (''LMOTOR6'', ''alpha''), (''LMOTOR9'', ''psi''), (''mono_eV'', ''hv''),
      (''SF_HV'', ''hv''), (''SS_HV'', ''hv''), (''Slit Defl'', ''psi''), (''S_Volts'', ''volts''),
      (''SFRGN0'', ''fixed_region_name''), (''SFE_0'', ''daq_center_energy''), (''SFLNM0'', ''lens_mode_name''),
      (''SFPE_0'', ''pass_energy''), (''UNDHARM'', ''undulator_harmonic''), (''RINGCURR'', ''beam_current''),
      (''SFFR_0'', ''frames_per_slice''), (''SFBA_0'', ''phi_prebinning''), (''SFBE0'', ''eV_prebinning''),
      (''LWLVNM'', ''daq_type'')]"

definition nano_rename_keys :: "(string, string) dict" where
  "nano_rename_keys =
     [(''LMOTOR0'', ''long_x''), (''LMOTOR1'', ''long_z''), (''LMOTOR2'', ''long_y''),
      (''PMOTOR0'', ''physical_long_x''), (''PMOTOR1'', ''physical_long_z''), (''PMOTOR2'', ''physical_long_y''),
      (''LMOTOR3'', ''chi''), (''LMOTOR4'', ''theta''), (''LMOTOR5'', ''order_sorting_aperature_x''),
      (''LMOTOR6'', ''order_sorting_aperature_z''), (''LMOTOR7'', ''order_sorting_aperature_y''),
      (''LMOTOR8'', ''optics_insertion''), (''LMOTOR9'', ''optics_select''), (''LMOTOR10'', ''short_x''),
      (''LMOTOR11'', ''short_z''), (''LMOTOR12'', ''short_y''), (''LMOTOR13'', ''psi''), (''LMOTOR14'', ''alpha''),
      (''LMOTOR15'', ''optics_pitch''), (''LMOTOR16'', ''optics_yaw''), (''LMOTOR17'', ''aperature_x''),
      (''LMOTOR18'', ''aperature_y''), (''LMOTOR19'', ''sample_float''), (''MONO_E'', ''hv''),
      (''E_RESOLU'', ''probe_linewidth''), (''EPU_E'', ''undulator_hv''), (''EPU_POL'', ''probe_polarization''),
      (''EPU_Z'', ''undulator_z''), (''EPU_GAP'', ''undulator_gap''), (''UNDHARM'', ''undulator_harmonic''),
      (''RINGCURR'', ''beam_current''), (''SF_HV'', ''hv''), (''SS_HV'', ''hv''), (''Slit Defl.'', ''psi''),
      (''SFRGN0'', ''fixed_region_name''), (''SFE_0'', ''daq_center_energy''), (''SFLNM0'', ''lens_mode_name''),
      (''SFPE_0'', ''pass_energy''), (''SFFR_0'', ''frames_per_slice''), (''SFBA_0'', ''phi_prebinning''),
      (''SFBE0'', ''eV_prebinning''), (''LWLVNM'', ''daq_type'')]"

definition nano_rename_coords :: "(string, string) dict" where
  "nano_rename_coords =
     [(''X'', ''long_x''), (''Y'', ''long_y''), (''Z'', ''long_z''), (''Scan X'', ''short_x''),
      (''Scan Y'', ''short_y''), (''Scan Z'', ''short_z''), (''Sample X'', ''long_x''), (''Sample Y'', ''long_y''),
      (''Sample Z'', ''long_z''), (''Optics Stage'', ''optics_insertion''), (''Pitch'', ''pitch''),
      (''S_Volts'', ''volts''), (''Slit Defl.'', ''psi'')]"

definition micro_analyzer_information :: "(string, attrval) dict" where
  "micro_analyzer_information =
     [(''analyzer'', AStr ''R4000''), (''analyzer_name'', AStr ''Scienta R4000''),
      (''parallel_deflectors'', ABool False), (''perpendicular_deflectors'', ABool True),
      (''analyzer_radius'', ANaN), (''analyzer_type'', AStr ''hemispherical'')]"

definition nano_analyzer_information :: "(string, attrval) dict" where
  "nano_analyzer_information =
     [(''analyzer'', AStr ''DA-30''), (''analyzer_name'', AStr ''Scienta DA-30''),
      (''parallel_deflectors'', ABool False), (''perpendicular_deflectors'', ABool False),
      (''analyzer_radius'', ANaN), (''analyzer_type'', AStr ''hemispherical'')]"

section \<open>Renaming\<close>

text \<open>xarray's \<^verbatim>\<open>Dataset.rename\<close>: a key that names neither a variable nor a
  dimension raises \<^verbatim>\<open>ValueError\<close>; then every variable and its dimensions are renamed
  through the dictionary in order, and a new name that is already taken raises
  \<^verbatim>\<open>ValueError\<close> (\<^verbatim>\<open>_rename_vars\<close>).\<close>

definition rename_name :: "(string, string) dict \<Rightarrow> string \<Rightarrow> string" where
  "rename_name name_dict k = (case map_of name_dict k of Some n \<Rightarrow> n | None \<Rightarrow> k)"

fun rename_vars ::
  "(string, string) dict \<Rightarrow> (string, xvar) dict \<Rightarrow> (string, xvar) dict \<Rightarrow> (string, xvar) dict py_result" where
  "rename_vars name_dict acc [] = Inr acc"
| "rename_vars name_dict acc ((k, v) # vs) =
     (let name = rename_name name_dict k
      in if name \<in> fst ` set acc then Inl ValueError
         else rename_vars name_dict
                (acc @ [(name, v\<lparr>xv_dims := map (rename_name name_dict) (xv_dims v)\<rparr>)]) vs)"

definition xr_rename :: "(string, string) dict \<Rightarrow> xdataset \<Rightarrow> xdataset py_result" where
  "xr_rename name_dict ds =
     (if list_all (\<lambda>(k, _). k \<in> set (map fst (ds_vars ds)) \<or> k \<in> set (concat (map (xv_dims \<circ> snd) (ds_vars ds))))
           name_dict
      then sbind (rename_vars name_dict [] (ds_vars ds)) (\<lambda>vs. Inr (ds\<lparr>ds_vars := vs\<rparr>))
      else Inl ValueError)"

definition coord_names :: "xdataset \<Rightarrow> string list" where
  "coord_names ds = map fst [kv \<leftarrow> ds_vars ds. xv_kind (snd kv) = Coord]"

definition del_coord :: "string \<Rightarrow> xdataset \<Rightarrow> xdataset" where
  "del_coord k ds = ds\<lparr>ds_vars := filter (\<lambda>(k', _). k' \<noteq> k) (ds_vars ds)\<rparr>"

text \<open>\<^verbatim>\<open>np.flip(values, axis)\<close>.\<close>

fun flip_axis :: "nat \<Rightarrow> xval \<Rightarrow> xval" where
  "flip_axis 0 (XArr xs) = XArr (rev xs)"
| "flip_axis (Suc k) (XArr xs) = XArr (map (flip_axis k) xs)"
| "flip_axis k (XScalar r) = XScalar r"

text \<open>The flip loop of \<^verbatim>\<open>load\<close>: every data variable whose name contains
  \<^verbatim>\<open>spectrum\<close> is flipped along its \<^verbatim>\<open>scan_x\<close> axis;
  \<^verbatim>\<open>dims.index("scan_x")\<close> raises \<^verbatim>\<open>ValueError\<close> when it has no such axis.\<close>

definition is_spectrum_var :: "string \<Rightarrow> xvar \<Rightarrow> bool" where
  "is_spectrum_var k v \<longleftrightarrow> xv_kind v = DataVar \<and> sublist ''spectrum'' k"

fun flip_spectra :: "(string, xvar) dict \<Rightarrow> (string, xvar) dict py_result" where
  "flip_spectra [] = Inr []"
| "flip_spectra ((k, v) # vs) =
     (if is_spectrum_var k v then
        (if ''scan_x'' \<in> set (xv_dims v)
         then sbind (flip_spectra vs)
                (\<lambda>vs'. Inr ((k, v\<lparr>xv_vals := flip_axis (list_index (xv_dims v) ''scan_x'') (xv_vals v)\<rparr>) # vs'))
         else Inl ValueError)
      else sbind (flip_spectra vs) (\<lambda>vs'. Inr ((k, v) # vs')))"

text \<open>\<^verbatim>\<open>MAESTROARPESEndstationBase.load\<close> after \<^verbatim>\<open>super().load\<close>, whose scan is
  the argument: the coordinates with a key in \<^verbatim>\<open>RENAME_KEYS\<close> are collected in order, the
  coordinates already bearing a target name are deleted, the scan is renamed, and the spectra
  are flipped along \<^verbatim>\<open>scan_x\<close> when that coordinate exists.\<close>

definition will_rename :: "(string, string) dict \<Rightarrow> xdataset \<Rightarrow> (string, string) dict" where
  "will_rename rename_keys scan =
     [(c, rename_name rename_keys c). c \<leftarrow> filter (\<lambda>c. c \<in> fst ` set rename_keys) (coord_names scan)]"

definition delete_targets :: "string list \<Rightarrow> xdataset \<Rightarrow> xdataset" where
  "delete_targets targets scan =
     fold (\<lambda>v s. if v \<in> set (coord_names s) then del_coord v s else s) targets scan"

definition maestro_load :: "(string, string) dict \<Rightarrow> xdataset \<Rightarrow> xdataset py_result" where
  "maestro_load rename_keys scan =
     (let wr = will_rename rename_keys scan;
          scan = delete_targets (map snd wr) scan
      in sbind (xr_rename wr scan)
           (\<lambda>renamed. if ''scan_x'' \<in> set (coord_names renamed)
                      then sbind (flip_spectra (ds_vars renamed)) (\<lambda>vs. Inr (renamed\<lparr>ds_vars := vs\<rparr>))
                      else Inr renamed))"

section \<open>Post-processing\<close>

text \<open>The objects of \<^verbatim>\<open>ls = [data, *data.S.spectra]\<close>: the dataset itself, or a spectrum
  \<open>TSpec k cs\<close>, a DataArray view of the data variable \<open>k\<close> whose coordinates \<open>cs\<close> are the
  dataset's coordinates over its dimensions when the view was taken.  A view shares its
  attribute dictionary and values with the dataset's variable, so writing them changes the
  dataset; a coordinate assigned on a view is the view's own and is lost.\<close>

datatype target = TData | TSpec string "string list"

definition view_coords :: "xdataset \<Rightarrow> xvar \<Rightarrow> string list" where
  "view_coords ds v = map fst [kv \<leftarrow> ds_vars ds. xv_kind (snd kv) = Coord \<and> set (xv_dims (snd kv)) \<subseteq> set (xv_dims v)]"

definition maestro_targets :: "(string \<Rightarrow> xvar \<Rightarrow> bool) \<Rightarrow> xdataset \<Rightarrow> target list" where
  "maestro_targets spectra ds = TData # [TSpec (fst kv) (view_coords ds (snd kv)). kv \<leftarrow> ds_vars ds, spectra (fst kv) (snd kv)]"

definition var_update :: "string \<Rightarrow> (xvar \<Rightarrow> xvar) \<Rightarrow> (string, xvar) dict \<Rightarrow> (string, xvar) dict" where
  "var_update k f vs = map (\<lambda>(k', v). if k' = k then (k', f v) else (k', v)) vs"

definition get_attrs :: "target \<Rightarrow> xdataset \<Rightarrow> (string, attrval) dict" where
  "get_attrs t ds = (case t of TData \<Rightarrow> ds_attrs ds
     | TSpec k _ \<Rightarrow> (case map_of (ds_vars ds) k of Some v \<Rightarrow> xv_attrs v | None \<Rightarrow> []))"

definition map_attrs :: "target \<Rightarrow> ((string, attrval) dict \<Rightarrow> (string, attrval) dict) \<Rightarrow> xdataset \<Rightarrow> xdataset" where
  "map_attrs t f ds = (case t of TData \<Rightarrow> ds\<lparr>ds_attrs := f (ds_attrs ds)\<rparr>
     | TSpec k _ \<Rightarrow> ds\<lparr>ds_vars := var_update k (\<lambda>v. v\<lparr>xv_attrs := f (xv_attrs v)\<rparr>) (ds_vars ds)\<rparr>)"

text \<open>\<^verbatim>\<open>{"G201b": 600}.get(attrs["GRATING"])\<close>.\<close>

definition grating_lines_per_mm :: "attrval \<Rightarrow> attrval" where
  "grating_lines_per_mm g = (if g = AStr ''G201b'' then AInt 600 else ANone)"

definition analyzer_attrs :: "(string, attrval) dict \<Rightarrow> (string, attrval) dict \<Rightarrow> (string, attrval) dict" where
  "analyzer_attrs info a =
     (let a = dict_update a info
      in case map_of a ''GRATING'' of
           Some g \<Rightarrow> dict_set a ''grating_lines_per_mm'' (grating_lines_per_mm g)
         | None \<Rightarrow> a)"

text \<open>\<^verbatim>\<open>MAESTROARPESEndstationBase.postprocess_final\<close>; \<open>super_post\<close> is the base
  class's \<^verbatim>\<open>postprocess_final\<close> and \<open>spectra\<close> the accessor's choice of spectra.\<close>

definition base_postprocess_final ::
  "(string, attrval) dict \<Rightarrow> (string \<Rightarrow> xvar \<Rightarrow> bool) \<Rightarrow> (xdataset \<Rightarrow> xdataset py_result) \<Rightarrow> xdataset \<Rightarrow> xdataset py_result" where
  "base_postprocess_final info spectra super_post data =
     super_post (fold (\<lambda>t d. map_attrs t (analyzer_attrs info) d) (maestro_targets spectra data) data)"

text \<open>Arithmetic on an attribute value: numbers (a bool counts as 0 or 1) are mapped, NaN
  stays NaN, strings and \<^verbatim>\<open>None\<close> raise \<^verbatim>\<open>TypeError\<close>.\<close>

fun attr_num :: "(real \<Rightarrow> real) \<Rightarrow> attrval \<Rightarrow> attrval py_result" where
  "attr_num f (AReal r) = Inr (AReal (f r))"
| "attr_num f (AInt i) = Inr (AReal (f (of_int i)))"
| "attr_num f (ABool b) = Inr (AReal (f (if b then 1 else 0)))"
| "attr_num f ANaN = Inr ANaN"
| "attr_num f (AStr s) = Inl TypeError"
| "attr_num f ANone = Inl TypeError"

fun xval_map :: "(real \<Rightarrow> real) \<Rightarrow> xval \<Rightarrow> xval" where
  "xval_map f (XScalar r) = XScalar (f r)"
| "xval_map f (XArr xs) = XArr (map (xval_map f) xs)"

definition deg2rad :: "real \<Rightarrow> real" where
  "deg2rad x = x * pi / 180"

text \<open>\<^verbatim>\<open>if c in a.attrs: a.attrs[c] = f(a.attrs[c])\<close>.\<close>

definition attr_apply :: "(real \<Rightarrow> real) \<Rightarrow> string \<Rightarrow> target \<Rightarrow> xdataset \<Rightarrow> xdataset py_result" where
  "attr_apply f c t d =
     (case map_of (get_attrs t d) c of
        None \<Rightarrow> Inr d
      | Some a \<Rightarrow> sbind (attr_num f a) (\<lambda>a'. Inr (map_attrs t (\<lambda>atr. dict_set atr c a') d)))"

text \<open>\<^verbatim>\<open>a.coords[c] = f(a.coords[c])\<close>: \<^verbatim>\<open>KeyError\<close> when \<open>c\<close> is no coordinate of the
  object; only the dataset keeps the new values.\<close>

definition coord_apply :: "(real \<Rightarrow> real) \<Rightarrow> string \<Rightarrow> target \<Rightarrow> xdataset \<Rightarrow> xdataset py_result" where
  "coord_apply f c t d =
     (case t of
        TData \<Rightarrow> if c \<in> set (coord_names d)
                 then Inr (d\<lparr>ds_vars := var_update c (\<lambda>v. v\<lparr>xv_vals := xval_map f (xv_vals v)\<rparr>) (ds_vars d)\<rparr>)
                 else Inl KeyError
      | TSpec k cs \<Rightarrow> if c \<in> set cs then Inr d else Inl KeyError)"

definition microns_to_mm :: "target list \<Rightarrow> xdataset \<Rightarrow> xdataset py_result" where
  "microns_to_mm ls data =
     py_foldl (\<lambda>d (c, t). sbind (attr_apply (\<lambda>x. x / 1000) c t d) (coord_apply (\<lambda>x. x / 1000) c t))
       data [(c, t). c \<leftarrow> [''short_x'', ''short_y'', ''short_z'', ''physical_long_x'', ''physical_long_y'', ''physical_long_z''], t \<leftarrow> ls]"

text \<open>\<^verbatim>\<open>unwind_serptentine\<close> on one spectrum's values: the mask is as long as the
  coordinate of its first dimension (\<^verbatim>\<open>KeyError\<close> when the view has none), and
  \<^verbatim>\<open>old_values[mask, ::-1]\<close> needs a second axis (\<^verbatim>\<open>IndexError\<close> otherwise).  The
  rows are then those of \<open>Maestro.unwind_rows\<close>.\<close>

fun xelems :: "xval \<Rightarrow> xval list option" where
  "xelems (XArr xs) = Some xs"
| "xelems (XScalar r) = None"

definition unwind_values :: "xval \<Rightarrow> xval py_result" where
  "unwind_values x =
     (case xelems x of
        None \<Rightarrow> Inl IndexError
      | Some rows \<Rightarrow>
          (if list_all (\<lambda>r. xelems r \<noteq> None) rows
           then Inr (XArr (map XArr (unwind_rows (map (\<lambda>r. the (xelems r)) rows))))
           else Inl IndexError))"

definition unwind_target :: "xdataset \<Rightarrow> target \<Rightarrow> xdataset py_result" where
  "unwind_target d t =
     (case t of
        TData \<Rightarrow> Inr d
      | TSpec k cs \<Rightarrow>
          (case map_of (ds_vars d) k of
             None \<Rightarrow> Inl KeyError
           | Some v \<Rightarrow>
               (case xv_dims v of
                  [] \<Rightarrow> Inl IndexError
                | d0 # _ \<Rightarrow>
                    if d0 \<in> set cs
                    then sbind (unwind_values (xv_vals v))
                           (\<lambda>x. Inr (d\<lparr>ds_vars := var_update k (\<lambda>w. w\<lparr>xv_vals := x\<rparr>) (ds_vars d)\<rparr>))
                    else Inl KeyError)))"

definition unwind_serptentine_ds :: "(string \<Rightarrow> xvar \<Rightarrow> bool) \<Rightarrow> xdataset \<Rightarrow> xdataset py_result" where
  "unwind_serptentine_ds spectra data = py_foldl unwind_target data (tl (maestro_targets spectra data))"

text \<open>The last loop over the refreshed \<^verbatim>\<open>ls\<close>: \<^verbatim>\<open>alpha\<close> becomes the scalar
  coordinate and attribute \<open>\<pi>/2\<close>, \<^verbatim>\<open>phi_offset\<close> the attribute 0.4, and the
  \<^verbatim>\<open>phi\<close> coordinate is halved.\<close>

definition alpha_phi_target :: "xdataset \<Rightarrow> target \<Rightarrow> xdataset py_result" where
  "alpha_phi_target d t =
     (let d = (case t of
                 TData \<Rightarrow> d\<lparr>ds_vars := dict_set (ds_vars d) ''alpha''
                                  \<lparr>xv_kind = Coord, xv_dims = [], xv_attrs = [], xv_vals = XScalar (pi / 2)\<rparr>\<rparr>
               | TSpec _ _ \<Rightarrow> d);
          d = map_attrs t (\<lambda>atr. dict_set (dict_set atr ''alpha'' (AReal (pi / 2))) ''phi_offset'' (AReal 0.4)) d
      in case t of
           TData \<Rightarrow> coord_apply (\<lambda>x. x / 2) ''phi'' t d
         | TSpec k cs \<Rightarrow> coord_apply (\<lambda>x. x / 2) ''phi'' (TSpec k (cs @ [''alpha''])) d)"

definition deg_to_rad_coords :: "target list \<Rightarrow> xdataset \<Rightarrow> xdataset py_result" where
  "deg_to_rad_coords ls data =
     py_foldl (\<lambda>d (c, t). sbind (coord_apply deg2rad c t d) (attr_apply deg2rad c t))
       data [(c, t). c \<leftarrow> [''theta'', ''psi'', ''beta''], t \<leftarrow> ls]"

text \<open>\<^verbatim>\<open>MAESTRONanoARPESEndstation.postprocess_final\<close>.  \<open>hier\<close> is
  \<^verbatim>\<open>update_hierarchical_coordinates\<close>, which reads the coordinates through the accessor
  \<^verbatim>\<open>S.lookup_coord\<close> outside the sources.\<close>

definition nano_postprocess_final ::
  "(string \<Rightarrow> xvar \<Rightarrow> bool) \<Rightarrow> (xdataset \<Rightarrow> xdataset py_result) \<Rightarrow> (xdataset \<Rightarrow> xdataset py_result)
   \<Rightarrow> xdataset \<Rightarrow> xdataset py_result" where
  "nano_postprocess_final spectra super_post hier data =
     sbind (xr_rename [kv \<leftarrow> nano_rename_coords. fst kv \<in> set (coord_names data)] data) (\<lambda>data.
     sbind (base_postprocess_final nano_analyzer_information spectra super_post data) (\<lambda>data.
     sbind (microns_to_mm (maestro_targets spectra data) data) (\<lambda>data.
     sbind (hier data) (\<lambda>data.
     sbind (case map_of (ds_attrs data) ''daq_type'' of
              None \<Rightarrow> Inl KeyError
            | Some t \<Rightarrow> if t = AStr ''MotorSerpentine'' then unwind_serptentine_ds spectra data else Inr data)
       (\<lambda>data. let ls = maestro_targets spectra data
               in sbind (py_foldl alpha_phi_target data ls) (deg_to_rad_coords ls))))))"

section \<open>Specifications\<close>

text \<open>Loading as one map over the variables: a surviving variable (one not bearing a
  target name) is renamed with its dimensions and, when the result has a
  \<^verbatim>\<open>scan_x\<close> coordinate, flipped along it if it is a spectrum.\<close>

definition rename_entry :: "(string, string) dict \<Rightarrow> string \<times> xvar \<Rightarrow> string \<times> xvar" where
  "rename_entry nd kv = (rename_name nd (fst kv), (snd kv)\<lparr>xv_dims := map (rename_name nd) (xv_dims (snd kv))\<rparr>)"

definition flip_entry :: "string \<times> xvar \<Rightarrow> string \<times> xvar" where
  "flip_entry kv =
     (if is_spectrum_var (fst kv) (snd kv)
      then (fst kv, (snd kv)\<lparr>xv_vals := flip_axis (list_index (xv_dims (snd kv)) ''scan_x'') (xv_vals (snd kv))\<rparr>)
      else kv)"

definition load_spec :: "(string, string) dict \<Rightarrow> xdataset \<Rightarrow> xdataset" where
  "load_spec rename_keys scan =
     (let wr = will_rename rename_keys scan;
          vs = map (rename_entry wr) [kv \<leftarrow> ds_vars scan. fst kv \<notin> set (map snd wr) \<or> xv_kind (snd kv) \<noteq> Coord];
          fl = list_ex (\<lambda>kv. fst kv = ''scan_x'' \<and> xv_kind (snd kv) = Coord) vs
      in scan\<lparr>ds_vars := (if fl then map flip_entry vs else vs)\<rparr>)"

definition load_ok :: "(string, string) dict \<Rightarrow> xdataset \<Rightarrow> bool" where
  "load_ok rename_keys scan =
     (let wr = will_rename rename_keys scan;
          vs = map (rename_entry wr) [kv \<leftarrow> ds_vars scan. fst kv \<notin> set (map snd wr) \<or> xv_kind (snd kv) \<noteq> Coord];
          fl = list_ex (\<lambda>kv. fst kv = ''scan_x'' \<and> xv_kind (snd kv) = Coord) vs
      in distinct (map fst vs) \<and>
         (fl \<longrightarrow> list_all (\<lambda>kv. is_spectrum_var (fst kv) (snd kv) \<longrightarrow> ''scan_x'' \<in> set (xv_dims (snd kv))) vs))"

text \<open>Two micro-ARPES scans: one with a \<^verbatim>\<open>Scan X\<close> axis, a photon energy under \<^verbatim>\<open>SF_HV\<close>
  and a stale \<^verbatim>\<open>hv\<close>; one carrying both \<^verbatim>\<open>mono_eV\<close> and \<^verbatim>\<open>SF_HV\<close>.\<close>

definition demo_micro_scan :: xdataset where
  "demo_micro_scan =
     \<lparr>ds_vars = [(''Scan X'', \<lparr>xv_kind = Coord, xv_dims = [''Scan X''], xv_attrs = [], xv_vals = XArr [XScalar 1, XScalar 2]\<rparr>),
                  (''SF_HV'', \<lparr>xv_kind = Coord, xv_dims = [], xv_attrs = [], xv_vals = XScalar 60\<rparr>),
                  (''hv'', \<lparr>xv_kind = Coord, xv_dims = [], xv_attrs = [], xv_vals = XScalar 0\<rparr>),
                  (''spectrum'', \<lparr>xv_kind = DataVar, xv_dims = [''eV'', ''Scan X''], xv_attrs = [],
                     xv_vals = XArr [XArr [XScalar 1, XScalar 2], XArr [XScalar 3, XScalar 4]]\<rparr>)],
      ds_attrs = []\<rparr>"

definition demo_two_hv_scan :: xdataset where
  "demo_two_hv_scan =
     \<lparr>ds_vars = [(''mono_eV'', \<lparr>xv_kind = Coord, xv_dims = [], xv_attrs = [], xv_vals = XScalar 60\<rparr>),
                  (''SF_HV'', \<lparr>xv_kind = Coord, xv_dims = [], xv_attrs = [], xv_vals = XScalar 60\<rparr>)],
      ds_attrs = []\<rparr>"

definition var_shape :: "xdataset \<Rightarrow> (string \<times> vkind \<times> string list \<times> xval) list" where
  "var_shape d = map (\<lambda>(k, v). (k, xv_kind v, xv_dims v, xv_vals v)) (ds_vars d)"

definition shape_apply :: "(real \<Rightarrow> real) \<Rightarrow> string \<Rightarrow> (string \<times> vkind \<times> string list \<times> xval) list \<Rightarrow> (string \<times> vkind \<times> string list \<times> xval) list" where
  "shape_apply f c s = map (\<lambda>(k, kd, ds, x). (k, kd, ds, if k = c then xval_map f x else x)) s"

text \<open>A nano-ARPES dataset after the base post-processing: the six stage coordinates as
  scalars and one spectrum carrying a stage attribute.\<close>

definition demo_nano :: xdataset where
  "demo_nano =
     \<lparr>ds_vars = map (\<lambda>c. (c, \<lparr>xv_kind = Coord, xv_dims = [], xv_attrs = [], xv_vals = XScalar 1000\<rparr>))
                    [''short_x'', ''short_y'', ''short_z'', ''physical_long_x'', ''physical_long_y'', ''physical_long_z'']
                @ [(''spectrum'', \<lparr>xv_kind = DataVar, xv_dims = [], xv_attrs = [(''short_x'', AReal 2000)], xv_vals = XScalar 5\<rparr>)],
      ds_attrs = [(''short_x'', AReal 2000)]\<rparr>"

section \<open>Loading\<close>

lemma flip_axis_involution: "flip_axis k (flip_axis k x) = x"
  by (induction k x rule: flip_axis.induct) (simp_all add: comp_def map_idI)

lemma rename_vars_eq:
  "distinct (map fst acc) \<Longrightarrow>
   rename_vars nd acc vs =
     (if distinct (map fst acc @ map (rename_name nd \<circ> fst) vs)
      then Inr (acc @ map (rename_entry nd) vs) else Inl ValueError)"
proof (induction vs arbitrary: acc)
  case Nil
  then show ?case by simp
next
  case (Cons kv vs)
  obtain k v where kv: "kv = (k, v)" by fastforce
  show ?case
  proof (cases "rename_name nd k \<in> fst ` set acc")
    case True
    then show ?thesis by (auto simp: kv)
  next
    case False
    then have "distinct (map fst (acc @ [rename_entry nd (k, v)]))"
      using Cons.prems by (simp add: rename_entry_def)
    then show ?thesis using False
      by (simp add: kv Cons.IH rename_entry_def Let_def)
  qed
qed

lemma map_of_will_rename:
  "map_of (will_rename rk scan) c =
     (if c \<in> set (coord_names scan) \<and> c \<in> fst ` set rk then Some (rename_name rk c) else None)"
proof -
  have "\<And>xs. map_of [(c, rename_name rk c). c \<leftarrow> filter (\<lambda>c. c \<in> fst ` set rk) xs] c =
     (if c \<in> set xs \<and> c \<in> fst ` set rk then Some (rename_name rk c) else None)"
    subgoal for xs by (induction xs) auto
    done
  then show ?thesis by (simp add: will_rename_def)
qed

lemma coord_names_set: "c \<in> set (coord_names ds) \<longleftrightarrow> (\<exists>v. (c, v) \<in> set (ds_vars ds) \<and> xv_kind v = Coord)"
  by (force simp: coord_names_def)

lemma delete_targets_vars:
  "distinct (map fst (ds_vars scan)) \<Longrightarrow>
   ds_vars (delete_targets ts scan) = [kv \<leftarrow> ds_vars scan. fst kv \<notin> set ts \<or> xv_kind (snd kv) \<noteq> Coord]"
proof (induction ts arbitrary: scan)
  case Nil
  then show ?case by (simp add: delete_targets_def)
next
  case (Cons t ts)
  let ?s = "if t \<in> set (coord_names scan) then del_coord t scan else scan"
  have step: "ds_vars ?s = [kv \<leftarrow> ds_vars scan. fst kv \<noteq> t \<or> xv_kind (snd kv) \<noteq> Coord]"
  proof (cases "t \<in> set (coord_names scan)")
    case True
    then obtain v where v: "(t, v) \<in> set (ds_vars scan)" "xv_kind v = Coord"
      by (auto simp: coord_names_set)
    have "\<And>kv. kv \<in> set (ds_vars scan) \<Longrightarrow> fst kv = t \<Longrightarrow> xv_kind (snd kv) = Coord"
      using v Cons.prems by (metis eq_key_imp_eq_value prod.collapse)
    then show ?thesis using True
      by (auto simp: del_coord_def intro!: filter_cong)
  next
    case False
    then have "\<And>kv. kv \<in> set (ds_vars scan) \<Longrightarrow> fst kv = t \<Longrightarrow> xv_kind (snd kv) \<noteq> Coord"
      by (auto simp: coord_names_set)
    then show ?thesis using False
      by (auto intro!: filter_True[symmetric])
  qed
  have "distinct (map fst (ds_vars ?s))"
    using Cons.prems by (simp add: step distinct_map_filter)
  then show ?case
    using Cons.IH[of ?s] by (simp add: delete_targets_def step conj_disj_distribR[symmetric]) (metis)
qed

lemma flip_spectra_eq:
  "flip_spectra vs =
     (if list_all (\<lambda>kv. is_spectrum_var (fst kv) (snd kv) \<longrightarrow> ''scan_x'' \<in> set (xv_dims (snd kv))) vs
      then Inr (map flip_entry vs) else Inl ValueError)"
  by (induction vs rule: flip_spectra.induct) (auto simp: flip_entry_def)

lemma coord_names_scan_x:
  "''scan_x'' \<in> set (coord_names (ds\<lparr>ds_vars := vs\<rparr>)) \<longleftrightarrow>
   list_ex (\<lambda>kv. fst kv = ''scan_x'' \<and> xv_kind (snd kv) = Coord) vs"
  by (force simp: coord_names_def list_ex_iff)

lemma will_rename_targets: "set (map snd (will_rename rk scan)) \<subseteq> snd ` set rk"
proof
  fix t assume "t \<in> set (map snd (will_rename rk scan))"
  then obtain c where c: "c \<in> fst ` set rk" "t = rename_name rk c"
    by (auto simp: will_rename_def)
  then obtain x where "map_of rk c = Some x"
    by (metis map_of_eq_None_iff not_Some_eq)
  then show "t \<in> snd ` set rk"
    using c(2) by (force simp: rename_name_def dest: map_of_SomeD)
qed

lemma delete_targets_upd [simp]:
  "(delete_targets ts scan)\<lparr>ds_vars := vs\<rparr> = scan\<lparr>ds_vars := vs\<rparr>"
proof -
  have "\<And>s. ds_attrs (delete_targets ts s) = ds_attrs s \<and> xdataset.more (delete_targets ts s) = xdataset.more s"
    subgoal for s by (induction ts arbitrary: s) (simp_all add: delete_targets_def del_coord_def)
    done
  then show ?thesis by (metis xdataset.surjective xdataset.update_convs(1))
qed

lemma map_of_key: "map_of xs k = Some v \<Longrightarrow> k \<in> fst ` set xs"
  by (force dest: map_of_SomeD)

lemma maestro_load_unfold:
  assumes dist: "distinct (map fst (ds_vars scan))"
    and keys: "set (map snd rk) \<inter> set (map fst rk) = {}"
  defines "wr \<equiv> will_rename rk scan"
  defines "surv \<equiv> [kv \<leftarrow> ds_vars scan. fst kv \<notin> set (map snd wr) \<or> xv_kind (snd kv) \<noteq> Coord]"
  shows "maestro_load rk scan =
     (if distinct (map (rename_name wr \<circ> fst) surv)
      then (if list_ex (\<lambda>kv. fst kv = ''scan_x'' \<and> xv_kind (snd kv) = Coord) (map (rename_entry wr) surv)
            then sbind (flip_spectra (map (rename_entry wr) surv)) (\<lambda>vs. Inr (scan\<lparr>ds_vars := vs\<rparr>))
            else Inr (scan\<lparr>ds_vars := map (rename_entry wr) surv\<rparr>))
      else Inl ValueError)"
proof -
  have del: "ds_vars (delete_targets (map snd wr) scan) = surv"
    using dist by (simp add: delete_targets_vars surv_def)
  have tgt: "set (map snd wr) \<subseteq> snd ` set rk"
    unfolding wr_def by (rule will_rename_targets)
  have present: "list_all (\<lambda>(k, _). k \<in> set (map fst surv)) wr"
  proof (clarsimp simp: list_all_iff)
    fix k t assume "(k, t) \<in> set wr"
    then have k: "k \<in> set (coord_names scan)" "k \<in> fst ` set rk"
      by (auto simp: wr_def will_rename_def)
    then obtain v where v: "(k, v) \<in> set (ds_vars scan)" "xv_kind v = Coord"
      by (auto simp: coord_names_set)
    have "k \<notin> set (map snd wr)" using k(2) tgt keys by auto
    then show "k \<in> fst ` set surv" using v by (force simp: surv_def)
  qed
  have fst_ren: "map fst (map (rename_entry wr) surv) = map (rename_name wr \<circ> fst) surv"
    by (simp add: rename_entry_def)
  show ?thesis
    using present
    by (simp add: maestro_load_def wr_def[symmetric] del xr_rename_def rename_vars_eq
                  coord_names_scan_x Let_def list_all_iff case_prod_beta)
qed

text \<open>C8. MAESTRO loading refines its specification: on a scan with distinct variable names,
  and a renaming table none of whose targets is also a key (true of both endstations' tables),
  \<^verbatim>\<open>load\<close> either raises \<^verbatim>\<open>ValueError\<close> or returns the scan with every surviving variable
  renamed with its dimensions and, when a \<^verbatim>\<open>scan_x\<close> coordinate results, every spectrum
  flipped along \<^verbatim>\<open>scan_x\<close>; it succeeds exactly when the new names are distinct and every
  spectrum then has a \<^verbatim>\<open>scan_x\<close> axis.\<close>

theorem maestro_load_refines_spec:
  assumes "distinct (map fst (ds_vars scan))"
    and "set (map snd rk) \<inter> set (map fst rk) = {}"
  shows "maestro_load rk scan = (if load_ok rk scan then Inr (load_spec rk scan) else Inl ValueError)"
  using assms
  by (simp add: maestro_load_unfold load_ok_def load_spec_def flip_spectra_eq Let_def rename_entry_def comp_def)

text \<open>C5. Two coordinates of a scan that the renaming table sends to the same name make
  \<^verbatim>\<open>load\<close> raise \<^verbatim>\<open>ValueError\<close>: deleting the coordinates already named like a target does
  not help, since xarray's rename refuses the second variable renamed to a taken name.  The
  microARPES table sends \<^verbatim>\<open>mono_eV\<close>, \<^verbatim>\<open>SF_HV\<close> and \<^verbatim>\<open>SS_HV\<close> all to \<^verbatim>\<open>hv\<close>.\<close>

theorem maestro_load_shared_target:
  assumes dist: "distinct (map fst (ds_vars scan))"
    and keys: "set (map snd rk) \<inter> set (map fst rk) = {}"
    and c: "c1 \<noteq> c2" "c1 \<in> set (coord_names scan)" "c2 \<in> set (coord_names scan)"
    and t: "map_of rk c1 = Some t" "map_of rk c2 = Some t"
  shows "maestro_load rk scan = Inl ValueError"
proof -
  let ?wr = "will_rename rk scan"
  let ?surv = "[kv \<leftarrow> ds_vars scan. fst kv \<notin> set (map snd ?wr) \<or> xv_kind (snd kv) \<noteq> Coord]"
  obtain v1 v2 where v: "(c1, v1) \<in> set (ds_vars scan)" "xv_kind v1 = Coord"
      "(c2, v2) \<in> set (ds_vars scan)" "xv_kind v2 = Coord"
    using c by (auto simp: coord_names_set)
  have k: "c1 \<in> fst ` set rk" "c2 \<in> fst ` set rk"
    using t by (auto intro: map_of_key)
  have ren: "rename_name ?wr c1 = t" "rename_name ?wr c2 = t"
    using c t k by (auto simp: rename_name_def map_of_will_rename)
  have "c1 \<notin> snd ` set rk" "c2 \<notin> snd ` set rk"
    using k keys by auto
  then have "c1 \<notin> set (map snd ?wr)" "c2 \<notin> set (map snd ?wr)"
    using will_rename_targets[of rk scan] by blast+
  then have "(c1, v1) \<in> set ?surv" "(c2, v2) \<in> set ?surv"
    using v by auto
  then have "\<not> distinct (map (rename_name ?wr \<circ> fst) ?surv)"
    using ren c(1) by (auto simp: distinct_map inj_on_def)
  then show ?thesis
    using dist keys by (simp add: maestro_load_unfold)
qed

lemma micro_rename_keys_disjoint: "set (map snd micro_rename_keys) \<inter> set (map fst micro_rename_keys) = {}"
  by (simp add: micro_rename_keys_def)

lemma nano_rename_keys_disjoint: "set (map snd nano_rename_keys) \<inter> set (map fst nano_rename_keys) = {}"
  by (simp add: nano_rename_keys_def)

theorem maestro_load_refines_spec_witness:
  "distinct (map fst (ds_vars demo_micro_scan)) \<and>
   set (map snd micro_rename_keys) \<inter> set (map fst micro_rename_keys) = {} \<and>
   maestro_load micro_rename_keys demo_micro_scan =
     Inr \<lparr>ds_vars = [(''scan_x'', \<lparr>xv_kind = Coord, xv_dims = [''scan_x''], xv_attrs = [], xv_vals = XArr [XScalar 1, XScalar 2]\<rparr>),
                  (''hv'', \<lparr>xv_kind = Coord, xv_dims = [], xv_attrs = [], xv_vals = XScalar 60\<rparr>),
                  (''spectrum'', \<lparr>xv_kind = DataVar, xv_dims = [''eV'', ''scan_x''], xv_attrs = [],
                     xv_vals = XArr [XArr [XScalar 2, XScalar 1], XArr [XScalar 4, XScalar 3]]\<rparr>)],
      ds_attrs = []\<rparr>"
proof -
  have d: "distinct (map fst (ds_vars demo_micro_scan))"
    by (simp add: demo_micro_scan_def)
  have "maestro_load micro_rename_keys demo_micro_scan =
     (if load_ok micro_rename_keys demo_micro_scan then Inr (load_spec micro_rename_keys demo_micro_scan) else Inl ValueError)"
    using maestro_load_refines_spec[OF d micro_rename_keys_disjoint] .
  then show ?thesis
    using d micro_rename_keys_disjoint
    by (simp add: load_ok_def load_spec_def will_rename_def coord_names_def micro_rename_keys_def
        demo_micro_scan_def rename_name_def rename_entry_def flip_entry_def is_spectrum_var_def sublist_code)
qed

theorem maestro_load_shared_target_witness:
  "maestro_load micro_rename_keys demo_two_hv_scan = Inl ValueError"
  by (rule maestro_load_shared_target[of _ _ "''mono_eV''" "''SF_HV''" "''hv''"])
     (simp_all add: demo_two_hv_scan_def micro_rename_keys_def coord_names_def)

section \<open>Unit conversion\<close>

lemma var_shape_map_attrs [simp]: "var_shape (map_attrs t g d) = var_shape d"
  by (cases t) (auto simp: map_attrs_def var_shape_def var_update_def intro!: map_cong)

lemma attr_apply_shape: "attr_apply f c t d = Inr d' \<Longrightarrow> var_shape d' = var_shape d"
  by (auto simp: attr_apply_def split: option.splits sum.splits simp: sbind_eq_Inr)

lemma coord_apply_shape:
  "coord_apply f c t d = Inr d' \<Longrightarrow> var_shape d' = (if t = TData then shape_apply f c (var_shape d) else var_shape d)"
  by (cases t) (auto simp: coord_apply_def var_shape_def shape_apply_def var_update_def split: if_splits)

lemma shape_apply_commute: "shape_apply f c (shape_apply f c' s) = shape_apply f c' (shape_apply f c s)"
  by (auto simp: shape_apply_def)

lemma py_foldl_shape:
  assumes "\<And>d x d'. step d x = Inr d' \<Longrightarrow> var_shape d' = g x (var_shape d)"
  shows "py_foldl step d xs = Inr d' \<Longrightarrow> var_shape d' = fold g xs (var_shape d)"
  by (induction xs arbitrary: d) (auto simp: sbind_eq_Inr dest!: assms)

lemma fold_shape_apply:
  "fold (shape_apply f) cs s = map (\<lambda>(k, kd, ds, x). (k, kd, ds, (xval_map f ^^ count_list cs k) x)) s"
proof (induction cs arbitrary: s)
  case Nil
  then show ?case by (simp add: case_prod_beta)
next
  case (Cons c cs)
  have "fold (shape_apply f) (c # cs) s = fold (shape_apply f) cs (shape_apply f c s)"
    by simp
  then show ?case
    by (simp only: Cons.IH) (auto simp: shape_apply_def funpow_Suc_right simp del: funpow.simps)
qed

lemma maestro_targets_tl: "TData \<notin> set (tl (maestro_targets spectra d))"
  by (auto simp: maestro_targets_def)

lemma fold_targets_shape:
  assumes "TData \<notin> set specs"
  shows "fold (\<lambda>(c, t). if t = TData then shape_apply f c else id) [(c, t). c \<leftarrow> cs, t \<leftarrow> TData # specs] s =
         fold (shape_apply f) cs s"
proof -
  have "\<And>c s. fold (\<lambda>(c, t). if t = TData then shape_apply f c else id) (map (Pair c) specs) s = s"
    subgoal for c s using assms by (induction specs arbitrary: s) auto
    done
  then show ?thesis by (induction cs arbitrary: s) simp_all
qed

text \<open>C23. The micron to millimetre conversion of the nano-ARPES post-processing leaves every
  variable's name, kind and dimensions as they were and divides each of the six stage
  coordinates by 1000 exactly once, however many spectra the loop also visits: a coordinate
  assigned on a spectrum view never reaches the dataset.\<close>

theorem microns_to_mm_once:
  assumes "microns_to_mm (maestro_targets spectra d) d = Inr d'"
  shows "var_shape d' =
     map (\<lambda>(k, kd, ds, x). (k, kd, ds,
            if k \<in> set [''short_x'', ''short_y'', ''short_z'', ''physical_long_x'', ''physical_long_y'', ''physical_long_z'']
            then xval_map (\<lambda>x. x / 1000) x else x)) (var_shape d)"
proof -
  let ?g = "\<lambda>(c, t). if t = TData then shape_apply (\<lambda>x. x / 1000) c else id"
  let ?step = "\<lambda>d (c, t). sbind (attr_apply (\<lambda>x. x / 1000) c t d) (coord_apply (\<lambda>x. x / 1000) c t)"
  have step: "\<And>d x d'. ?step d x = Inr d' \<Longrightarrow> var_shape d' = ?g x (var_shape d)"
    by (auto simp: sbind_eq_Inr dest!: attr_apply_shape coord_apply_shape)
  have ls: "maestro_targets spectra d = TData # tl (maestro_targets spectra d)"
    by (simp add: maestro_targets_def)
  have "var_shape d' = fold ?g [(c, t). c \<leftarrow> [''short_x'', ''short_y'', ''short_z'', ''physical_long_x'', ''physical_long_y'', ''physical_long_z''], t \<leftarrow> maestro_targets spectra d] (var_shape d)"
    using py_foldl_shape[of ?step ?g, OF step] assms by (simp add: microns_to_mm_def)
  also have "\<dots> = fold (shape_apply (\<lambda>x. x / 1000)) [''short_x'', ''short_y'', ''short_z'', ''physical_long_x'', ''physical_long_y'', ''physical_long_z''] (var_shape d)"
    by (subst ls, rule fold_targets_shape[OF maestro_targets_tl])
  finally show ?thesis
    unfolding fold_shape_apply by (auto intro!: map_cong)
qed

theorem microns_to_mm_once_witness:
  "\<exists>d'. microns_to_mm (maestro_targets (\<lambda>k v. xv_kind v = DataVar) demo_nano) demo_nano = Inr d' \<and>
        var_shape d' = map (\<lambda>c. (c, Coord, [], XScalar 1))
                    [''short_x'', ''short_y'', ''short_z'', ''physical_long_x'', ''physical_long_y'', ''physical_long_z'']
                @ [(''spectrum'', DataVar, [], XScalar 5)]"
proof -
  obtain d' where d': "microns_to_mm (maestro_targets (\<lambda>k v. xv_kind v = DataVar) demo_nano) demo_nano = Inr d'"
    by (simp add: microns_to_mm_def maestro_targets_def demo_nano_def view_coords_def attr_apply_def coord_apply_def
        get_attrs_def map_attrs_def var_update_def coord_names_def)
  show ?thesis
    using microns_to_mm_once[OF d'] d' by (simp add: demo_nano_def var_shape_def)
qed

end
