(* ===== verification/MaestroAttrs.thy ===== *)
theory MaestroAttrs
  imports Prelude
begin

text \<open>
  The attribute parsers \<^verbatim>\<open>ATTR_TRANSFORMS\<close> of both MAESTRO endstations
  (\<^verbatim>\<open>endstations/plugin/MAESTRO.py\<close>, lines 138--149 and 255--266, identical in the two
  classes): \<^verbatim>\<open>START_T\<close> splits a time stamp into date and time, \<^verbatim>\<open>SF_SLITN\<close> a slit
  description into number, shape and width.  \<^verbatim>\<open>str.split(" ")\<close> is \<open>py_split\<close>,
  \<^verbatim>\<open>" ".join\<close> is \<open>py_join\<close>, \<^verbatim>\<open>str.lower\<close> is \<open>py_lower\<close> on ASCII
  letters.  The builtins \<^verbatim>\<open>int\<close> and \<^verbatim>\<open>float\<close> on strings are arguments.
\<close>

text \<open>\<^verbatim>\<open>s.split(c)\<close> with an explicit one-character separator: every occurrence
  splits, empty pieces included, so there is always at least one piece.\<close>

fun py_split :: "char \<Rightarrow> string \<Rightarrow> string list" where
  "py_split c [] = [[]]"
| "py_split c (x # xs) =
     (if x = c then [] # py_split c xs
      else (case py_split c xs of w # ws \<Rightarrow> (x # w) # ws | [] \<Rightarrow> [[x]]))"

fun py_join :: "char \<Rightarrow> string list \<Rightarrow> string" where
  "py_join c [] = []"
| "py_join c [w] = w"
| "py_join c (w # v # vs) = w @ c # py_join c (v # vs)"

definition py_lower_char :: "char \<Rightarrow> char" where
  "py_lower_char x = (let n = (of_char x :: nat) in if 65 \<le> n \<and> n \<le> 90 then char_of (n + 32) else x)"

definition py_lower :: "string \<Rightarrow> string" where
  "py_lower s = map py_lower_char s"

datatype slit_attr = SlitNumber int | SlitShape string | SlitWidth real

text \<open>\<^verbatim>\<open>START_T\<close>: \<^verbatim>\<open>{"time": " ".join(s.split(" ")[1:]).lower(),
  "date": s.split(" ")[0]}\<close>.\<close>

definition start_t :: "string \<Rightarrow> (string, string) dict" where
  "start_t s = [(''time'', py_lower (py_join CHR '' '' (tl (py_split CHR '' '' s)))),
                (''date'', hd (py_split CHR '' '' s))]"

text \<open>\<^verbatim>\<open>SF_SLITN\<close>: \<^verbatim>\<open>{"slit_number": int(p[0]), "slit_shape": p[-1].lower(),
  "slit_width": float(p[2])}\<close> for \<open>p = s.split(" ")\<close>, evaluated left to right:
  \<^verbatim>\<open>p[2]\<close> raises \<^verbatim>\<open>IndexError\<close> on fewer than three pieces.\<close>

definition sf_slitn ::
  "(string \<Rightarrow> int py_result) \<Rightarrow> (string \<Rightarrow> real py_result) \<Rightarrow> string \<Rightarrow> (string, slit_attr) dict py_result" where
  "sf_slitn py_int py_float s =
     (let p = py_split CHR '' '' s
      in sbind (py_int (p ! 0)) (\<lambda>n.
         sbind (py_index p 2) (\<lambda>w. sbind (py_float w) (\<lambda>width.
         Inr [(''slit_number'', SlitNumber n), (''slit_shape'', SlitShape (py_lower (last p))),
              (''slit_width'', SlitWidth width)]))))"

lemma py_split_nonempty [simp]: "py_split c s \<noteq> []"
  by (induction s) (auto split: list.split)

lemma py_join_Cons2: "ws \<noteq> [] \<Longrightarrow> py_join c (w # ws) = w @ c # py_join c ws"
  by (cases ws) auto

lemma py_join_Cons_Cons: "py_join c ((x # w) # ws) = x # py_join c (w # ws)"
  by (cases ws) auto

lemma py_join_split: "py_join c (py_split c s) = s"
proof (induction s)
  case Nil
  then show ?case by simp
next
  case (Cons x xs)
  obtain w ws where p: "py_split c xs = w # ws"
    by (cases "py_split c xs") auto
  show ?case
  proof (cases "x = c")
    case True
    then show ?thesis using Cons.IH p by (simp add: py_join_Cons2)
  next
    case False
    then show ?thesis using Cons.IH p by (simp add: py_join_Cons_Cons)
  qed
qed

lemma py_split_no_sep: "c \<notin> set s \<Longrightarrow> py_split c s = [s]"
  by (induction s) auto

lemma py_split_pieces: "w \<in> set (py_split c s) \<Longrightarrow> c \<notin> set w"
proof (induction s arbitrary: w)
  case Nil
  then show ?case by simp
next
  case (Cons x xs)
  show ?case
  proof (cases "x = c")
    case True
    then show ?thesis using Cons by auto
  next
    case False
    obtain w' ws where p: "py_split c xs = w' # ws"
      by (cases "py_split c xs") auto
    have "c \<notin> set w'" "\<And>v. v \<in> set ws \<Longrightarrow> c \<notin> set v"
      using Cons.IH p by auto
    moreover have "py_split c (x # xs) = (x # w') # ws"
      using False p by simp
    then have "w = x # w' \<or> w \<in> set ws"
      using Cons.prems by simp
    ultimately show ?thesis
      using False by auto
  qed
qed

lemma py_split_length: "length (py_split c s) = count_list s c + 1"
  by (induction s) (auto split: list.split)

lemma start_t_split:
  assumes "CHR '' '' \<in> set s"
  shows "\<exists>dt tm. s = dt @ CHR '' '' # tm \<and> CHR '' '' \<notin> set dt \<and>
           start_t s = [(''time'', py_lower tm), (''date'', dt)]"
proof -
  obtain w ws where p: "py_split CHR '' '' s = w # ws"
    by (cases "py_split CHR '' '' s") auto
  have "ws \<noteq> []"
    using py_split_length[of "CHR '' ''" s] assms p by (auto simp: count_list_0_iff)
  then have eq: "s = w @ CHR '' '' # py_join CHR '' '' ws"
    using py_join_split[of "CHR '' ''" s] p by (simp add: py_join_Cons2)
  have sp: "CHR '' '' \<notin> set w"
    using py_split_pieces[of w "CHR '' ''" s] p by simp
  have "start_t s = [(''time'', py_lower (py_join CHR '' '' ws)), (''date'', w)]"
    by (simp add: start_t_def p)
  with eq sp show ?thesis
    by blast
qed

lemma py_split_append_sep: "c \<notin> set a \<Longrightarrow> py_split c (a @ c # s) = a # py_split c s"
  by (induction a) auto

lemma py_split_words:
  assumes "c \<notin> set a" "c \<notin> set b" "c \<notin> set d"
  shows "py_split c (a @ c # b) = [a, b]"
    and "py_split c (a @ c # b @ c # d) = [a, b, d]"
  using assms by (simp_all add: py_split_append_sep py_split_no_sep)

lemma py_split_words4:
  assumes "c \<notin> set a" "c \<notin> set b" "c \<notin> set w" "c \<notin> set d"
  shows "py_split c (a @ c # b @ c # w @ c # d) = [a, b, w, d]"
  using assms by (simp add: py_split_append_sep py_split_no_sep)

text \<open>
  C4. \<^verbatim>\<open>START_T\<close> splits a time stamp at its first space: the date is what
  precedes it and the time is all that follows, lower-cased, however many spaces it
  holds; a stamp without a space is all date, with an empty time.
\<close>

theorem start_t_fields:
  assumes "CHR '' '' \<notin> set dt"
  shows "start_t (dt @ CHR '' '' # tm) = [(''time'', py_lower tm), (''date'', dt)]
    \<and> start_t dt = [(''time'', []), (''date'', dt)]"
  using assms
  by (simp add: start_t_def py_split_append_sep py_join_split py_split_no_sep py_lower_def)

theorem start_t_fields_witness:
  "start_t ''6/25 1 PM'' = [(''time'', ''1 pm''), (''date'', ''6/25'')]
   \<and> start_t ''6/25'' = [(''time'', []), (''date'', ''6/25'')]"
  using start_t_fields [of "''6/25''" "''1 PM''"] by (simp add: py_lower_def py_lower_char_def char_of_def bit_0)

text \<open>
  C7. \<^verbatim>\<open>SF_SLITN\<close> on space-separated words: the slit number is the first word
  read by \<^verbatim>\<open>int\<close>, the width the third word read by \<^verbatim>\<open>float\<close>, the shape the last
  word lower-cased; with two words it raises \<^verbatim>\<open>IndexError\<close> after reading the number,
  and with three the width's word is also taken as the shape.
\<close>

theorem sf_slitn_fields:
  assumes sp: "CHR '' '' \<notin> set a" "CHR '' '' \<notin> set b" "CHR '' '' \<notin> set w" "CHR '' '' \<notin> set d"
    and n: "py_int a = Inr n"
  shows "sf_slitn py_int py_float (a @ CHR '' '' # b) = Inl IndexError
    \<and> sf_slitn py_int py_float (a @ CHR '' '' # b @ CHR '' '' # w) =
        sbind (py_float w) (\<lambda>width. Inr [(''slit_number'', SlitNumber n),
          (''slit_shape'', SlitShape (py_lower w)), (''slit_width'', SlitWidth width)])
    \<and> sf_slitn py_int py_float (a @ CHR '' '' # b @ CHR '' '' # w @ CHR '' '' # d) =
        sbind (py_float w) (\<lambda>width. Inr [(''slit_number'', SlitNumber n),
          (''slit_shape'', SlitShape (py_lower d)), (''slit_width'', SlitWidth width)])"
  using py_split_words [OF sp(1) sp(2) sp(3)] py_split_words4 [OF sp] n
  by (simp add: sf_slitn_def py_index_def)

theorem sf_slitn_fields_witness:
  "sf_slitn (\<lambda>s. if s = ''2'' then Inr 2 else Inl ValueError) (\<lambda>s. if s = ''0.05'' then Inr 0.05 else Inl ValueError)
      ''2 Slit 0.05 CURVED'' =
     Inr [(''slit_number'', SlitNumber 2), (''slit_shape'', SlitShape ''curved''), (''slit_width'', SlitWidth 0.05)]"
  using sf_slitn_fields [of "''2''" "''Slit''" "''0.05''" "''CURVED''"
      "\<lambda>s. if s = ''2'' then Inr 2 else Inl ValueError" 2 "\<lambda>s. if s = ''0.05'' then Inr 0.05 else Inl ValueError"]
  by (simp add: py_lower_def py_lower_char_def char_of_def bit_0)

end
