(* ===== verification/Derivative.thy ===== *)
theory Derivative
  imports Prelude
begin

text \<open>
  Finite differences and the gradient modulus of \<^verbatim>\<open>analysis/derivative.py\<close>.
  A two-dimensional numpy array is the list of its rows (axis 0), each row the list
  of its entries (axis 1); the arrays the code builds are rectangular.  Python's
  basic slicing \<^verbatim>\<open>x[start:stop]\<close> is \<open>py_slice\<close>, with negative bounds counted from
  the end and clipped to the length, and \<^verbatim>\<open>arr[s0, s1]\<close> is \<open>index2\<close>.
  \<^verbatim>\<open>_vector_diff\<close> is the recursive \<open>vector_diff\<close>, whose termination measure is the
  order \<open>n\<close>.
\<close>

type_synonym slice = "int option \<times> int option"
type_synonym mat = "real list list"

definition slice_bound :: "int \<Rightarrow> int \<Rightarrow> int" where
  "slice_bound L i = (if i < 0 then max 0 (L + i) else min i L)"

definition py_slice :: "slice \<Rightarrow> 'a list \<Rightarrow> 'a list" where
  "py_slice s xs =
     (let L = int (length xs);
          b = (case fst s of None \<Rightarrow> 0 | Some i \<Rightarrow> slice_bound L i);
          e = (case snd s of None \<Rightarrow> L | Some i \<Rightarrow> slice_bound L i)
      in take (nat (e - b)) (drop (nat b) xs))"

definition index2 :: "mat \<Rightarrow> slice \<times> slice \<Rightarrow> mat" where
  "index2 arr s = map (py_slice (snd s)) (py_slice (fst s) arr)"

definition mat_sub :: "mat \<Rightarrow> mat \<Rightarrow> mat" where
  "mat_sub a b = map2 (map2 (-)) a b"

definition mat_neg :: "mat \<Rightarrow> mat" where
  "mat_neg a = map (map uminus) a"

text \<open>The slices one component of \<^verbatim>\<open>delta\<close> gives to \<^verbatim>\<open>slice1\<close> and \<^verbatim>\<open>slice2\<close>
  (lines 74--81).\<close>

definition diff_slice :: "int \<Rightarrow> slice \<times> slice" where
  "diff_slice dv =
     (if dv = 0 then ((None, None), (None, None))
      else if dv < 0 then ((None, Some dv), (Some (- dv), None))
      else ((Some dv, None), (None, Some (- dv))))"

definition diff_slices :: "int \<times> int \<Rightarrow> (slice \<times> slice) \<times> (slice \<times> slice)" where
  "diff_slices delta =
     (let (a0, b0) = diff_slice (fst delta); (a1, b1) = diff_slice (snd delta)
      in ((a0, a1), (b0, b1)))"

text \<open>One difference \<^verbatim>\<open>arr[slice1] - arr[slice2]\<close> (lines 70--89).\<close>

definition diff_step :: "int \<times> int \<Rightarrow> mat \<Rightarrow> mat" where
  "diff_step delta arr =
     (let (s1, s2) = diff_slices delta in mat_sub (index2 arr s1) (index2 arr s2))"

function vector_diff :: "mat \<Rightarrow> int \<times> int \<Rightarrow> int \<Rightarrow> mat py_result" where
  "vector_diff arr delta n =
     (if n = 0 then Inr arr
      else if n < 0 then Inl ValueError
      else (let d = diff_step delta arr
            in if 1 < n then vector_diff d delta (n - 1) else Inr d))"
  by pat_completeness auto
termination by (relation "measure (\<lambda>(_, _, n). nat n)") auto

declare vector_diff.simps [simp del]

text \<open>The reference: \<^verbatim>\<open>np.diff\<close> of a row and \<^verbatim>\<open>np.diff(..., axis=0)\<close>.\<close>

definition np_diff :: "real list \<Rightarrow> real list" where
  "np_diff xs = map (\<lambda>i. xs ! Suc i - xs ! i) [0..<length xs - 1]"

definition np_diff0 :: "mat \<Rightarrow> mat" where
  "np_diff0 rows = map (\<lambda>i. map2 (-) (rows ! Suc i) (rows ! i)) [0..<length rows - 1]"

text \<open>Slice assignment \<^verbatim>\<open>T[s0, s1] = V\<close> into a rectangular array: the shape of
  \<open>V\<close> must broadcast to the selected region (each extent equal, or one), else numpy
  raises \<^verbatim>\<open>ValueError\<close>.  A list of no rows does not record its column count; it is
  taken to have the region's.\<close>

definition ncols :: "mat \<Rightarrow> nat" where
  "ncols T = (case T of [] \<Rightarrow> 0 | r # _ \<Rightarrow> length r)"

definition set_region :: "mat \<Rightarrow> slice \<times> slice \<Rightarrow> mat \<Rightarrow> mat py_result" where
  "set_region T s V =
     (let ri = py_slice (fst s) [0..<length T]; ci = py_slice (snd s) [0..<ncols T];
          r = length V; c = (case V of [] \<Rightarrow> length ci | v # _ \<Rightarrow> length v)
      in if (r = length ri \<or> r = 1) \<and> (c = length ci \<or> c = 1)
         then Inr (map (\<lambda>i. map (\<lambda>j.
                  if i \<in> set ri \<and> j \<in> set ci
                  then V ! (if r = 1 then 0 else list_index ri i) ! (if c = 1 then 0 else list_index ci j)
                  else T ! i ! j) [0..<ncols T]) [0..<length T])
         else Inl ValueError)"

text \<open>The eight assignments of \<^verbatim>\<open>_gradient_modulus\<close> (lines 143--150), in the code's
  order: the region of \<^verbatim>\<open>gradient_vector[k]\<close> written and the translation vector.\<close>

definition grad_layers :: "int \<Rightarrow> ((slice \<times> slice) \<times> (int \<times> int)) list" where
  "grad_layers delta =
     [(((None, Some (- delta)), (None, None)), (delta, 0)),
      (((None, None), (None, Some (- delta))), (0, delta)),
      (((Some delta, None), (None, None)), (- delta, 0)),
      (((None, Some (- delta)), (None, Some (- delta))), (delta, delta)),
      (((None, None), (Some delta, None)), (0, - delta)),
      (((None, Some (- delta)), (Some delta, None)), (delta, - delta)),
      (((Some delta, None), (None, Some (- delta))), (- delta, delta)),
      (((Some delta, None), (Some delta, None)), (- delta, - delta))]"

text \<open>\<^verbatim>\<open>_gradient_modulus\<close> (lines 125--152): each layer starts as zeros of the
  shape of \<^verbatim>\<open>values\<close>; the result is the Euclidean norm over the eight layers.\<close>

definition gradient_modulus :: "mat \<Rightarrow> int \<Rightarrow> mat py_result" where
  "gradient_modulus values delta =
     (let Z = replicate (length values) (replicate (ncols values) 0)
      in sbind (py_map (\<lambda>(s, dv). sbind (vector_diff values dv 1) (set_region Z s)) (grad_layers delta))
           (\<lambda>gs. Inr (map (\<lambda>i. map (\<lambda>j. sqrt (\<Sum>g\<leftarrow>gs. (g ! i ! j)\<^sup>2))
                        [0..<ncols values]) [0..<length values])))"

lemma vector_diff_nat: "vector_diff arr delta (int k) = Inr ((diff_step delta ^^ k) arr)"
proof (induction k arbitrary: arr)
  case 0
  then show ?case by (simp add: vector_diff.simps)
next
  case (Suc k)
  then show ?case
    by (cases k) (simp_all add: vector_diff.simps [of arr] funpow_Suc_right del: funpow.simps)
qed

lemma vector_diff_neg: "n < 0 \<Longrightarrow> vector_diff arr delta n = Inl ValueError"
  by (simp add: vector_diff.simps)

lemma py_slice_map: "py_slice s (map f xs) = map f (py_slice s xs)"
  by (simp add: py_slice_def take_map drop_map Let_def)

lemma py_slice_full [simp]: "py_slice (None, None) = id"
  by (simp add: py_slice_def fun_eq_iff)

lemma py_slice_drop1 [simp]: "py_slice (Some 1, None) xs = drop 1 xs"
  by (cases xs) (simp_all add: py_slice_def slice_bound_def)

lemma py_slice_butlast1 [simp]: "py_slice (None, Some (-1)) xs = take (length xs - 1) xs"
  by (cases "length xs") (simp_all add: py_slice_def slice_bound_def)

lemma map2_map_map: "map2 f (map g xs) (map h xs) = map (\<lambda>x. f (g x) (h x)) xs"
  by (induction xs) auto

lemma map2_shift:
  "map2 f (drop (Suc 0) xs) (take (length xs - Suc 0) xs) = map (\<lambda>i. f (xs ! Suc i) (xs ! i)) [0..<length xs - Suc 0]"
  by (rule nth_equalityI) (simp_all add: nth_tl)

lemma diff_step_axis1: "diff_step (0, 1) = map np_diff"
  by (rule ext) (simp add: diff_step_def diff_slices_def diff_slice_def index2_def mat_sub_def
      np_diff_def map2_shift map2_map_map)

lemma diff_step_axis0: "diff_step (1, 0) = np_diff0"
  by (rule ext) (simp add: diff_step_def diff_slices_def diff_slice_def index2_def mat_sub_def
      np_diff0_def map2_shift)

lemma diff_slice_neg: "diff_slice (- d) = prod.swap (diff_slice d)"
  by (simp add: diff_slice_def)

lemma diff_slices_neg: "diff_slices (- a, - b) = prod.swap (diff_slices (a, b))"
  by (simp add: diff_slices_def diff_slice_neg split: prod.splits)

lemma map2_minus_swap: "map2 (-) ys xs = map uminus (map2 (-) xs ys)" for xs ys :: "real list"
  by (rule nth_equalityI) simp_all

lemma mat_sub_swap: "mat_sub b a = mat_neg (mat_sub a b)"
  unfolding mat_sub_def mat_neg_def
  by (rule nth_equalityI) (simp_all add: map2_minus_swap [of "b ! i" "a ! i" for i])

lemma mat_neg_neg [simp]: "mat_neg (mat_neg a) = a"
  by (simp add: mat_neg_def comp_def)

lemma index2_neg: "index2 (mat_neg arr) s = mat_neg (index2 arr s)"
  by (simp add: index2_def mat_neg_def py_slice_map comp_def)

lemma mat_sub_neg: "mat_sub (mat_neg a) (mat_neg b) = mat_neg (mat_sub a b)"
  by (simp add: mat_sub_def mat_neg_def zip_map_map comp_def split_def map_zip_map2)

lemma diff_step_neg_delta: "diff_step (- a, - b) arr = mat_neg (diff_step (a, b) arr)"
  by (simp add: diff_step_def diff_slices_neg split: prod.splits) (metis mat_sub_swap)

lemma diff_step_mat_neg: "diff_step delta (mat_neg arr) = mat_neg (diff_step delta arr)"
  by (simp add: diff_step_def index2_neg mat_sub_neg split: prod.splits)

lemma diff_step_neg_funpow:
  "(diff_step (- a, - b) ^^ k) arr = (if even k then id else mat_neg) ((diff_step (a, b) ^^ k) arr)"
  by (induction k) (simp_all add: diff_step_neg_delta diff_step_mat_neg)

lemma vector_diff_one [simp]: "vector_diff arr delta 1 = Inr (diff_step delta arr)"
  using vector_diff_nat [of arr delta 1] by simp

lemma set_py_slice: "set (py_slice s xs) \<subseteq> set xs"
  by (auto simp: py_slice_def Let_def dest: in_set_takeD in_set_dropD)

lemma diff_slice_length:
  assumes "d \<in> {-1, 0, 1}"
  shows "length (py_slice (fst (diff_slice d)) xs) = length xs - nat \<bar>d\<bar>
       \<and> length (py_slice (snd (diff_slice d)) xs) = length xs - nat \<bar>d\<bar>"
  using assms by (auto simp: diff_slice_def)

lemma diff_step_shape:
  assumes rect: "\<forall>r\<in>set arr. length r = C" and d: "d0 \<in> {-1, 0, 1}" "d1 \<in> {-1, 0, 1}"
  shows "length (diff_step (d0, d1) arr) = length arr - nat \<bar>d0\<bar>
       \<and> (\<forall>r\<in>set (diff_step (d0, d1) arr). length r = C - nat \<bar>d1\<bar>)"
proof -
  obtain a0 b0 a1 b1 where s0: "diff_slice d0 = (a0, b0)" and s1: "diff_slice d1 = (a1, b1)"
    by (metis prod.exhaust)
  have len0: "length (py_slice a0 arr) = length arr - nat \<bar>d0\<bar>"
             "length (py_slice b0 arr) = length arr - nat \<bar>d0\<bar>"
    using diff_slice_length [OF d(1), of arr] s0 by simp_all
  have len1: "length (py_slice a1 r) = C - nat \<bar>d1\<bar>" "length (py_slice b1 r) = C - nat \<bar>d1\<bar>"
    if "r \<in> set arr" for r
    using diff_slice_length [OF d(2), of r] s1 rect that by simp_all
  have "diff_step (d0, d1) arr =
          map2 (map2 (-)) (map (py_slice a1) (py_slice a0 arr)) (map (py_slice b1) (py_slice b0 arr))"
    by (simp add: diff_step_def diff_slices_def s0 s1 index2_def mat_sub_def)
  moreover have "\<forall>r\<in>set (map2 (map2 (-)) (map (py_slice a1) (py_slice a0 arr))
                     (map (py_slice b1) (py_slice b0 arr))). length r = C - nat \<bar>d1\<bar>"
    using set_py_slice [of a0 arr] set_py_slice [of b0 arr] len1
    by (auto simp: zip_map_map elim!: in_set_zipE) (metis min.idem subsetD)
  ultimately show ?thesis using len0 by simp
qed

lemma set_region_ok:
  assumes "length V = length (py_slice (fst s) [0..<length T])"
    and "\<forall>v\<in>set V. length v = length (py_slice (snd s) [0..<ncols T])"
  shows "\<exists>M. set_region T s V = Inr M"
  using assms by (cases V) (simp_all add: set_region_def Let_def)

lemma list_index_upt [simp]: "i < n \<Longrightarrow> list_index [0..<n] i = i"
  using list_index_of_nth [of "[0..<n]" i] by simp

lemma sum_list_squares_ge:
  "gs \<noteq> [] \<Longrightarrow> (f (hd gs))\<^sup>2 \<le> (\<Sum>g\<leftarrow>gs. (f g)\<^sup>2 :: real)"
  by (cases gs) (auto intro!: sum_list_nonneg)

lemma layer_ok:
  assumes rect: "\<forall>r\<in>set vals. length r = C" and ne: "vals \<noteq> []"
    and d: "d0 \<in> {-1, 0, 1}" "d1 \<in> {-1, 0, 1}"
    and s0: "length (py_slice (fst s) [0..<length vals]) = length vals - nat \<bar>d0\<bar>"
    and s1: "length (py_slice (snd s) [0..<C]) = C - nat \<bar>d1\<bar>"
  shows "\<exists>y. set_region (replicate (length vals) (replicate (ncols vals) 0)) s (diff_step (d0, d1) vals) = Inr y"
proof -
  have nc: "ncols vals = C" using rect ne by (cases vals) (auto simp: ncols_def)
  have "ncols (replicate (length vals) (replicate (ncols vals) (0::real))) = C"
    using ne nc by (cases vals) (simp_all add: ncols_def)
  then show ?thesis
    using diff_step_shape [OF rect d] s0 s1 by (intro set_region_ok) simp_all
qed

lemma set_region_entry:
  assumes "set_region T s V = Inr M" "i < length T" "j < ncols T" "V \<noteq> []"
    "i \<in> set (py_slice (fst s) [0..<length T])" "j \<in> set (py_slice (snd s) [0..<ncols T])"
  shows "M ! i ! j = V ! (if length V = 1 then 0 else list_index (py_slice (fst s) [0..<length T]) i)
                       ! (if length (hd V) = 1 then 0 else list_index (py_slice (snd s) [0..<ncols T]) j)"
  using assms(1) [symmetric] assms(2-) by (cases V) (auto simp: set_region_def Let_def split: if_split_asm)

lemma diff_step_funpow_shape:
  assumes rect: "\<forall>r\<in>set arr. length r = C" and d: "d0 \<in> {-1, 0, 1}" "d1 \<in> {-1, 0, 1}"
  shows "length ((diff_step (d0, d1) ^^ k) arr) = length arr - k * nat \<bar>d0\<bar>
       \<and> (\<forall>r\<in>set ((diff_step (d0, d1) ^^ k) arr). length r = C - k * nat \<bar>d1\<bar>)"
proof (induction k)
  case 0
  then show ?case using rect by simp
next
  case (Suc k)
  then have "\<forall>r\<in>set ((diff_step (d0, d1) ^^ k) arr). length r = C - k * nat \<bar>d1\<bar>" by blast
  from diff_step_shape [OF this d] Suc show ?case by (simp add: diff_diff_left add.commute)
qed

section \<open>Properties of the finite differences\<close>

text \<open>
  C35. As its docstring says, \<^verbatim>\<open>_vector_diff\<close> with \<^verbatim>\<open>delta = (0, 1)\<close> is
  \<^verbatim>\<open>np.diff(..., axis=1)\<close> and with \<^verbatim>\<open>delta = (1, 0)\<close> is
  \<^verbatim>\<open>np.diff(..., axis=0)\<close>, taken \<open>k\<close> times for the order \<open>n = k\<close>.
\<close>

theorem vector_diff_np_diff:
  "vector_diff arr (0, 1) (int k) = Inr ((map np_diff ^^ k) arr)
   \<and> vector_diff arr (1, 0) (int k) = Inr ((np_diff0 ^^ k) arr)"
  by (simp add: vector_diff_nat diff_step_axis1 diff_step_axis0)

text \<open>
  C36. \<^verbatim>\<open>_vector_diff\<close> returns an array exactly when the order is non-negative:
  the recursion on \<open>n - 1\<close> ends for every \<open>n \<ge> 0\<close>, and a negative order raises
  \<^verbatim>\<open>ValueError\<close>.
\<close>

theorem vector_diff_total:
  "(\<exists>r. vector_diff arr delta n = Inr r) \<longleftrightarrow> 0 \<le> n"
proof (cases "0 \<le> n")
  case True
  then obtain k where "n = int k" by (metis nonneg_eq_int)
  then show ?thesis by (simp add: vector_diff_nat)
next
  case False
  then show ?thesis by (simp add: vector_diff_neg)
qed

text \<open>
  Reversing the translation vector negates the differences of odd order and
  leaves those of even order: \<^verbatim>\<open>_vector_diff(arr, (-a, -b), n)\<close> is
  \<open>(-1)^n\<close> times \<^verbatim>\<open>_vector_diff(arr, (a, b), n)\<close>, the error included.
\<close>

theorem vector_diff_reverse:
  "vector_diff arr (- a, - b) n =
     (if even (nat n) then vector_diff arr (a, b) n else map_sum id mat_neg (vector_diff arr (a, b) n))"
proof (cases "0 \<le> n")
  case True
  then obtain k where "n = int k" by (metis nonneg_eq_int)
  then show ?thesis by (simp add: vector_diff_nat diff_step_neg_funpow)
next
  case False
  then show ?thesis by (simp add: vector_diff_neg)
qed

text \<open>
  C37. The shape of the result, the type of a numpy array: for a translation vector of
  entries in \<open>{-1, 0, 1}\<close> (the type \<^verbatim>\<open>DELTA\<close>), the \<open>k\<close>-th difference of an
  \<open>R \<times> C\<close> array is a rectangular \<open>(R - k|a|) \<times> (C - k|b|)\<close> array.
\<close>

theorem vector_diff_shape:
  assumes "\<forall>r\<in>set arr. length r = C" "a \<in> {-1, 0, 1}" "b \<in> {-1, 0, 1}"
  shows "\<exists>D. vector_diff arr (a, b) (int k) = Inr D \<and> length D = length arr - k * nat \<bar>a\<bar>
           \<and> (\<forall>r\<in>set D. length r = C - k * nat \<bar>b\<bar>)"
  using diff_step_funpow_shape [OF assms] by (simp add: vector_diff_nat)

theorem vector_diff_shape_witness:
  "\<exists>D. vector_diff [[1, 2, 4], [3, 5, 9]] (1, -1) (int 1) = Inr D \<and> length D = 1
       \<and> list_all (\<lambda>r. length r = 2) D"
proof -
  obtain D where "vector_diff [[1, 2, 4], [3, 5, 9]] (1, -1) (int 1) = Inr D"
    "length D = length [[1, 2, 4], [3, 5, 9::real]] - 1 * nat \<bar>1::int\<bar>"
    "\<forall>r\<in>set D. length r = 3 - 1 * nat \<bar>-1::int\<bar>"
    using vector_diff_shape [of "[[1, 2, 4], [3, 5, 9]]" 3 1 "-1" 1] by auto
  then show ?thesis by (auto simp: list_all_iff)
qed

section \<open>Properties of the gradient modulus\<close>

text \<open>
  C38. With the default \<^verbatim>\<open>delta = 1\<close>, \<^verbatim>\<open>_gradient_modulus\<close> of a rectangular
  array returns an array of the same shape, and each entry bounds the size of the
  forward difference along the first axis at that point (the layer
  \<^verbatim>\<open>gradient_vector[0]\<close> contributes it to the norm).
\<close>

theorem gradient_modulus_bound:
  assumes rect: "\<forall>r\<in>set vals. length r = C"
  shows "\<exists>M. gradient_modulus vals 1 = Inr M \<and> length M = length vals
           \<and> (\<forall>i<length vals. length (M ! i) = ncols vals)
           \<and> (\<forall>i j. Suc i < length vals \<and> j < C \<longrightarrow> \<bar>vals ! Suc i ! j - vals ! i ! j\<bar> \<le> M ! i ! j)"
proof (cases "vals = []")
  case True
  then show ?thesis
    by (simp add: gradient_modulus_def grad_layers_def set_region_def diff_step_def diff_slices_def
        diff_slice_def index2_def mat_sub_def py_slice_def ncols_def)
next
  case False
  define Z where "Z = replicate (length vals) (replicate (ncols vals) (0::real))"
  define F where "F = (\<lambda>(s, dv). sbind (vector_diff vals dv 1) (set_region Z s))"
  have nc: "ncols vals = C" using rect False by (cases vals) (auto simp: ncols_def)
  have "\<forall>x\<in>set (grad_layers 1). \<exists>y. F x = Inr y"
    unfolding grad_layers_def F_def Z_def
    using layer_ok [OF rect False] by simp
  then obtain gs where gs: "py_map F (grad_layers 1) = Inr gs" "length gs = 8"
    using py_map_ok by (fastforce simp: grad_layers_def)
  have g0: "set_region Z ((None, Some (-1)), (None, None)) (np_diff0 vals) = Inr (gs ! 0)"
    using py_map_nth [OF gs(1), of 0] by (simp add: F_def grad_layers_def diff_step_axis0)
  have Z: "length Z = length vals" "ncols Z = C"
    using False nc by (simp_all add: Z_def ncols_def split: list.splits)
  have V: "length (np_diff0 vals) = length vals - 1"
    "i < length vals - 1 \<Longrightarrow> np_diff0 vals ! i = map2 (-) (vals ! Suc i) (vals ! i)" for i
    by (simp_all add: np_diff0_def)
  have "length (hd (np_diff0 vals)) = C" if "1 < length vals"
    using that rect by (simp add: np_diff0_def hd_map hd_upt) (metis Suc_lessD nth_mem min.idem)
  have entry: "gs ! 0 ! i ! j = vals ! Suc i ! j - vals ! i ! j" if "Suc i < length vals" "j < C" for i j
  proof -
    have mem: "i \<in> set (py_slice (fst ((None, Some (-1)), (None, None))) [0..<length Z])"
      "j \<in> set (py_slice (snd ((None, Some (-1)), (None, None))) [0..<ncols Z])"
      using that Z by simp_all
    have ne: "np_diff0 vals \<noteq> []" using V(1) that by auto
    have "gs ! 0 ! i ! j = np_diff0 vals ! (if length (np_diff0 vals) = 1 then 0 else i)
                              ! (if length (hd (np_diff0 vals)) = 1 then 0 else j)"
      using set_region_entry [OF g0 _ _ ne mem] that Z by simp
    then have "gs ! 0 ! i ! j = np_diff0 vals ! i ! j"
      using that V(1) \<open>1 < length vals \<Longrightarrow> _\<close> by (cases "i = 0") (auto split: if_splits)
    then show ?thesis using that rect V(2) [of i] by simp
  qed
  have gs_ne: "gs \<noteq> []" using gs(2) by auto
  define M where "M = map (\<lambda>i. map (\<lambda>j. sqrt (\<Sum>g\<leftarrow>gs. (g ! i ! j)\<^sup>2)) [0..<ncols vals]) [0..<length vals]"
  have gm: "gradient_modulus vals 1 = Inr M"
    using gs(1) by (simp add: gradient_modulus_def Z_def F_def M_def)
  have "\<bar>vals ! Suc i ! j - vals ! i ! j\<bar> \<le> M ! i ! j" if "Suc i < length vals" "j < C" for i j
  proof -
    have "(gs ! 0 ! i ! j)\<^sup>2 \<le> (\<Sum>g\<leftarrow>gs. (g ! i ! j)\<^sup>2)"
      using sum_list_squares_ge [OF gs_ne, of "\<lambda>g. g ! i ! j"] gs_ne by (simp add: hd_conv_nth)
    then have "\<bar>gs ! 0 ! i ! j\<bar> \<le> sqrt (\<Sum>g\<leftarrow>gs. (g ! i ! j)\<^sup>2)"
      using real_sqrt_le_mono by fastforce
    then show ?thesis using entry [OF that] that nc by (simp add: M_def)
  qed
  then show ?thesis using gm by (auto simp: M_def)
qed

theorem gradient_modulus_bound_witness:
  "\<exists>M. gradient_modulus [[1, 2, 3], [4, 6, 9]] 1 = Inr M \<and> length M = 2 \<and> 3 \<le> M ! 0 ! 0 \<and> 6 \<le> M ! 0 ! 2"
proof -
  obtain M where M: "gradient_modulus [[1, 2, 3], [4, 6, 9]] 1 = Inr M" "length M = 2"
    "\<forall>i j. Suc i < 2 \<and> j < 3 \<longrightarrow>
       \<bar>[[1, 2, 3], [4, 6, 9]] ! Suc i ! j - [[1, 2, 3], [4, 6, 9]] ! i ! j\<bar> \<le> M ! i ! j"
    using gradient_modulus_bound [of "[[1, 2, 3], [4, 6, 9]]" 3] by auto
  have "3 \<le> M ! 0 ! 0" "6 \<le> M ! 0 ! 2"
    using spec [OF spec [OF M(3), of 0], of 0] spec [OF spec [OF M(3), of 0], of 2] by simp_all
  with M show ?thesis by blast
qed

text \<open>
  C39. The signature admits \<^verbatim>\<open>delta = 0\<close> (the type \<^verbatim>\<open>DELTA\<close> is
  \<^verbatim>\<open>Literal[0, 1, -1]\<close>), but then the region \<^verbatim>\<open>gradient_vector[0, :-0, :]\<close> is
  empty while the difference has every row, so the first assignment raises
  \<^verbatim>\<open>ValueError\<close> for any array of two rows or more.
\<close>

theorem gradient_modulus_zero_delta:
  assumes "2 \<le> length vals"
  shows "gradient_modulus vals 0 = Inl ValueError"
proof -
  have len: "length (diff_step (0, 0) vals) = length vals"
    by (simp add: diff_step_def diff_slices_def diff_slice_def index2_def mat_sub_def)
  then have "diff_step (0, 0) vals \<noteq> []" using assms by auto
  moreover note len
  moreover have "py_slice (None, Some 0) xs = []" for xs :: "nat list"
    by (simp add: py_slice_def slice_bound_def)
  ultimately show ?thesis
    using assms by (simp add: gradient_modulus_def grad_layers_def set_region_def Let_def)
qed

theorem gradient_modulus_zero_delta_witness:
  "gradient_modulus [[1, 2], [3, 4]] 0 = Inl ValueError"
  using gradient_modulus_zero_delta [of "[[1, 2], [3, 4]]"] by simp

end
