(* ===== verification/Curvature.thy ===== *)
theory Curvature
  imports Derivative
begin

text \<open>
  Derivatives and curvature of \<^verbatim>\<open>analysis/derivative.py\<close>: \<^verbatim>\<open>dn_along_axis\<close>,
  \<^verbatim>\<open>curvature1d\<close>, \<^verbatim>\<open>curvature2d\<close>, \<^verbatim>\<open>curvature\<close> and
  \<^verbatim>\<open>minimum_gradient\<close>, on two-dimensional DataArrays (the ARPES cut).  A DataArray is
  the record \<open>darr\<close>: its two dimension names, a coordinate vector per dimension, its
  values as rows along the first dimension (\<open>Derivative.mat\<close>) and its string
  attributes.  xarray's \<^verbatim>\<open>differentiate\<close> is numpy's \<^verbatim>\<open>np.gradient\<close> with
  \<^verbatim>\<open>edge_order=1\<close> along the coordinate, \<open>np_gradient\<close>: one-sided differences at
  the two ends and the second-order three-point formula for non-uniform spacing inside
  (numpy's uniform-spacing branch is the same formula).  Reals are exact; a value that
  numpy makes infinite or NaN by dividing by zero is \<open>None\<close> where the code's result
  can be one, and the lemmas on \<open>np_gradient\<close> assume distinct coordinates.  The
  smoothing function and the accessor call \<^verbatim>\<open>arr.G.with_values\<close> (a copy of the
  array with new values) are modelled as an argument and as a record update.
\<close>

record darr =
  da_dims :: "string list"
  da_coords :: "(string, real list) dict"
  da_vals :: mat
  da_attrs :: "(string, string) dict"

section \<open>Differentiation\<close>

definition np_gradient :: "real list \<Rightarrow> real list \<Rightarrow> real list py_result" where
  "np_gradient x f =
     (let n = length f
      in if n < 2 then Inl ValueError
         else Inr ([(f ! 1 - f ! 0) / (x ! 1 - x ! 0)]
                   @ map (\<lambda>i. let dx1 = x ! i - x ! (i - 1); dx2 = x ! (i + 1) - x ! i
                              in - dx2 / (dx1 * (dx1 + dx2)) * f ! (i - 1)
                                 + (dx2 - dx1) / (dx1 * dx2) * f ! i
                                 + dx1 / (dx2 * (dx1 + dx2)) * f ! (i + 1))
                         [1..<n - 1]
                   @ [(f ! (n - 1) - f ! (n - 2)) / (x ! (n - 1) - x ! (n - 2))]))"

text \<open>\<^verbatim>\<open>DataArray.differentiate(coord)\<close>: \<^verbatim>\<open>KeyError\<close> for a name that is no
  dimension coordinate; along the first dimension every column is differentiated, along
  the second every row.  The variable's attributes are not carried over.\<close>

definition differentiate :: "darr \<Rightarrow> string \<Rightarrow> darr py_result" where
  "differentiate a c =
     (case map_of (da_coords a) c of
        None \<Rightarrow> Inl KeyError
      | Some xs \<Rightarrow>
          if c = da_dims a ! 0
          then sbind (py_map (np_gradient xs) (transpose (da_vals a)))
                 (\<lambda>cols. Inr (a\<lparr>da_vals := transpose cols, da_attrs := []\<rparr>))
          else if c = da_dims a ! 1
          then sbind (py_map (np_gradient xs) (da_vals a)) (\<lambda>rows. Inr (a\<lparr>da_vals := rows, da_attrs := []\<rparr>))
          else Inl KeyError)"

text \<open>Python's \<^verbatim>\<open>str\<close> of an int.\<close>

fun nat_digits :: "nat \<Rightarrow> string" where
  "nat_digits n = (if n < 10 then [char_of (48 + n)] else nat_digits (n div 10) @ [char_of (48 + n mod 10)])"

definition py_str_int :: "int \<Rightarrow> string" where
  "py_str_int i = (if i < 0 then CHR ''-'' # nat_digits (nat (- i)) else nat_digits (nat i))"

text \<open>\<^verbatim>\<open>dn_along_axis\<close>: \<open>order\<close> differentiations along \<open>dim\<close> (the first
  dimension when empty) of the smoothed array, then the input's attributes, and the
  suffix \<^verbatim>\<open>_dy{order}\<close> on its \<^verbatim>\<open>id\<close>.  \<^verbatim>\<open>range(order)\<close> is empty for a
  negative order.\<close>

definition dn_along_axis :: "(darr \<Rightarrow> darr) \<Rightarrow> darr \<Rightarrow> string \<Rightarrow> int \<Rightarrow> darr py_result" where
  "dn_along_axis smooth a dim_arg order =
     (let axis = (if dim_arg = [] then da_dims a ! 0 else dim_arg)
      in sbind (py_foldl (\<lambda>d _. differentiate d axis) (smooth a) [0..<nat order]) (\<lambda>dn.
           let dn = dn\<lparr>da_attrs := dict_update (da_attrs dn) (da_attrs a)\<rparr>
           in Inr (case map_of (da_attrs dn) ''id'' of
                     None \<Rightarrow> dn
                   | Some i \<Rightarrow> dn\<lparr>da_attrs := dict_set (da_attrs dn) ''id'' (i @ ''_dy'' @ py_str_int order)\<rparr>)))"

section \<open>Curvature\<close>

text \<open>The result of a curvature: the array with new values, an entry being \<open>None\<close>
  where numpy divides by zero (an infinite or NaN value).\<close>

record carr =
  ca_dims :: "string list"
  ca_coords :: "(string, real list) dict"
  ca_vals :: "real option list list"
  ca_attrs :: "(string, string) dict"

definition with_values :: "darr \<Rightarrow> real option list list \<Rightarrow> carr" where
  "with_values a v = \<lparr>ca_dims = da_dims a, ca_coords = da_coords a, ca_vals = v, ca_attrs = da_attrs a\<rparr>"

text \<open>\<^verbatim>\<open>x ** 1.5\<close> for \<open>x \<ge> 0\<close>.\<close>

definition pow15 :: "real \<Rightarrow> real" where
  "pow15 x = (if x = 0 then 0 else x powr 1.5)"

definition np_div :: "real \<Rightarrow> real \<Rightarrow> real option" where
  "np_div x y = (if y = 0 then None else Some (x / y))"

text \<open>\<^verbatim>\<open>arr.min()\<close> over all entries; \<^verbatim>\<open>ValueError\<close> on an empty array.\<close>

definition mat_min :: "mat \<Rightarrow> real py_result" where
  "mat_min m = (case concat m of [] \<Rightarrow> Inl ValueError | v # vs \<Rightarrow> Inr (fold min vs v))"

definition mat_map2 :: "(real \<Rightarrow> real \<Rightarrow> 'a) \<Rightarrow> mat \<Rightarrow> mat \<Rightarrow> 'a list list" where
  "mat_map2 f a b = map2 (map2 f) a b"

text \<open>\<^verbatim>\<open>curvature1d\<close>: \<open>d2 / (alpha * |min d|^2 + d^2)^1.5\<close> for the first and second
  derivatives \<open>d\<close>, \<open>d2\<close> along \<open>dim\<close>; the \<^verbatim>\<open>id\<close> attribute gets the suffix
  \<^verbatim>\<open>_CV\<close>.\<close>

definition curvature1d :: "(darr \<Rightarrow> darr) \<Rightarrow> darr \<Rightarrow> string \<Rightarrow> real \<Rightarrow> carr py_result" where
  "curvature1d smooth arr dim_arg alpha =
     (if \<not> 0 < alpha then Inl AssertionError
      else
        let axis = (if dim_arg = [] then da_dims arr ! 0 else dim_arg);
            arr = smooth arr
        in sbind (differentiate arr axis) (\<lambda>d.
           sbind (differentiate d axis) (\<lambda>d2.
           sbind (mat_min (da_vals d)) (\<lambda>m.
             let den = map (map (\<lambda>v. pow15 (alpha * \<bar>m\<bar> ^ 2 + v ^ 2))) (da_vals d);
                 r = with_values arr (mat_map2 np_div (da_vals d2) den)
             in Inr (case map_of (da_attrs arr) ''id'' of
                       None \<Rightarrow> r
                     | Some i \<Rightarrow> r\<lparr>ca_attrs := dict_set (ca_attrs r) ''id'' (i @ ''_CV'')\<rparr>)))))"

text \<open>The step \<^verbatim>\<open>arr.coords[d][1] - arr.coords[d][0]\<close> of a dimension.\<close>

definition coord_step :: "darr \<Rightarrow> string \<Rightarrow> real py_result" where
  "coord_step a d =
     (case map_of (da_coords a) d of
        None \<Rightarrow> Inl KeyError
      | Some xs \<Rightarrow> if length xs < 2 then Inl IndexError else Inr (xs ! 1 - xs ! 0))"

text \<open>The weight of \<^verbatim>\<open>curvature2d\<close> (lines 229--230 and 239--242): the squared ratio
  of the steps of the array's own first two dimensions, whatever \<open>dims\<close> names, scaled
  by \<open>weight2d\<close>; a zero step of the second raises \<^verbatim>\<open>ZeroDivisionError\<close>.\<close>

definition curv_weight :: "darr \<Rightarrow> real \<Rightarrow> real py_result" where
  "curv_weight a weight2d =
     (if length (take 2 (da_dims a)) \<noteq> 2 then Inl ValueError
      else sbind (coord_step a (da_dims a ! 0)) (\<lambda>dx.
           sbind (coord_step a (da_dims a ! 1)) (\<lambda>dy.
             if dy = 0 then Inl ZeroDivisionError
             else let weight = (dx / dy) ^ 2
                  in Inr (if 0 < weight2d then weight * weight2d else weight / \<bar>weight2d\<bar>))))"

definition curvature2d ::
  "(darr \<Rightarrow> darr) option \<Rightarrow> darr \<Rightarrow> string \<times> string \<Rightarrow> real \<Rightarrow> real \<Rightarrow> carr py_result" where
  "curvature2d smooth_fn arr dims alpha weight2d =
     (if \<not> 0 < alpha then Inl AssertionError
      else if weight2d = 0 then Inl AssertionError
      else sbind (curv_weight arr weight2d) (\<lambda>weight.
        let arr = (case smooth_fn of None \<Rightarrow> arr | Some f \<Rightarrow> f arr)
        in sbind (differentiate arr (fst dims)) (\<lambda>dfx.
           sbind (differentiate arr (snd dims)) (\<lambda>dfy.
           sbind (differentiate dfx (fst dims)) (\<lambda>d2x.
           sbind (differentiate dfy (snd dims)) (\<lambda>d2y.
           sbind (differentiate dfx (snd dims)) (\<lambda>dxy.
           sbind (mat_min (da_vals dfx)) (\<lambda>mx.
           sbind (mat_min (da_vals dfy)) (\<lambda>my.
             let avg = max (\<bar>mx\<bar> ^ 2) (weight * \<bar>my\<bar> ^ 2);
                 fx = da_vals dfx; fy = da_vals dfy;
                 num = map2 (map2 (\<lambda>(x, y) (xx, yy, xy).
                           (alpha * avg + weight * x * x) * yy - 2 * weight * x * y * xy
                           + weight * (alpha * avg + y * y) * xx))
                         (map2 zip fx fy) (map2 zip (da_vals d2x) (map2 zip (da_vals d2y) (da_vals dxy)));
                 den = mat_map2 (\<lambda>x y. pow15 (alpha * avg + weight * x ^ 2 + y ^ 2)) fx fy;
                 curv = with_values arr (mat_map2 np_div num den)
             in Inr (if ''id'' \<in> fst ` set (ca_attrs curv)
                     then curv\<lparr>ca_attrs := filter (\<lambda>kv. fst kv \<noteq> ''id'') (ca_attrs curv)\<rparr>
                     else curv))))))))))"

text \<open>\<^verbatim>\<open>curvature\<close>, kept for compatibility.\<close>

definition curvature :: "darr \<Rightarrow> string \<times> string \<Rightarrow> real \<Rightarrow> carr py_result" where
  "curvature arr dims alpha = curvature2d None arr dims alpha 1"

text \<open>\<^verbatim>\<open>minimum_gradient\<close>: the smoothed values divided pointwise by their gradient
  modulus (\<open>Derivative.gradient_modulus\<close>).\<close>

definition minimum_gradient :: "(darr \<Rightarrow> darr) \<Rightarrow> darr \<Rightarrow> int \<Rightarrow> real option list list py_result" where
  "minimum_gradient smooth data delta =
     (let arr = smooth data
      in sbind (gradient_modulus (da_vals arr) delta) (\<lambda>g. Inr (mat_map2 np_div (da_vals arr) g)))"

text \<open>A cut whose rows are affine along \<^verbatim>\<open>phi\<close> on uneven coordinates.\<close>

definition demo_cut :: darr where
  "demo_cut = \<lparr>da_dims = [''eV'', ''phi''], da_coords = [(''eV'', [0, 1]), (''phi'', [0, 1, 3])],
                da_vals = [[1, 3, 7], [0, -1, -3]], da_attrs = [(''id'', ''cut'')]\<rparr>"

section \<open>Differentiation is exact on affine data\<close>

lemma three_point_affine:
  fixes h1 h2 x c b :: real
  assumes "0 < h1" "0 < h2"
  shows "- h2 / (h1 * (h1 + h2)) * (c * (x - h1) + b) + (h2 - h1) / (h1 * h2) * (c * x + b)
         + h1 / (h2 * (h1 + h2)) * (c * (x + h2) + b) = c"
proof -
  define s where "s = h1 + h2"
  have nz: "h1 \<noteq> 0" "h2 \<noteq> 0" "s \<noteq> 0"
    using assms by (auto simp: s_def)
  define A where "A = - h2 / (h1 * s)"
  define B where "B = (h2 - h1) / (h1 * h2)"
  define C where "C = h1 / (h2 * s)"
  have "A + B + C = (- h2 * h2 + (h2 - h1) * s + h1 * h1) / (h1 * h2 * s)"
    unfolding A_def B_def C_def using nz by (simp add: field_simps)
  also have "- h2 * h2 + (h2 - h1) * s + h1 * h1 = 0"
    by (simp add: s_def algebra_simps)
  finally have s0: "A + B + C = 0" by simp
  have "C * h2 - A * h1 = (h1 + h2) / s"
    unfolding A_def C_def using nz by (simp add: field_simps)
  then have s1: "C * h2 - A * h1 = 1"
    using nz by (simp add: s_def)
  have "A * (c * (x - h1) + b) + B * (c * x + b) + C * (c * (x + h2) + b)
        = c * ((A + B + C) * x + (C * h2 - A * h1)) + b * (A + B + C)"
    by (simp add: algebra_simps)
  also have "\<dots> = c" by (simp add: s0 s1)
  finally show ?thesis by (simp add: A_def B_def C_def s_def)
qed

lemma three_point_exact:
  fixes p q r c b :: real
  assumes "p < q" "q < r"
  shows "(let dx1 = q - p; dx2 = r - q
          in - dx2 / (dx1 * (dx1 + dx2)) * (c * p + b) + (dx2 - dx1) / (dx1 * dx2) * (c * q + b)
             + dx1 / (dx2 * (dx1 + dx2)) * (c * r + b)) = c"
proof -
  have "q - (q - p) = p" "q + (r - q) = r" by simp_all
  then show ?thesis
    using three_point_affine[of "q - p" "r - q" c q b] assms by (simp only: Let_def)
qed

lemma affine_slope:
  fixes a a' c b :: real
  shows "a \<noteq> a' \<Longrightarrow> (c * a + b - (c * a' + b)) / (a - a') = c"
  by (simp add: right_diff_distrib[symmetric])

lemma np_gradient_short: "length f < 2 \<Longrightarrow> np_gradient x f = Inl ValueError"
  by (simp add: np_gradient_def)

lemma np_gradient_length: "np_gradient x f = Inr g \<Longrightarrow> length g = length f"
  by (auto simp: np_gradient_def Let_def split: if_splits)

lemma np_gradient_affine:
  assumes sorted: "sorted_wrt (<) x" and len: "2 \<le> length x"
  shows "np_gradient x (map (\<lambda>t. c * t + b) x) = Inr (replicate (length x) c)"
proof -
  let ?n = "length x"
  have lt: "\<And>i j. i < j \<Longrightarrow> j < ?n \<Longrightarrow> x ! i < x ! j"
    using sorted by (simp add: sorted_wrt_iff_nth_less)
  have l01: "x ! 0 < x ! 1" and l2: "x ! (?n - 2) < x ! (?n - 1)"
    by (rule lt, use len in auto)+
  have first: "(c * x ! 1 + b - (c * x ! 0 + b)) / (x ! 1 - x ! 0) = c"
    using affine_slope[of "x ! 1" "x ! 0" c b] l01 by simp
  have last: "(c * x ! (?n - 1) + b - (c * x ! (?n - 2) + b)) / (x ! (?n - 1) - x ! (?n - 2)) = c"
    using affine_slope[of "x ! (?n - 1)" "x ! (?n - 2)" c b] l2 by simp
  have mid: "\<And>i. i \<in> set [1..<?n - 1] \<Longrightarrow>
      (let dx1 = x ! i - x ! (i - 1); dx2 = x ! (i + 1) - x ! i
       in - dx2 / (dx1 * (dx1 + dx2)) * (c * x ! (i - 1) + b)
          + (dx2 - dx1) / (dx1 * dx2) * (c * x ! i + b)
          + dx1 / (dx2 * (dx1 + dx2)) * (c * x ! (i + 1) + b)) = c"
  proof -
    fix i assume "i \<in> set [1..<?n - 1]"
    then have i: "1 \<le> i" "i + 1 < ?n" by auto
    have "x ! (i - 1) < x ! i" "x ! i < x ! (i + 1)"
      using lt[of "i - 1" i] lt[of i "i + 1"] i by auto
    then show "?thesis i"
      by (rule three_point_exact)
  qed
  define F where "F = (\<lambda>i. let f = map (\<lambda>t. c * t + b) x; dx1 = x ! i - x ! (i - 1); dx2 = x ! (i + 1) - x ! i
                 in - dx2 / (dx1 * (dx1 + dx2)) * f ! (i - 1) + (dx2 - dx1) / (dx1 * dx2) * f ! i
                    + dx1 / (dx2 * (dx1 + dx2)) * f ! (i + 1))"
  have "\<And>i. i \<in> set [1..<?n - 1] \<Longrightarrow> F i = c"
  proof -
    fix i assume i: "i \<in> set [1..<?n - 1]"
    then have "i - 1 < ?n" "i < ?n" "i + 1 < ?n" by auto
    then show "F i = c"
      using mid[OF i] by (simp add: F_def Let_def)
  qed
  then have "map F [1..<?n - 1] = map (\<lambda>_. c) [1..<?n - 1]"
    by (rule map_cong[OF refl])
  then have "map F [1..<?n - 1] = replicate (?n - 2) c"
    by (simp add: map_replicate_const)
  moreover have "[c] @ replicate (?n - 2) c @ [c] = replicate ?n c"
  proof -
    have "?n = Suc (Suc (?n - 2))" using len by simp
    then show ?thesis by (metis append_Cons append_Nil replicate_Suc replicate_append_same)
  qed
  moreover have "np_gradient x (map (\<lambda>t. c * t + b) x) =
      Inr ([(c * x ! 1 + b - (c * x ! 0 + b)) / (x ! 1 - x ! 0)] @ map F [1..<?n - 1]
           @ [(c * x ! (?n - 1) + b - (c * x ! (?n - 2) + b)) / (x ! (?n - 1) - x ! (?n - 2))])"
  proof -
    have "0 < ?n" "1 < ?n" "?n - 1 < ?n" "?n - 2 < ?n" using len by auto
    then show ?thesis unfolding np_gradient_def F_def using len by (simp add: Let_def)
  qed
  ultimately show ?thesis
    using first last by simp
qed

lemma py_map_gradient_affine:
  assumes "sorted_wrt (<) xs" "2 \<le> length xs"
  shows "py_map (np_gradient xs) (map (\<lambda>(c, b). map (\<lambda>t. c * t + b) xs) cb) =
         Inr (map (\<lambda>(c, b). replicate (length xs) c) cb)"
  by (induction cb) (auto simp: np_gradient_affine[OF assms])

lemma differentiate_affine_rows:
  assumes dims: "da_dims a = [d0, d1]" "d0 \<noteq> d1"
    and co: "map_of (da_coords a) d1 = Some xs"
    and xs: "sorted_wrt (<) xs" "2 \<le> length xs"
    and v: "da_vals a = map (\<lambda>(c, b). map (\<lambda>t. c * t + b) xs) cb"
  shows "differentiate a d1 = Inr (a\<lparr>da_vals := map (\<lambda>(c, b). replicate (length xs) c) cb, da_attrs := []\<rparr>)"
  using dims co v by (simp add: differentiate_def py_map_gradient_affine[OF xs])

lemma replicate_affine: "replicate (length xs) c = map (\<lambda>t. 0 * t + c) xs" for c :: real and xs :: "real list"
  by (induction xs) auto

text \<open>
  C28. Differentiation is exact on data affine along the axis: for strictly increasing
  coordinates, however unevenly spaced, the first derivative of \<^verbatim>\<open>dn_along_axis\<close> along
  the second dimension is each row's slope and the second derivative is zero everywhere.
\<close>

theorem dn_along_axis_affine:
  assumes dims: "da_dims a = [d0, d1]" "d0 \<noteq> d1" and nonempty: "d1 \<noteq> []"
    and co: "map_of (da_coords a) d1 = Some xs"
    and xs: "sorted_wrt (<) xs" "2 \<le> length xs"
    and v: "da_vals a = map (\<lambda>(c, b). map (\<lambda>t. c * t + b) xs) cb"
  shows "(\<exists>r. dn_along_axis id a d1 1 = Inr r \<and> da_vals r = map (\<lambda>(c, b). replicate (length xs) c) cb)
       \<and> (\<exists>r. dn_along_axis id a d1 2 = Inr r \<and> da_vals r = map (\<lambda>_. replicate (length xs) 0) cb)"
proof -
  let ?a1 = "a\<lparr>da_vals := map (\<lambda>(c, b). replicate (length xs) c) cb, da_attrs := []\<rparr>"
  have d1: "differentiate a d1 = Inr ?a1"
    by (rule differentiate_affine_rows[OF dims co xs v])
  have v1: "da_vals ?a1 = map (\<lambda>(c, b). map (\<lambda>t. c * t + b) xs) (map (\<lambda>(c, b). (0, c)) cb)"
    by (simp add: case_prod_beta replicate_affine)
  have d2: "differentiate ?a1 d1 = Inr (?a1\<lparr>da_vals := map (\<lambda>_. replicate (length xs) 0) cb, da_attrs := []\<rparr>)"
    using differentiate_affine_rows[of ?a1 d0 d1 xs "map (\<lambda>(c, b). (0, c)) cb"] dims co xs v1
    by (simp add: case_prod_beta comp_def)
  show ?thesis
    using nonempty d1 d2 by (simp add: dn_along_axis_def numeral_2_eq_2 Let_def split: option.split)
qed

section \<open>Where the curvature divides by zero\<close>

lemma mat_min_Min: "concat m \<noteq> [] \<Longrightarrow> mat_min m = Inr (Min (set (concat m)))"
proof (cases "concat m")
  case (Cons v vs)
  then show ?thesis
    unfolding mat_min_def by (simp only: list.case Min.set_eq_fold)
qed simp

lemma mat_map2_nth:
  "i < length a \<Longrightarrow> i < length b \<Longrightarrow> j < length (a ! i) \<Longrightarrow> j < length (b ! i) \<Longrightarrow>
   mat_map2 f a b ! i ! j = f (a ! i ! j) (b ! i ! j)"
  by (simp add: mat_map2_def)

text \<open>The regularisation of \<^verbatim>\<open>curvature1d\<close> uses \<open>|min d|\<close>, not the largest
  slope the method of \<^verbatim>\<open>curvature\<close>'s docstring names: when no slope is negative, a
  flat point has a zero denominator and its curvature is infinite or NaN.\<close>

lemma curvature1d_flat_point:
  assumes alpha: "0 < alpha" and nonempty: "dim_arg \<noteq> []"
    and d: "differentiate a dim_arg = Inr d" and d2: "differentiate d dim_arg = Inr d2"
    and nonneg: "list_all (list_all (\<lambda>v. 0 \<le> v)) (da_vals d)"
    and i: "i < length (da_vals d)" "i < length (da_vals d2)"
    and j: "j < length (da_vals d ! i)" "j < length (da_vals d2 ! i)"
    and flat: "da_vals d ! i ! j = 0"
  shows "\<exists>r. curvature1d id a dim_arg alpha = Inr r \<and> ca_vals r ! i ! j = None"
proof -
  have mem: "0 \<in> set (concat (da_vals d))"
    using i j flat by (metis UN_iff nth_mem set_concat)
  then have ne: "concat (da_vals d) \<noteq> []" by (metis empty_iff empty_set)
  have "Min (set (concat (da_vals d))) = 0"
    using mem nonneg by (intro Min_eqI) (auto simp: list_all_iff)
  then have m: "mat_min (da_vals d) = Inr 0"
    using mat_min_Min[OF ne] by simp
  let ?den = "map (map (\<lambda>v. pow15 (alpha * \<bar>0::real\<bar> ^ 2 + v ^ 2))) (da_vals d)"
  have "?den ! i ! j = 0"
    using i j flat by (simp add: pow15_def)
  then have "mat_map2 np_div (da_vals d2) ?den ! i ! j = None"
    using i j by (simp add: mat_map2_nth np_div_def)
  then show ?thesis
    using alpha nonempty d d2 m
    by (auto simp: curvature1d_def with_values_def Let_def split: option.split)
qed

lemma coord_step_dims [simp]: "coord_step (a\<lparr>da_dims := ds\<rparr>) c = coord_step a c"
  by (simp add: coord_step_def)

text \<open>The weight of \<^verbatim>\<open>curvature2d\<close> is taken from the array's storage order, not
  from \<open>dims\<close>: the same cut stored transposed gets the reciprocal ratio.\<close>

lemma curv_weight_storage_order:
  assumes "da_dims a = [p, q]" "coord_step a p = Inr dp" "coord_step a q = Inr dq"
    and "dp \<noteq> 0" "dq \<noteq> 0" "0 < w"
  shows "curv_weight a w = Inr ((dp / dq) ^ 2 * w) \<and> curv_weight (a\<lparr>da_dims := [q, p]\<rparr>) w = Inr ((dq / dp) ^ 2 * w)"
  using assms by (simp add: curv_weight_def)

theorem dn_along_axis_affine_witness:
  "(\<exists>r. dn_along_axis id demo_cut ''phi'' 1 = Inr r \<and> da_vals r = [[2, 2, 2], [-1, -1, -1]])
   \<and> (\<exists>r. dn_along_axis id demo_cut ''phi'' 2 = Inr r \<and> da_vals r = [[0, 0, 0], [0, 0, 0]])"
  using dn_along_axis_affine[of demo_cut "''eV''" "''phi''" "[0, 1, 3]" "[(2, 1), (-1, 0)]"]
  by (simp add: demo_cut_def)

lemma mat_map2_replicate:
  "mat_map2 f (map (\<lambda>(c, b). replicate n (g c b)) l) (map (\<lambda>(c, b). replicate n (h c b)) l)
     = map (\<lambda>(c, b). replicate n (f (g c b) (h c b))) l"
  by (induction l) (auto simp: mat_map2_def zip_replicate map_replicate)

lemma pow15_eq_0: "0 \<le> x \<Longrightarrow> pow15 x = 0 \<longleftrightarrow> x = 0"
  by (simp add: pow15_def)

lemma affine_slopes_min:
  assumes "cb \<noteq> []" "xs \<noteq> []"
  shows "mat_min (map (\<lambda>(c, b). replicate (length xs) c) cb) = Inr (Min (fst ` set cb))"
proof -
  have "set (concat (map (\<lambda>(c, b). replicate (length xs) c) cb)) = fst ` set cb"
    using assms(2) by (auto simp: case_prod_beta)
  moreover have "concat (map (\<lambda>(c, b). replicate (length xs) c) cb) \<noteq> []"
    using assms by (cases cb) (auto simp: case_prod_beta)
  ultimately show ?thesis by (simp add: mat_min_Min)
qed

lemma regulariser_zero:
  fixes alpha m c :: real
  assumes "0 < alpha" "c \<in> S" "finite S" "m = Min S"
  shows "alpha * \<bar>m\<bar> ^ 2 + c ^ 2 = 0 \<longleftrightarrow> c = 0 \<and> (\<forall>c' \<in> S. 0 \<le> c')"
proof
  assume z: "alpha * \<bar>m\<bar> ^ 2 + c ^ 2 = 0"
  have "0 \<le> alpha * \<bar>m\<bar> ^ 2" using assms(1) by simp
  with z have "c = 0" "m = 0" using assms(1) by (auto simp: add_nonneg_eq_0_iff)
  moreover have "\<forall>c' \<in> S. m \<le> c'" using assms(2-4) by auto
  ultimately show "c = 0 \<and> (\<forall>c' \<in> S. 0 \<le> c')" by simp
next
  assume a: "c = 0 \<and> (\<forall>c' \<in> S. 0 \<le> c')"
  have "S \<noteq> {}" using assms(2) by auto
  then have "0 \<le> Min S" using a assms(3) by simp
  moreover have "Min S \<le> 0" using a assms(2,3) by (auto intro: Min_le)
  ultimately have "m = 0" using assms(4) by simp
  with a show "alpha * \<bar>m\<bar> ^ 2 + c ^ 2 = 0" by simp
qed

text \<open>
  C2. The one-dimensional curvature of a cut affine along the axis, on strictly
  increasing coordinates however unevenly spaced: every entry is zero, except on the
  flat rows when no slope is negative, where the regulariser \<open>alpha * |min d|^2\<close>
  vanishes too and numpy divides zero by zero (\<open>None\<close>, NaN); the \<^verbatim>\<open>id\<close>
  attribute gets the suffix \<^verbatim>\<open>_CV\<close>.
\<close>

theorem curvature1d_affine:
  assumes dims: "da_dims a = [d0, d1]" "d0 \<noteq> d1" and nonempty: "d1 \<noteq> []"
    and co: "map_of (da_coords a) d1 = Some xs"
    and xs: "sorted_wrt (<) xs" "2 \<le> length xs"
    and v: "da_vals a = map (\<lambda>(c, b). map (\<lambda>t. c * t + b) xs) cb" and cb: "cb \<noteq> []"
    and alpha: "0 < alpha"
  shows "\<exists>r. curvature1d id a d1 alpha = Inr r
     \<and> ca_vals r = map (\<lambda>(c, b). replicate (length xs)
                      (if c = 0 \<and> (\<forall>(c', b') \<in> set cb. 0 \<le> c') then None else Some 0)) cb
     \<and> ca_attrs r = (case map_of (da_attrs a) ''id'' of None \<Rightarrow> da_attrs a
                     | Some i \<Rightarrow> dict_set (da_attrs a) ''id'' (i @ ''_CV''))"
proof -
  let ?a1 = "a\<lparr>da_vals := map (\<lambda>(c, b). replicate (length xs) c) cb, da_attrs := []\<rparr>"
  let ?z = "map (\<lambda>(c, b). replicate (length xs) (0::real)) cb"
  have d1: "differentiate a d1 = Inr ?a1"
    by (rule differentiate_affine_rows[OF dims co xs v])
  have v1: "da_vals ?a1 = map (\<lambda>(c, b). map (\<lambda>t. c * t + b) xs) (map (\<lambda>(c, b). (0, c)) cb)"
    by (simp add: case_prod_beta replicate_affine)
  have d2: "differentiate ?a1 d1 = Inr (?a1\<lparr>da_vals := ?z, da_attrs := []\<rparr>)"
    using differentiate_affine_rows[of ?a1 d0 d1 xs "map (\<lambda>(c, b). (0, c)) cb"] dims co xs v1
    by (simp add: case_prod_beta comp_def)
  define m where "m = Min (fst ` set cb)"
  have mm: "mat_min (da_vals ?a1) = Inr m"
  proof -
    have "xs \<noteq> []" using xs by auto
    then show ?thesis using affine_slopes_min[OF cb] by (simp add: m_def)
  qed
  have den: "map (map (\<lambda>v. pow15 (alpha * \<bar>m\<bar> ^ 2 + v ^ 2))) (da_vals ?a1)
      = map (\<lambda>(c, b). replicate (length xs) (pow15 (alpha * \<bar>m\<bar> ^ 2 + c ^ 2))) cb"
    by (simp add: case_prod_beta)
  have cell: "np_div 0 (pow15 (alpha * \<bar>m\<bar> ^ 2 + c ^ 2))
      = (if c = 0 \<and> (\<forall>(c', b') \<in> set cb. 0 \<le> c') then None else Some 0)"
    if "(c, b) \<in> set cb" for c b
  proof -
    have c: "c \<in> fst ` set cb" using that by force
    have "0 \<le> alpha * \<bar>m\<bar> ^ 2 + c ^ 2" using alpha by simp
    moreover have "(\<forall>c' \<in> fst ` set cb. 0 \<le> c') \<longleftrightarrow> (\<forall>(c', b') \<in> set cb. 0 \<le> c')" by auto
    ultimately show ?thesis
      using regulariser_zero[OF alpha c _ m_def] by (simp add: np_div_def pow15_eq_0)
  qed
  have vals: "mat_map2 np_div ?z (map (\<lambda>(c, b). replicate (length xs) (pow15 (alpha * \<bar>m\<bar> ^ 2 + c ^ 2))) cb)
      = map (\<lambda>(c, b). replicate (length xs)
                      (if c = 0 \<and> (\<forall>(c', b') \<in> set cb. 0 \<le> c') then None else Some 0)) cb"
    unfolding mat_map2_replicate [of np_div "length xs" "\<lambda>c b. 0" cb "\<lambda>c b. pow15 (alpha * \<bar>m\<bar> ^ 2 + c ^ 2)"]
    using cell by (intro map_cong) auto
  have cv: "mat_map2 np_div ?z (map (map (\<lambda>v. pow15 (alpha * m ^ 2 + v ^ 2)) \<circ> (\<lambda>(c, b). replicate (length xs) c)) cb)
      = map (\<lambda>(c, b). replicate (length xs)
                      (if c = 0 \<and> (\<forall>(c', b') \<in> set cb. 0 \<le> c') then None else Some 0)) cb"
  proof -
    have "map (map (\<lambda>v. pow15 (alpha * m ^ 2 + v ^ 2)) \<circ> (\<lambda>(c, b). replicate (length xs) c)) cb
        = map (\<lambda>(c, b). replicate (length xs) (pow15 (alpha * m ^ 2 + c ^ 2))) cb"
      by (intro map_cong) auto
    then show ?thesis using vals unfolding power2_abs by (simp only:)
  qed
  show ?thesis
    using alpha nonempty d1 d2 mm
    by (simp add: curvature1d_def Let_def cv with_values_def split: option.split)
qed
theorem curvature1d_affine_witness:
  "\<exists>r. curvature1d id \<lparr>da_dims = [''eV'', ''phi''], da_coords = [(''eV'', [0, 1]), (''phi'', [0, 1, 3])],
                          da_vals = [[1, 3, 7], [5, 5, 5]], da_attrs = [(''id'', ''cut'')]\<rparr> ''phi'' (1 / 10) = Inr r
     \<and> ca_vals r = [[Some 0, Some 0, Some 0], [None, None, None]] \<and> ca_attrs r = [(''id'', ''cut_CV'')]"
  using curvature1d_affine [of "\<lparr>da_dims = [''eV'', ''phi''], da_coords = [(''eV'', [0, 1]), (''phi'', [0, 1, 3])],
                          da_vals = [[1, 3, 7], [5, 5, 5]], da_attrs = [(''id'', ''cut'')]\<rparr>"
      "''eV''" "''phi''" "[0, 1, 3]" "[(2, 1), (0, 5)]" "1 / 10"]
  by simp

end
