(* ===== verification/Tarpes.thy ===== *)
theory Tarpes
  imports Prelude
begin

text \<open>
  The time-resolved tools of \<^verbatim>\<open>analysis/tarpes.py\<close>.  A spectrum with the
  dimensions \<^verbatim>\<open>delay\<close> and \<^verbatim>\<open>eV\<close> is the record \<open>tr_data\<close>: the two coordinate
  vectors and the intensity, one row per delay (\<open>tr_vals ! t ! e\<close>); both
  coordinates ascend, so xarray's label slices \<^verbatim>\<open>slice(a, None)\<close> and
  \<^verbatim>\<open>slice(None, b)\<close> select the labels \<open>\<ge> a\<close> and \<open>\<le> b\<close>.  NaN, the mean
  of nothing, is \<open>None\<close>.  \<^verbatim>\<open>normalize_dim\<close> (of \<^verbatim>\<open>arpes.preparation\<close>, outside
  the sources) is the argument \<open>normalize_dim\<close>.
\<close>

record tr_data =
  tr_delay :: "real list"
  tr_ev :: "real list"
  tr_vals :: "real list list"

text \<open>\<^verbatim>\<open>delaytime_fs\<close> and \<^verbatim>\<open>position_to_delaytime\<close> (lines 83--113): the light
  travels the mirror movement twice, at 3.3356... fs per micron.\<close>

definition delaytime_fs :: "real \<Rightarrow> real" where
  "delaytime_fs mirror_movement_um = 3.335640951981521 * mirror_movement_um"

definition position_to_delaytime :: "real \<Rightarrow> real \<Rightarrow> real" where
  "position_to_delaytime position_mm delayline_offset_mm =
     delaytime_fs (2 * (position_mm - delayline_offset_mm) * 1000)"

text \<open>\<^verbatim>\<open>build_crosscorrelation\<close> (lines 45--80): each measurement is tagged with its
  delay, read from its attributes or, converted from a mirror position, from its
  coordinate of that name; the result is the list \<^verbatim>\<open>xr.concat\<close> stacks.\<close>

record xspec =
  xs_attrs :: "(string, real) dict"
  xs_coords :: "(string, real) dict"

definition build_crosscorrelation ::
  "xspec list \<Rightarrow> string \<Rightarrow> real \<Rightarrow> bool \<Rightarrow> (real \<times> xspec) list py_result" where
  "build_crosscorrelation datalist delayline_dim delayline_origin convert_position_to_time =
     py_map (\<lambda>s. sbind (if convert_position_to_time
                          then sbind (dict_get (xs_attrs s) delayline_dim) (\<lambda>a. Inr (a - delayline_origin))
                          else sbind (dict_get (xs_coords s) delayline_dim)
                                 (\<lambda>p. Inr (position_to_delaytime p delayline_origin)))
                   (\<lambda>delay_time. Inr (delay_time, s))) datalist"

definition py_mean :: "real list \<Rightarrow> real option" where
  "py_mean xs = (if xs = [] then None else Some (sum_list xs / real (length xs)))"

text \<open>\<^verbatim>\<open>np.argmax\<close>: the first NaN if there is one, else the first maximum; an empty
  array raises.\<close>

definition np_argmax :: "real option list \<Rightarrow> nat py_result" where
  "np_argmax xs =
     (if xs = [] then Inl ValueError
      else if None \<in> set xs then Inr (list_index xs None)
      else Inr (list_index (map the xs) (Max (set (map the xs)))))"

text \<open>\<^verbatim>\<open>find_t_for_max_intensity\<close> (lines 188--213), on data of no further
  dimensions (the sum over \<^verbatim>\<open>sum_dims\<close> is then the identity).\<close>

definition find_t_for_max_intensity :: "tr_data \<Rightarrow> real \<Rightarrow> real py_result" where
  "find_t_for_max_intensity data e_bound =
     (let es = [e \<leftarrow> [0..<length (tr_ev data)]. e_bound \<le> tr_ev data ! e];
          summed = map (\<lambda>row. py_mean (map (\<lambda>e. row ! e) es)) (tr_vals data)
      in sbind (np_argmax summed) (\<lambda>coord_max. Inr (tr_delay data ! coord_max)))"

text \<open>\<^verbatim>\<open>relative_change\<close> (lines 151--185): subtract, at each energy, the mean of the
  rows up to \<open>t0 - buffer\<close>.\<close>

definition before_t0 :: "tr_data \<Rightarrow> real \<Rightarrow> nat list" where
  "before_t0 data x = [t \<leftarrow> [0..<length (tr_delay data)]. tr_delay data ! t \<le> x]"

definition baseline :: "tr_data \<Rightarrow> nat list \<Rightarrow> real list" where
  "baseline data ts =
     map (\<lambda>e. sum_list (map (\<lambda>t. tr_vals data ! t ! e) ts) / real (length ts)) [0..<length (tr_ev data)]"

definition relative_change ::
  "(tr_data \<Rightarrow> tr_data) \<Rightarrow> tr_data \<Rightarrow> real option \<Rightarrow> real \<Rightarrow> bool \<Rightarrow> tr_data py_result" where
  "relative_change normalize_dim data0 t0 buffer normalize_delay =
     (let data = (if normalize_delay then normalize_dim data0 else data0)
      in if tr_delay data = [] then Inl ValueError
         else let delay_start = Min (set (tr_delay data))
         in sbind (case t0 of None \<Rightarrow> find_t_for_max_intensity data 0.02 | Some t \<Rightarrow> Inr t)
              (\<lambda>t0. if \<not> delay_start < t0 - buffer then Inl AssertionError
                    else let base = baseline data (before_t0 data (t0 - buffer))
                         in Inr (data\<lparr>tr_vals := map (\<lambda>row. map2 (-) row base) (tr_vals data)\<rparr>)))"

text \<open>\<^verbatim>\<open>normalized_relative_change\<close> (lines 116--148): the change divided by the
  spectrum, with the infinities and NaNs of a division by zero set to zero, which is
  HOL's \<open>x / 0 = 0\<close>.\<close>

definition normalized_relative_change ::
  "(tr_data \<Rightarrow> tr_data) \<Rightarrow> tr_data \<Rightarrow> real option \<Rightarrow> real \<Rightarrow> bool \<Rightarrow> tr_data py_result" where
  "normalized_relative_change normalize_dim data0 t0 buffer normalize_delay =
     (let spectrum = (if normalize_delay then normalize_dim data0 else data0)
      in sbind (relative_change normalize_dim spectrum t0 buffer False)
           (\<lambda>subtracted. Inr (spectrum\<lparr>tr_vals := map2 (map2 (/)) (tr_vals subtracted) (tr_vals spectrum)\<rparr>)))"

text \<open>The doctest of \<^verbatim>\<open>delaytime_fs\<close> prints \<^verbatim>\<open>3.3.35640951981521\<close>; the
  function returns ten times its factor.\<close>

lemma demo_delaytime_fs: "delaytime_fs 10 = 33.35640951981521"
  by (simp add: delaytime_fs_def)

lemma list_index_le: "j < length xs \<Longrightarrow> xs ! j = x \<Longrightarrow> list_index xs x \<le> j"
proof (induction xs arbitrary: j)
  case (Cons y xs)
  then show ?case by (cases j) auto
qed simp

lemma np_argmax_first_max:
  assumes "xs \<noteq> []" "None \<notin> set xs"
  shows "\<exists>i. np_argmax xs = Inr i \<and> i < length xs
           \<and> (\<forall>j<length xs. the (xs ! j) \<le> the (xs ! i)) \<and> (\<forall>j<i. the (xs ! j) < the (xs ! i))"
proof -
  define ys where "ys = map the xs"
  define m where "m = Max (set ys)"
  have m_in: "m \<in> set ys" using assms(1) by (simp add: m_def ys_def)
  define i where "i = list_index ys m"
  have i0: "i < length ys" "ys ! i = m" using m_in by (simp_all add: i_def)
  then have i: "i < length xs" "ys ! i = m" by (simp_all add: ys_def)
  have le: "the (xs ! j) \<le> the (xs ! i)" if "j < length xs" for j
    using that i by (simp add: ys_def [symmetric] m_def) (metis Max_ge finite_set length_map nth_mem ys_def nth_map)
  have lt: "the (xs ! j) < the (xs ! i)" if "j < i" for j
  proof -
    have j: "j < length ys" using that i0(1) by simp
    have "ys ! j \<noteq> m" using list_index_le [OF j, of m] that by (auto simp: i_def)
    moreover have "ys ! j \<le> m" using j by (simp add: m_def)
    ultimately have "ys ! j < m" by simp
    then show ?thesis using j i0 by (simp add: ys_def)
  qed
  from i le lt show ?thesis
    using assms by (auto simp: np_argmax_def i_def m_def ys_def)
qed

lemma sum_list_sub_mean:
  "ts \<noteq> [] \<Longrightarrow> (\<Sum>t\<leftarrow>ts. f t - sum_list (map f ts) / real (length ts)) = (0::real)"
  by (simp add: sum_list_subtractf sum_list_triv)

text \<open>
  C25. \<^verbatim>\<open>relative_change\<close> subtracts the pre-excitation baseline: it keeps both
  axes, its reference time is \<open>t0\<close> when given and the delay of largest intensity
  above 0.02 eV otherwise, the assertion \<^verbatim>\<open>t0 - buffer > delay_start\<close> keeps the
  baseline window non-empty, and after the subtraction the rows of that window average
  to zero at every energy.
\<close>

theorem relative_change_baseline_zero:
  assumes rc: "relative_change normalize_dim data t0 buffer False = Inr r"
    and rect: "\<forall>row\<in>set (tr_vals data). length row = length (tr_ev data)"
    and rows: "length (tr_vals data) = length (tr_delay data)"
  shows "\<exists>t1. (case t0 of None \<Rightarrow> find_t_for_max_intensity data 0.02 = Inr t1 | Some t \<Rightarrow> t1 = t)
           \<and> tr_delay r = tr_delay data \<and> tr_ev r = tr_ev data
           \<and> before_t0 data (t1 - buffer) \<noteq> []
           \<and> (\<forall>e<length (tr_ev data). (\<Sum>t\<leftarrow>before_t0 data (t1 - buffer). tr_vals r ! t ! e) = 0)"
proof -
  have ne: "tr_delay data \<noteq> []" using rc by (auto simp: relative_change_def)
  define start where "start = Min (set (tr_delay data))"
  obtain t1 where t0: "(case t0 of None \<Rightarrow> find_t_for_max_intensity data 0.02 = Inr t1 | Some t \<Rightarrow> t1 = t)"
    and t1: "start < t1 - buffer"
    and r: "r = data\<lparr>tr_vals := map (\<lambda>row. map2 (-) row (baseline data (before_t0 data (t1 - buffer))))
                         (tr_vals data)\<rparr>"
    using rc ne by (cases t0) (auto simp: relative_change_def start_def Let_def sbind_eq_Inr split: if_splits)
  define ts where "ts = before_t0 data (t1 - buffer)"
  have "start \<in> set (tr_delay data)" using ne by (simp add: start_def)
  then obtain k where "k < length (tr_delay data)" "tr_delay data ! k = start" by (auto simp: in_set_conv_nth)
  then have "k \<in> set ts" using t1 by (simp add: ts_def before_t0_def)
  then have ts_ne: "ts \<noteq> []" by auto
  have ts_rows: "t < length (tr_vals data)" if "t \<in> set ts" for t
    using that rows by (simp add: ts_def before_t0_def)
  have "(\<Sum>t\<leftarrow>ts. tr_vals r ! t ! e) = 0" if "e < length (tr_ev data)" for e
  proof -
    have "(\<Sum>t\<leftarrow>ts. tr_vals r ! t ! e)
          = (\<Sum>t\<leftarrow>ts. tr_vals data ! t ! e - sum_list (map (\<lambda>t. tr_vals data ! t ! e) ts) / real (length ts))"
      using that rect ts_rows by (intro arg_cong [where f = sum_list] map_cong) (auto simp: r ts_def baseline_def)
    then show ?thesis using sum_list_sub_mean [OF ts_ne] by simp
  qed
  moreover have "tr_delay r = tr_delay data" "tr_ev r = tr_ev data" by (simp_all add: r)
  ultimately show ?thesis using ts_ne t0 unfolding ts_def by blast
qed

text \<open>A delay scan of three rows at one energy, the baseline taken before \<open>1.5\<close>.\<close>

lemma demo_relative_change:
  "relative_change id \<lparr>tr_delay = [0, 1, 2], tr_ev = [0], tr_vals = [[1], [3], [10]]\<rparr> (Some 2) (1 / 2) False
     = Inr \<lparr>tr_delay = [0, 1, 2], tr_ev = [0], tr_vals = [[-1], [1], [8]]\<rparr>"
  by (simp add: relative_change_def before_t0_def baseline_def upt_rec)

theorem relative_change_baseline_zero_witness:
  "before_t0 \<lparr>tr_delay = [0, 1, 2], tr_ev = [0], tr_vals = [[1], [3], [10]]\<rparr> (2 - 1 / 2) = [0, 1]
   \<and> (\<Sum>t\<leftarrow>[0, 1]. [[-1], [1], [8 :: real]] ! t ! 0) = 0"
proof -
  have "\<exists>t1. t1 = 2 \<and> before_t0 \<lparr>tr_delay = [0, 1, 2], tr_ev = [0], tr_vals = [[1], [3], [10]]\<rparr> (t1 - 1 / 2) \<noteq> []
          \<and> (\<forall>e<1. (\<Sum>t\<leftarrow>before_t0 \<lparr>tr_delay = [0, 1, 2], tr_ev = [0], tr_vals = [[1], [3], [10]]\<rparr> (t1 - 1 / 2).
                   [[-1], [1], [8 :: real]] ! t ! e) = 0)"
    using relative_change_baseline_zero [OF demo_relative_change] by simp
  then show ?thesis by (simp add: before_t0_def upt_rec)
qed

end
