(* ===== verification/Kfermi.thy ===== *)
theory Kfermi
  imports Prelude "HOL-Library.Sublist"
begin

text \<open>
  \<^verbatim>\<open>kfermi_from_mdcs\<close> of \<^verbatim>\<open>analysis/kfermi.py\<close>.  The choice of the parameter
  (lines 35--47) is \<open>kfermi_param\<close>, Python's substring test \<^verbatim>\<open>s in p\<close> being
  \<open>sublist s p\<close>.  The fit of a line to the parameter's values along \<^verbatim>\<open>eV\<close>
  (lmfit's \<^verbatim>\<open>LinearModel().guess_fit(...)\<close> and \<^verbatim>\<open>.eval(x=0)\<close>) is the argument
  \<open>linfit\<close>; the values are given as pairs of an energy and a value, NaN as \<open>None\<close>.
\<close>

definition kfermi_param :: "string list \<Rightarrow> string \<Rightarrow> string py_result" where
  "kfermi_param param_names param =
     (if param \<in> set param_names then Inr param
      else (let best_names = [p \<leftarrow> param_names. sublist ''center'' p];
                best_names = (if param = [] then [p \<leftarrow> best_names. sublist param p] else best_names)
            in if length best_names = 1 then Inr (best_names ! 0) else Inl AssertionError))"

text \<open>The whole function: the sieve \<^verbatim>\<open>nan_sieve\<close> drops the energies whose value is
  NaN, and the line fitted to the rest is evaluated at the Fermi level \<open>eV = 0\<close>.\<close>

definition kfermi_from_mdcs ::
  "string list \<Rightarrow> (string \<Rightarrow> (real \<times> real option) list) \<Rightarrow> ((real \<times> real) list \<Rightarrow> real \<Rightarrow> real)
   \<Rightarrow> string \<Rightarrow> real py_result" where
  "kfermi_from_mdcs param_names param_values linfit param =
     sbind (kfermi_param param_names param)
       (\<lambda>real_param_name. Inr (linfit [(e, v). (e, Some v) \<leftarrow> param_values real_param_name] 0))"

lemma demo_kfermi_prefix:
  "kfermi_param [''a_center'', ''b_center'', ''a_sigma''] ''a_'' = Inl AssertionError"
  by (simp add: kfermi_param_def sublist_code)

lemma demo_kfermi_empty:
  "kfermi_param [''a_center'', ''a_sigma''] [] = Inr ''a_center''"
  by (simp add: kfermi_param_def sublist_code)

section \<open>Properties of the parameter choice\<close>

text \<open>
  C40. The hint \<^verbatim>\<open>param\<close> matters only as an exact parameter name: the filter
  \<^verbatim>\<open>if not param: best_names = [p for p in best_names if param in p]\<close> runs only for
  the empty hint, where it keeps every name, so a prefix such as \<^verbatim>\<open>"a_"\<close> never
  narrows the \<^verbatim>\<open>center\<close> parameters and the function succeeds exactly when there is
  one of them.
\<close>

theorem kfermi_param_hint_ignored:
  "kfermi_param param_names param =
     (if param \<in> set param_names then Inr param
      else (case [p \<leftarrow> param_names. sublist ''center'' p] of
              [p] \<Rightarrow> Inr p
            | _ \<Rightarrow> Inl AssertionError))"
  by (auto simp: kfermi_param_def Let_def length_Suc_conv split: list.split)

end
