(* ===== verification/Bootstrap.thy ===== *)
theory Bootstrap
  imports FitModel
begin

text \<open>
  The resampling tools of \<^verbatim>\<open>bootstrap.py\<close>.  Random draws are arguments, as the
  optimiser is elsewhere: \<open>draw k\<close> is the \<open>k\<close>-th result of
  \<^verbatim>\<open>random.randint\<close>, \<open>samples s\<close> the \<open>s\<close>-th Poisson resample, \<open>rvs key d j\<close>
  the \<open>j\<close>-th normal sample drawn for the argument \<open>key\<close>.  An array is flattened
  to a list of reals (an array with a \<^verbatim>\<open>cycle\<close> axis is the list of its cycles);
  a value that is NaN or infinite is \<open>None\<close>.  The decorators
  \<^verbatim>\<open>update_provenance\<close> and \<^verbatim>\<open>lift_dataarray_to_generic\<close> (outside the sources)
  are taken to forward their arguments unchanged.
\<close>

section \<open>Statistics of samples\<close>

definition col_mean :: "real list list \<Rightarrow> nat \<Rightarrow> real" where
  "col_mean S i = sum_list (map (\<lambda>s. s ! i) S) / real (length S)"

definition col_std :: "real list list \<Rightarrow> nat \<Rightarrow> real" where
  "col_std S i = sqrt (sum_list (map (\<lambda>s. (s ! i - col_mean S i)\<^sup>2) S) / real (length S))"

text \<open>\<^verbatim>\<open>estimate_prior_adjustment\<close> (lines 65--102): the ratio of the standard
  deviation to the mean of the non-zero values of the region; \<open>region_values\<close> is the
  flattened region after the cycle sum, \<^verbatim>\<open>S.zero_spectrometer_edges\<close> and
  \<^verbatim>\<open>S.region_sel\<close>.\<close>

definition estimate_prior_adjustment :: "real list \<Rightarrow> real option" where
  "estimate_prior_adjustment region_values =
     (let vs = filter (\<lambda>v. v \<noteq> 0) region_values;
          mu = sum_list vs / real (length vs);
          sigma = sqrt (sum_list (map (\<lambda>v. (v - mu)\<^sup>2) vs) / real (length vs))
      in if vs = [] \<or> mu = 0 then None else Some (sigma / mu))"

text \<open>\<^verbatim>\<open>resample_cycle\<close> (lines 103--126): \<open>n\<close> cycles drawn with replacement and
  summed.\<close>

definition resample_cycle :: "(nat \<Rightarrow> nat) \<Rightarrow> real list list \<Rightarrow> real list" where
  "resample_cycle draw cycles =
     (let n_cycles = length cycles;
          which = map draw [0..<n_cycles];
          width = (case cycles of [] \<Rightarrow> 0 | c # _ \<Rightarrow> length c)
      in foldr (map2 (+)) (map (\<lambda>c. cycles ! c) which) (replicate width 0))"

text \<open>\<^verbatim>\<open>bootstrap_counts\<close> (lines 179--224): the name check, the samples stacked
  along a new axis (\<^verbatim>\<open>np.stack\<close> of nothing raises), and their mean and population
  standard deviation per channel.\<close>

definition bootstrap_counts ::
  "(nat \<Rightarrow> real list) \<Rightarrow> nat \<Rightarrow> string option \<Rightarrow> nat \<Rightarrow> string option
   \<Rightarrow> (string, real list) dict py_result" where
  "bootstrap_counts samples width data_name n_samples name =
     (if data_name = None \<and> name = None then Inl AssertionError
      else let name = (case data_name of Some n \<Rightarrow> n | None \<Rightarrow> the name);
               S = map samples [0..<n_samples]
           in if S = [] then Inl ValueError
              else Inr [(name, map (col_mean S) [0..<width]),
                        (name @ ''_std'', map (col_std S) [0..<width])])"


lemma foldr_map2_add:
  assumes "\<forall>row\<in>set rows. length row = w"
  shows "length (foldr (map2 (+)) rows (replicate w 0)) = w
       \<and> (\<forall>j<w. foldr (map2 (+)) rows (replicate w 0) ! j = (\<Sum>row\<leftarrow>rows. row ! j :: real))"
  using assms by (induction rows) auto

text \<open>A resample of the cycles is, channel by channel, the sum over the drawn cycles.\<close>

lemma resample_cycle_sum:
  assumes "\<forall>c\<in>set cycles. length c = w" "cycles \<noteq> []" "\<forall>k<length cycles. draw k < length cycles"
  shows "length (resample_cycle draw cycles) = w
       \<and> (\<forall>j<w. resample_cycle draw cycles ! j = (\<Sum>k\<leftarrow>[0..<length cycles]. cycles ! draw k ! j))"
proof -
  have w: "(case cycles of [] \<Rightarrow> 0 | c # _ \<Rightarrow> length c) = w"
    using assms(1,2) by (cases cycles) auto
  have "\<forall>row\<in>set (map (\<lambda>c. cycles ! c) (map draw [0..<length cycles])). length row = w"
    using assms(1,3) by auto
  from foldr_map2_add [OF this] show ?thesis
    by (simp add: resample_cycle_def w comp_def)
qed

text \<open>With samples that never vary, \<^verbatim>\<open>bootstrap_counts\<close> reports the data as the mean
  and zero as the standard error.\<close>

lemma bootstrap_counts_constant:
  assumes "0 < n" "name = Some nm"
  shows "bootstrap_counts (\<lambda>s. x) (length x) None n name
           = Inr [(nm, x), (nm @ ''_std'', replicate (length x) 0)]"
proof -
  have m: "col_mean (replicate n x) i = x ! i" for i
    using assms(1) by (simp add: col_mean_def sum_list_replicate)
  have "col_std (replicate n x) i = 0" for i
    by (simp add: col_std_def m sum_list_replicate)
  then have "col_mean (replicate n x) = (!) x" "col_std (replicate n x) = (\<lambda>_. 0)"
    using m by (simp_all add: fun_eq_iff)
  then show ?thesis
    using assms by (simp add: bootstrap_counts_def Let_def map_nth map_replicate_const)
qed

section \<open>Error propagation\<close>

text \<open>The dataclass \<^verbatim>\<open>Normal\<close> (lines 235--255) and \<^verbatim>\<open>Normal.from_param\<close>.\<close>

record normal =
  nm_center :: real
  nm_stderr :: "real option"

definition from_param :: "parameter \<Rightarrow> normal" where
  "from_param p = \<lparr>nm_center = par_value p, nm_stderr = par_stderr p\<rparr>"

datatype 'v parg = DistArg normal | ValArg 'v

datatype 'r propagated = Plain 'r | Vectorized "'r list"

definition default_n_samples :: nat where
  "default_n_samples = 1000"

definition sample_arg :: "(nat + string \<Rightarrow> normal \<Rightarrow> nat \<Rightarrow> 'v) \<Rightarrow> nat + string \<Rightarrow> 'v parg \<Rightarrow> nat \<Rightarrow> 'v" where
  "sample_arg rvs key a j = (case a of DistArg d \<Rightarrow> rvs key d j | ValArg v \<Rightarrow> v)"

definition is_dist :: "'v parg \<Rightarrow> bool" where
  "is_dist a = (case a of DistArg _ \<Rightarrow> True | ValArg _ \<Rightarrow> False)"

definition plain_value :: "'v parg \<Rightarrow> 'v" where
  "plain_value a = (case a of ValArg v \<Rightarrow> v | DistArg _ \<Rightarrow> undefined)"

text \<open>\<^verbatim>\<open>propagate_errors(f)\<close> applied to positional and keyword arguments
  (lines 261--302): without a distribution argument \<open>f\<close> is called directly; otherwise
  \<^verbatim>\<open>np.vectorize\<close> maps \<open>f\<close> over the samples, the arguments in
  \<^verbatim>\<open>exclude\<close> held fixed.\<close>

definition propagate_errors ::
  "(nat + string \<Rightarrow> normal \<Rightarrow> nat \<Rightarrow> 'v) \<Rightarrow> ('v list \<Rightarrow> (string, 'v) dict \<Rightarrow> 'r)
   \<Rightarrow> 'v parg list \<Rightarrow> (string, 'v parg) dict \<Rightarrow> 'r propagated" where
  "propagate_errors rvs f args kwargs =
     (if \<not> list_ex is_dist args \<and> \<not> list_ex (is_dist \<circ> snd) kwargs
      then Plain (f (map plain_value args) (map (\<lambda>(k, a). (k, plain_value a)) kwargs))
      else Vectorized (map (\<lambda>j. f (map (\<lambda>(i, a). sample_arg rvs (Inl i) a j) (enumerate 0 args))
                                   (map (\<lambda>(k, a). (k, sample_arg rvs (Inr k) a j)) kwargs))
                         [0..<default_n_samples]))"


section \<open>The bootstrap functor\<close>

text \<open>\<^verbatim>\<open>bootstrap(fn, skip, resample_method)\<close> (lines 322--416).  The method chosen
  is bound only for \<^verbatim>\<open>None\<close> and \<^verbatim>\<open>"cycle"\<close>; any other name leaves
  \<^verbatim>\<open>resample_fn\<close> unbound, which raises \<^verbatim>\<open>NameError\<close> where the closure first
  uses it.\<close>

datatype rmethod = RsResample | RsCycle

definition bootstrap_method :: "string option \<Rightarrow> rmethod option" where
  "bootstrap_method resample_method =
     (case resample_method of
        None \<Rightarrow> Some RsResample
      | Some m \<Rightarrow> if m = ''cycle'' then Some RsCycle else None)"

text \<open>The arguments of the bootstrapped function: data arrays, datasets, anything else.\<close>

datatype ('d, 'v) barg = BDataArray 'd | BDataset 'd | BPlain 'v

definition is_xr :: "('d, 'v) barg \<Rightarrow> bool" where
  "is_xr a = (case a of BPlain _ \<Rightarrow> False | _ \<Rightarrow> True)"

definition is_dataarray :: "('d, 'v) barg \<Rightarrow> bool" where
  "is_dataarray a = (case a of BDataArray _ \<Rightarrow> True | _ \<Rightarrow> False)"

definition map_data :: "('d \<Rightarrow> 'd) \<Rightarrow> ('d, 'v) barg \<Rightarrow> ('d, 'v) barg" where
  "map_data f a = (case a of BDataArray d \<Rightarrow> BDataArray (f d) | BDataset d \<Rightarrow> BDataset (f d) | BPlain v \<Rightarrow> BPlain v)"

text \<open>One call \<^verbatim>\<open>resample_fn(arg, prior_adjustment=prior_adjustment)\<close> in run \<open>r\<close>;
  \<open>rs r key d prior\<close> is the Poisson resample \<^verbatim>\<open>resample\<close> draws.
  \<^verbatim>\<open>resample_cycle\<close> takes no \<^verbatim>\<open>prior_adjustment\<close>, so the call raises
  \<^verbatim>\<open>TypeError\<close>.\<close>

definition resample_call ::
  "(nat \<Rightarrow> nat + string \<Rightarrow> 'd \<Rightarrow> real \<Rightarrow> 'd) \<Rightarrow> rmethod option \<Rightarrow> real \<Rightarrow> nat
   \<Rightarrow> nat + string \<Rightarrow> ('d, 'v) barg \<Rightarrow> ('d, 'v) barg py_result" where
  "resample_call rs m prior r key a =
     (case m of
        None \<Rightarrow> Inl NameError
      | Some RsCycle \<Rightarrow> Inl TypeError
      | Some RsResample \<Rightarrow> Inr (map_data (\<lambda>d. rs r key d prior) a))"

text \<open>The two inner loops of a run: \<^verbatim>\<open>new_args[i] = resample_fn(args[i], ...)\<close> and
  \<^verbatim>\<open>new_kwargs[k] = resample_fn(kwargs[k], ...)\<close>.\<close>

fun resample_positions ::
  "(nat + string \<Rightarrow> ('d, 'v) barg \<Rightarrow> ('d, 'v) barg py_result) \<Rightarrow> ('d, 'v) barg list
   \<Rightarrow> ('d, 'v) barg list \<Rightarrow> nat list \<Rightarrow> ('d, 'v) barg list py_result" where
  "resample_positions call args new_args [] = Inr new_args"
| "resample_positions call args new_args (i # is) =
     sbind (call (Inl i) (args ! i)) (\<lambda>a. resample_positions call args (new_args[i := a]) is)"

fun resample_keywords ::
  "(nat + string \<Rightarrow> ('d, 'v) barg \<Rightarrow> ('d, 'v) barg py_result) \<Rightarrow> (string, ('d, 'v) barg) dict
   \<Rightarrow> (string, ('d, 'v) barg) dict \<Rightarrow> string list \<Rightarrow> (string, ('d, 'v) barg) dict py_result" where
  "resample_keywords call kwargs new_kwargs [] = Inr new_kwargs"
| "resample_keywords call kwargs new_kwargs (k # ks) =
     sbind (sbind (dict_get kwargs k) (call (Inr k)))
       (\<lambda>a. resample_keywords call kwargs (dict_set new_kwargs k a) ks)"

datatype 'r boot_out = BootConcat "'r list" | BootRuns "'r list"

text \<open>The closure \<^verbatim>\<open>bootstrapped(*args, n, prior_adjustment, **kwargs)\<close>.  The
  loop \<^verbatim>\<open>for i, run in enumerate(runs): run = run.assign_coords(bootstrap=i)\<close>
  rebinds its loop variable only, so the runs are concatenated as they are;
  \<^verbatim>\<open>xr.concat\<close> of a mixture of arrays and other values raises \<^verbatim>\<open>TypeError\<close>.\<close>

definition bootstrapped ::
  "(('d, 'v) barg list \<Rightarrow> (string, ('d, 'v) barg) dict \<Rightarrow> ('d, 'v) barg)
   \<Rightarrow> (nat + string) list \<Rightarrow> string option \<Rightarrow> (nat \<Rightarrow> nat + string \<Rightarrow> 'd \<Rightarrow> real \<Rightarrow> 'd)
   \<Rightarrow> ('d, 'v) barg list \<Rightarrow> nat \<Rightarrow> real \<Rightarrow> (string, ('d, 'v) barg) dict
   \<Rightarrow> ('d, 'v) barg boot_out py_result" where
  "bootstrapped fn skip resample_method rs args n prior_adjustment kwargs =
     (let resample_fn = bootstrap_method resample_method;
          resample_indices = [i \<leftarrow> [0..<length args]. is_xr (args ! i) \<and> Inl i \<notin> set skip];
          resample_kwargs = [k \<leftarrow> map fst kwargs.
                               list_ex (\<lambda>(k', v). k' = k \<and> is_dataarray v) kwargs \<and> Inr k \<notin> set skip]
      in sbind (py_map (\<lambda>r. let call = resample_call rs resample_fn prior_adjustment r in
                 sbind (resample_positions call args args resample_indices) (\<lambda>new_args.
                 sbind (resample_keywords call kwargs kwargs resample_kwargs) (\<lambda>new_kwargs.
                   Inr (fn new_args new_kwargs)))) [0..<n])
           (\<lambda>runs. if list_ex is_xr runs
                   then (if list_all is_xr runs then Inr (BootConcat runs) else Inl TypeError)
                   else Inr (BootRuns runs)))"


text \<open>The specification of a bootstrap with the default method: run \<open>r\<close> applies
  \<open>fn\<close> to the arguments with every array not skipped replaced by its resample.\<close>

definition boot_spec ::
  "(('d, 'v) barg list \<Rightarrow> (string, ('d, 'v) barg) dict \<Rightarrow> ('d, 'v) barg)
   \<Rightarrow> (nat + string) list \<Rightarrow> (nat \<Rightarrow> nat + string \<Rightarrow> 'd \<Rightarrow> real \<Rightarrow> 'd)
   \<Rightarrow> ('d, 'v) barg list \<Rightarrow> nat \<Rightarrow> real \<Rightarrow> (string, ('d, 'v) barg) dict
   \<Rightarrow> ('d, 'v) barg boot_out py_result" where
  "boot_spec fn skip rs args n prior kwargs =
     (let runs = map (\<lambda>r. fn (map (\<lambda>i. if is_xr (args ! i) \<and> Inl i \<notin> set skip
                                     then map_data (\<lambda>d. rs r (Inl i) d prior) (args ! i) else args ! i)
                                 [0..<length args])
                            (map (\<lambda>(k, a). (k, if is_dataarray a \<and> Inr k \<notin> set skip
                                             then map_data (\<lambda>d. rs r (Inr k) d prior) a else a)) kwargs))
                 [0..<n]
      in if list_ex is_xr runs
         then (if list_all is_xr runs then Inr (BootConcat runs) else Inl TypeError)
         else Inr (BootRuns runs))"

lemma resample_positions_ok:
  assumes "distinct is" "\<forall>i\<in>set is. i < length new \<and> new ! i = args ! i"
  shows "resample_positions (\<lambda>key a. Inr (g key a)) args new is
           = Inr (map (\<lambda>i. if i \<in> set is then g (Inl i) (args ! i) else new ! i) [0..<length new])"
  using assms
proof (induction "is" arbitrary: new)
  case Nil
  then show ?case by (simp add: map_nth)
next
  case (Cons i "is")
  then have "\<forall>j\<in>set is. j < length (new[i := g (Inl i) (args ! i)])
               \<and> new[i := g (Inl i) (args ! i)] ! j = args ! j"
    by (auto simp: nth_list_update)
  with Cons show ?case by (auto intro!: map_cong)
qed

lemma map_upd_absent:
  "k \<notin> fst ` set d \<Longrightarrow> map (\<lambda>(k', v'). if k' = k then (k, v) else (k', v')) d = d"
  by (induction d) auto

lemma dict_set_existing:
  "distinct (map fst d) \<Longrightarrow> k \<in> set (map fst d) \<Longrightarrow>
   dict_set d k v = map (\<lambda>(k', v'). if k' = k then (k, v) else (k', v')) d"
proof (induction d)
  case (Cons p d)
  obtain k' v' where p: "p = (k', v')" by (cases p)
  show ?case
  proof (cases "k' = k")
    case True
    then have "k \<notin> fst ` set d" using Cons.prems(1) p by simp
    with True p show ?thesis by (simp add: map_upd_absent)
  next
    case False
    with Cons p show ?thesis by simp
  qed
qed simp

lemma resample_keywords_ok:
  assumes "distinct (map fst new)" "distinct ks" "set ks \<subseteq> set (map fst new)"
    "\<forall>k\<in>set ks. map_of new k = map_of kwargs k"
  shows "resample_keywords (\<lambda>key a. Inr (g key a)) kwargs new ks
           = Inr (map (\<lambda>(k, a). (k, if k \<in> set ks then g (Inr k) a else a)) new)"
  using assms
proof (induction ks arbitrary: new)
  case Nil
  then show ?case by (simp add: case_prod_beta)
next
  case (Cons k ks)
  have "k \<in> fst ` set new" using Cons.prems(3) by auto
  then obtain a0 where "map_of new k = Some a0"
    by (cases "map_of new k") (auto simp: map_of_eq_None_iff)
  then have a0: "map_of new k = Some a0" "map_of kwargs k = Some a0" using Cons.prems(4) by auto
  define new' where "new' = dict_set new k (g (Inr k) a0)"
  have new': "new' = map (\<lambda>(k', v'). if k' = k then (k, g (Inr k) a0) else (k', v')) new"
    using Cons.prems(1,3) by (simp add: new'_def dict_set_existing)
  have ih: "resample_keywords (\<lambda>key a. Inr (g key a)) kwargs new' ks
              = Inr (map (\<lambda>(k, a). (k, if k \<in> set ks then g (Inr k) a else a)) new')"
    using Cons.prems by (intro Cons.IH) (auto simp: new'_def keys_dict_set)
  have "(k', a) \<in> set new \<Longrightarrow> k' = k \<Longrightarrow> a = a0" for k' a
    using a0(1) Cons.prems(1) by (metis map_of_is_SomeI option.inject)
  then have "map (\<lambda>(k, a). (k, if k \<in> set ks then g (Inr k) a else a)) new'
             = map (\<lambda>(k', a). (k', if k' \<in> set (k # ks) then g (Inr k') a else a)) new"
    using Cons.prems(2) by (auto simp: new' intro!: map_cong)
  then show ?case using a0(2) ih by (simp add: dict_get_def new'_def)
qed


lemma resample_positions_error:
  "resample_positions (\<lambda>key a. Inl e) args new is = (if is = [] then Inr new else Inl e)"
  by (cases "is") simp_all

lemma resample_keywords_error:
  "set ks \<subseteq> fst ` set kwargs \<Longrightarrow>
   resample_keywords (\<lambda>key a. Inl e) kwargs new ks = (if ks = [] then Inr new else Inl e)"
  by (cases ks) (auto simp: dict_get_def split: option.split dest: map_of_eq_None_iff [THEN iffD1])

lemma list_ex_key_distinct:
  "distinct (map fst kwargs) \<Longrightarrow> (k, a) \<in> set kwargs \<Longrightarrow>
   list_ex (\<lambda>(k', v). k' = k \<and> is_dataarray v) kwargs \<longleftrightarrow> is_dataarray a"
  by (auto simp: list_ex_iff dest: eq_key_imp_eq_value)

lemma py_map_Inr_fun: "py_map (\<lambda>x. Inr (f x)) xs = Inr (map f xs)"
  by (rule py_map_Inr) simp

lemma py_map_const_Inl:
  "(\<forall>r. f r = Inl e) \<Longrightarrow> py_map f [0..<n] = (if n = 0 then Inr [] else Inl e)"
  by (cases n) (simp_all add: upt_rec)

section \<open>Properties of the bootstrap\<close>

text \<open>
  C9. With the default resampling method, \<^verbatim>\<open>bootstrap(fn, skip)\<close> refines its
  specification \<open>boot_spec\<close>: the index loops over \<^verbatim>\<open>resample_indices\<close> and
  \<^verbatim>\<open>resample_kwargs\<close> compute, in run \<open>r\<close>, the arguments with every data array or
  dataset not skipped (keyword arguments: every data array) replaced by its resample,
  and the runs are returned as the specification says.
\<close>

theorem bootstrapped_refines_spec:
  assumes keys: "distinct (map fst kwargs)"
  shows "bootstrapped fn skip None rs args n prior kwargs = boot_spec fn skip rs args n prior kwargs"
proof -
  define ixs where "ixs = [i \<leftarrow> [0..<length args]. is_xr (args ! i) \<and> Inl i \<notin> set skip]"
  define ks where "ks = [k \<leftarrow> map fst kwargs.
                          list_ex (\<lambda>(k', v). k' = k \<and> is_dataarray v) kwargs \<and> Inr k \<notin> set skip]"
  have call: "resample_call rs (Some RsResample) prior r = (\<lambda>key a. Inr (map_data (\<lambda>d. rs r key d prior) a))"
    for r by (simp add: resample_call_def fun_eq_iff)
  have pos: "resample_positions (\<lambda>key a. Inr (map_data (\<lambda>d. rs r key d prior) a)) args args ixs
               = Inr (map (\<lambda>i. if is_xr (args ! i) \<and> Inl i \<notin> set skip
                               then map_data (\<lambda>d. rs r (Inl i) d prior) (args ! i) else args ! i) [0..<length args])" for r
    by (simp add: resample_positions_ok ixs_def)
  have "resample_keywords (\<lambda>key a. Inr (map_data (\<lambda>d. rs r key d prior) a)) kwargs kwargs ks
          = Inr (map (\<lambda>(k, a). (k, if k \<in> set ks then map_data (\<lambda>d. rs r (Inr k) d prior) a else a)) kwargs)" for r
    using keys by (intro resample_keywords_ok) (auto simp: ks_def)
  moreover have "map (\<lambda>(k, a). (k, if k \<in> set ks then map_data (\<lambda>d. rs r (Inr k) d prior) a else a)) kwargs
     = map (\<lambda>(k, a). (k, if is_dataarray a \<and> Inr k \<notin> set skip then map_data (\<lambda>d. rs r (Inr k) d prior) a else a)) kwargs" for r
    using keys by (auto simp: ks_def list_ex_key_distinct intro!: map_cong) (metis fst_conv image_eqI)
  ultimately have kw: "resample_keywords (\<lambda>key a. Inr (map_data (\<lambda>d. rs r key d prior) a)) kwargs kwargs ks
     = Inr (map (\<lambda>(k, a). (k, if is_dataarray a \<and> Inr k \<notin> set skip then map_data (\<lambda>d. rs r (Inr k) d prior) a else a)) kwargs)"
    for r by simp
  show ?thesis
    unfolding bootstrapped_def boot_spec_def Let_def
    by (simp add: bootstrap_method_def call pos kw py_map_Inr_fun ixs_def [symmetric] ks_def [symmetric])
qed

theorem bootstrapped_refines_spec_witness:
  "bootstrapped (\<lambda>as kw. hd as) [] None (\<lambda>r k d p. d + int r) [BDataArray (1::int), BPlain (2::int)] 2 1
     [(''w'', BDataArray 5)]
   = boot_spec (\<lambda>as kw. hd as) [] (\<lambda>r k d p. d + int r) [BDataArray (1::int), BPlain (2::int)] 2 1
     [(''w'', BDataArray 5)]"
  by (rule bootstrapped_refines_spec) simp

text \<open>
  C16. A resampling method other than \<^verbatim>\<open>None\<close> and \<^verbatim>\<open>"cycle"\<close> ixs accepted by
  \<^verbatim>\<open>bootstrap\<close> and fails only later: the bootstrapped function raises
  \<^verbatim>\<open>NameError\<close> exactly when it runs at least once and has an argument to
  resample.
\<close>

theorem bootstrapped_unbound_method:
  assumes "bootstrap_method resample_method = None"
  shows "bootstrapped fn skip resample_method rs args n prior kwargs = Inl NameError \<longleftrightarrow>
           0 < n \<and> ((\<exists>i<length args. is_xr (args ! i) \<and> Inl i \<notin> set skip)
                  \<or> (\<exists>k a. (k, a) \<in> set kwargs \<and> is_dataarray a \<and> Inr k \<notin> set skip))"
proof -
  define ixs where "ixs = [i \<leftarrow> [0..<length args]. is_xr (args ! i) \<and> Inl i \<notin> set skip]"
  define ks where "ks = [k \<leftarrow> map fst kwargs.
                          list_ex (\<lambda>(k', v). k' = k \<and> is_dataarray v) kwargs \<and> Inr k \<notin> set skip]"
  have call: "resample_call rs None prior r = (\<lambda>key a. Inl NameError)" for r
    by (simp add: resample_call_def fun_eq_iff)
  have ks_sub: "set ks \<subseteq> fst ` set kwargs" by (auto simp: ks_def)
  have is_ne: "ixs \<noteq> [] \<longleftrightarrow> (\<exists>i<length args. is_xr (args ! i) \<and> Inl i \<notin> set skip)"
    by (auto simp: ixs_def filter_empty_conv)
  have ks_ne: "ks \<noteq> [] \<longleftrightarrow> (\<exists>k a. (k, a) \<in> set kwargs \<and> is_dataarray a \<and> Inr k \<notin> set skip)"
    by (force simp: ks_def filter_empty_conv list_ex_iff)
  show ?thesis
  proof (cases "ixs = [] \<and> ks = []")
    case True
    with py_map_Inr_fun [of "\<lambda>r. fn args kwargs" "[0..<n]"] show ?thesis
      using is_ne ks_ne
      by (simp add: bootstrapped_def assms call resample_positions_error resample_keywords_error [OF ks_sub]
          ixs_def [symmetric] ks_def [symmetric] Let_def split: if_splits)
    next
    case False
    then have "py_map (\<lambda>r. sbind (resample_positions (\<lambda>key a. Inl NameError) args args ixs) (\<lambda>new_args.
                 sbind (resample_keywords (\<lambda>key a. Inl NameError) kwargs kwargs ks) (\<lambda>new_kwargs.
                   Inr (fn new_args new_kwargs)))) [0..<n] = (if n = 0 then Inr [] else Inl NameError)"
      by (intro py_map_const_Inl) (auto simp: resample_positions_error resample_keywords_error [OF ks_sub])
    then show ?thesis
      using False is_ne ks_ne
      by (simp add: bootstrapped_def assms call ixs_def [symmetric] ks_def [symmetric] Let_def)
  qed
qed

theorem bootstrapped_unbound_method_witness:
  "bootstrap_method (Some ''jackknife'') = None
   \<and> bootstrapped (\<lambda>as kw. hd as) [] (Some ''jackknife'') (\<lambda>r k d p. d) [BDataArray (1::int), BPlain (2::int)]
       2 1 [] = Inl NameError"
proof -
  have m: "bootstrap_method (Some ''jackknife'') = None" by (simp add: bootstrap_method_def)
  have "0 < (2::nat) \<and> (\<exists>i<length [BDataArray (1::int), BPlain (2::int)].
          is_xr ([BDataArray (1::int), BPlain (2::int)] ! i) \<and> Inl i \<notin> set ([] :: (nat + string) list))"
    by (rule conjI, simp, rule exI [of _ 0]) (simp add: is_xr_def)
  then have "bootstrapped (\<lambda>as kw. hd as) [] (Some ''jackknife'') (\<lambda>r k d p. d)
               [BDataArray (1::int), BPlain (2::int)] 2 1 [] = Inl NameError"
    using bootstrapped_unbound_method [OF m, of "\<lambda>as kw. hd as" "[]" "\<lambda>r k d p. d"
            "[BDataArray (1::int), BPlain (2::int)]" 2 1 "[]"] by blast
  with m show ?thesis by blast
qed

end
