(* ===== verification/EffMass.thy ===== *)
theory EffMass
  imports Prelude
begin

text \<open>
  \<^verbatim>\<open>fit_for_effective_mass\<close> (\<^verbatim>\<open>analysis/band_analysis.py\<close>, lines 40--88).  The
  fits are lmfit's and the momentum conversion is \<^verbatim>\<open>arpes.utilities.conversion\<close>'s,
  both outside the sources, so they are the fields of the record \<open>effmass_ops\<close>:
  the Lorentzian centres \<^verbatim>\<open>broadcast_model\<close> finds along the momentum axis (pairs of a
  coordinate and a centre), the variables and values of the forward conversion, and
  the coefficient \<^verbatim>\<open>a\<close> of the two quadratic fits.  The constant
  \<^verbatim>\<open>HBAR_SQ_EV_PER_ELECTRON_MASS_ANGSTROM_SQ\<close> of \<^verbatim>\<open>arpes.constants\<close> is the argument
  \<open>hbar_sq\<close>; the coefficient is a Python float, so dividing by zero raises.
\<close>

record effmass_ops =
  em_broadcast :: "string \<Rightarrow> (real \<times> real) list"
  em_forward_vars :: "string list"
  em_forward :: "string \<Rightarrow> string \<Rightarrow> real \<Rightarrow> real \<Rightarrow> real"
  em_quad_fit :: "real list \<Rightarrow> real list \<Rightarrow> real"
  em_quad_guess_fit :: "(real \<times> real) list \<Rightarrow> real"

definition effmass_dims :: "string list" where
  "effmass_dims = [''kp'', ''kx'', ''ky'', ''kz'', ''phi'', ''beta'', ''theta'']"

definition angle_dims :: "string list" where
  "angle_dims = [''phi'', ''beta'', ''theta'']"

definition forward_dims :: "string list" where
  "forward_dims = [''kx'', ''ky'', ''kp'', ''kz'']"

text \<open>The quadratic coefficient: in angle space the centres are fitted against the
  momenta of the forward conversion at each (angle, centre); in momentum space the
  centres are fitted against their momentum coordinate.\<close>

definition effmass_coefficient :: "effmass_ops \<Rightarrow> string \<Rightarrow> real py_result" where
  "effmass_coefficient ops mom_dim =
     (let results = em_broadcast ops mom_dim
      in if mom_dim \<in> set angle_dims
         then sbind (py_next (\<lambda>d. d \<in> set (em_forward_vars ops)) forward_dims) (\<lambda>final_mom.
                let eVs = map snd results;
                    kps = map2 (\<lambda>eV ang. em_forward ops final_mom mom_dim ang eV) eVs (map fst results)
                in Inr (em_quad_fit ops eVs kps))
         else Inr (em_quad_guess_fit ops results))"

definition fit_for_effective_mass :: "effmass_ops \<Rightarrow> real \<Rightarrow> string list \<Rightarrow> real py_result" where
  "fit_for_effective_mass ops hbar_sq dims =
     sbind (py_next (\<lambda>d. d \<in> set dims) effmass_dims) (\<lambda>mom_dim.
     sbind (effmass_coefficient ops mom_dim) (\<lambda>a.
       if 2 * a = 0 then Inl ZeroDivisionError else Inr (hbar_sq / (2 * a))))"

lemma fit_for_effective_mass_no_momentum:
  "set dims \<inter> set effmass_dims = {} \<Longrightarrow> fit_for_effective_mass ops hbar_sq dims = Inl StopIteration"
proof -
  assume "set dims \<inter> set effmass_dims = {}"
  then have "py_next (\<lambda>d. d \<in> set dims) effmass_dims = Inl StopIteration" by (intro py_next_StopIteration) auto
  then show ?thesis by (simp add: fit_for_effective_mass_def)
qed

text \<open>A momentum axis takes precedence over an angle axis, so data carrying both is
  fitted in momentum space; the mass is \<open>\<hbar>\<^sup>2 / 2a\<close> for a curvature \<open>a \<noteq> 0\<close>.\<close>

lemma fit_for_effective_mass_kp:
  assumes "''kp'' \<in> set dims" "em_quad_guess_fit ops (em_broadcast ops ''kp'') = a" "a \<noteq> 0"
  shows "fit_for_effective_mass ops hbar_sq dims = Inr (hbar_sq / (2 * a))"
  using assms by (simp add: fit_for_effective_mass_def effmass_coefficient_def py_next_def effmass_dims_def
      angle_dims_def)

lemma fit_for_effective_mass_flat:
  assumes "''kp'' \<in> set dims" "em_quad_guess_fit ops (em_broadcast ops ''kp'') = 0"
  shows "fit_for_effective_mass ops hbar_sq dims = Inl ZeroDivisionError"
  using assms by (simp add: fit_for_effective_mass_def effmass_coefficient_def py_next_def effmass_dims_def
      angle_dims_def)

lemma fit_for_effective_mass_no_forward:
  assumes "py_next (\<lambda>d. d \<in> set dims) effmass_dims = Inr mom_dim" "mom_dim \<in> set angle_dims"
    "set (em_forward_vars ops) \<inter> set forward_dims = {}"
  shows "fit_for_effective_mass ops hbar_sq dims = Inl StopIteration"
proof -
  have "py_next (\<lambda>d. d \<in> set (em_forward_vars ops)) forward_dims = Inl StopIteration"
    using assms(3) by (intro py_next_StopIteration) auto
  then show ?thesis using assms(1,2) by (simp add: fit_for_effective_mass_def effmass_coefficient_def Let_def)
qed

end
