(* ===== verification/FitTool.thy ===== *)
theory FitTool
  imports Prelude
begin

text \<open>
  The cursor logic of the Qt fit browser, \<^verbatim>\<open>legacy_files/plotting/qt/fit_tool\<close>.
  The state the handlers change is the record \<open>ft_state\<close>: the dimensions and
  coordinates of the displayed array, the cursor (\<^verbatim>\<open>context["cursor"]\<close>) and its
  physical value (\<^verbatim>\<open>context["value_cursor"]\<close>).  A handler returns the new state and
  the exception it raised, if any: the assignments made before a raise stay, as they do
  when Qt's event loop swallows the exception.  Redrawing the views and moving the
  cursor widgets are display only and are not modelled.
\<close>

record ft_state =
  ft_dims :: "string list"
  ft_coords :: "string \<Rightarrow> real list"
  ft_cursor :: "real list"
  ft_value_cursor :: "real list"

type_synonym ft_result = "ft_state \<times> py_error option"

text \<open>\<^verbatim>\<open>tuple.index\<close>: the first position, \<^verbatim>\<open>ValueError\<close> when absent.\<close>

definition tuple_index :: "'a list \<Rightarrow> 'a \<Rightarrow> nat py_result" where
  "tuple_index xs x = (if x \<in> set xs then Inr (list_index xs x) else Inl ValueError)"

text \<open>\<^verbatim>\<open>index_to_value\<close> inside \<^verbatim>\<open>update_cursor_position\<close>: the coordinate of a
  fractional index on a uniform grid.\<close>

definition index_to_value :: "ft_state \<Rightarrow> real \<Rightarrow> nat \<Rightarrow> real py_result" where
  "index_to_value st index dim_i =
     sbind (py_index (ft_dims st) (int dim_i)) (\<lambda>d.
       let c = ft_coords st d
       in if length c < 2 then Inl IndexError else Inr (c ! 0 + index * (c ! 1 - c ! 0)))"

text \<open>\<^verbatim>\<open>update_cursor_position\<close> (lines 318--420): the cursor is stored first, then
  its value; the two strict \<^verbatim>\<open>zip\<close>s raise on a length mismatch.  The redraw loop
  catches its own \<^verbatim>\<open>IndexError\<close>.\<close>

definition update_cursor_position :: "ft_state \<Rightarrow> real list \<Rightarrow> ft_result" where
  "update_cursor_position st new_cursor =
     (let old_cursor = ft_cursor st;
          st1 = st\<lparr>ft_cursor := new_cursor\<rparr>
      in case py_map (\<lambda>(i, v). index_to_value st1 v i) (enumerate 0 new_cursor) of
           Inl e \<Rightarrow> (st1, Some e)
         | Inr vc \<Rightarrow>
             let st2 = st1\<lparr>ft_value_cursor := vc\<rparr>
             in if length old_cursor \<noteq> length new_cursor then (st2, Some ValueError)
                else if length (ft_dims st2) \<noteq> length vc then (st2, Some ValueError)
                else (st2, None))"

text \<open>\<^verbatim>\<open>FitTool.center_cursor\<close> (lines 155--162).\<close>

definition center_cursor :: "ft_state \<Rightarrow> ft_result" where
  "center_cursor st =
     update_cursor_position st (map (\<lambda>d. real (length (ft_coords st d)) / 2) (ft_dims st))"

text \<open>\<^verbatim>\<open>FitTool.scroll\<close> (lines 164--177): a delta on a dimension the cursor does
  not have only warns.\<close>

definition app_scroll :: "ft_state \<Rightarrow> nat \<times> int \<Rightarrow> ft_result" where
  "app_scroll st delta =
     (if length (ft_cursor st) \<le> fst delta then (st, None)
      else update_cursor_position st
             ((ft_cursor st)[fst delta := ft_cursor st ! fst delta + real_of_int (snd delta)]))"

text \<open>\<^verbatim>\<open>FitTool.transpose\<close> and \<^verbatim>\<open>transpose_to_front\<close> (lines 179--199).  The
  assignment \<^verbatim>\<open>self.data = ...\<close> goes through the property setter, which always raises
  \<^verbatim>\<open>TypeError\<close>.  An integer \<^verbatim>\<open>dim\<close> is looked up among the dimension names.\<close>

definition transpose :: "ft_state \<Rightarrow> string list \<Rightarrow> ft_result" where
  "transpose st transpose_order =
     (case py_map (tuple_index (ft_dims st)) transpose_order of
        Inl e \<Rightarrow> (st, Some e)
      | Inr reindex_order \<Rightarrow> (st, Some TypeError))"

definition transpose_to_front :: "ft_state \<Rightarrow> string + int \<Rightarrow> ft_result" where
  "transpose_to_front st dim_arg =
     (case (case dim_arg of Inl name \<Rightarrow> Inr name
                      | Inr i \<Rightarrow> sbind (tuple_index (map Inl (ft_dims st)) (Inr i :: string + int))
                                    (\<lambda>p. Inr (ft_dims st ! p))) of
        Inl e \<Rightarrow> (st, Some e)
      | Inr d \<Rightarrow> (case py_remove d (ft_dims st) of
                    Inl e \<Rightarrow> (st, Some e)
                  | Inr order \<Rightarrow> transpose st (d # order)))"

text \<open>The window: the keys, \<^verbatim>\<open>_update_scroll_delta\<close> (lines 88--96, bit 1 of the
  native modifiers multiplies by 5, bit 2 by 20), \<^verbatim>\<open>scroll\<close> and \<^verbatim>\<open>scroll_z\<close>.\<close>

datatype ft_key = KeyLeft | KeyRight | KeyUp | KeyDown | KeyI | KeyC | KeyT | KeyY | KeyN | KeyM | KeyOther

definition update_scroll_delta :: "(nat \<times> int) option \<Rightarrow> nat \<Rightarrow> (nat \<times> int) option py_result" where
  "update_scroll_delta delta modifiers =
     sbind (if modifiers mod 2 = 1
            then (case delta of None \<Rightarrow> Inl TypeError | Some (a, b) \<Rightarrow> Inr (Some (a, b * 5)))
            else Inr delta) (\<lambda>delta.
       if (modifiers div 2) mod 2 = 1
       then (case delta of None \<Rightarrow> Inl TypeError | Some (a, b) \<Rightarrow> Inr (Some (a, b * 20)))
       else Inr delta)"

definition scroll_key_map :: "ft_key \<Rightarrow> (nat \<times> int) option" where
  "scroll_key_map k =
     (case k of KeyLeft \<Rightarrow> Some (0, -1) | KeyRight \<Rightarrow> Some (0, 1)
              | KeyDown \<Rightarrow> Some (1, -1) | KeyUp \<Rightarrow> Some (1, 1) | _ \<Rightarrow> None)"

definition scroll_z_key_map :: "ft_key \<Rightarrow> (nat \<times> int) option" where
  "scroll_z_key_map k = (case k of KeyN \<Rightarrow> Some (2, -1) | KeyM \<Rightarrow> Some (2, 1) | _ \<Rightarrow> None)"

definition window_scroll_with :: "(nat \<times> int) option \<Rightarrow> ft_state \<Rightarrow> nat \<Rightarrow> ft_result" where
  "window_scroll_with delta0 st modifiers =
     (case update_scroll_delta delta0 modifiers of
        Inl e \<Rightarrow> (st, Some e)
      | Inr None \<Rightarrow> (st, None)
      | Inr (Some delta) \<Rightarrow> app_scroll st delta)"

definition window_scroll :: "ft_state \<Rightarrow> ft_key \<Rightarrow> nat \<Rightarrow> ft_result" where
  "window_scroll st k modifiers =
     window_scroll_with (Some (case scroll_key_map k of None \<Rightarrow> (0, 0) | Some d \<Rightarrow> d)) st modifiers"

definition window_scroll_z :: "ft_state \<Rightarrow> ft_key \<Rightarrow> nat \<Rightarrow> ft_result" where
  "window_scroll_z st k modifiers = window_scroll_with (scroll_z_key_map k) st modifiers"

text \<open>\<^verbatim>\<open>reset_intensity\<close> redraws at the same cursor; \<^verbatim>\<open>compile_key_bindings\<close>
  (lines 60--77) binds the arrows, I, C, T and Y; \<^verbatim>\<open>scroll_z\<close> is bound to no key.\<close>

definition reset_intensity :: "ft_state \<Rightarrow> ft_result" where
  "reset_intensity st = update_cursor_position st (ft_cursor st)"

definition handle_key :: "ft_state \<Rightarrow> ft_key \<Rightarrow> nat \<Rightarrow> ft_result" where
  "handle_key st k modifiers =
     (case k of
        KeyLeft \<Rightarrow> window_scroll st k modifiers | KeyRight \<Rightarrow> window_scroll st k modifiers
      | KeyUp \<Rightarrow> window_scroll st k modifiers | KeyDown \<Rightarrow> window_scroll st k modifiers
      | KeyI \<Rightarrow> reset_intensity st
      | KeyC \<Rightarrow> center_cursor st
      | KeyT \<Rightarrow> transpose_to_front st (Inr (-1))
      | KeyY \<Rightarrow> transpose_to_front st (Inr 1)
      | _ \<Rightarrow> (st, None))"

text \<open>\<^verbatim>\<open>after_show\<close> (lines 468--483): the cursor starts at the coordinate means and
  is then centred.\<close>

definition after_show :: "ft_state \<Rightarrow> ft_result" where
  "after_show st =
     (let st0 = st\<lparr>ft_cursor := map (\<lambda>d. sum_list (ft_coords st d) / real (length (ft_coords st d))) (ft_dims st)\<rparr>;
          (st1, e1) = update_cursor_position st0 (ft_cursor st0)
      in case e1 of Some e \<Rightarrow> (st1, Some e) | None \<Rightarrow> center_cursor st1)"

text \<open>\<^verbatim>\<open>safe_slice\<close> (lines 354--367): a non-empty window of the axis around the
  cursor.\<close>

definition clip :: "int \<Rightarrow> int \<Rightarrow> int \<Rightarrow> int" where
  "clip lo hi x = min hi (max lo x)"

definition safe_slice :: "int \<Rightarrow> int \<Rightarrow> nat \<Rightarrow> int \<times> int" where
  "safe_slice vlow vhigh rng =
     (let lo = clip 0 (int rng) (min vlow vhigh); hi = clip 0 (int rng) (max vlow vhigh);
          hi = (if lo = hi then lo + 1 else hi);
          lo = clip 0 (int rng) lo; hi = clip 0 (int rng) hi;
          lo = (if lo = hi then hi - 1 else lo)
      in (lo, hi))"


text \<open>The life of a window opened on a state: \<^verbatim>\<open>after_show\<close>, then any key presses.\<close>

inductive ft_reach :: "ft_state \<Rightarrow> ft_state \<Rightarrow> bool" where
  start: "after_show st0 = (st, e) \<Longrightarrow> ft_reach st0 st"
| key: "ft_reach st0 st \<Longrightarrow> handle_key st k modifiers = (st', e) \<Longrightarrow> ft_reach st0 st'"

lemma update_cursor_position_state:
  "update_cursor_position st c = (st', e) \<Longrightarrow>
   ft_dims st' = ft_dims st \<and> ft_coords st' = ft_coords st \<and> ft_cursor st' = c"
  by (auto simp: update_cursor_position_def Let_def split: sum.splits if_splits)

lemma transpose_state: "transpose st order = (st', e) \<Longrightarrow> st' = st"
  by (auto simp: transpose_def split: sum.splits)

lemma transpose_to_front_state: "transpose_to_front st d = (st', e) \<Longrightarrow> st' = st"
  by (auto simp: transpose_to_front_def split: sum.splits dest: transpose_state)

lemma app_scroll_state:
  "app_scroll st delta = (st', e) \<Longrightarrow>
   ft_dims st' = ft_dims st \<and> ft_coords st' = ft_coords st \<and> length (ft_cursor st') = length (ft_cursor st)"
  by (auto simp: app_scroll_def split: if_splits dest: update_cursor_position_state)

lemma window_scroll_with_state:
  "window_scroll_with d st m = (st', e) \<Longrightarrow>
   ft_dims st' = ft_dims st \<and> ft_coords st' = ft_coords st \<and> length (ft_cursor st') = length (ft_cursor st)"
  by (auto simp: window_scroll_with_def split: sum.splits option.splits dest: app_scroll_state)

lemmas ft_handler_states =
  update_cursor_position_state transpose_to_front_state window_scroll_with_state

lemma handle_key_state:
  assumes "handle_key st k m = (st', e)" "length (ft_cursor st) = length (ft_dims st)"
  shows "ft_dims st' = ft_dims st \<and> ft_coords st' = ft_coords st \<and> length (ft_cursor st') = length (ft_dims st)"
  using assms
  by (cases k) (auto simp: handle_key_def window_scroll_def reset_intensity_def center_cursor_def
      dest: ft_handler_states)

lemma after_show_state:
  "after_show st0 = (st, e) \<Longrightarrow>
   ft_dims st = ft_dims st0 \<and> ft_coords st = ft_coords st0 \<and> length (ft_cursor st) = length (ft_dims st0)"
  by (auto simp: after_show_def center_cursor_def Let_def split: prod.splits option.splits
      dest!: update_cursor_position_state)

lemma clip_id [simp]: "lo \<le> x \<Longrightarrow> x \<le> hi \<Longrightarrow> clip lo hi x = x"
  by (simp add: clip_def)

lemma clip_range: "lo \<le> hi \<Longrightarrow> lo \<le> clip lo hi x \<and> clip lo hi x \<le> hi"
  by (simp add: clip_def)

lemma safe_slice_bounds:
  assumes "0 < rng" "safe_slice vlow vhigh rng = (lo, hi)"
  shows "0 \<le> lo \<and> lo < hi \<and> hi \<le> int rng"
proof -
  define R where "R = int rng"
  define a where "a = clip 0 R (min vlow vhigh)"
  define b where "b = clip 0 R (max vlow vhigh)"
  have R: "0 < R" using assms(1) by (simp add: R_def)
  have ab: "0 \<le> a" "a \<le> R" "0 \<le> b" "b \<le> R" "a \<le> b"
    using clip_range [of 0 R] R by (auto simp: a_def b_def clip_def)
  have ss: "safe_slice vlow vhigh rng =
             (let hi2 = (if a = b then a + 1 else b); hi3 = clip 0 R hi2
              in (if a = hi3 then hi3 - 1 else a, hi3))"
    using ab by (simp add: safe_slice_def a_def [symmetric] b_def [symmetric] R_def [symmetric] Let_def)
  show ?thesis
    using assms(2) ab R unfolding ss by (auto simp: Let_def clip_def R_def split: if_splits)
qed

lemma safe_slice_cursor:
  "0 \<le> c \<Longrightarrow> c < int rng \<Longrightarrow> safe_slice c (c + 1) rng = (c, c + 1)"
  by (simp add: safe_slice_def clip_def Let_def)

section \<open>Properties of the fit browser\<close>

text \<open>
  C27. Whatever keys are pressed after the window is shown, the displayed dimensions and
  coordinates never change and the cursor keeps one entry per dimension.
\<close>

theorem ft_reach_invariant:
  assumes "ft_reach st0 st"
  shows "ft_dims st = ft_dims st0 \<and> ft_coords st = ft_coords st0 \<and> length (ft_cursor st) = length (ft_dims st0)"
  using assms
proof (induction rule: ft_reach.induct)
  case (start st0 st e)
  then show ?case by (rule after_show_state)
next
  case (key st0 st k modifiers st' e)
  then show ?case using handle_key_state [OF key.hyps(2)] by simp
qed

definition demo_fit_state :: ft_state where
  "demo_fit_state = \<lparr>ft_dims = [''eV'', ''kp''],
     ft_coords = (\<lambda>d. if d = ''eV'' then [0, 1 / 10, 2 / 10, 3 / 10] else [-1, 0, 1]),
     ft_cursor = [], ft_value_cursor = []\<rparr>"

theorem ft_reach_invariant_witness:
  "ft_dims (fst (handle_key (fst (after_show demo_fit_state)) KeyLeft 1)) = [''eV'', ''kp'']
   \<and> length (ft_cursor (fst (handle_key (fst (after_show demo_fit_state)) KeyLeft 1))) = 2"
proof -
  have "ft_reach demo_fit_state (fst (after_show demo_fit_state))"
    by (rule ft_reach.start [of _ _ "snd (after_show demo_fit_state)"]) simp
  then have "ft_reach demo_fit_state (fst (handle_key (fst (after_show demo_fit_state)) KeyLeft 1))"
    by (rule ft_reach.key [of _ _ KeyLeft 1 _ "snd (handle_key (fst (after_show demo_fit_state)) KeyLeft 1)"]) simp
  from ft_reach_invariant [OF this] show ?thesis by (simp add: demo_fit_state_def)
qed

text \<open>
  C14. The transpose bindings never work: T and Y pass an integer to
  \<^verbatim>\<open>transpose_to_front\<close>, which looks it up among the dimension names and raises
  \<^verbatim>\<open>ValueError\<close>; a dimension given by name reaches \<^verbatim>\<open>transpose\<close>, whose assignment to
  the read-only property \<^verbatim>\<open>data\<close> raises.  The state is left as it was.
\<close>

theorem transpose_keys_fail:
  "handle_key st KeyT m = (st, Some ValueError) \<and> handle_key st KeyY m = (st, Some ValueError)
   \<and> (\<exists>e. transpose_to_front st (Inl d) = (st, Some e))"
  by (auto simp: handle_key_def transpose_to_front_def tuple_index_def transpose_def
      split: sum.splits)

end
