(* ===== verification/Jupyter.thy ===== *)
theory Jupyter
  imports Prelude
begin

text \<open>
  The notebook helpers of \<^verbatim>\<open>utilities/jupyter.py\<close>.  What they read from the
  environment is an argument: the kernel's connection file (\<open>None\<close> when
  \<^verbatim>\<open>ipykernel.get_connection_file\<close> raises), the running servers, the sessions each
  server reports, the clock, the IPython history and the log file.
  \<^verbatim>\<open>serverapp.list_running_servers()\<close> is a generator: it is the list of what it
  yields, and a consumer takes it all and leaves it empty.
\<close>

section \<open>Strings and paths\<close>

text \<open>\<^verbatim>\<open>s.split(sep, 1)[1]\<close> for a separator present in \<open>s\<close>, and
  \<^verbatim>\<open>s.split(".")[0]\<close>.\<close>

definition after_first :: "char \<Rightarrow> string \<Rightarrow> string" where
  "after_first c s = tl (dropWhile (\<lambda>x. x \<noteq> c) s)"

definition before_first :: "char \<Rightarrow> string \<Rightarrow> string" where
  "before_first c s = takeWhile (\<lambda>x. x \<noteq> c) s"

text \<open>\<^verbatim>\<open>Path(p).stem\<close>: the last component without its last suffix; a name whose
  only dot leads or ends it has no suffix.\<close>

definition path_name :: "string \<Rightarrow> string" where
  "path_name p = rev (takeWhile (\<lambda>x. x \<noteq> CHR ''/'') (rev p))"

definition path_stem :: "string \<Rightarrow> string" where
  "path_stem p =
     (let name = path_name p
      in if CHR ''.'' \<in> set name
         then (let i = length name - 1 - list_index (rev name) (CHR ''.'')
               in if 0 < i \<and> i < length name - 1 then take i name else name)
         else name)"

definition str_replace :: "char \<Rightarrow> char \<Rightarrow> string \<Rightarrow> string" where
  "str_replace a b s = map (\<lambda>x. if x = a then b else x) s"

section \<open>Notebook information\<close>

record server_info =
  sv_url :: string
  sv_token :: string
  sv_password :: bool

text \<open>The sessions endpoint of a server (lines 112--117) and its scheme check.\<close>

definition sessions_url :: "server_info \<Rightarrow> string" where
  "sessions_url server =
     (let passwordless = (sv_token server = [] \<and> \<not> sv_password server)
      in sv_url server @ ''api/sessions'' @ (if passwordless then [] else ''?token='' @ sv_token server))"

record session_info =
  ss_kernel_id :: string
  ss_notebook_name :: string

text \<open>\<^verbatim>\<open>get_full_notebook_information\<close> (lines 84--130).  The f-string of the debug
  message is built before \<^verbatim>\<open>logger.debug\<close> looks at the level, and
  \<^verbatim>\<open>list(servers)\<close> in it runs the generator to its end.\<close>

definition consume :: "'a list \<Rightarrow> 'a list \<times> 'a list" where
  "consume gen = (gen, [])"

fun find_session ::
  "(string \<Rightarrow> session_info list) \<Rightarrow> string \<Rightarrow> server_info list
   \<Rightarrow> (server_info \<times> session_info) option py_result" where
  "find_session sessions_at kernel_id [] = Inr None"
| "find_session sessions_at kernel_id (server # servers) =
     (let url = sessions_url server
      in if \<not> (take 5 url = ''http:'' \<or> take 6 url = ''https:'') then Inl ValueError
         else case filter (\<lambda>sess. ss_kernel_id sess = kernel_id) (sessions_at url) of
                sess # _ \<Rightarrow> Inr (Some (server, sess))
              | [] \<Rightarrow> find_session sessions_at kernel_id servers)"

definition get_full_notebook_information ::
  "bool \<Rightarrow> string option \<Rightarrow> server_info list \<Rightarrow> (string \<Rightarrow> session_info list)
   \<Rightarrow> (server_info \<times> session_info) option py_result" where
  "get_full_notebook_information imports_ok connection servers sessions_at =
     (if \<not> imports_ok then Inr None
      else case connection of
        None \<Rightarrow> Inr None
      | Some path \<Rightarrow>
          let connection_file = path_stem path;
              kernel_id = (if CHR ''-'' \<in> set connection_file then after_first (CHR ''-'') connection_file
                           else connection_file);
              (logged, servers) = consume servers
          in find_session sessions_at kernel_id servers)"

text \<open>The loop as meant, over the servers the generator yields.\<close>

definition get_full_notebook_information_intended ::
  "bool \<Rightarrow> string option \<Rightarrow> server_info list \<Rightarrow> (string \<Rightarrow> session_info list)
   \<Rightarrow> (server_info \<times> session_info) option py_result" where
  "get_full_notebook_information_intended imports_ok connection servers sessions_at =
     (if \<not> imports_ok then Inr None
      else case connection of
        None \<Rightarrow> Inr None
      | Some path \<Rightarrow>
          let connection_file = path_stem path;
              kernel_id = (if CHR ''-'' \<in> set connection_file then after_first (CHR ''-'') connection_file
                           else connection_file)
          in find_session sessions_at kernel_id servers)"

definition get_notebook_name ::
  "bool \<Rightarrow> string option \<Rightarrow> server_info list \<Rightarrow> (string \<Rightarrow> session_info list) \<Rightarrow> string option py_result" where
  "get_notebook_name imports_ok connection servers sessions_at =
     sbind (get_full_notebook_information imports_ok connection servers sessions_at)
       (\<lambda>info. Inr (map_option (\<lambda>(_, sess). path_stem (ss_notebook_name sess)) info))"

text \<open>\<^verbatim>\<open>generate_logfile_path\<close> (lines 148--156); \<open>date\<close> and \<open>time\<close> are the ISO
  strings of the clock.  An empty or missing name becomes \<^verbatim>\<open>"unnamed"\<close>.\<close>

definition logfile_name :: "string option \<Rightarrow> string \<Rightarrow> string \<Rightarrow> string" where
  "logfile_name notebook_name date time =
     (let base_name = (case notebook_name of None \<Rightarrow> ''unnamed'' | Some n \<Rightarrow> if n = [] then ''unnamed'' else n)
      in ''logs/'' @ base_name @ ''_'' @ date @ ''_''
           @ str_replace (CHR '':'') (CHR ''-'') (before_first (CHR ''.'') time) @ ''.log'')"

definition generate_logfile_path ::
  "bool \<Rightarrow> string option \<Rightarrow> server_info list \<Rightarrow> (string \<Rightarrow> session_info list) \<Rightarrow> string \<Rightarrow> string
   \<Rightarrow> string py_result" where
  "generate_logfile_path imports_ok connection servers sessions_at date time =
     sbind (get_notebook_name imports_ok connection servers sessions_at)
       (\<lambda>notebook_name. Inr (logfile_name notebook_name date time))"

section \<open>History and logs\<close>

text \<open>\<^verbatim>\<open>get_recent_history\<close> (lines 159--177): the input of each history entry;
  without an IPython shell the assertion fails and is caught.\<close>

definition get_recent_history :: "(nat \<Rightarrow> (nat \<times> nat \<times> string) list) option \<Rightarrow> nat \<Rightarrow> string list" where
  "get_recent_history ipython n_items =
     (case ipython of
        None \<Rightarrow> [''No accessible history.'']
      | Some get_tail \<Rightarrow> map (\<lambda>(_, _, inp). inp) (get_tail n_items))"

text \<open>\<^verbatim>\<open>file.readlines()\<close>: lines keep their newline.\<close>

function readlines :: "string \<Rightarrow> string list" where
  "readlines s =
     (if s = [] then []
      else let l = takeWhile (\<lambda>x. x \<noteq> CHR 0x0A) s; rest = dropWhile (\<lambda>x. x \<noteq> CHR 0x0A) s
           in if rest = [] then [l] else (l @ [CHR 0x0A]) # readlines (tl rest))"
  by pat_completeness auto
termination
proof (relation "measure length")
  fix s :: string and l rest
  assume "s \<noteq> []" "rest = dropWhile (\<lambda>x. x \<noteq> CHR 0x0A) s" "rest \<noteq> []"
  then have le: "length rest \<le> length s" using length_dropWhile_le by simp
  have pos: "0 < length s" using \<open>s \<noteq> []\<close> by simp
  show "(tl rest, s) \<in> measure length"
    unfolding in_measure length_tl using le pos by linarith
qed simp

declare readlines.simps [simp del]

text \<open>\<^verbatim>\<open>get_recent_logs\<close> (lines 180--210): the last \<open>n_bytes\<close> of the log file
  (seeking before its start fails and reads it whole) and the last input.  The function
  falls off its end, returning \<^verbatim>\<open>None\<close>, when logging has not started or a handled
  exception occurs; \<^verbatim>\<open>get_tail(n=1)[0]\<close> of an empty history raises.\<close>

definition get_recent_logs ::
  "(nat \<Rightarrow> (nat \<times> nat \<times> string) list) option \<Rightarrow> bool \<Rightarrow> string \<Rightarrow> nat \<Rightarrow> string list option py_result" where
  "get_recent_logs ipython logging_started log_file n_bytes =
     (case ipython of
        None \<Rightarrow> Inr None
      | Some get_tail \<Rightarrow>
          if \<not> logging_started then Inr None
          else let content = (if n_bytes \<le> length log_file then drop (length log_file - n_bytes) log_file
                              else log_file);
                   lines = readlines content
               in case get_tail 1 of
                    [] \<Rightarrow> Inl IndexError
                  | (_, _, final_cell) # _ \<Rightarrow> Inr (Some (lines @ [final_cell])))"


lemma concat_readlines: "concat (readlines s) = s"
proof (induction s rule: readlines.induct)
  case (1 s)
  define P where "P = (\<lambda>x. x \<noteq> CHR 0x0A)"
  show ?case
  proof (cases "s = []")
    case True
    then show ?thesis by (simp add: readlines.simps)
  next
    case False
    show ?thesis
    proof (cases "dropWhile P s = []")
      case True
      then show ?thesis using False takeWhile_dropWhile_id [of P s] by (simp add: readlines.simps P_def)
    next
      case nl: False
      then have "hd (dropWhile P s) = CHR 0x0A" using hd_dropWhile [OF nl] by (simp add: P_def)
      then have "[CHR 0x0A] @ tl (dropWhile P s) = dropWhile P s" using nl by (cases "dropWhile P s") auto
      then show ?thesis
        using 1 False nl takeWhile_dropWhile_id [of P s]
        by (simp add: readlines.simps [of s] P_def [symmetric] Let_def)
    qed
  qed
qed

text \<open>The log excerpt is exactly the last \<open>n_bytes\<close> of the file, split into lines.\<close>

lemma get_recent_logs_tail:
  "get_recent_logs (Some get_tail) True log_file n_bytes = Inr (Some ls) \<Longrightarrow>
   concat (butlast ls) = drop (length log_file - n_bytes) log_file"
  by (auto simp: get_recent_logs_def Let_def concat_readlines split: list.splits if_splits)

lemma demo_notebook_intended:
  "get_full_notebook_information_intended True (Some ''/run/kernel-abc.json'')
     [\<lparr>sv_url = ''http://h/'', sv_token = [], sv_password = False\<rparr>]
     (\<lambda>u. [\<lparr>ss_kernel_id = ''abc'', ss_notebook_name = ''N.ipynb''\<rparr>])
   = Inr (Some (\<lparr>sv_url = ''http://h/'', sv_token = [], sv_password = False\<rparr>,
                \<lparr>ss_kernel_id = ''abc'', ss_notebook_name = ''N.ipynb''\<rparr>))"
  by (simp add: get_full_notebook_information_intended_def path_stem_def path_name_def after_first_def
      sessions_url_def)

section \<open>Properties of the notebook helpers\<close>

text \<open>
  C15. The session lookup never succeeds: the debug message consumes the server
  generator before the loop, so \<^verbatim>\<open>get_full_notebook_information\<close> returns
  \<^verbatim>\<open>None\<close> for every kernel and server (where the loop as meant finds the session,
  \<open>demo_notebook_intended\<close>), \<^verbatim>\<open>get_notebook_name\<close> is always \<^verbatim>\<open>None\<close>, and the
  log file is always named \<^verbatim>\<open>unnamed\<close>.
\<close>

theorem notebook_information_never_found:
  "get_full_notebook_information ok connection servers sessions_at = Inr None
   \<and> get_notebook_name ok connection servers sessions_at = Inr None
   \<and> generate_logfile_path ok connection servers sessions_at date time
       = Inr (''logs/unnamed_'' @ date @ ''_''
              @ str_replace (CHR '':'') (CHR ''-'') (before_first (CHR ''.'') time) @ ''.log'')"
  by (simp add: get_notebook_name_def get_full_notebook_information_def consume_def generate_logfile_path_def
      logfile_name_def Let_def split: option.split)

end
