(* ===== verification/Spec2Isabelle.thy ===== *)
theory Spec2Isabelle
  imports Extract BandFit Patterned Mixin HotPool MaestroLoad MaestroAttrs Curvature Tarpes Kfermi Bootstrap EffMass FitTool Jupyter
begin

text \<open>
  \<^bold>\<open>A verification model of the PyARPES band-analysis core.\<close>

  The repository (\<^verbatim>\<open>src/src/arpes\<close>) loads ARPES spectra, fits peak models to
  one-dimensional slices of them and tracks the fitted peaks (bands) across the slices.
  Its algorithmic core is \<^verbatim>\<open>analysis/band_analysis.py\<close>: \<^verbatim>\<open>fit_bands\<close> fits a
  composite peak model at every slice, seeding each fit from an earlier one;
  \<^verbatim>\<open>fit_patterned_bands\<close> seeds each fit from control points interpolated along a
  patterning axis; \<^verbatim>\<open>unpack_bands_from_fit\<close> resolves which fitted component is which
  band across the grid of fits and extracts per-band arrays.  Curve fitting itself is
  lmfit's (\<^verbatim>\<open>fits/fit_models/x_model_mixin.py\<close> adapts it to xarray); file loading
  (\<^verbatim>\<open>endstations/plugin/MAESTRO.py\<close>), statistics (\<^verbatim>\<open>bootstrap.py\<close>),
  notebook introspection (\<^verbatim>\<open>utilities/jupyter.py\<close>) and the Qt fit browser
  (\<^verbatim>\<open>legacy_files/plotting/qt/fit_tool\<close>) surround it.

  \<^bold>\<open>Conventions\<close> (theory \<open>Prelude\<close>).  Python floats are \<open>real\<close> and Python
  ints \<open>int\<close>/\<open>nat\<close>; an exception is a constructor of \<open>py_error\<close> and a
  computation that may raise returns \<open>py_error + 'a\<close>.  Dictionaries are association
  lists kept in insertion order by \<open>dict_set\<close> (an existing key keeps its place), as
  Python's are.  The loops that keep the first strictly smaller candidate, starting from
  \<^verbatim>\<open>float("inf")\<close>, are \<open>argmin_strict\<close>, whose lemmas (member, minimal, first
  of the minimal) every search of the code reuses.  NaN and infinities are modelled
  only where a claim depends on them: as the value \<open>NaN\<close> of \<open>pyfloat\<close> in
  \<open>Patterned\<close> and as \<open>None\<close> in the curvature of \<open>Curvature\<close>; where the
  code divides by \<open>1 + stderr\<close> HOL's
  \<open>x / 0 = 0\<close> stands for numpy's \<open>inf\<close>, which standard errors (never
  negative) do not reach.

  \<^bold>\<open>Fit results\<close> (theory \<open>FitModel\<close>).  An \<^verbatim>\<open>lmfit.Parameter\<close> is the
  record \<open>parameter\<close>, a \<^verbatim>\<open>Parameters\<close> object an ordered dictionary, a
  \<^verbatim>\<open>ModelResult\<close> the record \<open>model_result\<close> (component prefixes, parameters,
  best fit, residual).  The optimiser is lmfit's and is not modelled: where the code
  fits, the model takes the fitting function as a parameter.  The getters of
  \<^verbatim>\<open>band_analysis_utils.py\<close> are \<open>param_getter\<close> and \<open>param_stderr_getter\<close>.

  \<^bold>\<open>Band identity resolution\<close> (theory \<open>Identity\<close>), lines 92--199 of
  \<^verbatim>\<open>band_analysis.py\<close>.  \<open>as_vector\<close>, \<open>dist_matrix\<close>, \<open>py_permutations\<close>
  (\<^verbatim>\<open>itertools.permutations\<close>), \<open>trace_of\<close>, \<open>best_arrangement\<close> and
  \<open>order_prefixes\<close> are the statements of the loop body; \<open>identify_step\<close> is one
  iteration over a cell, with the state record \<open>ident_state\<close> holding
  \<^verbatim>\<open>identified_by_coordinate\<close>, the written cells of
  \<^verbatim>\<open>identified_band_results\<close> and \<^verbatim>\<open>first_coordinate\<close>;
  \<open>identify_cells\<close> is the loop and \<open>identify_bands\<close> the whole pass, including
  the template lookup \<^verbatim>\<open>band_results.values[0]\<close>.  The write
  \<^verbatim>\<open>identified_band_results.loc[coordinate] = ordered_prefixes\<close> of line 199 is
  \<open>loc_setitem\<close>: xarray's \<^verbatim>\<open>Variable.__setitem__\<close> refuses a value of more
  dimensions than the selection, and a full coordinate selects a single cell while the
  value is a list, so the write raises \<^verbatim>\<open>ValueError\<close>.  The grid is given as its
  cells in \<^verbatim>\<open>enumerate_dataarray\<close> order, each with its frozen coordinate.  Proved:
  the enumeration is exactly the permutations in itertools order
  (\<open>py_permutations_spec\<close>); the search returns a permutation of least trace, the
  first in that order (C1); the ordering computed for a reference in template order
  agrees with the matching exactly when the optimal permutation is an involution (C3),
  so a rotation of three bands would be mislabelled (\<open>cycle_cells_ordering\<close>); and
  the pass never completes: whenever the first fit has peak parameters the write of
  line 199 raises (C6), a grid of more dimensions fails earlier at the template lookup
  (\<open>identify_bands_multidim_error\<close>), and no input gives a result
  (\<open>identify_bands_not_Inr\<close>).

  \<^bold>\<open>Marginals\<close> (theory \<open>Marginals\<close>), \<^verbatim>\<open>_iterate_marginals\<close>
  (lines 582--593).  A spectrum is the record \<open>spectrum\<close> (dimension names, a
  coordinate vector per dimension, intensity as a function of a coordinate assignment);
  \<open>sel\<close> is xarray's scalar selection.  The generator is the list of what it yields,
  \<open>itertools.product\<close> being \<open>product_lists\<close>.  Proved: the marginals are the
  whole grid, one per combination of ticks, a pair being yielded exactly when its
  selector lists the directions in order with a tick of each and the marginal is the
  selection there (C10); no free axis gives the whole array once
  (\<open>iterate_marginals_no_free_axes\<close>).

  \<^bold>\<open>The sequential fit\<close> (theory \<open>BandFit\<close>), \<^verbatim>\<open>fit_bands\<close>
  (lines 426--543).  \<open>choose_broadcast\<close> is the broadcast-axis choice, where
  Python's set iteration order is the parameter \<open>pick\<close>; \<open>peel_bands\<close> the
  residual peeling of lines 470--494; \<open>prior_loop\<close> the prior search of lines
  511--518 exactly as written; \<open>sweep_step\<close>/\<open>sweep\<close> the loop of lines
  507--537 over the state \<open>sweep_state\<close> (the cache \<^verbatim>\<open>all_fit_parameters\<close>
  and the written cells of \<^verbatim>\<open>band_results\<close>); \<open>fit_bands\<close> the whole
  function.  lmfit's \<^verbatim>\<open>guess_fit\<close> and \<^verbatim>\<open>fit\<close> are the fields of the record
  \<open>fitter\<close>, so every theorem holds whatever the optimiser returns;
  \<open>demo_fitter\<close> is a concrete one for the worked runs (\<open>demo_initial\<close>,
  \<open>demo_sweep\<close>).  Proved: the prior is the last cached fit, not the nearest one
  (C11, with \<open>prior_loop_not_nearest\<close>); a completed sweep writes exactly one result
  per grid point of the non-broadcast axes (C12); peeling fits each band with the
  fitter's \<^verbatim>\<open>guess_fit\<close> on the data less the earlier bands' fits, leaves the
  data less all fits as residual and merges the fits' parameters in order (C13); and the early errors (\<open>fit_bands_assertion\<close>,
  \<open>fit_bands_no_energy_axis\<close>, \<open>fit_bands_no_momentum_axis\<close>).

  \<^bold>\<open>Band extraction\<close> (theory \<open>Extract\<close>), lines 201--247 and the whole of
  \<^verbatim>\<open>unpack_bands_from_fit\<close>: \<open>param_array\<close> is \<^verbatim>\<open>dataarray_for_value\<close>,
  \<open>band_data_for\<close> the six-array dataset of a band, \<open>extract_bands\<close> the loop over
  the template prefixes and \<open>unpack_bands_from_fit\<close> identification followed by
  extraction.  Proved: since the identification always raises, the function never
  returns a result (C24).

  \<^bold>\<open>The patterned fit\<close> (theory \<open>Patterned\<close>), \<^verbatim>\<open>fit_patterned_bands\<close> and
  its helpers (lines 251--423, 546--629).  \<^verbatim>\<open>_build_params\<close> mutates and returns
  the caller's hint dictionary, so the dictionaries are objects of an explicit store
  (\<open>heap\<close>, a list indexed by address, allocation at its end) and partial bands hold
  addresses; a NaN from \<open>0.0 / 0.0\<close> is the value \<open>NaN\<close> of \<open>pyfloat\<close>.
  \<open>interpolate_fragments\<close> is the generator run to the end, \<open>build_params\<close>,
  \<open>resolve_partial\<close>, \<open>instantiate_band\<close>, \<open>pat_step\<close>/\<open>pat_sweep\<close> and
  \<open>fit_patterned_bands\<close> the rest; \<^verbatim>\<open>arr.G.iterate_axis\<close> is taken to yield what
  \<^verbatim>\<open>_iterate_marginals\<close> yields, and the fit is the parameter \<open>pfitter\<close>.
  Proved: both orientation branches of the interpolation agree (C17), the centre lies
  between the control points (C18), the generator yields exactly the bracketing
  segments (C19), all partial bands of a description share one dictionary holding the
  last centre (C20), \<^verbatim>\<open>background=False\<close> never fits (C21), a description without
  points raises IndexError (C22), and numpy's percentile stays within the data (lemma percentile_bounds).

  \<^bold>\<open>The lmfit adapter\<close> (theory \<open>Mixin\<close>), \<^verbatim>\<open>fits/fit_models/x_model_mixin.py\<close>.
  Models are the datatype \<open>xmodel\<close> (leaves and the three composite classes);
  lmfit's own operations are the record \<open>lmfit_ops\<close>.  \<open>guess_fit\<close> is composed of
  its four stages as the method is (\<open>fit_inputs\<close>, \<open>fit_weights\<close>,
  \<open>transpose_inputs\<close>, \<open>merge_and_fit\<close>).  lmfit's \<^verbatim>\<open>CompositeModel\<close>
  raises \<^verbatim>\<open>NameError\<close> when its two sides share a parameter name
  (\<open>composite_ok\<close> over \<open>param_names\<close>), before \<^verbatim>\<open>__add__\<close> checks
  \<^verbatim>\<open>n_dims\<close>.  Proved: folding \<^verbatim>\<open>+\<close> over models of one \<^verbatim>\<open>n_dims\<close>
  builds the composite of all of them exactly when their parameter names are distinct and
  raises \<^verbatim>\<open>NameError\<close> otherwise (C26; \<open>reduce_add_mismatch\<close> for unequal
  \<^verbatim>\<open>n_dims\<close>), the composite guess ignores
  bracketing (lemma model_guess_bracketing), \<^verbatim>\<open>prefix_params\<close> is dead (lemma guess_fit_prefix_params_ignored), transposing one-dimensional data
  always fails (C30), user parameters override guesses by exact name (C31), and data and
  weights stay aligned under the dimension reordering (C32).

  \<^bold>\<open>The process pool\<close> (theory \<open>HotPool\<close>), \<^verbatim>\<open>fits/hot_pool.py\<close>.  The
  object's state is the record \<open>hp_state\<close> (the held pool, pools are numbered by
  creation, and the closed ones); the property \<^verbatim>\<open>pool\<close> is \<open>hp_get\<close> and
  \<^verbatim>\<open>__del__\<close> is \<open>hp_del\<close>; \<open>hp_step\<close> is the step relation over the two
  operations and \<open>hp_reach\<close> reachability from the fresh object.  The invariant
  \<open>hp_inv\<close> holds in every reachable state (rule induction), so the pool handed out
  is never a closed one and is reused until deleted (C33).  A run is \<open>hp_run\<close>, the
  operations folded over the state; every run that ends with \<^verbatim>\<open>__del__\<close> has closed
  every pool it created, once each (C29).

  \<^bold>\<open>Serpentine scans\<close> (theory \<open>Maestro\<close>),
  \<^verbatim>\<open>unwind_serptentine\<close> of \<^verbatim>\<open>endstations/plugin/MAESTRO.py\<close>: a spectrum is
  its list of rows, \<^verbatim>\<open>np.roll\<close> is \<open>np_roll\<close> (a rotation), and every odd row is
  reversed and rolled by two.  Proved: the unwinding keeps every shape, leaves the even
  rows and puts entry \<open>(n + 1 - j) mod n\<close> of an odd row at place \<open>j\<close> (C34);
  applied twice it restores the data (\<open>unwind_serpentine_roundtrip\<close>).

  \<^bold>\<open>MAESTRO loading\<close> (theory \<open>MaestroLoad\<close>), the rest of
  \<^verbatim>\<open>endstations/plugin/MAESTRO.py\<close>.  A dataset is the record \<open>xdataset\<close>: its
  variables in order (\<open>xvar\<close>: coordinate or data variable, dimensions, attributes,
  values) and its attributes; an array is \<open>xval\<close>, a scalar or the list of its
  sub-arrays; an attribute value is \<open>attrval\<close>, NaN included.  The class tables
  (\<^verbatim>\<open>RENAME_KEYS\<close>, \<^verbatim>\<open>RENAME_COORDS\<close>, \<^verbatim>\<open>ANALYZER_INFORMATION\<close>) are
  constants.  xarray's \<^verbatim>\<open>Dataset.rename\<close> is \<open>xr_rename\<close> (its
  \<^verbatim>\<open>_rename_vars\<close> conflict check included) and \<^verbatim>\<open>np.flip\<close> is
  \<open>flip_axis\<close>.  \<^verbatim>\<open>load\<close> after \<^verbatim>\<open>super().load\<close> is \<open>maestro_load\<close>
  (\<open>will_rename\<close>, \<open>delete_targets\<close>, rename, \<open>flip_spectra\<close>); the base
  \<^verbatim>\<open>postprocess_final\<close> is \<open>base_postprocess_final\<close> and the nano-ARPES one
  \<open>nano_postprocess_final\<close>, built from \<open>microns_to_mm\<close>,
  \<open>unwind_serptentine_ds\<close> (on \<open>Maestro.unwind_rows\<close>), \<open>alpha_phi_target\<close> and
  \<open>deg_to_rad_coords\<close>.  The objects of \<^verbatim>\<open>ls = [data, *data.S.spectra]\<close> are
  \<open>target\<close>s: a spectrum view shares attributes and values with the dataset, while a
  coordinate assigned on it is lost.  The base loader, the base
  \<^verbatim>\<open>postprocess_final\<close>, the choice of spectra by the accessor and
  \<^verbatim>\<open>update_hierarchical_coordinates\<close> (it reads through the accessor
  \<^verbatim>\<open>S.lookup_coord\<close>) are arguments.  Arithmetic on a coordinate changes its values
  only: what xarray does with the coordinate's own attributes is not modelled.  Proved:
  \<^verbatim>\<open>load\<close> refines \<open>load_spec\<close>, one map over the variables, succeeding exactly when
  \<open>load_ok\<close> holds (C8); two coordinates renamed to one name raise
  \<^verbatim>\<open>ValueError\<close>, which the microARPES table invites with three aliases of
  \<^verbatim>\<open>hv\<close> (C5); the unit conversion divides each stage coordinate exactly once (C23).

  \<^bold>\<open>Finite differences\<close> (theory \<open>Derivative\<close>), \<^verbatim>\<open>analysis/derivative.py\<close>.
  Python slicing is \<open>py_slice\<close>, \<^verbatim>\<open>arr[s0, s1]\<close> is \<open>index2\<close>,
  \<^verbatim>\<open>_vector_diff\<close> is \<open>vector_diff\<close> (a \<open>function\<close> whose termination
  measure is the order), slice assignment with numpy's broadcasting check is
  \<open>set_region\<close> and \<^verbatim>\<open>_gradient_modulus\<close> is \<open>gradient_modulus\<close>.  Proved:
  the docstring's equivalence with \<^verbatim>\<open>np.diff\<close> along either axis, at every order
  (C35), totality exactly for non-negative orders (C36), the shape of the \<open>k\<close>-th
  difference, the array's type (C37), the sign rule for the reversed vector
  (\<open>vector_diff_reverse\<close>), the shape and first-axis bound of the gradient modulus (C38), and that
  the admitted \<^verbatim>\<open>delta = 0\<close> raises (C39).

  \<^bold>\<open>Derivatives and curvature\<close> (theory \<open>Curvature\<close>), the rest of
  \<^verbatim>\<open>analysis/derivative.py\<close>.  A DataArray is the record \<open>darr\<close> (two dimension
  names, coordinates, values as rows, string attributes); xarray's
  \<^verbatim>\<open>differentiate\<close> is \<open>differentiate\<close> over \<open>np_gradient\<close>, numpy's
  \<^verbatim>\<open>np.gradient\<close> with one-sided ends and the non-uniform three-point formula
  inside.  \<^verbatim>\<open>dn_along_axis\<close>, \<^verbatim>\<open>curvature1d\<close>, \<^verbatim>\<open>curvature2d\<close> (its
  weight \<open>curv_weight\<close>), \<^verbatim>\<open>curvature\<close> and \<^verbatim>\<open>minimum_gradient\<close> are the
  definitions of the same names; a curvature entry is \<open>None\<close> where numpy divides by
  zero.  Reals are exact, so \<^verbatim>\<open>x ** 1.5\<close> (\<open>pow15\<close>) is proved about, not
  evaluated.  Proved: the gradient is exact on affine data for any increasing
  coordinates (\<open>np_gradient_affine\<close>), so the first derivative along an axis is the
  slope and the second is zero (C28); on such data \<^verbatim>\<open>curvature1d\<close> is zero
  except on flat rows when no slope is negative, where its regulariser \<open>|min d|\<close>
  vanishes and it divides zero by zero (C2, and \<open>curvature1d_flat_point\<close> at any
  flat point); and \<^verbatim>\<open>curvature2d\<close> takes its weight from the
  array's storage order rather than from \<open>dims\<close> (\<open>curv_weight_storage_order\<close>).
  Smoothing functions are arguments and provenance records are not modelled.

  \<^bold>\<open>Time-resolved tools\<close> (theory \<open>Tarpes\<close>), \<^verbatim>\<open>analysis/tarpes.py\<close>.  A
  spectrum of the dimensions \<^verbatim>\<open>delay\<close> and \<^verbatim>\<open>eV\<close> is the record
  \<open>tr_data\<close>; \<open>delaytime_fs\<close>, \<open>position_to_delaytime\<close>,
  \<open>build_crosscorrelation\<close>, \<open>find_t_for_max_intensity\<close> (with numpy's
  \<open>np_argmax\<close>), \<open>relative_change\<close> and \<open>normalized_relative_change\<close>
  follow the functions of those names; \<^verbatim>\<open>normalize_dim\<close>, defined outside the
  sources, is an argument.  Proved: \<^verbatim>\<open>np.argmax\<close> returns the first maximum
  (\<open>np_argmax_first_max\<close>), and \<^verbatim>\<open>relative_change\<close> keeps both axes, takes
  its reference time from \<open>t0\<close> or from \<open>find_t_for_max_intensity\<close>, its assertion
  keeps the baseline window non-empty, and after the subtraction the rows before
  \<open>t0 - buffer\<close> average to zero (C25).  Spectra of further dimensions, whose sum
  \<^verbatim>\<open>find_t_for_max_intensity\<close> takes first, are not modelled.

  \<^bold>\<open>Fermi momentum\<close> (theory \<open>Kfermi\<close>), \<^verbatim>\<open>analysis/kfermi.py\<close>: the
  choice of the parameter is \<open>kfermi_param\<close>, the whole function
  \<open>kfermi_from_mdcs\<close> with lmfit's line fit as an argument.  Proved: the hint
  \<^verbatim>\<open>param\<close> acts only as an exact name, its filter being inverted (C40).

  \<^bold>\<open>Resampling\<close> (theory \<open>Bootstrap\<close>), \<^verbatim>\<open>bootstrap.py\<close>.  Random draws
  are arguments (the \<open>k\<close>-th draw of \<^verbatim>\<open>random.randint\<close>, the \<open>s\<close>-th Poisson
  resample, the \<open>j\<close>-th normal sample).  \<open>estimate_prior_adjustment\<close>,
  \<open>resample_cycle\<close>, \<open>bootstrap_counts\<close> (with \<open>col_mean\<close>, \<open>col_std\<close>),
  \<open>from_param\<close>, \<open>propagate_errors\<close> and the functor \<open>bootstrap\<close> (its closure
  \<open>bootstrapped\<close>, the method choice \<open>bootstrap_method\<close>, the index loops
  \<open>resample_positions\<close> and \<open>resample_keywords\<close>) follow the code.  Proved: with
  the default method the closure refines the specification \<open>boot_spec\<close> (C9); an
  unknown method raises \<^verbatim>\<open>NameError\<close> exactly when a run resamples something
  (C16); a cycle resample is the sum of the drawn cycles
  (\<open>resample_cycle_sum\<close>); constant samples have zero spread
  (\<open>bootstrap_counts_constant\<close>).  The \<^verbatim>\<open>"cycle"\<close> method passes
  \<^verbatim>\<open>prior_adjustment\<close> to \<^verbatim>\<open>resample_cycle\<close>, which takes none, and so raises
  \<^verbatim>\<open>TypeError\<close> in the model.

  \<^bold>\<open>Effective mass\<close> (theory \<open>EffMass\<close>), \<^verbatim>\<open>fit_for_effective_mass\<close>:
  the momentum axis chosen by \<^verbatim>\<open>next\<close>, the two branches (angle space through
  the forward conversion, momentum space directly) and the final division, with the fits
  and the conversion as the record \<open>effmass_ops\<close>.  Lemmas: no momentum axis or no
  converted momentum raises \<^verbatim>\<open>StopIteration\<close>, a flat band raises
  \<^verbatim>\<open>ZeroDivisionError\<close>, and otherwise the mass is \<open>hbar_sq / 2a\<close>.

  \<^bold>\<open>The fit browser\<close> (theory \<open>FitTool\<close>),
  \<^verbatim>\<open>legacy_files/plotting/qt/fit_tool/__init__.py\<close>.  The state the handlers
  change is the record \<open>ft_state\<close> (dimensions, coordinates, cursor and its value); a
  handler returns the new state with the exception it raised, since the assignments made
  before a raise persist under Qt's event loop.  \<open>update_cursor_position\<close>,
  \<open>center_cursor\<close>, \<open>app_scroll\<close>, \<open>transpose\<close>, \<open>transpose_to_front\<close>, the
  window's \<open>update_scroll_delta\<close>, \<open>window_scroll\<close>, \<open>window_scroll_z\<close>, the key
  bindings \<open>handle_key\<close>, \<open>after_show\<close> and \<open>safe_slice\<close> follow the methods;
  \<open>ft_reach\<close> is the window's life as an inductive relation.  Proved: the
  dimensions, coordinates and cursor length are invariant under every key (C27, rule
  induction); the transpose keys always raise and change nothing (C14);
  \<open>safe_slice\<close> yields a non-empty window inside the axis.  Drawing is not modelled.

  \<^bold>\<open>Notebook helpers\<close> (theory \<open>Jupyter\<close>), \<^verbatim>\<open>utilities/jupyter.py\<close>.  The
  environment (connection file, running servers, their sessions, clock, history, log
  file) is an argument; the server generator is a list that a consumer empties
  (\<open>consume\<close>).  \<open>path_stem\<close> is \<^verbatim>\<open>Path.stem\<close>, \<open>readlines\<close> a terminating
  \<open>function\<close> (measure: the length).  Proved: the eager debug f-string empties the
  generator, so no session is ever found, the notebook name is always \<^verbatim>\<open>None\<close> and
  the log file always \<^verbatim>\<open>unnamed\<close> (C15; the loop as meant finds it,
  \<open>demo_notebook_intended\<close>); the lines of a log excerpt concatenate back to the
  file's tail (\<open>concat_readlines\<close>, \<open>get_recent_logs_tail\<close>).  \<^verbatim>\<open>wrap_tqdm\<close>
  only adds a progress bar and is not modelled.

  \<^bold>\<open>MAESTRO attribute parsers\<close> (theory \<open>MaestroAttrs\<close>), the
  \<^verbatim>\<open>ATTR_TRANSFORMS\<close> lambdas of \<^verbatim>\<open>MAESTRO.py\<close>, identical in the two classes.
  \<^verbatim>\<open>str.split(" ")\<close> is \<open>py_split\<close> (every space splits, empty pieces kept),
  \<^verbatim>\<open>" ".join\<close> is \<open>py_join\<close>, \<^verbatim>\<open>str.lower\<close> is \<open>py_lower\<close> on ASCII
  letters; the builtins \<^verbatim>\<open>int\<close> and \<^verbatim>\<open>float\<close> on strings are arguments.
  \<open>start_t\<close> and \<open>sf_slitn\<close> are the two parsers.  Proved: joining the pieces of a
  split gives the string back (\<open>py_join_split\<close>), there is one piece more than there are
  spaces (\<open>py_split_length\<close>), \<^verbatim>\<open>START_T\<close> cuts a stamp at its first space
  into the date before it and the whole lowered rest (C4, \<open>start_t_split\<close>), and
  \<^verbatim>\<open>SF_SLITN\<close> reads number, width and shape from the first, third and last words,
  raises \<^verbatim>\<open>IndexError\<close> on two words and takes the width's word as shape on three
  (C7).

  \<^bold>\<open>Not modelled.\<close>  \<^verbatim>\<open>update_hierarchical_coordinates\<close> of
  \<^verbatim>\<open>MAESTRO.py\<close> is an argument of \<open>nano_postprocess_final\<close>: it reads every
  coordinate through the accessor \<^verbatim>\<open>S.lookup_coord\<close>, outside the sources, whose
  answer (a coordinate, an attribute or neither) decides each branch.  The random number generators
  themselves, widget construction and drawing, the package constants of
  \<^verbatim>\<open>__init__.py\<close>, and file I/O
  are not modelled: they are calls into libraries and the operating system with no
  behaviour of their own to prove.
\<close>

end
